(* ===== verification/Prelude.thy ===== *)
theory Prelude
  imports Main "HOL-Library.Sublist"
begin

section \<open>Prelude: outcomes, input/output and the event calculus\<close>

text \<open>
  The operator is a Go program whose effects are calls to systems outside of it: a SQL
  server reached through \<^verbatim>\<open>database/sql\<close> and the Kubernetes API server.  A computation
  is therefore a function from the history of the external calls made so far to an
  outcome and a longer history.  What an external call answers is a function of the
  whole history; that function is a parameter of the model (theory Env), so every
  theorem holds for every environment that satisfies the hypotheses it names.

  This theory holds the computation type, the combinators that the translated Go code is
  written with, and the calculus \<open>emits P m\<close>: ``whatever the environment answers, the
  calls that \<open>m\<close> makes satisfy \<open>P\<close>''.
\<close>

subsection \<open>Outcomes\<close>

text \<open>
  A Go function returns, or it panics (index out of range, nil dereference, write to a nil
  map, failed type assertion, \<^verbatim>\<open>panic\<close> or \<^verbatim>\<open>log.Fatal\<close>).  Errors are ordinary
  values and stay inside \<open>Return\<close>.
\<close>

datatype 'a outcome = Return 'a | Panic string

type_synonym ('e, 'a) io = "'e list \<Rightarrow> 'a outcome \<times> 'e list"

definition ret :: "'a \<Rightarrow> ('e, 'a) io" where
  "ret x h = (Return x, h)"

definition panic :: "string \<Rightarrow> ('e, 'a) io" where
  "panic msg h = (Panic msg, h)"

definition lift_io :: "'a outcome \<Rightarrow> ('e, 'a) io" where
  "lift_io r h = (r, h)"

definition bind_io :: "('e, 'a) io \<Rightarrow> ('a \<Rightarrow> ('e, 'b) io) \<Rightarrow> ('e, 'b) io" where
  "bind_io m k h = (case m h of (Return x, h') \<Rightarrow> k x h' | (Panic s, h') \<Rightarrow> (Panic s, h'))"

definition bind_out :: "'a outcome \<Rightarrow> ('a \<Rightarrow> 'b outcome) \<Rightarrow> 'b outcome" where
  "bind_out r k = (case r of Return x \<Rightarrow> k x | Panic s \<Rightarrow> Panic s)"

text \<open>\<open>emit ev\<close> records one external call; \<open>ask f\<close> reads the answer to the next one.\<close>

definition emit :: "'e \<Rightarrow> ('e, unit) io" where
  "emit ev h = (Return (), h @ [ev])"

definition ask :: "('e list \<Rightarrow> 'a) \<Rightarrow> ('e, 'a) io" where
  "ask f h = (Return (f h), h)"

definition call :: "'e \<Rightarrow> ('e list \<Rightarrow> 'a) \<Rightarrow> ('e, 'a) io" where
  "call ev f h = (Return (f h), h @ [ev])"

text \<open>
  The two idioms of Go's error handling: \<^verbatim>\<open>x, err := m; if err != nil { handler }; rest\<close>
  is \<open>try_io m handler rest\<close>, and \<^verbatim>\<open>err := m; if err != nil { handler }; rest\<close> is
  \<open>check_io m handler rest\<close>.
\<close>

definition try_io :: "('e, 'x + 'a) io \<Rightarrow> ('x \<Rightarrow> ('e, 'b) io) \<Rightarrow> ('a \<Rightarrow> ('e, 'b) io) \<Rightarrow> ('e, 'b) io" where
  "try_io m handler rest = bind_io m (\<lambda>r. case r of Inl e \<Rightarrow> handler e | Inr x \<Rightarrow> rest x)"

definition check_io :: "('e, 'x option) io \<Rightarrow> ('x \<Rightarrow> ('e, 'b) io) \<Rightarrow> ('e, 'b) io \<Rightarrow> ('e, 'b) io" where
  "check_io m handler rest = bind_io m (\<lambda>r. case r of Some e \<Rightarrow> handler e | None \<Rightarrow> rest)"

text \<open>
  A \<^verbatim>\<open>for ... range\<close> loop: the body gets the element and the loop's variables and either
  returns from the enclosing function (\<open>Inl\<close>) or goes on (\<open>Inr\<close>).
\<close>

fun for_io :: "'x list \<Rightarrow> ('x \<Rightarrow> 's \<Rightarrow> ('e, 'r + 's) io) \<Rightarrow> 's \<Rightarrow> ('e, 'r + 's) io" where
  "for_io [] body s = ret (Inr s)"
| "for_io (x # xs) body s =
     bind_io (body x s) (\<lambda>r. case r of Inl v \<Rightarrow> ret (Inl v) | Inr s' \<Rightarrow> for_io xs body s')"

text \<open>A deferred call runs when the function returns and when it panics.\<close>

definition defer_io :: "('a outcome \<Rightarrow> ('e, unit) io) \<Rightarrow> ('e, 'a) io \<Rightarrow> ('e, 'a) io" where
  "defer_io cleanup m h =
     (case m h of (r, h') \<Rightarrow>
        (case cleanup r h' of (Return _, h'') \<Rightarrow> (r, h'') | (Panic s, h'') \<Rightarrow> (Panic s, h'')))"

subsection \<open>Running a computation\<close>

named_theorems run "equations that run a computation"

lemma run_ret [run]: "ret x h = (Return x, h)"
  by (simp add: ret_def)

lemma run_panic [run]: "panic s h = (Panic s, h)"
  by (simp add: panic_def)

lemma run_lift [run]: "lift_io r h = (r, h)"
  by (simp add: lift_io_def)

lemma run_bind [run]:
  "bind_io m k h = (case m h of (Return x, h') \<Rightarrow> k x h' | (Panic s, h') \<Rightarrow> (Panic s, h'))"
  by (simp add: bind_io_def)

lemma run_emit [run]: "emit ev h = (Return (), h @ [ev])"
  by (simp add: emit_def)

lemma run_ask [run]: "ask f h = (Return (f h), h)"
  by (simp add: ask_def)

lemma run_call [run]: "call ev f h = (Return (f h), h @ [ev])"
  by (simp add: call_def)

lemma run_try [run]:
  "try_io m handler rest h =
     (case m h of (Return (Inl e), h') \<Rightarrow> handler e h' | (Return (Inr x), h') \<Rightarrow> rest x h'
      | (Panic s, h') \<Rightarrow> (Panic s, h'))"
  by (simp add: try_io_def bind_io_def split: prod.split outcome.split sum.split)

lemma run_check [run]:
  "check_io m handler rest h =
     (case m h of (Return (Some e), h') \<Rightarrow> handler e h' | (Return None, h') \<Rightarrow> rest h'
      | (Panic s, h') \<Rightarrow> (Panic s, h'))"
  by (simp add: check_io_def bind_io_def split: prod.split outcome.split option.split)

lemma run_defer [run]:
  "defer_io cleanup m h =
     (case m h of (r, h') \<Rightarrow>
        (case cleanup r h' of (Return _, h'') \<Rightarrow> (r, h'') | (Panic s, h'') \<Rightarrow> (Panic s, h'')))"
  by (simp add: defer_io_def)

lemma bind_out_simps [simp]:
  "bind_out (Return x) k = k x"
  "bind_out (Panic s) k = Panic s"
  by (simp_all add: bind_out_def)

lemma bind_out_Return_iff:
  "bind_out r k = Return y \<longleftrightarrow> (\<exists>x. r = Return x \<and> k x = Return y)"
  by (cases r) auto

lemmas outcome_splits = outcome.splits sum.splits option.splits prod.splits

subsection \<open>The event calculus\<close>

definition emits :: "('e \<Rightarrow> bool) \<Rightarrow> ('e, 'a) io \<Rightarrow> bool" where
  "emits P m \<longleftrightarrow> (\<forall>h. \<exists>es. snd (m h) = h @ es \<and> list_all P es)"

named_theorems emits_intro "introduction rules of the event calculus"

lemma emitsI:
  "(\<And>h. \<exists>es. snd (m h) = h @ es \<and> list_all P es) \<Longrightarrow> emits P m"
  by (simp add: emits_def)

lemma emitsE:
  assumes "emits P m"
  obtains es where "snd (m h) = h @ es" "list_all P es"
  using assms by (auto simp: emits_def)

lemma emitsD:
  assumes "emits P m" "m h = (r, h')"
  obtains es where "h' = h @ es" "list_all P es"
  using assms by (metis emitsE snd_conv)

lemma emits_mono: "emits P m \<Longrightarrow> (\<And>e. P e \<Longrightarrow> Q e) \<Longrightarrow> emits Q m"
  by (auto simp: emits_def list_all_iff) metis

lemma emits_ret [emits_intro]: "emits P (ret x)"
  by (simp add: emits_def ret_def)

lemma emits_panic [emits_intro]: "emits P (panic s)"
  by (simp add: emits_def panic_def)

lemma emits_lift [emits_intro]: "emits P (lift_io r)"
  by (simp add: emits_def lift_io_def)

lemma emits_ask [emits_intro]: "emits P (ask f)"
  by (simp add: emits_def ask_def)

lemma emits_emit [emits_intro]: "P ev \<Longrightarrow> emits P (emit ev)"
  by (simp add: emits_def emit_def)

lemma emits_call [emits_intro]: "P ev \<Longrightarrow> emits P (call ev f)"
  by (simp add: emits_def call_def)

lemma emits_bind_run:
  assumes m: "emits P m" and k: "\<And>g x g'. m g = (Return x, g') \<Longrightarrow> emits P (k x)"
  shows "emits P (bind_io m k)"
proof (rule emitsI)
  fix h
  obtain r h' where run: "m h = (r, h')" by fastforce
  from m run obtain es where es: "h' = h @ es" "list_all P es" by (rule emitsD)
  show "\<exists>es. snd (bind_io m k h) = h @ es \<and> list_all P es"
  proof (cases r)
    case (Return x)
    obtain es' where "snd (k x h') = h' @ es'" "list_all P es'"
      using k [of h x h'] run Return by (auto elim: emitsE)
    with run Return es show ?thesis by (simp add: bind_io_def)
  next
    case (Panic s)
    with run es show ?thesis by (simp add: bind_io_def)
  qed
qed

lemma emits_bind [emits_intro]:
  "emits P m \<Longrightarrow> (\<And>x. emits P (k x)) \<Longrightarrow> emits P (bind_io m k)"
  by (rule emits_bind_run)

lemma emits_try_run:
  "emits P m \<Longrightarrow> (\<And>e. emits P (handler e)) \<Longrightarrow>
     (\<And>g x g'. m g = (Return (Inr x), g') \<Longrightarrow> emits P (rest x)) \<Longrightarrow> emits P (try_io m handler rest)"
  unfolding try_io_def by (rule emits_bind_run) (auto split: sum.split)

lemma emits_try [emits_intro]:
  "emits P m \<Longrightarrow> (\<And>e. emits P (handler e)) \<Longrightarrow> (\<And>x. emits P (rest x)) \<Longrightarrow>
     emits P (try_io m handler rest)"
  unfolding try_io_def by (rule emits_bind) (auto split: sum.split)

lemma emits_check [emits_intro]:
  "emits P m \<Longrightarrow> (\<And>e. emits P (handler e)) \<Longrightarrow> emits P rest \<Longrightarrow> emits P (check_io m handler rest)"
  unfolding check_io_def by (rule emits_bind) (auto split: option.split)

lemma emits_for [emits_intro]:
  "(\<And>x s. x \<in> set xs \<Longrightarrow> emits P (body x s)) \<Longrightarrow> emits P (for_io xs body s)"
proof (induction xs arbitrary: s)
  case Nil
  show ?case by (simp add: emits_ret)
next
  case (Cons x xs)
  have "emits P (for_io xs body t)" for t
    by (rule Cons.IH) (simp add: Cons.prems)
  then show ?case
    by (auto intro!: emits_bind Cons.prems emits_ret split: sum.split)
qed

lemma emits_defer [emits_intro]:
  assumes m: "emits P m" and c: "\<And>r. emits P (cleanup r)"
  shows "emits P (defer_io cleanup m)"
proof (rule emitsI)
  fix h
  obtain r h' where run: "m h = (r, h')" by fastforce
  from m run obtain es where es: "h' = h @ es" "list_all P es" by (rule emitsD)
  obtain q h'' where run': "cleanup r h' = (q, h'')" by fastforce
  from c run' obtain es' where "h'' = h' @ es'" "list_all P es'" by (rule emitsD)
  with run run' es show "\<exists>es. snd (defer_io cleanup m h) = h @ es \<and> list_all P es"
    by (cases q) (auto simp: defer_io_def)
qed

lemma emits_if [emits_intro]:
  "(b \<Longrightarrow> emits P m) \<Longrightarrow> (\<not> b \<Longrightarrow> emits P n) \<Longrightarrow> emits P (if b then m else n)"
  by simp

lemma emits_let [emits_intro]: "emits P (f x) \<Longrightarrow> emits P (Let x f)"
  by simp

lemma emits_case_sum [emits_intro]:
  "(\<And>e. x = Inl e \<Longrightarrow> emits P (f e)) \<Longrightarrow> (\<And>y. x = Inr y \<Longrightarrow> emits P (g y)) \<Longrightarrow>
     emits P (case x of Inl e \<Rightarrow> f e | Inr y \<Rightarrow> g y)"
  by (cases x) auto

lemma emits_case_option [emits_intro]:
  "(x = None \<Longrightarrow> emits P m) \<Longrightarrow> (\<And>y. x = Some y \<Longrightarrow> emits P (g y)) \<Longrightarrow>
     emits P (case x of None \<Rightarrow> m | Some y \<Rightarrow> g y)"
  by (cases x) auto

lemma emits_case_prod [emits_intro]:
  "(\<And>a b. x = (a, b) \<Longrightarrow> emits P (f a b)) \<Longrightarrow> emits P (case x of (a, b) \<Rightarrow> f a b)"
  by (cases x) auto

lemma emits_case_list [emits_intro]:
  "(x = [] \<Longrightarrow> emits P m) \<Longrightarrow> (\<And>y ys. x = y # ys \<Longrightarrow> emits P (g y ys)) \<Longrightarrow>
     emits P (case x of [] \<Rightarrow> m | y # ys \<Rightarrow> g y ys)"
  by (cases x) auto

text \<open>A computation that emits nothing at all leaves the history as it is.\<close>

lemma emits_none: "emits (\<lambda>_. False) m \<Longrightarrow> snd (m h) = h"
proof -
  assume "emits (\<lambda>_. False) m"
  then obtain es where "snd (m h) = h @ es" and "list_all (\<lambda>_. False) es" by (rule emitsE)
  then show ?thesis by (cases es) auto
qed

text \<open>A loop whose body makes one call per element and never leaves early.\<close>

lemma for_io_emit_all:
  "(\<And>x h. x \<in> set xs \<Longrightarrow> body x s h = (Return (Inr s), h @ [f x])) \<Longrightarrow>
     for_io xs body s h = (Return (Inr s), h @ map f xs)"
  by (induction xs arbitrary: h) (auto simp: run)

subsection \<open>What a computation returns\<close>

text \<open>\<open>yields Q m\<close>: every value that \<open>m\<close> returns satisfies \<open>Q\<close>, whatever the history.\<close>

definition yields :: "('a \<Rightarrow> bool) \<Rightarrow> ('e, 'a) io \<Rightarrow> bool" where
  "yields Q m \<longleftrightarrow> (\<forall>h x h'. m h = (Return x, h') \<longrightarrow> Q x)"

named_theorems yields_intro "introduction rules for returned values"

lemma yieldsI: "(\<And>h x h'. m h = (Return x, h') \<Longrightarrow> Q x) \<Longrightarrow> yields Q m"
  by (auto simp: yields_def)

lemma yieldsD: "yields Q m \<Longrightarrow> m h = (Return x, h') \<Longrightarrow> Q x"
  by (auto simp: yields_def)

lemma yields_mono: "yields Q m \<Longrightarrow> (\<And>x. Q x \<Longrightarrow> R x) \<Longrightarrow> yields R m"
  by (auto simp: yields_def)

lemma yields_ret [yields_intro]: "Q x \<Longrightarrow> yields Q (ret x)"
  by (simp add: yields_def ret_def)

lemma yields_panic [yields_intro]: "yields Q (panic s)"
  by (simp add: yields_def panic_def)

lemma yields_bind: "yields R m \<Longrightarrow> (\<And>x. R x \<Longrightarrow> yields Q (k x)) \<Longrightarrow> yields Q (bind_io m k)"
  by (fastforce simp: yields_def run split: prod.splits outcome.splits)

lemma yields_bind_any [yields_intro]: "(\<And>x. yields Q (k x)) \<Longrightarrow> yields Q (bind_io m k)"
  by (rule yields_bind [of "\<lambda>_. True"]) (auto simp: yields_def)

lemma yields_try [yields_intro]:
  "(\<And>e. yields Q (handler e)) \<Longrightarrow> (\<And>x. yields Q (rest x)) \<Longrightarrow> yields Q (try_io m handler rest)"
  unfolding try_io_def by (rule yields_bind_any) (auto split: sum.split)

lemma yields_if [yields_intro]: "(b \<Longrightarrow> yields Q m) \<Longrightarrow> (\<not> b \<Longrightarrow> yields Q n) \<Longrightarrow> yields Q (if b then m else n)"
  by simp

lemma yields_case_sum [yields_intro]:
  "(\<And>e. x = Inl e \<Longrightarrow> yields Q (f e)) \<Longrightarrow> (\<And>y. x = Inr y \<Longrightarrow> yields Q (g y)) \<Longrightarrow> yields Q (case x of Inl e \<Rightarrow> f e | Inr y \<Rightarrow> g y)"
  by (cases x) auto

lemma yields_case_option [yields_intro]:
  "(x = None \<Longrightarrow> yields Q m) \<Longrightarrow> (\<And>y. x = Some y \<Longrightarrow> yields Q (g y)) \<Longrightarrow> yields Q (case x of None \<Rightarrow> m | Some y \<Rightarrow> g y)"
  by (cases x) auto

lemma yields_let [yields_intro]: "yields Q (f x) \<Longrightarrow> yields Q (let y = x in f y)"
  by simp

lemma yields_check [yields_intro]:
  "(\<And>e. yields Q (handler e)) \<Longrightarrow> yields Q rest \<Longrightarrow> yields Q (check_io m handler rest)"
  unfolding check_io_def by (rule yields_bind_any) (auto split: option.split)

lemma yields_case_prod [yields_intro]: "(\<And>a b. x = (a, b) \<Longrightarrow> yields Q (f a b)) \<Longrightarrow> yields Q (case x of (a, b) \<Rightarrow> f a b)"
  by (cases x) auto


end
