(* ===== verification/Api.thy ===== *)
theory Api
  imports Prelude
begin

section \<open>The custom resources and the Kubernetes objects the operator reads and writes\<close>

text \<open>
  The structs of \<^verbatim>\<open>api/v1alpha1\<close> as records, with the fields of the specs and statuses
  in the order of the source.  A pointer to a string is a \<open>string option\<close>, a
  \<^verbatim>\<open>map[string]string\<close> an association list.  Field names carry a prefix per struct
  because several structs share names.  Empty status structs have no field in the model.
  The slices of \<^verbatim>\<open>DbServerStatus\<close> are compared with \<^verbatim>\<open>reflect.DeepEqual\<close>, which
  tells nil from empty, so nil is \<open>None\<close> there.
  Times are nanoseconds since the Unix epoch.
\<close>

subsection \<open>Object metadata\<close>

record NamespacedName =
  nn_Namespace :: string
  nn_Name :: string

record ObjectMeta =
  m_Name :: string
  m_Namespace :: string
  m_CreationTimestamp :: int
  m_DeletionTimestamp :: "int option"
  m_Finalizers :: "string list"
  m_Labels :: "(string \<times> string) list"

subsection \<open>Servers, databases, schemas and users\<close>

record DbServerSpec =
  srv_Address :: string
  srv_Port :: int
  srv_UserName :: string
  srv_SecretName :: string
  srv_PasswordKey :: string
  srv_CaCertKey :: string
  srv_TlsCrtKey :: string
  srv_TlsKeyKey :: string
  srv_Version :: string
  srv_ServerType :: string
  srv_Options :: "(string \<times> string) list"

record DbServerStatus =
  srv_ConnectionAvailable :: bool
  srv_Databases :: "string list option"
  srv_Users :: "string list option"
  srv_Message :: string

record DbServer =
  srv_meta :: ObjectMeta
  srv_Spec :: DbServerSpec
  srv_Status :: DbServerStatus

record DbSpec =
  db_Server :: string
  db_DbName :: string
  db_DropOnDeletion :: bool
  db_CascadeOnDrop :: bool
  db_AfterCreateSQL :: string

record Db =
  db_meta :: ObjectMeta
  db_Spec :: DbSpec

record SchemaSpec =
  sch_Server :: string
  sch_DbName :: string
  sch_Name :: string
  sch_DropOnDeletion :: bool
  sch_CascadeOnDrop :: bool
  sch_Creator :: "string option"

record SchemaStatus =
  sch_Created :: bool

record Schema =
  sch_meta :: ObjectMeta
  sch_Spec :: SchemaSpec
  sch_Status :: SchemaStatus

record DbPriv =
  Scope :: string
  Privs :: string
  DefaultPrivs :: string
  PrivType :: string
  Grantor :: "string option"

record DropUserOptions =
  RevokePrivileges :: bool
  DropOwned :: bool
  ReassingOwnedTo :: string

record UserSpec =
  usr_UserName :: string
  usr_SecretName :: string
  usr_GenerateSecret :: bool
  usr_PasswordKey :: string
  usr_CaCertKey :: string
  usr_TlsCrtKey :: string
  usr_TlsKeyKey :: string
  usr_DbServerName :: string
  usr_DbPrivs :: "DbPriv list"
  usr_ServerPrivs :: string
  usr_DropOnDeletion :: bool
  usr_DropUserOptions :: "DropUserOptions option"

record User =
  usr_meta :: ObjectMeta
  usr_Spec :: UserSpec

subsection \<open>Backup, restore and copy resources\<close>

record BackupTargetSpec =
  bt_DbName :: string
  bt_StorageLocation :: string
  bt_StorageType :: string

record BackupTarget =
  bt_meta :: ObjectMeta
  bt_Spec :: BackupTargetSpec

record RestoreTargetSpec =
  rt_DbName :: string
  rt_StorageLocation :: string
  rt_StorageType :: string

record RestoreTarget =
  rt_meta :: ObjectMeta
  rt_Spec :: RestoreTargetSpec

record S3StorageSpec =
  s3_BucketName :: string
  s3_Region :: string
  s3_RoleArn :: string
  s3_AccessKeyK8sSecret :: string
  s3_AccessKeyK8sSecretKey :: string
  s3_Prefix :: string
  s3_AccesKeyId :: string
  s3_Endpoint :: string

record S3Storage =
  s3_meta :: ObjectMeta
  s3_Spec :: S3StorageSpec

subsection \<open>Jobs\<close>

record BackupJobSpec =
  bj_BackupTarget :: string
  bj_FixedFileName :: "string option"
  bj_ServiceAccount :: string

record BackupJob =
  bj_meta :: ObjectMeta
  bj_Spec :: BackupJobSpec

record BackupCronJobSpec =
  bcj_BackupTarget :: string
  bcj_FixedFileName :: "string option"
  bcj_Interval :: string
  bcj_Suspend :: bool
  bcj_ServiceAccount :: string

record BackupCronJobStatus =
  bcj_Exists :: bool
  bcj_CronJobName :: string

record BackupCronJob =
  bcj_meta :: ObjectMeta
  bcj_Spec :: BackupCronJobSpec
  bcj_Status :: BackupCronJobStatus

record RestoreJobSpec =
  rj_RestoreTarget :: string
  rj_FixedFileName :: "string option"
  rj_ServiceAccount :: string

record RestoreJob =
  rj_meta :: ObjectMeta
  rj_Spec :: RestoreJobSpec

record RestoreCronJobSpec =
  rcj_RestoreTarget :: string
  rcj_Interval :: string
  rcj_FixedFileName :: "string option"
  rcj_Suspend :: bool
  rcj_ServiceAccount :: string

record RestoreCronJob =
  rcj_meta :: ObjectMeta
  rcj_Spec :: RestoreCronJobSpec

record DbCopyJobSpec =
  dcj_FromDbName :: string
  dcj_ToDbName :: string
  dcj_ServiceAccount :: string

record DbCopyJob =
  dcj_meta :: ObjectMeta
  dcj_Spec :: DbCopyJobSpec

record DbCopyCronJobSpec =
  dccj_FromDbName :: string
  dccj_ToDbName :: string
  dccj_Interval :: string
  dccj_Suspend :: bool
  dccj_ServiceAccount :: string

record DbCopyCronJobStatus =
  dccj_Exists :: bool
  dccj_CronJobName :: string

record DbCopyCronJob =
  dccj_meta :: ObjectMeta
  dccj_Spec :: DbCopyCronJobSpec
  dccj_Status :: DbCopyCronJobStatus

record CockroachDBBackupJobSpec =
  crj_BackupTarget :: string

record CockroachDBBackupJobStatus =
  crjs_JobId :: int
  crjs_Status :: string
  crjs_Description :: string
  crjs_Created :: int
  crjs_Started :: int
  crjs_Finished :: int
  crjs_Error :: string

record CockroachDBBackupJob =
  crj_meta :: ObjectMeta
  crj_Spec :: CockroachDBBackupJobSpec
  crj_Status :: CockroachDBBackupJobStatus

record CockroachDBBackupCronJobSpec =
  crc_Interval :: string
  crc_Suspend :: bool
  crc_BackupTarget :: string
  crc_IgnoreExistingBackups :: bool
  crc_DropOnDeletion :: bool

record CockroachDBBackupCronJobStatus =
  crcs_ScheduleId :: int
  crcs_ScheduleStatus :: string
  crcs_State :: "string option"
  crcs_Command :: "string option"
  crcs_Created :: int

record CockroachDBBackupCronJob =
  crc_meta :: ObjectMeta
  crc_Spec :: CockroachDBBackupCronJobSpec
  crc_Status :: CockroachDBBackupCronJobStatus

subsection \<open>Kubernetes objects\<close>

record Secret =
  sec_meta :: ObjectMeta
  sec_Data :: "(string \<times> string) list"

record ConfigMap =
  cm_meta :: ObjectMeta
  cm_Data :: "(string \<times> string) list"

datatype EnvValue = Value string | SecretKeyRef string string

record EnvVar =
  ev_Name :: string
  ev_Value :: EnvValue

record VolumeMount =
  vm_Name :: string
  vm_MountPath :: string

datatype VolumeSource = ConfigMapVolume string int | EmptyDirVolume

record Volume =
  vol_Name :: string
  vol_Source :: VolumeSource

record Container =
  co_Name :: string
  co_Image :: string
  co_Env :: "EnvVar list"
  co_Command :: "string list"
  co_VolumeMounts :: "VolumeMount list"

record PodSpec =
  pod_InitContainers :: "Container list"
  pod_Containers :: "Container list"
  pod_RestartPolicy :: string
  pod_ServiceAccountName :: string
  pod_Volumes :: "Volume list"

record Job =
  job_meta :: ObjectMeta
  job_Template :: PodSpec

record CronJob =
  cj_meta :: ObjectMeta
  cj_Template :: PodSpec
  cj_Schedule :: string
  cj_Suspend :: bool

datatype kind = K_DbServer | K_Db | K_Schema | K_User | K_BackupTarget | K_RestoreTarget
  | K_S3Storage | K_Secret | K_ConfigMap | K_Job | K_CronJob | K_BackupJob | K_BackupCronJob | K_RestoreJob
  | K_RestoreCronJob | K_DbCopyJob | K_DbCopyCronJob | K_CockroachDBBackupJob | K_CockroachDBBackupCronJob

datatype k8s_obj =
    O_DbServer DbServer
  | O_Db Db
  | O_Schema Schema
  | O_User User
  | O_Secret Secret
  | O_ConfigMap ConfigMap
  | O_Job Job
  | O_CronJob CronJob
  | O_BackupJob BackupJob
  | O_BackupCronJob BackupCronJob
  | O_RestoreJob RestoreJob
  | O_RestoreCronJob RestoreCronJob
  | O_DbCopyJob DbCopyJob
  | O_DbCopyCronJob DbCopyCronJob
  | O_CockroachDBBackupJob CockroachDBBackupJob
  | O_CockroachDBBackupCronJob CockroachDBBackupCronJob

fun obj_meta :: "k8s_obj \<Rightarrow> ObjectMeta" where
  "obj_meta (O_DbServer x) = srv_meta x"
| "obj_meta (O_Db x) = db_meta x"
| "obj_meta (O_Schema x) = sch_meta x"
| "obj_meta (O_User x) = usr_meta x"
| "obj_meta (O_Secret x) = sec_meta x"
| "obj_meta (O_ConfigMap x) = cm_meta x"
| "obj_meta (O_Job x) = job_meta x"
| "obj_meta (O_CronJob x) = cj_meta x"
| "obj_meta (O_BackupJob x) = bj_meta x"
| "obj_meta (O_BackupCronJob x) = bcj_meta x"
| "obj_meta (O_RestoreJob x) = rj_meta x"
| "obj_meta (O_RestoreCronJob x) = rcj_meta x"
| "obj_meta (O_DbCopyJob x) = dcj_meta x"
| "obj_meta (O_DbCopyCronJob x) = dccj_meta x"
| "obj_meta (O_CockroachDBBackupJob x) = crj_meta x"
| "obj_meta (O_CockroachDBBackupCronJob x) = crc_meta x"

fun obj_set_meta :: "ObjectMeta \<Rightarrow> k8s_obj \<Rightarrow> k8s_obj" where
  "obj_set_meta m (O_DbServer x) = O_DbServer (x\<lparr>srv_meta := m\<rparr>)"
| "obj_set_meta m (O_Db x) = O_Db (x\<lparr>db_meta := m\<rparr>)"
| "obj_set_meta m (O_Schema x) = O_Schema (x\<lparr>sch_meta := m\<rparr>)"
| "obj_set_meta m (O_User x) = O_User (x\<lparr>usr_meta := m\<rparr>)"
| "obj_set_meta m (O_Secret x) = O_Secret (x\<lparr>sec_meta := m\<rparr>)"
| "obj_set_meta m (O_ConfigMap x) = O_ConfigMap (x\<lparr>cm_meta := m\<rparr>)"
| "obj_set_meta m (O_Job x) = O_Job (x\<lparr>job_meta := m\<rparr>)"
| "obj_set_meta m (O_CronJob x) = O_CronJob (x\<lparr>cj_meta := m\<rparr>)"
| "obj_set_meta m (O_BackupJob x) = O_BackupJob (x\<lparr>bj_meta := m\<rparr>)"
| "obj_set_meta m (O_BackupCronJob x) = O_BackupCronJob (x\<lparr>bcj_meta := m\<rparr>)"
| "obj_set_meta m (O_RestoreJob x) = O_RestoreJob (x\<lparr>rj_meta := m\<rparr>)"
| "obj_set_meta m (O_RestoreCronJob x) = O_RestoreCronJob (x\<lparr>rcj_meta := m\<rparr>)"
| "obj_set_meta m (O_DbCopyJob x) = O_DbCopyJob (x\<lparr>dcj_meta := m\<rparr>)"
| "obj_set_meta m (O_DbCopyCronJob x) = O_DbCopyCronJob (x\<lparr>dccj_meta := m\<rparr>)"
| "obj_set_meta m (O_CockroachDBBackupJob x) = O_CockroachDBBackupJob (x\<lparr>crj_meta := m\<rparr>)"
| "obj_set_meta m (O_CockroachDBBackupCronJob x) = O_CockroachDBBackupCronJob (x\<lparr>crc_meta := m\<rparr>)"

lemma obj_meta_set [simp]: "obj_meta (obj_set_meta m ob) = m"
  by (cases ob) auto

end
