(* ===== verification/GoStrings.thy ===== *)
theory GoStrings
  imports Prelude "HOL-Library.Char_ord" "HOL-Library.List_Lexorder"
begin

section \<open>The Go standard library on strings\<close>

text \<open>
  The functions of \<^verbatim>\<open>strings\<close>, \<^verbatim>\<open>strconv\<close>, \<^verbatim>\<open>sort\<close> and \<^verbatim>\<open>fmt\<close> that the
  operator calls, on byte strings.  Names, scopes and privileges are ASCII in the model:
  the Unicode cases of \<^verbatim>\<open>strings.ToUpper\<close>, \<^verbatim>\<open>strings.ToLower\<close> and
  \<^verbatim>\<open>strings.TrimSpace\<close> are left out, and a byte outside ASCII is kept as it is.
\<close>

subsection \<open>Searching\<close>

text \<open>\<^verbatim>\<open>strings.Index\<close>, with \<^term>\<open>None\<close> for \<open>-1\<close>.\<close>

fun Index :: "string \<Rightarrow> string \<Rightarrow> nat option" where
  "Index [] sub = (if sub = [] then Some 0 else None)"
| "Index (c # cs) sub = (if prefix sub (c # cs) then Some 0 else map_option Suc (Index cs sub))"

definition Contains :: "string \<Rightarrow> string \<Rightarrow> bool" where
  "Contains s sub = (Index s sub \<noteq> None)"

definition HasPrefix :: "string \<Rightarrow> string \<Rightarrow> bool" where
  "HasPrefix s p = prefix p s"

definition HasSuffix :: "string \<Rightarrow> string \<Rightarrow> bool" where
  "HasSuffix s p = suffix p s"

subsection \<open>Splitting and joining\<close>

text \<open>\<^verbatim>\<open>strings.Join\<close>\<close>

fun Join :: "string list \<Rightarrow> string \<Rightarrow> string" where
  "Join [] sep = []"
| "Join [x] sep = x"
| "Join (x # y # ys) sep = x @ sep @ Join (y # ys) sep"

text \<open>
  \<^verbatim>\<open>strings.Split\<close> for a separator that is not empty: the pieces between the
  occurrences found from the left; \<open>acc\<close> is the current piece, reversed.
\<close>

fun split_acc :: "string \<Rightarrow> string \<Rightarrow> string \<Rightarrow> string list" where
  "split_acc sep acc [] = [rev acc]"
| "split_acc sep acc (c # cs) =
     (if prefix sep (c # cs) then rev acc # split_acc sep [] (drop (length sep - 1) cs)
      else split_acc sep (c # acc) cs)"

definition Split :: "string \<Rightarrow> string \<Rightarrow> string list" where
  "Split s sep = (if sep = [] then map (\<lambda>c. [c]) s else split_acc sep [] s)"

text \<open>\<^verbatim>\<open>strings.SplitN\<close> with a positive count: at most \<open>n\<close> pieces, the last one the rest.\<close>

fun SplitN :: "string \<Rightarrow> string \<Rightarrow> nat \<Rightarrow> string list" where
  "SplitN s sep 0 = []"
| "SplitN s sep (Suc 0) = [s]"
| "SplitN s sep (Suc (Suc n)) =
     (case Index s sep of None \<Rightarrow> [s]
      | Some i \<Rightarrow> take i s # SplitN (drop (i + length sep) s) sep (Suc n))"

subsection \<open>Trimming, replacing, changing case\<close>

definition TrimPrefix :: "string \<Rightarrow> string \<Rightarrow> string" where
  "TrimPrefix s p = (if prefix p s then drop (length p) s else s)"

definition TrimSuffix :: "string \<Rightarrow> string \<Rightarrow> string" where
  "TrimSuffix s p = (if suffix p s then take (length s - length p) s else s)"

definition trim_right :: "(char \<Rightarrow> bool) \<Rightarrow> string \<Rightarrow> string" where
  "trim_right p s = rev (dropWhile p (rev s))"

definition trim_both :: "(char \<Rightarrow> bool) \<Rightarrow> string \<Rightarrow> string" where
  "trim_both p s = trim_right p (dropWhile p s)"

definition TrimRight :: "string \<Rightarrow> string \<Rightarrow> string" where
  "TrimRight s cutset = trim_right (\<lambda>c. c \<in> set cutset) s"

definition Trim :: "string \<Rightarrow> string \<Rightarrow> string" where
  "Trim s cutset = trim_both (\<lambda>c. c \<in> set cutset) s"

definition is_space :: "char \<Rightarrow> bool" where
  "is_space c = (c \<in> {CHR '' '', CHR 0x09, CHR 0x0A, CHR 0x0B, CHR 0x0C, CHR 0x0D})"

definition TrimSpace :: "string \<Rightarrow> string" where
  "TrimSpace s = trim_both is_space s"

text \<open>\<^verbatim>\<open>strings.Fields\<close>: the maximal runs of bytes that are no white space.\<close>

fun fields_acc :: "string \<Rightarrow> string \<Rightarrow> string list" where
  "fields_acc acc [] = (if acc = [] then [] else [rev acc])"
| "fields_acc acc (c # cs) =
     (if is_space c then (if acc = [] then fields_acc [] cs else rev acc # fields_acc [] cs)
      else fields_acc (c # acc) cs)"

definition Fields :: "string \<Rightarrow> string list" where
  "Fields s = fields_acc [] s"

text \<open>\<^verbatim>\<open>strings.ReplaceAll\<close> and \<^verbatim>\<open>strings.Replace(s, old, new, 1)\<close>, for \<open>old\<close> not empty.\<close>

fun ReplaceAll :: "string \<Rightarrow> string \<Rightarrow> string \<Rightarrow> string" where
  "ReplaceAll [] old new = []"
| "ReplaceAll (c # cs) old new =
     (if prefix old (c # cs) then new @ ReplaceAll (drop (length old - 1) cs) old new
      else c # ReplaceAll cs old new)"

definition ReplaceFirst :: "string \<Rightarrow> string \<Rightarrow> string \<Rightarrow> string" where
  "ReplaceFirst s old new =
     (case Index s old of None \<Rightarrow> s | Some i \<Rightarrow> take i s @ new @ drop (i + length old) s)"

definition upper_char :: "char \<Rightarrow> char" where
  "upper_char c = (let n = of_char c :: nat in if 97 \<le> n \<and> n \<le> 122 then char_of (n - 32) else c)"

definition lower_char :: "char \<Rightarrow> char" where
  "lower_char c = (let n = of_char c :: nat in if 65 \<le> n \<and> n \<le> 90 then char_of (n + 32) else c)"

definition ToUpper :: "string \<Rightarrow> string" where
  "ToUpper s = map upper_char s"

definition ToLower :: "string \<Rightarrow> string" where
  "ToLower s = map lower_char s"

subsection \<open>Numbers\<close>

definition digit_char :: "nat \<Rightarrow> char" where
  "digit_char d = char_of (48 + d)"

fun nat_str :: "nat \<Rightarrow> string" where
  "nat_str n = (if n < 10 then [digit_char n] else nat_str (n div 10) @ [digit_char (n mod 10)])"

declare nat_str.simps [simp del]

text \<open>\<^verbatim>\<open>strconv.Itoa\<close>, and the verb \<^verbatim>\<open>%d\<close>\<close>

definition Itoa :: "int \<Rightarrow> string" where
  "Itoa i = (if i < 0 then ''-'' @ nat_str (nat (- i)) else nat_str (nat i))"

definition is_digit :: "char \<Rightarrow> bool" where
  "is_digit c = (let n = of_char c :: nat in 48 \<le> n \<and> n \<le> 57)"

definition digit_val :: "char \<Rightarrow> nat" where
  "digit_val c = of_char c - 48"

fun digits_val :: "nat \<Rightarrow> string \<Rightarrow> nat option" where
  "digits_val acc [] = Some acc"
| "digits_val acc (c # cs) = (if is_digit c then digits_val (10 * acc + digit_val c) cs else None)"

text \<open>
  \<^verbatim>\<open>strconv.ParseInt(s, 10, bits)\<close>: an optional sign, then at least one digit, then a
  range check; \<^term>\<open>None\<close> for a syntax or range error.  \<^verbatim>\<open>strconv.Atoi\<close> is the 64-bit case.
\<close>

definition ParseInt :: "nat \<Rightarrow> string \<Rightarrow> int option" where
  "ParseInt bits s =
     (let (neg, ds) = (case s of c # cs \<Rightarrow> if c = CHR ''-'' then (True, cs)
                                       else if c = CHR ''+'' then (False, cs) else (False, s)
                       | [] \<Rightarrow> (False, []))
      in if ds = [] then None
         else case digits_val 0 ds of None \<Rightarrow> None
              | Some n \<Rightarrow> (let i = (if neg then - int n else int n)
                          in if - (2 ^ (bits - 1)) \<le> i \<and> i < 2 ^ (bits - 1) then Some i else None))"

definition Atoi :: "string \<Rightarrow> int option" where
  "Atoi s = ParseInt 64 s"

subsection \<open>Sorting\<close>

text \<open>\<^verbatim>\<open>sort.Strings\<close>: ascending in the bytewise lexicographic order.\<close>

definition sort_Strings :: "string list \<Rightarrow> string list" where
  "sort_Strings xs = sort xs"

subsection \<open>Laws\<close>

named_theorems go_str "facts on the string functions of the Go library"

lemma Index_prefix: "prefix sub s \<Longrightarrow> Index s sub = Some 0"
  by (cases s) auto

lemma Index_SomeD: "Index s sub = Some i \<Longrightarrow> s = take i s @ sub @ drop (i + length sub) s"
proof (induction s arbitrary: i)
  case Nil
  then show ?case by (simp split: if_splits)
next
  case (Cons c cs)
  show ?case
  proof (cases "prefix sub (c # cs)")
    case True
    with Cons.prems show ?thesis by (auto simp: prefix_def)
  next
    case False
    with Cons.prems obtain j where "Index cs sub = Some j" "i = Suc j" by auto
    with Cons.IH show ?thesis by simp
  qed
qed

lemma Index_append: "Index (xs @ sub @ ys) sub \<noteq> None"
proof (induction xs)
  case Nil
  then show ?case by (simp add: Index_prefix)
next
  case (Cons x xs)
  then show ?case by (cases "prefix sub (x # xs @ sub @ ys)") auto
qed

lemma Contains_iff [go_str]: "Contains s sub \<longleftrightarrow> sublist sub s"
proof
  assume "Contains s sub"
  then obtain i where "Index s sub = Some i" by (auto simp: Contains_def)
  then show "sublist sub s" by (metis Index_SomeD sublist_def)
next
  assume "sublist sub s"
  then obtain xs ys where "s = xs @ sub @ ys" by (auto simp: sublist_def)
  then show "Contains s sub" by (simp add: Contains_def Index_append)
qed

lemma Contains_char [go_str]: "Contains s [c] \<longleftrightarrow> c \<in> set s"
  by (auto simp: Contains_iff sublist_def in_set_conv_decomp)

lemma split_acc_not_Nil [simp]: "split_acc sep acc s \<noteq> []"
  by (induction sep acc s rule: split_acc.induct) auto

lemma Join_Cons: "ys \<noteq> [] \<Longrightarrow> Join (x # ys) sep = x @ sep @ Join ys sep"
  by (cases ys) auto

lemma Join_split_acc: "sep \<noteq> [] \<Longrightarrow> Join (split_acc sep acc s) sep = rev acc @ s"
proof (induction sep acc s rule: split_acc.induct)
  case (1 sep acc)
  then show ?case by simp
next
  case (2 sep acc c cs)
  show ?case
  proof (cases "prefix sep (c # cs)")
    case True
    then obtain zs where zs: "c # cs = sep @ zs" by (auto simp: prefix_def)
    with "2.prems" have cs: "cs = tl sep @ zs" by (cases sep) auto
    have "Join (split_acc sep [] (drop (length sep - 1) cs)) sep = drop (length sep - 1) cs"
      using "2.IH"(1) True "2.prems" by simp
    with True zs cs "2.prems" show ?thesis by (simp add: Join_Cons)
  next
    case False
    with "2.IH"(2) "2.prems" show ?thesis by simp
  qed
qed

text \<open>Joining what was split gives the string back.\<close>

lemma Join_Split [go_str]: "sep \<noteq> [] \<Longrightarrow> Join (Split s sep) sep = s"
  by (simp add: Split_def Join_split_acc)

lemma Split_not_Nil [simp]: "sep \<noteq> [] \<Longrightarrow> Split s sep \<noteq> []"
  by (simp add: Split_def)

lemma split_acc_char_free: "c \<notin> set acc \<Longrightarrow> x \<in> set (split_acc [c] acc s) \<Longrightarrow> c \<notin> set x"
proof (induction s arbitrary: acc)
  case Nil
  then show ?case by simp
next
  case (Cons d s)
  show ?case
  proof (cases "c = d")
    case True
    with Cons.prems have "x = rev acc \<or> x \<in> set (split_acc [c] [] s)" by simp
    with Cons.prems(1) Cons.IH [of "[]"] show ?thesis by auto
  next
    case False
    with Cons.prems have "x \<in> set (split_acc [c] (d # acc) s)" by simp
    then show ?thesis using False Cons.prems(1) by (intro Cons.IH [of "d # acc"]) auto
  qed
qed

lemma Split_char_free [go_str]: "x \<in> set (Split s [c]) \<Longrightarrow> c \<notin> set x"
  using split_acc_char_free [of c "[]" x s] by (simp add: Split_def)

lemma split_acc_skip: "c \<notin> set x \<Longrightarrow> split_acc [c] acc (x @ s) = split_acc [c] (rev x @ acc) s"
  by (induction x arbitrary: acc) auto

lemma split_acc_single: "c \<notin> set x \<Longrightarrow> split_acc [c] acc x = [rev acc @ x]"
  using split_acc_skip [of c x acc "[]"] by simp

lemma Split_Join_char:
  assumes "xs \<noteq> []" and "\<forall>x \<in> set xs. c \<notin> set x"
  shows "Split (Join xs [c]) [c] = xs"
proof -
  have "split_acc [c] [] (Join xs [c]) = xs"
    using assms
  proof (induction xs rule: induct_list012)
    case 1
    then show ?case by simp
  next
    case (2 x)
    then show ?case by (simp add: split_acc_single)
  next
    case (3 x y zs)
    then show ?case by (simp add: split_acc_skip)
  qed
  then show ?thesis by (simp add: Split_def)
qed

lemma Split_no_sep [go_str]: "c \<notin> set s \<Longrightarrow> Split s [c] = [s]"
  by (simp add: Split_def split_acc_single)

lemma Split_append_char [go_str]: "c \<notin> set x \<Longrightarrow> Split (x @ c # s) [c] = x # Split s [c]"
  by (simp add: Split_def split_acc_skip)

lemma upper_char_idem [simp]: "upper_char (upper_char c) = upper_char c"
  by (auto simp: upper_char_def Let_def)

lemma ToUpper_idem [simp]: "ToUpper (ToUpper s) = ToUpper s"
  by (simp add: ToUpper_def comp_def)

lemma lower_char_idem [simp]: "lower_char (lower_char c) = lower_char c"
  by (auto simp: lower_char_def Let_def)

lemma ToLower_idem [simp]: "ToLower (ToLower s) = ToLower s"
  by (simp add: ToLower_def comp_def)

lemma set_trim_right: "set (trim_right p s) \<subseteq> set s"
  by (auto simp: trim_right_def dest: set_dropWhileD)

lemma set_trim_both: "set (trim_both p s) \<subseteq> set s"
  using set_trim_right [of p "dropWhile p s"] by (auto simp: trim_both_def dest: set_dropWhileD)

lemma trim_right_last: "trim_right p s \<noteq> [] \<Longrightarrow> \<not> p (last (trim_right p s))"
proof -
  assume "trim_right p s \<noteq> []"
  then have "dropWhile p (rev s) \<noteq> []" by (simp add: trim_right_def)
  then have "\<not> p (hd (dropWhile p (rev s)))" by (rule hd_dropWhile)
  then show ?thesis by (simp add: trim_right_def last_rev)
qed

lemma trim_right_prefix: "prefix (trim_right p s) s"
proof -
  have "s = rev (takeWhile p (rev s) @ dropWhile p (rev s))" by simp
  then have "s = trim_right p s @ rev (takeWhile p (rev s))"
    by (metis rev_append trim_right_def)
  then show ?thesis by (metis prefixI)
qed

lemma trim_both_ends:
  assumes "trim_both p s \<noteq> []"
  shows "\<not> p (hd (trim_both p s))" and "\<not> p (last (trim_both p s))"
proof -
  let ?t = "dropWhile p s"
  have ne: "trim_right p ?t \<noteq> []" using assms by (simp add: trim_both_def)
  then show "\<not> p (last (trim_both p s))" by (simp add: trim_both_def trim_right_last)
  obtain zs where zs: "?t = trim_right p ?t @ zs"
    using trim_right_prefix [of p ?t] by (auto simp: prefix_def)
  then have "?t \<noteq> []" using ne by (metis append_is_Nil_conv)
  then have "\<not> p (hd ?t)" by (rule hd_dropWhile)
  moreover have "hd ?t = hd (trim_right p ?t)" by (subst zs) (simp add: ne)
  ultimately show "\<not> p (hd (trim_both p s))" by (simp add: trim_both_def)
qed

lemma trim_both_id:
  assumes "s = [] \<or> (\<not> p (hd s) \<and> \<not> p (last s))"
  shows "trim_both p s = s"
proof (cases "s = []")
  case True
  then show ?thesis by (simp add: trim_both_def trim_right_def)
next
  case False
  with assms have "dropWhile p s = s" by (cases s) auto
  moreover have "dropWhile p (rev s) = rev s"
    using False assms by (cases s rule: rev_cases) auto
  ultimately show ?thesis by (simp add: trim_both_def trim_right_def)
qed

lemma trim_both_idem [simp]: "trim_both p (trim_both p s) = trim_both p s"
  by (rule trim_both_id) (metis trim_both_ends)

lemma TrimSpace_idem [simp]: "TrimSpace (TrimSpace s) = TrimSpace s"
  by (simp add: TrimSpace_def)

lemma length_ToUpper [simp]: "length (ToUpper s) = length s"
  by (simp add: ToUpper_def)

lemma ToUpper_eq_Nil [simp]: "ToUpper s = [] \<longleftrightarrow> s = []"
  by (simp add: ToUpper_def)

subsection \<open>Decimal numerals\<close>

lemma digit_char_props [simp]:
  "d < 10 \<Longrightarrow> is_digit (digit_char d)"
  "d < 10 \<Longrightarrow> digit_val (digit_char d) = d"
  by (simp_all add: is_digit_def digit_val_def digit_char_def)

lemma digits_val_append:
  "digits_val a (xs @ ys) = (case digits_val a xs of None \<Rightarrow> None | Some b \<Rightarrow> digits_val b ys)"
  by (induction xs arbitrary: a) auto

lemma digits_val_nat_str: "digits_val 0 (nat_str n) = Some n"
proof (induction n rule: nat_str.induct)
  case (1 n)
  show ?case
  proof (cases "n < 10")
    case True
    then show ?thesis by (subst nat_str.simps) simp
  next
    case False
    with 1 have "digits_val 0 (nat_str (n div 10)) = Some (n div 10)" by simp
    with False show ?thesis by (subst nat_str.simps) (simp add: digits_val_append)
  qed
qed

lemma nat_str_not_Nil [simp]: "nat_str n \<noteq> []"
  by (subst nat_str.simps) simp

lemma nat_str_digits: "c \<in> set (nat_str n) \<Longrightarrow> is_digit c"
proof (induction n rule: nat_str.induct)
  case (1 n)
  show ?case
  proof (cases "n < 10")
    case True
    with "1.prems" show ?thesis by (subst (asm) nat_str.simps) simp
  next
    case False
    with "1.prems" have "c \<in> set (nat_str (n div 10)) \<or> c = digit_char (n mod 10)"
      by (subst (asm) nat_str.simps) auto
    with "1.IH" False show ?thesis by auto
  qed
qed

lemma is_digit_not_sign: "is_digit c \<Longrightarrow> c \<noteq> CHR ''-'' \<and> c \<noteq> CHR ''+'' \<and> c \<noteq> CHR ''.'' \<and> c \<noteq> CHR '' ''"
  by (auto simp: is_digit_def)

lemma ParseInt_nat_str:
  assumes "int n < 2 ^ (bits - 1)"
  shows "ParseInt bits (nat_str n) = Some (int n)"
proof -
  obtain c cs where c: "nat_str n = c # cs" by (cases "nat_str n") auto
  then have "is_digit c" using nat_str_digits [of c n] by simp
  then have "c \<noteq> CHR ''-''" "c \<noteq> CHR ''+''" using is_digit_not_sign by blast+
  moreover have "- (2 ^ (bits - 1)) \<le> (0 :: int)" by simp
  then have "- (2 ^ (bits - 1)) \<le> int n" by linarith
  ultimately show ?thesis
    using c assms digits_val_nat_str [of n] by (simp add: ParseInt_def)
qed

text \<open>Printing and reading back a number that fits in 64 bits.\<close>

lemma Atoi_Itoa [go_str]:
  assumes "0 \<le> i" "i < 2 ^ 63"
  shows "Atoi (Itoa i) = Some i"
  using assms ParseInt_nat_str [of "nat i" 64] by (simp add: Atoi_def Itoa_def)

lemma Itoa_chars: "0 \<le> i \<Longrightarrow> c \<in> set (Itoa i) \<Longrightarrow> is_digit c"
  by (auto simp: Itoa_def nat_str_digits split: if_splits)

subsection \<open>Replacement\<close>

lemma ReplaceAll_char:
  "ReplaceAll s [c] new = concat (map (\<lambda>x. if x = c then new else [x]) s)"
  by (induction s) auto

end
