(* ===== verification/Env.thy ===== *)
theory Env
  imports Api GoStrings "HOL-Library.AList" "HOL-Library.Multiset"
begin

section \<open>The environment: everything the source only calls\<close>

text \<open>
  The code outside of the repository is a parameter of the model.  The record
  \<open>libs\<close> holds the pure functions of third-party packages (go-funk, lib/pq,
  hashicorp/go-version), and \<^verbatim>\<open>crypto/sha256\<close>, time formatting and the parsers of
  regular expressions and of JSON objects, which stay uninterpreted; the record \<open>env\<close> holds the answers
  of the effectful ones (the SQL server behind \<^verbatim>\<open>database/sql\<close>, the file system, the
  clock, go-password, the Kubernetes API server), each a function of the history of the
  calls made before.  Every external call is an \<open>event\<close> of that history.
\<close>

subsection \<open>Errors\<close>

text \<open>
  \<^verbatim>\<open>*errors.StatusError\<close> of the Kubernetes client (its reason and message),
  \<^verbatim>\<open>shared.AlreadyHandledError\<close>, and every other error by its message.
\<close>

datatype error = StatusError string string | AlreadyHandledError error | Err string

text \<open>\<^verbatim>\<open>err.Error()\<close>\<close>

fun error_msg :: "error \<Rightarrow> string" where
  "error_msg (StatusError reason msg) = msg"
| "error_msg (AlreadyHandledError e) = error_msg e"
| "error_msg (Err msg) = msg"

subsection \<open>SQL values and result sets\<close>

text \<open>The values a driver hands to \<^verbatim>\<open>database/sql\<close>, and those passed as query arguments.\<close>

datatype gval = GNull | GStr string | GBytes string | GInt int | GBool bool | GTime int

text \<open>
  A result set: what \<^verbatim>\<open>rows.Columns()\<close> answers and the rows \<^verbatim>\<open>rows.Next()\<close> goes
  through.
\<close>

record rows =
  row_cols :: "error + string list"
  row_data :: "gval list list"

type_synonym conn = nat

subsection \<open>Regular expressions\<close>

text \<open>
  The operators of the expressions of the source (Go's \<^verbatim>\<open>regexp\<close>, leftmost match, the
  first alternative wins): a literal, one byte of a class, greedy repetition of a class at
  least \<open>lo\<close> times, an optional part, a capturing group.  \<open>rmatch r s\<close> lists the
  matches at the start of \<open>s\<close> in order of preference, each as the captured groups and
  the rest of the string; a group that took no part in the match is empty.
\<close>

datatype char_class = Dot | OneOf string | NoneOf string

fun in_class :: "char_class \<Rightarrow> char \<Rightarrow> bool" where
  "in_class Dot c = (c \<noteq> CHR 0x0A)"
| "in_class (OneOf cs) c = (c \<in> set cs)"
| "in_class (NoneOf cs) c = (c \<notin> set cs)"

datatype re =
    Lit string
  | Class char_class
  | Rep nat char_class
  | Opt re
  | Then re re
  | Group re

fun ngroups :: "re \<Rightarrow> nat" where
  "ngroups (Lit l) = 0"
| "ngroups (Class k) = 0"
| "ngroups (Rep lo k) = 0"
| "ngroups (Opt r) = ngroups r"
| "ngroups (Then a b) = ngroups a + ngroups b"
| "ngroups (Group r) = Suc (ngroups r)"

fun rmatch :: "re \<Rightarrow> string \<Rightarrow> (string list \<times> string) list" where
  "rmatch (Lit l) s = (if prefix l s then [([], drop (length l) s)] else [])"
| "rmatch (Class k) s = (case s of [] \<Rightarrow> [] | c # cs \<Rightarrow> if in_class k c then [([], cs)] else [])"
| "rmatch (Rep lo k) s =
     map (\<lambda>n. ([], drop n s)) (rev [lo ..< Suc (length (takeWhile (in_class k) s))])"
| "rmatch (Opt r) s = rmatch r s @ [(replicate (ngroups r) [], s)]"
| "rmatch (Then a b) s =
     concat (map (\<lambda>(gs, s'). map (\<lambda>(gs', s''). (gs @ gs', s'')) (rmatch b s')) (rmatch a s))"
| "rmatch (Group r) s = map (\<lambda>(gs, s'). (take (length s - length s') s # gs, s')) (rmatch r s)"

text \<open>\<^verbatim>\<open>FindStringSubmatch\<close>: the whole match, then the groups; \<^term>\<open>None\<close> for no match.\<close>

fun FindSubmatch :: "re \<Rightarrow> string \<Rightarrow> string list option" where
  "FindSubmatch r [] =
     (case rmatch r [] of (gs, s') # _ \<Rightarrow> Some ([] # gs) | [] \<Rightarrow> None)"
| "FindSubmatch r (c # cs) =
     (case rmatch r (c # cs) of
        (gs, s') # _ \<Rightarrow> Some (take (Suc (length cs) - length s') (c # cs) # gs)
      | [] \<Rightarrow> FindSubmatch r cs)"

lemma rmatch_groups: "(gs, s') \<in> set (rmatch r s) \<Longrightarrow> length gs = ngroups r"
  by (induction r arbitrary: gs s s') (auto split: list.splits if_splits)

lemma rmatch_Then:
  "(gs, s'') \<in> set (rmatch (Then a b) s) \<Longrightarrow>
     \<exists>ga gb s'. gs = ga @ gb \<and> length ga = ngroups a \<and> (ga, s') \<in> set (rmatch a s) \<and> (gb, s'') \<in> set (rmatch b s')"
  using rmatch_groups by fastforce

lemma FindSubmatch_Some:
  assumes "FindSubmatch r s = Some ms"
  shows "\<exists>m gs t s'. ms = m # gs \<and> (gs, s') \<in> set (rmatch r t)"
  using assms
proof (induction r s rule: FindSubmatch.induct)
  case (1 r)
  then obtain gs s' rest where r: "rmatch r [] = (gs, s') # rest" and ms: "ms = [] # gs"
    by (auto split: list.splits)
  then have "(gs, s') \<in> set (rmatch r [])" by simp
  with ms show ?case by blast
next
  case (2 r c cs)
  show ?case
  proof (cases "rmatch r (c # cs)")
    case Nil
    with 2 show ?thesis by simp
  next
    case (Cons a as)
    obtain gs s' where a: "a = (gs, s')" by fastforce
    with Cons have "(gs, s') \<in> set (rmatch r (c # cs))" by simp
    moreover from Cons a 2(2) have "\<exists>m. ms = m # gs" by auto
    ultimately show ?thesis by blast
  qed
qed

lemma FindSubmatch_length: "FindSubmatch r s = Some ms \<Longrightarrow> length ms = Suc (ngroups r)"
  by (auto dest!: FindSubmatch_Some rmatch_groups)

subsection \<open>Third-party functions\<close>

record libs =
  funk_Map :: "(string \<Rightarrow> string) \<Rightarrow> string list \<Rightarrow> string list"
  funk_FilterString :: "(string \<Rightarrow> bool) \<Rightarrow> string list \<Rightarrow> string list"
  funk_Filter :: "(string \<Rightarrow> bool) \<Rightarrow> string list \<Rightarrow> string list"
  funk_Subset :: "string list \<Rightarrow> string list \<Rightarrow> bool"
  funk_Subtract :: "string list \<Rightarrow> string list \<Rightarrow> string list"
  funk_SubtractString :: "string list \<Rightarrow> string list \<Rightarrow> string list"
  funk_Difference :: "string list \<Rightarrow> string list \<Rightarrow> string list \<times> string list"
  funk_InnerJoin :: "string list \<Rightarrow> string list \<Rightarrow> string list"
  funk_Contains :: "string list \<Rightarrow> string \<Rightarrow> bool"
  funk_UniqString :: "string list \<Rightarrow> string list"
  funk_IndexOfString :: "string list \<Rightarrow> string \<Rightarrow> int"
  funk_DropString :: "string list \<Rightarrow> int \<Rightarrow> string list"
  funk_Keys :: "(string \<times> string) list \<Rightarrow> string list"
  funk_Values :: "(string \<times> string) list \<Rightarrow> string list"
  pq_QuoteIdentifier :: "string \<Rightarrow> string"
  pq_QuoteLiteral :: "string \<Rightarrow> string"
  pq_Array :: "gval \<Rightarrow> error + string list"
  version_NewVersion :: "string \<Rightarrow> error + string"
  version_LessThan :: "string \<Rightarrow> string \<Rightarrow> bool"
  regexp_compile :: "string \<Rightarrow> re option"
  sha256_hex :: "string \<Rightarrow> string"
  time_RFC3339Nano :: "int \<Rightarrow> string"
  time_String :: "int \<Rightarrow> string"
  json_Unmarshal :: "string \<Rightarrow> error + (string \<times> gval) list"

text \<open>
  What the documentation of go-funk promises of the functions used here.
  \<open>Subset\<close> compares lengths too, so its converse is stated for collections that are not
  longer than the one they are compared with.
\<close>

definition funk_laws :: "libs \<Rightarrow> bool" where
  "funk_laws L \<longleftrightarrow>
     (\<forall>f xs. funk_Map L f xs = map f xs) \<and>
     (\<forall>p xs. funk_FilterString L p xs = filter p xs) \<and>
     (\<forall>p xs. funk_Filter L p xs = filter p xs) \<and>
     (\<forall>xs ys. funk_Subset L xs ys \<longrightarrow> set xs \<subseteq> set ys) \<and>
     (\<forall>xs ys. set xs \<subseteq> set ys \<and> length xs \<le> length ys \<longrightarrow> funk_Subset L xs ys) \<and>
     (\<forall>xs ys. set (funk_Subtract L xs ys) = set xs - set ys) \<and>
     (\<forall>xs ys. set (funk_SubtractString L xs ys) = set xs - set ys) \<and>
     (\<forall>xs ys. set (fst (funk_Difference L xs ys)) = set xs - set ys) \<and>
     (\<forall>xs ys. set (snd (funk_Difference L xs ys)) = set ys - set xs) \<and>
     (\<forall>xs x. funk_Contains L xs x \<longleftrightarrow> x \<in> set xs) \<and>
     (\<forall>xs. set (funk_UniqString L xs) = set xs \<and> distinct (funk_UniqString L xs))"

text \<open>A library record that satisfies the laws; witnesses evaluate on it.\<close>

definition ref_libs :: libs where
  "ref_libs =
     \<lparr> funk_Map = map, funk_FilterString = filter, funk_Filter = filter,
       funk_Subset = (\<lambda>xs ys. list_all (\<lambda>x. List.member ys x) xs),
       funk_Subtract = (\<lambda>xs ys. filter (\<lambda>x. \<not> List.member ys x) xs),
       funk_SubtractString = (\<lambda>xs ys. filter (\<lambda>x. \<not> List.member ys x) xs),
       funk_Difference = (\<lambda>xs ys. (filter (\<lambda>x. \<not> List.member ys x) xs, filter (\<lambda>y. \<not> List.member xs y) ys)),
       funk_InnerJoin = (\<lambda>xs ys. filter (\<lambda>x. List.member ys x) xs),
       funk_Contains = List.member,
       funk_UniqString = (\<lambda>xs. rev (remdups (rev xs))),
       funk_IndexOfString = (\<lambda>xs x. if List.member xs x then int (length (takeWhile (\<lambda>y. y \<noteq> x) xs)) else -1),
       funk_DropString = (\<lambda>xs n. drop (nat n) xs),
       funk_Keys = map fst, funk_Values = map snd,
       pq_QuoteIdentifier = (\<lambda>s. [CHR 0x22] @ ReplaceAll s [CHR 0x22] [CHR 0x22, CHR 0x22] @ [CHR 0x22]),
       pq_QuoteLiteral = (\<lambda>s. [CHR 0x27] @ ReplaceAll s [CHR 0x27] [CHR 0x27, CHR 0x27] @ [CHR 0x27]),
       pq_Array = (\<lambda>v. case v of GStr s \<Rightarrow> Inr (Split (Trim s ''{}'') '','') | _ \<Rightarrow> Inl (Err ''pq: cannot convert'')),
       version_NewVersion = (\<lambda>s. if s = [] then Inl (Err ''Malformed version: '') else Inr s),
       version_LessThan = (\<lambda>a b. a < b),
       regexp_compile = (\<lambda>_. None),
       sha256_hex = (\<lambda>s. s),
       time_RFC3339Nano = Itoa, time_String = Itoa,
       json_Unmarshal = (\<lambda>s. if s = [] then Inl (Err ''unexpected end of JSON input'') else Inr [(''backup_statement'', GStr s)]) \<rparr>"

lemma ref_libs_sel [simp]:
  "funk_Map ref_libs = map" "funk_FilterString ref_libs = filter" "funk_Filter ref_libs = filter"
  "funk_Subset ref_libs xs ys = list_all (\<lambda>x. List.member ys x) xs"
  "funk_Subtract ref_libs xs ys = filter (\<lambda>x. \<not> List.member ys x) xs"
  "funk_SubtractString ref_libs xs ys = filter (\<lambda>x. \<not> List.member ys x) xs"
  "funk_Difference ref_libs xs ys = (filter (\<lambda>x. \<not> List.member ys x) xs, filter (\<lambda>y. \<not> List.member xs y) ys)"
  "funk_InnerJoin ref_libs xs ys = filter (\<lambda>x. List.member ys x) xs"
  "funk_Contains ref_libs = List.member"
  "funk_UniqString ref_libs xs = rev (remdups (rev xs))"
  by (simp_all add: ref_libs_def)

lemma ref_libs_funk_laws [simp]: "funk_laws ref_libs"
  by (auto simp: funk_laws_def ref_libs_def list_all_iff)

subsection \<open>External calls\<close>

datatype event =
    SqlOpen string string
  | SqlQuery conn string "gval list"
  | SqlExec conn string "gval list"
  | SqlClose conn
  | MkdirAll string
  | WriteFile string string
  | GeneratePassword
  | K8sGet kind NamespacedName
  | K8sList kind
  | K8sCreate k8s_obj
  | K8sUpdate k8s_obj
  | K8sStatusUpdate k8s_obj
  | K8sDelete kind NamespacedName
  | TriggerDbServer "DbServer option"

type_synonym hist = "event list"

text \<open>The computations of the model.\<close>

type_synonym 'a go = "(event, 'a) io"

record env =
  lib :: libs
  sql_open :: "hist \<Rightarrow> string \<Rightarrow> string \<Rightarrow> error + conn"
  sql_query :: "hist \<Rightarrow> conn \<Rightarrow> string \<Rightarrow> gval list \<Rightarrow> error + rows"
  sql_exec :: "hist \<Rightarrow> conn \<Rightarrow> string \<Rightarrow> gval list \<Rightarrow> error option"
  sql_close :: "hist \<Rightarrow> conn \<Rightarrow> error option"
  fs_exists :: "hist \<Rightarrow> string \<Rightarrow> bool"
  fs_write :: "hist \<Rightarrow> string \<Rightarrow> string \<Rightarrow> error option"
  time_now :: "hist \<Rightarrow> int"
  gen_password :: "hist \<Rightarrow> error + string"
  map_shuffle :: "hist \<Rightarrow> nat list"
  get_DbServers :: "hist \<Rightarrow> error + DbServer list"
  get_DbServer_cr :: "hist \<Rightarrow> NamespacedName \<Rightarrow> error + DbServer"
  get_Db_cr :: "hist \<Rightarrow> NamespacedName \<Rightarrow> error + Db"
  get_Schema_cr :: "hist \<Rightarrow> NamespacedName \<Rightarrow> error + Schema"
  get_User_cr :: "hist \<Rightarrow> NamespacedName \<Rightarrow> error + User"
  get_BackupTarget_cr :: "hist \<Rightarrow> NamespacedName \<Rightarrow> error + BackupTarget"
  get_RestoreTarget_cr :: "hist \<Rightarrow> NamespacedName \<Rightarrow> error + RestoreTarget"
  get_S3Storage_cr :: "hist \<Rightarrow> NamespacedName \<Rightarrow> error + S3Storage"
  get_BackupJob_cr :: "hist \<Rightarrow> NamespacedName \<Rightarrow> error + BackupJob"
  get_BackupCronJob_cr :: "hist \<Rightarrow> NamespacedName \<Rightarrow> error + BackupCronJob"
  get_RestoreJob_cr :: "hist \<Rightarrow> NamespacedName \<Rightarrow> error + RestoreJob"
  get_RestoreCronJob_cr :: "hist \<Rightarrow> NamespacedName \<Rightarrow> error + RestoreCronJob"
  get_DbCopyJob_cr :: "hist \<Rightarrow> NamespacedName \<Rightarrow> error + DbCopyJob"
  get_DbCopyCronJob_cr :: "hist \<Rightarrow> NamespacedName \<Rightarrow> error + DbCopyCronJob"
  get_CockroachDBBackupJob_cr :: "hist \<Rightarrow> NamespacedName \<Rightarrow> error + CockroachDBBackupJob"
  get_CockroachDBBackupCronJob_cr :: "hist \<Rightarrow> NamespacedName \<Rightarrow> error + CockroachDBBackupCronJob"
  get_Secret :: "hist \<Rightarrow> NamespacedName \<Rightarrow> error + Secret"
  get_ConfigMap :: "hist \<Rightarrow> NamespacedName \<Rightarrow> error + ConfigMap"
  list_Jobs :: "hist \<Rightarrow> error + Job list"
  list_CronJobs :: "hist \<Rightarrow> error + CronJob list"
  k8s_create :: "hist \<Rightarrow> k8s_obj \<Rightarrow> error option"
  k8s_update :: "hist \<Rightarrow> k8s_obj \<Rightarrow> error + k8s_obj"
  k8s_status_update :: "hist \<Rightarrow> k8s_obj \<Rightarrow> error + k8s_obj"
  k8s_delete :: "hist \<Rightarrow> kind \<Rightarrow> NamespacedName \<Rightarrow> error option"

definition Query :: "env \<Rightarrow> conn \<Rightarrow> string \<Rightarrow> gval list \<Rightarrow> (error + rows) go" where
  "Query E c q args = call (SqlQuery c q args) (\<lambda>h. sql_query E h c q args)"

definition Exec :: "env \<Rightarrow> conn \<Rightarrow> string \<Rightarrow> gval list \<Rightarrow> error option go" where
  "Exec E c q args = call (SqlExec c q args) (\<lambda>h. sql_exec E h c q args)"

definition Close_conn :: "env \<Rightarrow> conn \<Rightarrow> error option go" where
  "Close_conn E c = call (SqlClose c) (\<lambda>h. sql_close E h c)"

definition GetSecret :: "env \<Rightarrow> NamespacedName \<Rightarrow> (error + Secret) go" where
  "GetSecret E n = call (K8sGet K_Secret n) (\<lambda>h. get_Secret E h n)"

lemma run_Close_conn [run]: "Close_conn E c h = (Return (sql_close E h c), h @ [SqlClose c])"
  by (simp add: Close_conn_def run)

lemma run_GetSecret [run]: "GetSecret E n h = (Return (get_Secret E h n), h @ [K8sGet K_Secret n])"
  by (simp add: GetSecret_def run)

lemma emits_Close_conn [emits_intro]: "P (SqlClose c) \<Longrightarrow> emits P (Close_conn E c)"
  by (simp add: Close_conn_def emits_call)

lemma emits_GetSecret [emits_intro]: "P (K8sGet K_Secret n) \<Longrightarrow> emits P (GetSecret E n)"
  by (simp add: GetSecret_def emits_call)

lemma run_Query [run]: "Query E c q args h = (Return (sql_query E h c q args), h @ [SqlQuery c q args])"
  by (simp add: Query_def run)

lemma run_Exec [run]: "Exec E c q args h = (Return (sql_exec E h c q args), h @ [SqlExec c q args])"
  by (simp add: Exec_def run)

lemma emits_Query [emits_intro]: "P (SqlQuery c q args) \<Longrightarrow> emits P (Query E c q args)"
  by (simp add: Query_def emits_call)

lemma emits_Exec [emits_intro]: "P (SqlExec c q args) \<Longrightarrow> emits P (Exec E c q args)"
  by (simp add: Exec_def emits_call)

text \<open>The events that only read.\<close>

fun is_read :: "event \<Rightarrow> bool" where
  "is_read (SqlOpen _ _) = True"
| "is_read (SqlQuery _ _ _) = True"
| "is_read (K8sGet _ _) = True"
| "is_read (K8sList _) = True"
| "is_read _ = False"

subsection \<open>Go maps\<close>

text \<open>
  A Go map with string keys is an association list with distinct keys; a lookup is
  \<^const>\<open>map_of\<close> and a store is \<^const>\<open>AList.update\<close>.  The order in which
  \<^verbatim>\<open>range\<close> visits the entries is not specified: it is any permutation, chosen by the
  environment.  \<open>shuffle ks\<close> takes at each step the element whose index is the next
  number of \<open>ks\<close>, so each \<open>ks\<close> gives a permutation and each permutation is given by
  some \<open>ks\<close>.
\<close>

type_synonym 'v gomap = "(string \<times> 'v) list"

fun shuffle :: "nat list \<Rightarrow> 'a list \<Rightarrow> 'a list" where
  "shuffle [] xs = xs"
| "shuffle (k # ks) xs =
     (if xs = [] then []
      else let i = k mod length xs in xs ! i # shuffle ks (take i xs @ drop (Suc i) xs))"

definition range_map :: "env \<Rightarrow> 'a list \<Rightarrow> 'a list go" where
  "range_map E m = ask (\<lambda>h. shuffle (map_shuffle E h) m)"

lemma run_range_map [run]: "range_map E m h = (Return (shuffle (map_shuffle E h) m), h)"
  by (simp add: range_map_def run)

lemma emits_range_map [emits_intro]: "emits P (range_map E m)"
  by (simp add: range_map_def emits_ask)

lemma mset_remove_nth: "i < length xs \<Longrightarrow> mset (take i xs @ drop (Suc i) xs) = mset xs - {#xs ! i#}"
proof -
  assume "i < length xs"
  then have "mset xs = mset (take i xs @ xs ! i # drop (Suc i) xs)"
    by (rule arg_cong [OF id_take_nth_drop])
  then have "mset xs = add_mset (xs ! i) (mset (take i xs @ drop (Suc i) xs))"
    unfolding mset_append mset.simps by simp
  then show ?thesis by (metis add_mset_remove_trivial)
qed

lemma mset_shuffle [simp]: "mset (shuffle ks xs) = mset xs"
proof (induction ks xs rule: shuffle.induct)
  case (1 xs)
  then show ?case by simp
next
  case (2 k ks xs)
  show ?case
  proof (cases "xs = []")
    case True
    then show ?thesis by simp
  next
    case False
    define i where "i = k mod length xs"
    have i: "i < length xs" using False by (simp add: i_def)
    have "mset (shuffle ks (take i xs @ drop (Suc i) xs)) = mset (take i xs @ drop (Suc i) xs)"
      using "2" False i_def by blast
    also have "\<dots> = mset xs - {#xs ! i#}" using i by (rule mset_remove_nth)
    finally show ?thesis using False i by (simp add: Let_def flip: i_def)
  qed
qed

lemma set_shuffle [simp]: "set (shuffle ks xs) = set xs"
  by (metis mset_shuffle set_mset_mset)

lemma length_shuffle [simp]: "length (shuffle ks xs) = length xs"
  by (metis mset_shuffle size_mset)

lemma shuffle_complete: "mset ys = mset xs \<Longrightarrow> \<exists>ks. shuffle ks xs = ys"
proof (induction ys arbitrary: xs)
  case Nil
  then show ?case by (intro exI [of _ "[]"]) simp
next
  case (Cons y ys)
  then have "y \<in> set xs" by (metis list.set_intros(1) set_mset_mset)
  then obtain i where i: "i < length xs" "xs ! i = y" by (auto simp: in_set_conv_nth)
  have "mset ys = mset (take i xs @ drop (Suc i) xs)"
    using mset_remove_nth [OF i(1)] i(2) Cons.prems by (metis add_mset_remove_trivial mset.simps(2))
  then obtain ks where ks: "shuffle ks (take i xs @ drop (Suc i) xs) = ys"
    using Cons.IH by blast
  have "shuffle (i # ks) xs = y # ys"
    using i ks by (cases "xs = []") (auto simp: Let_def)
  then show ?case by blast
qed

subsection \<open>A silent environment\<close>

text \<open>
  An environment in which every call fails; the environments of witnesses override the
  fields they need.
\<close>

abbreviation down :: error where
  "down \<equiv> Err ''connection refused''"

definition null_env :: env where
  "null_env =
     \<lparr> lib = ref_libs,
       sql_open = (\<lambda>_ _ _. Inl down), sql_query = (\<lambda>_ _ _ _. Inl down),
       sql_exec = (\<lambda>_ _ _ _. Some down), sql_close = (\<lambda>_ _. None),
       fs_exists = (\<lambda>_ _. False), fs_write = (\<lambda>_ _ _. None),
       time_now = (\<lambda>_. 0), gen_password = (\<lambda>_. Inl down), map_shuffle = (\<lambda>_. []),
       get_DbServers = (\<lambda>_. Inl down), get_DbServer_cr = (\<lambda>_ _. Inl down),
       get_Db_cr = (\<lambda>_ _. Inl down), get_Schema_cr = (\<lambda>_ _. Inl down),
       get_User_cr = (\<lambda>_ _. Inl down), get_BackupTarget_cr = (\<lambda>_ _. Inl down),
       get_RestoreTarget_cr = (\<lambda>_ _. Inl down), get_S3Storage_cr = (\<lambda>_ _. Inl down),
       get_BackupJob_cr = (\<lambda>_ _. Inl down),
       get_BackupCronJob_cr = (\<lambda>_ _. Inl down),
       get_RestoreJob_cr = (\<lambda>_ _. Inl down),
       get_RestoreCronJob_cr = (\<lambda>_ _. Inl down),
       get_DbCopyJob_cr = (\<lambda>_ _. Inl down),
       get_DbCopyCronJob_cr = (\<lambda>_ _. Inl down),
       get_CockroachDBBackupJob_cr = (\<lambda>_ _. Inl down),
       get_CockroachDBBackupCronJob_cr = (\<lambda>_ _. Inl down),
       get_Secret = (\<lambda>_ _. Inl down), get_ConfigMap = (\<lambda>_ _. Inl down),
       list_Jobs = (\<lambda>_. Inl down), list_CronJobs = (\<lambda>_. Inl down),
       k8s_create = (\<lambda>_ _. Some down), k8s_update = (\<lambda>_ _. Inl down),
       k8s_status_update = (\<lambda>_ _. Inl down), k8s_delete = (\<lambda>_ _ _. Some down) \<rparr>"

lemma lib_null_env [simp]: "lib null_env = ref_libs"
  by (simp add: null_env_def)

end
