(* ===== verification/Shared.thy ===== *)
theory Shared
  imports Env Complex_Main
begin

section \<open>Package shared: errors, back-off, result sets, the connection store\<close>

text \<open>
  \<^verbatim>\<open>shared/shared.go\<close>, \<^verbatim>\<open>connection_store.go\<close>, \<^verbatim>\<open>db_side.go\<close>, \<^verbatim>\<open>credentials.go\<close>
  and \<^verbatim>\<open>bucket_storage_info.go\<close>.  Log output is not modelled.
\<close>

subsection \<open>Errors\<close>

definition NewAlreadyHandledError :: "error \<Rightarrow> error" where
  "NewAlreadyHandledError err = AlreadyHandledError err"

definition IsCannotFindError :: "error \<Rightarrow> bool" where
  "IsCannotFindError err = (case err of StatusError reason _ \<Rightarrow> reason = ''NotFound'' | _ \<Rightarrow> False)"

definition CannotFindError :: "error \<Rightarrow> bool" where
  "CannotFindError err = (if IsCannotFindError err then True else False)"

definition AlreadyExistsError :: "error \<Rightarrow> bool" where
  "AlreadyExistsError err = (case err of StatusError reason _ \<Rightarrow> reason = ''AlreadyExists'' | _ \<Rightarrow> False)"

definition IsHandledErr :: "error \<Rightarrow> bool" where
  "IsHandledErr err = (case err of AlreadyHandledError _ \<Rightarrow> True | _ \<Rightarrow> False)"

subsection \<open>Strings, volumes and options\<close>

definition Nvl :: "string \<Rightarrow> string \<Rightarrow> string" where
  "Nvl val1 val2 = (if length val1 = 0 then val2 else val1)"

definition SCRIPTS_CONFIGMAP :: string where
  "SCRIPTS_CONFIGMAP = ''db-operator-scripts''"

definition SCRIPTS_VOLUME_NAME :: string where
  "SCRIPTS_VOLUME_NAME = ''scripts''"

definition BACKUP_VOLUME_NAME :: string where
  "BACKUP_VOLUME_NAME = ''backups''"

definition VOLUME_MOUNTS :: "VolumeMount list" where
  "VOLUME_MOUNTS =
     [\<lparr>vm_Name = SCRIPTS_VOLUME_NAME, vm_MountPath = ''/'' @ SCRIPTS_VOLUME_NAME\<rparr>,
      \<lparr>vm_Name = BACKUP_VOLUME_NAME, vm_MountPath = ''/'' @ BACKUP_VOLUME_NAME\<rparr>]"

definition GetVolumes :: "Volume list" where
  "GetVolumes =
     [\<lparr>vol_Name = SCRIPTS_VOLUME_NAME, vol_Source = ConfigMapVolume SCRIPTS_CONFIGMAP 511\<rparr>,
      \<lparr>vol_Name = BACKUP_VOLUME_NAME, vol_Source = EmptyDirVolume\<rparr>]"

definition is_alnum :: "char \<Rightarrow> bool" where
  "is_alnum c = (let n = of_char c :: nat in
     (65 \<le> n \<and> n \<le> 90) \<or> (97 \<le> n \<and> n \<le> 122) \<or> (48 \<le> n \<and> n \<le> 57))"

text \<open>
  \<^verbatim>\<open>[^A-Za-z0-9]+\<close> replaced by a dash: every maximal run of other bytes becomes one
  dash; \<open>in_run\<close> says whether the byte before belongs to a run already replaced.
\<close>

fun replace_runs :: "bool \<Rightarrow> string \<Rightarrow> string" where
  "replace_runs in_run [] = []"
| "replace_runs in_run (c # cs) =
     (if is_alnum c then c # replace_runs False cs
      else if in_run then replace_runs True cs
      else CHR ''-'' # replace_runs True cs)"

definition ReplaceNonAllowedChars :: "string \<Rightarrow> string" where
  "ReplaceNonAllowedChars input = replace_runs False input"

definition IsAllowedVariable :: "string \<Rightarrow> string list \<Rightarrow> bool \<Rightarrow> bool" where
  "IsAllowedVariable name allowedOptions caseSensitive =
     list_ex (\<lambda>option. if caseSensitive then name = option else ToLower name = ToLower option)
       allowedOptions"

subsection \<open>Result sets\<close>

text \<open>
  \<^verbatim>\<open>rows.Scan\<close> into one \<^verbatim>\<open>interface{}\<close> per column: it fails only when the number of
  destinations is not the number of columns of the row.
\<close>

definition scan_any :: "nat \<Rightarrow> gval list \<Rightarrow> error + gval list" where
  "scan_any n row = (if length row = n then Inr row else Inl (Err (''sql: expected '' @ Itoa (int (length row)) @ '' destination arguments in Scan, not '' @ Itoa (int n))))"

fun row_maps :: "string list \<Rightarrow> gval list list \<Rightarrow> error + gval gomap list" where
  "row_maps cols [] = Inr []"
| "row_maps cols (row # rest) =
     (case scan_any (length cols) row of Inl err \<Rightarrow> Inl err
      | Inr columns \<Rightarrow>
          (case row_maps cols rest of Inl err \<Rightarrow> Inl err
           | Inr ms \<Rightarrow> Inr (fold (\<lambda>(colName, val) m. AList.update colName val m) (zip cols columns) [] # ms)))"

definition SelectToArrayMap :: "env \<Rightarrow> conn \<Rightarrow> string \<Rightarrow> gval list \<Rightarrow> (error + gval gomap list) go" where
  "SelectToArrayMap E conn query args =
     try_io (Query E conn query args) (\<lambda>err. ret (Inl err)) (\<lambda>rows.
       case row_cols rows of Inl err \<Rightarrow> ret (Inl err)
       | Inr cols \<Rightarrow> ret (row_maps cols (row_data rows)))"

text \<open>The last column with the given name, as the loop leaves it.\<close>

fun last_col :: "string \<Rightarrow> string list \<Rightarrow> nat \<Rightarrow> nat option \<Rightarrow> nat option" where
  "last_col key [] i found = found"
| "last_col key (c # cs) i found = last_col key cs (Suc i) (if c = key then Some i else found)"

fun property_rows :: "nat \<Rightarrow> nat \<Rightarrow> nat \<Rightarrow> gval list list \<Rightarrow> gval gomap \<Rightarrow> (error + gval gomap) outcome" where
  "property_rows n keyCol valCol [] m = Return (Inr m)"
| "property_rows n keyCol valCol (row # rest) m =
     (case scan_any n row of Inl err \<Rightarrow> Return (Inl err)
      | Inr columns \<Rightarrow>
          (case columns ! keyCol of
             GStr keyVal \<Rightarrow> property_rows n keyCol valCol rest (AList.update keyVal (columns ! valCol) m)
           | _ \<Rightarrow> Panic ''interface conversion''))"

definition SelectToPropertyMap :: "env \<Rightarrow> conn \<Rightarrow> string \<Rightarrow> string \<Rightarrow> string \<Rightarrow> gval list \<Rightarrow> (error + gval gomap) go" where
  "SelectToPropertyMap E conn query key val args =
     try_io (Query E conn query args) (\<lambda>err. ret (Inl err)) (\<lambda>rows.
       case row_cols rows of Inl err \<Rightarrow> ret (Inl err)
       | Inr cols \<Rightarrow>
           (case last_col key cols 0 None of
              None \<Rightarrow> ret (Inl (Err (''KeyColumn not found '' @ key)))
            | Some keyCol \<Rightarrow>
                (case last_col val cols 0 None of
                   None \<Rightarrow> ret (Inl (Err (''ValueColumn not found '' @ val)))
                 | Some valCol \<Rightarrow> lift_io (property_rows (length cols) keyCol valCol (row_data rows) []))))"

subsection \<open>Back-off\<close>

record Result =
  Requeue :: bool
  RequeueAfter :: int

text \<open>The zero value \<^verbatim>\<open>ctrl.Result{}\<close>\<close>

abbreviation no_result :: Result where
  "no_result \<equiv> \<lparr>Requeue = False, RequeueAfter = 0\<rparr>"

text \<open>
  \<^verbatim>\<open>float64\<close> seconds are rationals here: below the 300 seconds that \<^verbatim>\<open>Min\<close> lets
  through, a nanosecond count divided by \<open>10 ^ 9\<close> is so far from the next integer that the
  rounding of \<^verbatim>\<open>float64\<close> cannot change its integral part.
\<close>

definition Min_f :: "rat \<Rightarrow> rat \<Rightarrow> rat" where
  "Min_f a b = (if a < b then a else b)"

definition Max_f :: "rat \<Rightarrow> rat \<Rightarrow> rat" where
  "Max_f a b = (if a > b then a else b)"

text \<open>\<^verbatim>\<open>time.Time.Sub\<close> saturates at the range of a 64-bit duration.\<close>

definition time_Sub :: "int \<Rightarrow> int \<Rightarrow> int" where
  "time_Sub t u = max (- (2 ^ 63)) (min (2 ^ 63 - 1) (t - u))"

definition Seconds :: "int \<Rightarrow> rat" where
  "Seconds d = of_int d / 1000000000"

text \<open>\<^verbatim>\<open>time.Duration(secs) * time.Second\<close>: the conversion truncates towards zero.\<close>

definition RetryAfter :: "rat \<Rightarrow> Result" where
  "RetryAfter secs =
     \<lparr>Requeue = True, RequeueAfter = (if 0 \<le> secs then \<lfloor>secs\<rfloor> else \<lceil>secs\<rceil>) * 1000000000\<rparr>"

definition GradualBackoffRetry :: "env \<Rightarrow> int \<Rightarrow> Result go" where
  "GradualBackoffRetry E creationTime =
     bind_io (ask (time_now E)) (\<lambda>now.
       ret (RetryAfter (Max_f (Min_f (Seconds (time_Sub now creationTime)) 300) 1)))"

subsection \<open>Connections\<close>

record Credentials =
  cr_UserName :: string
  cr_Password :: "string option"
  cr_CaCert :: "string option"
  cr_TlsCrt :: "string option"
  cr_TlsKey :: "string option"
  cr_SourceSecret :: "NamespacedName option"

record DbServerConnectInfo =
  ci_Host :: string
  ci_Port :: int
  ci_Credentials :: Credentials
  ci_Database :: string
  ci_Options :: "(string \<times> string) list"

record DbSideUser =
  su_UserName :: string
  su_Attributes :: string

record DbSideDb =
  sd_DatbaseName :: string

record DbSideSchema =
  ss_SchemaName :: string

record ConnectionKey =
  ck_DbName :: string
  ck_UserName :: string

text \<open>
  The map of open connections is \<^term>\<open>None\<close> while it is nil.  The interface
  \<^verbatim>\<open>Connector\<close> that the store embeds is implemented by structs without fields; its
  method \<^verbatim>\<open>Connect\<close> is an argument of the operations that call it.
\<close>

record ConnectionsStore =
  cs_ServerConnInfo :: DbServerConnectInfo
  cs_UserCredentials :: "Credentials option gomap"
  cs_connections :: "(ConnectionKey \<times> conn) list option"

type_synonym Connector = "DbServerConnectInfo \<Rightarrow> Credentials option \<Rightarrow> string option \<Rightarrow> (error + conn) go"

definition NewConnectionKey :: "string option \<Rightarrow> string option \<Rightarrow> ConnectionKey" where
  "NewConnectionKey userName databaseName =
     \<lparr>ck_DbName = (case databaseName of None \<Rightarrow> '''' | Some d \<Rightarrow> d),
      ck_UserName = (case userName of None \<Rightarrow> '''' | Some u \<Rightarrow> u)\<rparr>"

text \<open>A read of a nil map finds nothing.\<close>

definition open_conns :: "ConnectionsStore \<Rightarrow> (ConnectionKey \<times> conn) list" where
  "open_conns c = (case cs_connections c of None \<Rightarrow> [] | Some m \<Rightarrow> m)"

definition store_creds :: "ConnectionsStore \<Rightarrow> string option \<Rightarrow> error + Credentials option" where
  "store_creds c userName =
     (case userName of
        None \<Rightarrow> Inr (Some (ci_Credentials (cs_ServerConnInfo c)))
      | Some u \<Rightarrow>
          (case map_of (cs_UserCredentials c) u of
             None \<Rightarrow> Inl (Err (''Credentials for '' @ [CHR 0x27] @ u @ [CHR 0x27] @ '' not found while constructing database connection''))
           | Some creds \<Rightarrow> Inr creds))"

definition GetDbConnection :: "Connector \<Rightarrow> ConnectionsStore \<Rightarrow> string option \<Rightarrow> string option \<Rightarrow> (ConnectionsStore \<times> (error + conn)) go" where
  "GetDbConnection Connect c userName databaseName =
     (let connectionKey = NewConnectionKey userName databaseName in
      case map_of (open_conns c) connectionKey of
        Some conn \<Rightarrow> ret (c, Inr conn)
      | None \<Rightarrow>
          (case store_creds c userName of
             Inl err \<Rightarrow> ret (c, Inl err)
           | Inr creds \<Rightarrow>
               try_io (Connect (cs_ServerConnInfo c) creds databaseName)
                 (\<lambda>err. ret (c, Inl err))
                 (\<lambda>conn. ret (c\<lparr>cs_connections := Some (AList.update connectionKey conn (open_conns c))\<rparr>, Inr conn))))"

definition Close_store :: "env \<Rightarrow> ConnectionsStore \<Rightarrow> (ConnectionsStore \<times> error option) go" where
  "Close_store E c =
     bind_io (range_map E (open_conns c)) (\<lambda>entries.
       bind_io (for_io entries
                  (\<lambda>(_, conn) _. check_io (Close_conn E conn) (\<lambda>err. ret (Inl (c, Some err))) (ret (Inr ()))) ())
         (\<lambda>r. case r of Inl out \<Rightarrow> ret out | Inr _ \<Rightarrow> ret (c\<lparr>cs_connections := None\<rparr>, None)))"

text \<open>The method of a store as a value, as \<^verbatim>\<open>p.GetDbConnection\<close> is passed around.\<close>

type_synonym ConnectionGetter =
  "ConnectionsStore \<Rightarrow> string option \<Rightarrow> string option \<Rightarrow> (ConnectionsStore \<times> (error + conn)) go"

text \<open>
  The structs \<^verbatim>\<open>PostgresConnection\<close> and \<^verbatim>\<open>MySqlConnection\<close> both embed a store and
  have a flavor.  Their methods get a connection from the store first; they give back the
  connection object (its store may hold one more connection) with their result.
  \<open>on_conn\<close> is that first step, with \<open>fail\<close> the result of the early return.
\<close>

record SqlConnection =
  pc_store :: ConnectionsStore
  pc_Flavor :: string

definition on_conn :: "Connector \<Rightarrow> SqlConnection \<Rightarrow> string option \<Rightarrow> string option \<Rightarrow> (error \<Rightarrow> 'a)
    \<Rightarrow> (SqlConnection \<Rightarrow> conn \<Rightarrow> (SqlConnection \<times> 'a) go) \<Rightarrow> (SqlConnection \<times> 'a) go" where
  "on_conn Connect p userName databaseName fail k =
     bind_io (GetDbConnection Connect (pc_store p) userName databaseName) (\<lambda>(st, r).
       case r of Inl err \<Rightarrow> ret (p\<lparr>pc_store := st\<rparr>, fail err) | Inr conn \<Rightarrow> k (p\<lparr>pc_store := st\<rparr>) conn)"

definition keep :: "'p \<Rightarrow> 'a go \<Rightarrow> ('p \<times> 'a) go" where
  "keep p m = bind_io m (\<lambda>r. ret (p, r))"

text \<open>
  Steps that give back the object and an error: the rest runs only when there was none.
\<close>

definition and_then :: "('p \<times> error option) go \<Rightarrow> ('p \<Rightarrow> ('p \<times> error option) go) \<Rightarrow> ('p \<times> error option) go" where
  "and_then m k = bind_io m (\<lambda>(p, e). case e of Some err \<Rightarrow> ret (p, Some err) | None \<Rightarrow> k p)"

lemma emits_keep [emits_intro]: "emits P m \<Longrightarrow> emits P (keep p m)"
  by (simp add: keep_def emits_bind emits_ret)

lemma emits_and_then [emits_intro]: "emits P m \<Longrightarrow> (\<And>p. emits P (k p)) \<Longrightarrow> emits P (and_then m k)"
  unfolding and_then_def by (rule emits_bind) (auto intro!: emits_intro)

lemma run_keep [run]: "keep p m h = (case m h of (Return x, h') \<Rightarrow> (Return (p, x), h') | (Panic s, h') \<Rightarrow> (Panic s, h'))"
  by (simp add: keep_def run split: prod.split outcome.split)

subsection \<open>Bucket storage\<close>

record BucketStorageInfo =
  bi_StorageTypeName :: string
  bi_BucketName :: string
  bi_Prefix :: string
  bi_Region :: string
  bi_KeyName :: string
  bi_K8sSecret :: string
  bi_K8sSecretKey :: string
  bi_AssumeRoleName :: string
  bi_Endpoint :: string
  bi_Namespace :: string

definition GetBucketSecret :: "env \<Rightarrow> BucketStorageInfo \<Rightarrow> (error + string) go" where
  "GetBucketSecret E bi =
     (if 0 < length (bi_KeyName bi) then
        try_io (GetSecret E \<lparr>nn_Namespace = bi_Namespace bi, nn_Name = bi_K8sSecret bi\<rparr>)
          (\<lambda>err. ret (Inl err))
          (\<lambda>secret. case map_of (sec_Data secret) (bi_K8sSecretKey bi) of
             None \<Rightarrow> ret (Inl (Err (''Unabled to find key '' @ bi_K8sSecretKey bi @ '' in secret '' @ bi_K8sSecret bi)))
           | Some byts \<Rightarrow> ret (Inr byts))
      else ret (Inr ''''))"

subsection \<open>Properties of the helpers\<close>

lemma CannotFindError_iff [simp]: "CannotFindError err \<longleftrightarrow> IsCannotFindError err"
  by (simp add: CannotFindError_def)

lemma emits_GetBucketSecret [emits_intro]:
  "(\<And>n. P (K8sGet K_Secret n)) \<Longrightarrow> emits P (GetBucketSecret E bi)"
  by (auto simp: GetBucketSecret_def intro!: emits_intro)

lemma row_maps_Inr_length: "row_maps cols rs = Inr ms \<Longrightarrow> length ms = length rs"
  by (induction rs arbitrary: ms) (auto split: sum.splits)

lemma replace_runs_chars: "c \<in> set (replace_runs b s) \<Longrightarrow> is_alnum c \<or> c = CHR ''-''"
  by (induction b s rule: replace_runs.induct) (auto split: if_splits)

lemma replace_runs_idem_alnum: "list_all is_alnum s \<Longrightarrow> replace_runs b s = s"
  by (induction b s rule: replace_runs.induct) auto

subsection \<open>The back-off\<close>

lemma backoff_seconds:
  "Max_f (Min_f (Seconds (time_Sub now t)) 300) 1 =
     Max_f (Min_f (Seconds (now - t)) 300) 1"
proof -
  consider "time_Sub now t = now - t" | "now - t > 2 ^ 63 - 1" | "now - t < - (2 ^ 63)"
    unfolding time_Sub_def by linarith
  then show ?thesis
  proof cases
    case 1
    then show ?thesis by simp
  next
    case 2
    then have s: "time_Sub now t = 2 ^ 63 - 1" by (simp add: time_Sub_def)
    have "(300000000000 :: int) \<le> now - t" using 2 by simp
    then have "of_int 300000000000 \<le> (of_int (now - t) :: rat)" by (simp only: of_int_le_iff)
    then have "\<not> Seconds (now - t) < 300" by (simp add: Seconds_def field_simps)
    moreover have "\<not> Seconds (time_Sub now t) < 300" by (simp add: s Seconds_def)
    ultimately show ?thesis by (simp add: Min_f_def)
  next
    case 3
    then have s: "time_Sub now t = - (2 ^ 63)" by (simp add: time_Sub_def)
    have "of_int (now - t) < (0 :: rat)" using 3 by simp
    then have "Seconds (now - t) < 0" by (simp add: Seconds_def)
    moreover have "Seconds (time_Sub now t) < 0" by (simp add: s Seconds_def)
    ultimately show ?thesis by (auto simp: Min_f_def Max_f_def)
  qed
qed

lemma floor_Seconds: "\<lfloor>Seconds d\<rfloor> = d div 1000000000"
  using floor_divide_of_int_eq [of d 1000000000, where 'a = rat] by (simp add: Seconds_def)

lemma backoff_floor:
  "\<lfloor>Max_f (Min_f (Seconds d) 300) 1\<rfloor> = max 1 (min 300 (d div 1000000000))"
proof (cases "Seconds d < 300")
  case True
  then have "\<lfloor>Seconds d\<rfloor> < 300" by (simp add: floor_less_iff)
  then have lt: "d div 1000000000 < 300" by (simp add: floor_Seconds)
  show ?thesis
  proof (cases "1 < Seconds d")
    case True': True
    then have "1 \<le> \<lfloor>Seconds d\<rfloor>" by (simp add: le_floor_iff)
    with True True' lt show ?thesis by (simp add: Min_f_def Max_f_def floor_Seconds)
  next
    case False
    then have "\<lfloor>Seconds d\<rfloor> \<le> 1" by linarith
    with True False lt show ?thesis by (simp add: Min_f_def Max_f_def floor_Seconds)
  qed
next
  case False
  then have "300 \<le> \<lfloor>Seconds d\<rfloor>" by (simp add: le_floor_iff)
  with False show ?thesis by (simp add: Min_f_def Max_f_def floor_Seconds)
qed

lemma backoff_nonneg: "0 \<le> Max_f (Min_f s 300) 1"
  by (simp add: Max_f_def)

definition backoff_result :: "env \<Rightarrow> int \<Rightarrow> hist \<Rightarrow> Result" where
  "backoff_result E t h =
     \<lparr>Requeue = True,
      RequeueAfter = max 1 (min 300 ((time_now E h - t) div 1000000000)) * 1000000000\<rparr>"

lemma run_backoff [run]: "GradualBackoffRetry E t h = (Return (backoff_result E t h), h)"
  by (simp add: GradualBackoffRetry_def run RetryAfter_def backoff_seconds backoff_floor backoff_nonneg
      backoff_result_def)

lemma backoff_Requeue [simp]: "Requeue (backoff_result E t h)"
  by (simp add: backoff_result_def)

lemma emits_backoff [emits_intro]: "emits P (GradualBackoffRetry E t)"
  by (simp add: GradualBackoffRetry_def emits_intro)

text \<open>For every age of an object the back-off asks for a requeue after the whole seconds of that
  age, but never before one second and never after 300, and the wait is a whole number of
  seconds; computing it calls nothing outside.\<close>

theorem GradualBackoffRetry_exact:
  "GradualBackoffRetry E t h =
     (Return \<lparr>Requeue = True,
       RequeueAfter = max 1 (min 300 ((time_now E h - t) div 1000000000)) * 1000000000\<rparr>, h)"
  by (simp add: run_backoff backoff_result_def)

subsection \<open>The connection store\<close>

text \<open>
  What the store relies on of a connector: connecting opens connections and may write
  certificate files, and does nothing else.  The store keeps its own invariant for any
  connector.
\<close>

fun is_open :: "event \<Rightarrow> bool" where
  "is_open (SqlOpen _ _) = True"
| "is_open (MkdirAll _) = True"
| "is_open (WriteFile _ _) = True"
| "is_open _ = False"

locale connector =
  fixes connect :: Connector
  assumes connect_opens: "emits is_open (connect info creds db)"
begin

lemma GetDbConnection_opens: "emits is_open (GetDbConnection connect c u d)"
  unfolding GetDbConnection_def Let_def
  by (intro emits_intro connect_opens)

lemma GetDbConnection_emits:
  assumes "\<And>ev. is_open ev \<Longrightarrow> P ev"
  shows "emits P (GetDbConnection connect c u d)"
  using GetDbConnection_opens assms by (rule emits_mono)

lemma on_conn_emits:
  assumes "\<And>ev. is_open ev \<Longrightarrow> P ev" and "\<And>st c. emits P (k (p\<lparr>pc_store := st\<rparr>) c)"
  shows "emits P (on_conn connect p u d fail k)"
  unfolding on_conn_def
  by (rule emits_bind [OF GetDbConnection_emits [OF assms(1)]]) (auto intro!: emits_intro assms(2))

end

text \<open>The parts of a store that no operation changes.\<close>

definition same_config :: "ConnectionsStore \<Rightarrow> ConnectionsStore \<Rightarrow> bool" where
  "same_config c c' \<longleftrightarrow> cs_ServerConnInfo c' = cs_ServerConnInfo c \<and>
     cs_UserCredentials c' = cs_UserCredentials c"

lemma same_config_refl [simp]: "same_config c c"
  by (simp add: same_config_def)

lemma same_config_upd [simp]: "same_config c (c\<lparr>cs_connections := m\<rparr>)"
  by (simp add: same_config_def)

lemma open_conns_upd [simp]: "open_conns (c\<lparr>cs_connections := Some m\<rparr>) = m"
  by (simp add: open_conns_def)

lemma open_conns_none [simp]: "open_conns (c\<lparr>cs_connections := None\<rparr>) = []"
  by (simp add: open_conns_def)

lemma GetDbConnection_hit:
  "map_of (open_conns c) (NewConnectionKey u d) = Some k \<Longrightarrow> GetDbConnection connect c u d h = (Return (c, Inr k), h)"
  by (simp add: GetDbConnection_def run)

lemma GetDbConnection_result:
  assumes "GetDbConnection connect c u d h = (Return (c', r), h')"
  shows "same_config c c'"
    and "r = Inr k \<Longrightarrow> map_of (open_conns c') = (map_of (open_conns c))(NewConnectionKey u d \<mapsto> k)"
    and "r = Inl e \<Longrightarrow> c' = c"
  using assms
  by (auto simp: GetDbConnection_def run Let_def update_conv' fun_upd_triv
      split: option.splits sum.splits prod.splits outcome.splits)

definition store_inv :: "ConnectionsStore \<Rightarrow> bool" where
  "store_inv c \<longleftrightarrow> distinct (map fst (open_conns c))"

lemma store_inv_GetDbConnection:
  "store_inv c \<Longrightarrow> GetDbConnection connect c u d h = (Return (c', r), h') \<Longrightarrow> store_inv c'"
  by (auto simp: store_inv_def GetDbConnection_def run Let_def distinct_update
      split: option.splits sum.splits prod.splits outcome.splits)

text \<open>Once a connection for a user and a database has been handed out, asking again for the same
  user and database gives the same connection, opens nothing and leaves the store as it is;
  and a successful request changes the stored connection of no other key.\<close>

theorem GetDbConnection_cached:
  assumes "GetDbConnection connect c u d h = (Return (c', Inr k), h')"
  shows "GetDbConnection connect c' u d g = (Return (c', Inr k), g) \<and>
    (\<forall>key. key \<noteq> NewConnectionKey u d \<longrightarrow> map_of (open_conns c') key = map_of (open_conns c) key)"
  using GetDbConnection_result(2) [OF assms refl] by (simp add: GetDbConnection_hit)

definition demo_store :: ConnectionsStore where
  "demo_store =
     \<lparr>cs_ServerConnInfo =
        \<lparr>ci_Host = ''h'', ci_Port = 5432,
         ci_Credentials = \<lparr>cr_UserName = ''root'', cr_Password = Some ''pw'', cr_CaCert = None, cr_TlsCrt = None,
                           cr_TlsKey = None, cr_SourceSecret = None\<rparr>,
         ci_Database = '''', ci_Options = []\<rparr>,
      cs_UserCredentials = [], cs_connections = None\<rparr>"

definition demo_connect :: Connector where
  "demo_connect info creds d = call (SqlOpen ''postgres'' ''host=h'') (\<lambda>_. Inr 7)"

lemma demo_store_conn:
  "GetDbConnection demo_connect demo_store None (Some ''app'') [] =
     (Return (demo_store\<lparr>cs_connections := Some [(NewConnectionKey None (Some ''app''), 7)]\<rparr>, Inr 7),
      [SqlOpen ''postgres'' ''host=h''])"
  by (simp add: GetDbConnection_def demo_store_def demo_connect_def open_conns_def store_creds_def run)

theorem GetDbConnection_cached_witness:
  "GetDbConnection demo_connect (demo_store\<lparr>cs_connections := Some [(NewConnectionKey None (Some ''app''), 7)]\<rparr>) None (Some ''app'') [] =
     (Return (demo_store\<lparr>cs_connections := Some [(NewConnectionKey None (Some ''app''), 7)]\<rparr>, Inr 7), [])"
  using GetDbConnection_cached [OF demo_store_conn] by blast

text \<open>When no close fails, closing the store closes every open connection exactly once, in
  some order, and leaves a store without connections.\<close>

theorem Close_store_closes_all:
  assumes "\<And>g k. sql_close E g k = None"
  shows "\<exists>ks. mset ks = mset (map snd (open_conns c)) \<and>
    Close_store E c h = (Return (c\<lparr>cs_connections := None\<rparr>, None), h @ map SqlClose ks)"
proof -
  let ?es = "shuffle (map_shuffle E h) (open_conns c)"
  have "for_io ?es (\<lambda>(_, conn) _. check_io (Close_conn E conn) (\<lambda>err. ret (Inl (c, Some err))) (ret (Inr ()))) () h
      = (Return (Inr ()), h @ map (\<lambda>x. SqlClose (snd x)) ?es)"
    by (rule for_io_emit_all) (auto simp: run assms split: prod.split)
  then have "Close_store E c h = (Return (c\<lparr>cs_connections := None\<rparr>, None), h @ map SqlClose (map snd ?es))"
    by (simp add: Close_store_def run comp_def)
  moreover have "mset (map snd ?es) = mset (map snd (open_conns c))"
    by simp
  ultimately show ?thesis by blast
qed

theorem Close_store_closes_all_witness:
  "\<exists>ks. mset ks = {#7, 8 :: conn#} \<and>
     Close_store null_env (demo_store\<lparr>cs_connections := Some [(NewConnectionKey None None, 7), (NewConnectionKey (Some ''u'') None, 8)]\<rparr>) [] =
       (Return (demo_store\<lparr>cs_connections := None\<rparr>, None), map SqlClose ks)"
  using Close_store_closes_all [of null_env "demo_store\<lparr>cs_connections := Some [(NewConnectionKey None None, 7), (NewConnectionKey (Some ''u'') None, 8)]\<rparr>" "[]"]
  by (simp add: null_env_def)

end
