(* ===== verification/QueryUtils.thy ===== *)
theory QueryUtils
  imports Shared
begin

section \<open>Package query\_utils: single values out of result sets\<close>

text \<open>
  \<^verbatim>\<open>dbservers/query_utils/query_utils.go\<close>.  The conversions are those of
  \<^verbatim>\<open>database/sql\<close>: \<open>as_string\<close> is its conversion of a driver value to a string, and
  the Scan methods of \<^verbatim>\<open>sql.NullString\<close>, \<^verbatim>\<open>NullInt32\<close>, \<^verbatim>\<open>NullInt64\<close> and
  \<^verbatim>\<open>NullBool\<close> answer \<open>Inr None\<close> for NULL.
\<close>

fun as_string :: "libs \<Rightarrow> gval \<Rightarrow> string" where
  "as_string L GNull = ''''"
| "as_string L (GStr s) = s"
| "as_string L (GBytes s) = s"
| "as_string L (GInt i) = Itoa i"
| "as_string L (GBool b) = (if b then ''true'' else ''false'')"
| "as_string L (GTime t) = time_RFC3339Nano L t"

definition scan_NullString :: "libs \<Rightarrow> gval list \<Rightarrow> unit + string option" where
  "scan_NullString L row =
     (case row of [v] \<Rightarrow> Inr (if v = GNull then None else Some (as_string L v)) | _ \<Rightarrow> Inl ())"

definition scan_NullInt :: "nat \<Rightarrow> libs \<Rightarrow> gval list \<Rightarrow> unit + int option" where
  "scan_NullInt bits L row =
     (case row of
        [v] \<Rightarrow> if v = GNull then Inr None
               else (case ParseInt bits (as_string L v) of None \<Rightarrow> Inl () | Some i \<Rightarrow> Inr (Some i))
      | _ \<Rightarrow> Inl ())"

definition ParseBool :: "string \<Rightarrow> bool option" where
  "ParseBool s =
     (if s \<in> {''1'', ''t'', ''T'', ''TRUE'', ''true'', ''True''} then Some True
      else if s \<in> {''0'', ''f'', ''F'', ''FALSE'', ''false'', ''False''} then Some False
      else None)"

definition scan_NullBool :: "gval list \<Rightarrow> unit + bool option" where
  "scan_NullBool row =
     (case row of
        [v] \<Rightarrow>
          (case v of
             GNull \<Rightarrow> Inr None
           | GBool b \<Rightarrow> Inr (Some b)
           | GStr s \<Rightarrow> (case ParseBool s of None \<Rightarrow> Inl () | Some b \<Rightarrow> Inr (Some b))
           | GBytes s \<Rightarrow> (case ParseBool s of None \<Rightarrow> Inl () | Some b \<Rightarrow> Inr (Some b))
           | GInt i \<Rightarrow> if i = 1 then Inr (Some True) else if i = 0 then Inr (Some False) else Inl ()
           | GTime _ \<Rightarrow> Inl ())
      | _ \<Rightarrow> Inl ())"

text \<open>Scanning into a plain \<^verbatim>\<open>string\<close>: NULL is an error.\<close>

definition scan_string :: "libs \<Rightarrow> gval \<Rightarrow> error + string" where
  "scan_string L v =
     (if v = GNull then Inl (Err ''sql: Scan error: converting NULL to string is unsupported'')
      else Inr (as_string L v))"

definition SelectFirstValueString :: "env \<Rightarrow> conn \<Rightarrow> string \<Rightarrow> gval list \<Rightarrow> (error + string) go" where
  "SelectFirstValueString E conn query args =
     try_io (Query E conn query args) (\<lambda>err. ret (Inl err)) (\<lambda>rows.
       ret (case row_data rows of
              [] \<Rightarrow> Inl (Err ''no rows returned'')
            | row # _ \<Rightarrow>
                (case scan_NullString (lib E) row of
                   Inl _ \<Rightarrow> Inl (Err ''unable to load string'')
                 | Inr None \<Rightarrow> Inl (Err ''got null, expected string'')
                 | Inr (Some s) \<Rightarrow> Inr s)))"

definition SelectFirstValueStringNullToEmpty :: "env \<Rightarrow> conn \<Rightarrow> string \<Rightarrow> gval list \<Rightarrow> (error + string) go" where
  "SelectFirstValueStringNullToEmpty E conn query args =
     try_io (Query E conn query args) (\<lambda>err. ret (Inl err)) (\<lambda>rows.
       ret (case row_data rows of
              [] \<Rightarrow> Inl (Err ''no rows returned'')
            | row # _ \<Rightarrow>
                (case scan_NullString (lib E) row of
                   Inl _ \<Rightarrow> Inl (Err ''unable to load string'')
                 | Inr None \<Rightarrow> Inr ''''
                 | Inr (Some s) \<Rightarrow> Inr s)))"

definition SelectFirstValueInt :: "env \<Rightarrow> conn \<Rightarrow> string \<Rightarrow> gval list \<Rightarrow> (error + int) go" where
  "SelectFirstValueInt E conn query args =
     try_io (Query E conn query args) (\<lambda>err. ret (Inl err)) (\<lambda>rows.
       ret (case row_data rows of
              [] \<Rightarrow> Inl (Err ''no rows returned'')
            | row # _ \<Rightarrow>
                (case scan_NullInt 32 (lib E) row of
                   Inl _ \<Rightarrow> Inl (Err ''unable to load int'')
                 | Inr None \<Rightarrow> Inl (Err ''got null, expected int'')
                 | Inr (Some i) \<Rightarrow> Inr i)))"

definition SelectFirstValueInt64 :: "env \<Rightarrow> conn \<Rightarrow> string \<Rightarrow> gval list \<Rightarrow> (error + int) go" where
  "SelectFirstValueInt64 E conn query args =
     try_io (Query E conn query args) (\<lambda>err. ret (Inl err)) (\<lambda>rows.
       ret (case row_data rows of
              [] \<Rightarrow> Inl (Err ''no rows returned'')
            | row # _ \<Rightarrow>
                (case scan_NullInt 64 (lib E) row of
                   Inl _ \<Rightarrow> Inl (Err ''unable to load int'')
                 | Inr None \<Rightarrow> Inl (Err ''got null, expected int'')
                 | Inr (Some i) \<Rightarrow> Inr i)))"

definition SelectFirstValueBool :: "env \<Rightarrow> conn \<Rightarrow> string \<Rightarrow> gval list \<Rightarrow> (error + bool) go" where
  "SelectFirstValueBool E conn query args =
     try_io (Query E conn query args) (\<lambda>err. ret (Inl err)) (\<lambda>rows.
       ret (case row_data rows of
              [] \<Rightarrow> Inl (Err ''no rows returned'')
            | row # _ \<Rightarrow>
                (case scan_NullBool row of
                   Inl _ \<Rightarrow> Inl (Err ''unable to load bool'')
                 | Inr None \<Rightarrow> Inl (Err ''got null, expected bool'')
                 | Inr (Some b) \<Rightarrow> Inr b)))"

fun string_rows :: "libs \<Rightarrow> gval list list \<Rightarrow> error + string list" where
  "string_rows L [] = Inr []"
| "string_rows L (row # rest) =
     (case scan_NullString L row of
        Inl _ \<Rightarrow> Inl (Err ''unable to load string'')
      | Inr None \<Rightarrow> Inl (Err ''got null, expected string'')
      | Inr (Some s) \<Rightarrow> (case string_rows L rest of Inl err \<Rightarrow> Inl err | Inr ss \<Rightarrow> Inr (s # ss)))"

definition SelectFirstValueStringSlice :: "env \<Rightarrow> conn \<Rightarrow> string \<Rightarrow> gval list \<Rightarrow> (error + string list) go" where
  "SelectFirstValueStringSlice E conn query args =
     try_io (Query E conn query args) (\<lambda>err. ret (Inl err)) (\<lambda>rows.
       ret (string_rows (lib E) (row_data rows)))"

text \<open>The result is empty when the start or, after it, the end is not found.\<close>

definition GetStringInBetween :: "string \<Rightarrow> string \<Rightarrow> string \<Rightarrow> string" where
  "GetStringInBetween str start end =
     (case Index str start of
        None \<Rightarrow> ''''
      | Some i \<Rightarrow>
          (let s = i + length start in
           case Index (drop s str) end of
             None \<Rightarrow> ''''
           | Some e \<Rightarrow> take e (drop s str)))"

lemmas select_defs =
  SelectFirstValueString_def SelectFirstValueStringNullToEmpty_def SelectFirstValueInt_def
  SelectFirstValueInt64_def SelectFirstValueBool_def SelectFirstValueStringSlice_def
  SelectToArrayMap_def SelectToPropertyMap_def

text \<open>All selectors read only: each issues exactly the one query it is given.\<close>

lemma emits_selects [emits_intro]:
  "P (SqlQuery c q args) \<Longrightarrow> emits P (SelectFirstValueString E c q args)"
  "P (SqlQuery c q args) \<Longrightarrow> emits P (SelectFirstValueStringNullToEmpty E c q args)"
  "P (SqlQuery c q args) \<Longrightarrow> emits P (SelectFirstValueInt E c q args)"
  "P (SqlQuery c q args) \<Longrightarrow> emits P (SelectFirstValueInt64 E c q args)"
  "P (SqlQuery c q args) \<Longrightarrow> emits P (SelectFirstValueBool E c q args)"
  "P (SqlQuery c q args) \<Longrightarrow> emits P (SelectFirstValueStringSlice E c q args)"
  "P (SqlQuery c q args) \<Longrightarrow> emits P (SelectToArrayMap E c q args)"
  "P (SqlQuery c q args) \<Longrightarrow> emits P (SelectToPropertyMap E c q key val args)"
  by (auto simp: select_defs intro!: emits_intro)

text \<open>What lies between the first start and the next end, and contains no end.\<close>

lemma GetStringInBetween_spec:
  assumes "GetStringInBetween str start end \<noteq> ''''"
  shows "\<exists>pre post. str = pre @ start @ GetStringInBetween str start end @ end @ post"
proof -
  from assms obtain i e where i: "Index str start = Some i"
    and e: "Index (drop (i + length start) str) end = Some e"
    by (auto simp: GetStringInBetween_def Let_def split: option.splits)
  then have r: "GetStringInBetween str start end = take e (drop (i + length start) str)"
    by (simp add: GetStringInBetween_def Let_def)
  have "str = take i str @ start @ drop (i + length start) str"
    using i by (rule Index_SomeD)
  moreover have "drop (i + length start) str = take e (drop (i + length start) str) @ end @
      drop (e + length end) (drop (i + length start) str)"
    using e by (rule Index_SomeD)
  ultimately show ?thesis unfolding r by metis
qed

end
