(* ===== verification/PgPrivs.thy ===== *)
theory PgPrivs
  imports QueryUtils
begin

section \<open>Package postgres: privileges\<close>

text \<open>
  \<^verbatim>\<open>dbservers/postgres/privileges.go\<close>, \<^verbatim>\<open>privs_reconciler.go\<close>, \<^verbatim>\<open>database_privs.go\<close>,
  \<^verbatim>\<open>schema_privs.go\<close>, \<^verbatim>\<open>table_privs.go\<close> and \<^verbatim>\<open>default_table_privs.go\<close>: the privilege
  lists of a User are parsed, checked against what the server knows, normalised, compared
  with what the server reports, and the difference is revoked and granted.

  A \<^verbatim>\<open>ConnectionGetter\<close> is the method \<^verbatim>\<open>GetDbConnection\<close> of a store, so it takes the
  store and gives it back with the connections it holds then.
\<close>

subsection \<open>Versions\<close>

record PostgresVersion =
  ProductName :: string
  VersionStr :: string
  Major :: int
  Minor :: int
  Patch :: int

type_synonym privsAdjuster = "conn \<Rightarrow> string \<Rightarrow> string \<Rightarrow> string list \<Rightarrow> error option go"
type_synonym privsGetter = "conn \<Rightarrow> string \<Rightarrow> string \<Rightarrow> (error + string list) go"

definition PostgreSQL :: string where
  "PostgreSQL = ''PostgreSQL''"

definition CockroachDB :: string where
  "CockroachDB = ''CockroachDB''"

text \<open>A lookup in a Go map gives the zero value, here the empty slice, for an absent key.\<close>

definition lookup0 :: "(string \<times> 'a list) list \<Rightarrow> string \<Rightarrow> 'a list" where
  "lookup0 m k = (case map_of m k of None \<Rightarrow> [] | Some v \<Rightarrow> v)"

definition GetValidPrivs :: "PostgresVersion \<Rightarrow> string \<Rightarrow> string list outcome" where
  "GetValidPrivs p privType =
     (if ProductName p = PostgreSQL then
        Return (lookup0
          [(''database'', [''CREATE'', ''CONNECT'', ''TEMPORARY'', ''TEMP'', ''ALL'']),
           (''table'', [''SELECT'', ''INSERT'', ''UPDATE'', ''DELETE'', ''TRUNCATE'', ''REFERENCES'', ''TRIGGER'', ''ALL'']),
           (''schema'', [''CREATE'', ''USAGE''])] privType)
      else if ProductName p = CockroachDB then
        Return (lookup0
          [(''database'', [''CREATE'', ''CONNECT'', ''BACKUP'', ''RESTORE'', ''ALL'']),
           (''table'', [''SELECT'', ''INSERT'', ''UPDATE'', ''DELETE'', ''TRUNCATE'', ''REFERENCES'', ''TRIGGER'', ''BACKUP'', ''ALL'']),
           (''schema'', [''CREATE'', ''USAGE''])] privType)
      else Panic (''Unknown product name '' @ ProductName p))"

definition StringNotEmpty :: "string \<Rightarrow> bool" where
  "StringNotEmpty input = (length input \<noteq> 0)"

fun Remove :: "string list \<Rightarrow> string \<Rightarrow> string list" where
  "Remove [] item = []"
| "Remove (v # arr) item = (if v \<noteq> item then v # Remove arr item else Remove arr item)"

definition FLAGS :: "string list" where
  "FLAGS = [''SUPERUSER'', ''CREATEROLE'', ''CREATEDB'', ''INHERIT'', ''LOGIN'', ''REPLICATION'']"

definition PRIV_TO_AUTHID_COLUMN :: "string gomap" where
  "PRIV_TO_AUTHID_COLUMN =
     [(''SUPERUSER'', ''rolsuper''), (''CREATEROLE'', ''rolcreaterole''), (''CREATEDB'', ''rolcreatedb''),
      (''INHERIT'', ''rolinherit''), (''LOGIN'', ''rolcanlogin''), (''REPLICATION'', ''rolreplication''),
      (''BYPASSRLS'', ''rolbypassrls'')]"

definition FLAGS_BY_VERSION :: "int gomap" where
  "FLAGS_BY_VERSION = [(''BYPASSRLS'', 90500)]"

definition DATABASE_PRIV_MAP :: "string gomap" where
  "DATABASE_PRIV_MAP = [(''C'', ''CREATE''), (''T'', ''TEMPORARY''), (''c'', ''CONNECT'')]"

text \<open>The map \<^verbatim>\<open>FLAGS_BY_VERSION\<close> has one entry, so the order of its range is no choice.\<close>

definition getFlagsForVersion :: "int \<Rightarrow> string list" where
  "getFlagsForVersion version =
     (let flags = FLAGS @ map fst (filter (\<lambda>(flag, version_for_flag). version \<ge> version_for_flag) FLAGS_BY_VERSION);
          toAdd = map (\<lambda>flag. ''NO'' @ flag) flags
      in flags @ toAdd)"

definition ParseRoleAttrs :: "libs \<Rightarrow> string \<Rightarrow> int \<Rightarrow> error + string list" where
  "ParseRoleAttrs L role_attr_flags version =
     (let flags = funk_Map L ToUpper (funk_FilterString L StringNotEmpty (Split role_attr_flags '',''));
          validFlags = getFlagsForVersion version
      in if \<not> funk_Subset L flags validFlags
         then Inl (Err (''invalid role_attr_flags specified: '' @ Join (funk_Subtract L flags validFlags) '',''))
         else Inr flags)"

definition NormalizePrivileges :: "libs \<Rightarrow> string list \<Rightarrow> string \<Rightarrow> PostgresVersion \<Rightarrow> string list outcome" where
  "NormalizePrivileges L privs privType serverVersion =
     bind_out
       (if funk_Contains L privs ''ALL'' then
          bind_out (GetValidPrivs serverVersion privType) (\<lambda>valid. Return (Remove (privs @ valid) ''ALL''))
        else Return privs)
       (\<lambda>newPrivs.
          Return (funk_UniqString L
            (if funk_Contains L newPrivs ''TEMP'' then Remove (newPrivs @ [''TEMPORARY'']) ''TEMP'' else newPrivs)))"

definition toPrivSet :: "libs \<Rightarrow> string \<Rightarrow> string list" where
  "toPrivSet L input =
     (let trimmedItems = funk_Map L TrimSpace (Split input '','')
      in funk_Map L ToUpper (funk_FilterString L StringNotEmpty trimmedItems))"

text \<open>
  \<^verbatim>\<open>ParsePrivs\<close> fills a map of maps; \<open>None\<close> is the nil map for the empty string.
  \<open>parse_token\<close> is the body of its loop.
\<close>

definition parse_token :: "libs \<Rightarrow> string \<Rightarrow> PostgresVersion \<Rightarrow> string \<Rightarrow> (error + string \<times> string \<times> string list) outcome" where
  "parse_token L db serverVersion token =
     (let (privType, name, privSet) =
        (if Contains token '':'' then
           (let elements = Split token '':'' in (''table'', elements ! 0, toPrivSet L (elements ! 1)))
         else if Contains db ''.'' then (''schema'', db, toPrivSet L token)
         else (''database'', db, toPrivSet L token))
      in bind_out (GetValidPrivs serverVersion privType) (\<lambda>valid.
           if \<not> funk_Subset L privSet valid
           then Return (Inl (Err (''invalid privs specified for '' @ privType @ '': '' @ Join (funk_Subtract L privSet valid) '' '')))
           else bind_out (NormalizePrivileges L privSet privType serverVersion) (\<lambda>privSet'.
                  Return (Inr (privType, name, privSet')))))"

fun parse_tokens :: "libs \<Rightarrow> string \<Rightarrow> PostgresVersion \<Rightarrow> string list \<Rightarrow> string list gomap gomap
    \<Rightarrow> (error + string list gomap gomap) outcome" where
  "parse_tokens L db serverVersion [] oPrivs = Return (Inr oPrivs)"
| "parse_tokens L db serverVersion (token # tokens) oPrivs =
     bind_out (parse_token L db serverVersion token) (\<lambda>r. case r of
        Inl err \<Rightarrow> Return (Inl err)
      | Inr (privType, name, privSet) \<Rightarrow>
          parse_tokens L db serverVersion tokens
            (AList.update privType (AList.update name privSet (lookup0 oPrivs privType)) oPrivs))"

definition ParsePrivs :: "libs \<Rightarrow> string \<Rightarrow> string \<Rightarrow> PostgresVersion \<Rightarrow> (error + string list gomap gomap option) outcome" where
  "ParsePrivs L privs db serverVersion =
     (if length privs = 0 then Return (Inr None)
      else bind_out (parse_tokens L db serverVersion (Split privs ''/'') [(''database'', []), (''table'', []), (''schema'', [])])
             (\<lambda>r. case r of Inl err \<Rightarrow> Return (Inl err) | Inr oPrivs \<Rightarrow> Return (Inr (Some oPrivs))))"

text \<open>An index past the end of a slice panics.\<close>

definition idx :: "'a list \<Rightarrow> nat \<Rightarrow> 'a outcome" where
  "idx xs i = (if i < length xs then Return (xs ! i) else Panic ''index out of range'')"

definition version_numbers :: "string \<Rightarrow> string \<Rightarrow> string list \<Rightarrow> (error + PostgresVersion) outcome" where
  "version_numbers productName versionStr versionParts =
     bind_out (idx versionParts 0) (\<lambda>p0. case Atoi p0 of
        None \<Rightarrow> Return (Inl (Err ''failed parsing major version''))
      | Some major \<Rightarrow>
          bind_out (idx versionParts 1) (\<lambda>p1. case Atoi p1 of
            None \<Rightarrow> Return (Inl (Err ''failed parsing minor version''))
          | Some minor \<Rightarrow>
              let v = \<lparr>ProductName = productName, VersionStr = versionStr, Major = major, Minor = minor, Patch = -1\<rparr> in
              if length versionParts > 2 then
                (case Atoi (versionParts ! 2) of
                   None \<Rightarrow> Return (Inl (Err ''failed parsing patch version''))
                 | Some patch \<Rightarrow> Return (Inr (v\<lparr>Patch := patch\<rparr>)))
              else Return (Inr v)))"

text \<open>\<^verbatim>\<open>versionStr[1:]\<close> panics on the empty string.\<close>

definition parseVersionString :: "string \<Rightarrow> (error + PostgresVersion) outcome" where
  "parseVersionString versionResult =
     (let parts = Split versionResult '' ''; productName = parts ! 0 in
      if productName = PostgreSQL then
        bind_out (idx parts 1) (\<lambda>versionStr. version_numbers productName versionStr (Split versionStr ''.''))
      else if productName = CockroachDB then
        bind_out (idx parts 2) (\<lambda>versionStr.
          if versionStr = '''' then Panic ''slice bounds out of range''
          else version_numbers productName versionStr (Split (drop 1 versionStr) ''.''))
      else Return (Inl (Err (''unexpected productname '' @ productName))))"

definition getServerVersion :: "env \<Rightarrow> conn \<Rightarrow> (error + PostgresVersion) go" where
  "getServerVersion E conn =
     try_io (SelectFirstValueString E conn ''SELECT version();'' []) (\<lambda>err. ret (Inl err)) (\<lambda>versionResult.
       lift_io (parseVersionString versionResult))"

definition GetDbNameFromScopeName :: "string \<Rightarrow> string" where
  "GetDbNameFromScopeName scopeName =
     (if Contains scopeName ''.'' then Split scopeName ''.'' ! 0 else scopeName)"

definition GetScopeAfterDb :: "string \<Rightarrow> error + string" where
  "GetScopeAfterDb scopeName =
     (let parts = Split scopeName ''.'' in
      if length parts \<noteq> 2
      then Inl (Err (''expected two parts in scope '' @ [CHR 0x27] @ scopeName @ [CHR 0x27] @ '' got '' @ Itoa (int (length parts))))
      else Inr (parts ! 1))"

subsection \<open>Reading schemas and databases\<close>

text \<open>\<^verbatim>\<open>rows.Scan\<close> into \<open>n\<close> variables of type string.\<close>

fun scan_all :: "libs \<Rightarrow> gval list \<Rightarrow> error + string list" where
  "scan_all L [] = Inr []"
| "scan_all L (v # vs) =
     (case scan_string L v of Inl err \<Rightarrow> Inl err
      | Inr s \<Rightarrow> (case scan_all L vs of Inl err \<Rightarrow> Inl err | Inr ss \<Rightarrow> Inr (s # ss)))"

definition scan_strings :: "libs \<Rightarrow> nat \<Rightarrow> gval list \<Rightarrow> error + string list" where
  "scan_strings L n row = (case scan_any n row of Inl err \<Rightarrow> Inl err | Inr vs \<Rightarrow> scan_all L vs)"

text \<open>The loop that scans one string per row and replaces every failure by \<open>err\<close>.\<close>

fun string_col :: "libs \<Rightarrow> error \<Rightarrow> gval list list \<Rightarrow> error + string list" where
  "string_col L err [] = Inr []"
| "string_col L err (row # rest) =
     (case scan_strings L 1 row of
        Inr [s] \<Rightarrow> (case string_col L err rest of Inl e \<Rightarrow> Inl e | Inr ss \<Rightarrow> Inr (s # ss))
      | _ \<Rightarrow> Inl err)"

definition GetSchemas :: "env \<Rightarrow> conn \<Rightarrow> (error + DbSideSchema gomap) go" where
  "GetSchemas E conn =
     try_io (Query E conn ''SELECT nspname FROM pg_catalog.pg_namespace WHERE nspname NOT IN ('crdb_internal', 'information_schema', 'pg_catalog', 'pg_extension', 'pg_toast');'' [])
       (\<lambda>err. ret (Inl err))
       (\<lambda>rows. ret (case string_col (lib E) (Err ''unable to load PostgresDb'') (row_data rows) of
           Inl err \<Rightarrow> Inl err
         | Inr names \<Rightarrow> Inr (fold (\<lambda>s m. AList.update s \<lparr>ss_SchemaName = s\<rparr> m) names [])))"

definition databases_query :: string where
  "databases_query = ''
		SELECT
			d.datname AS database_name
		FROM
			pg_database d
		CROSS JOIN
			pg_roles r
		WHERE
			d.datname NOT IN ('template0', 'template1', 'postgres')
			AND r.rolname = $1
			AND has_database_privilege(r.rolname, d.datname, 'CONNECT');
	''"

definition GetDatabasesUserHasAccessTo :: "env \<Rightarrow> conn \<Rightarrow> string \<Rightarrow> (error + string list) go" where
  "GetDatabasesUserHasAccessTo E conn userName =
     try_io (Query E conn databases_query [GStr userName]) (\<lambda>err. ret (Inl err)) (\<lambda>rows.
       ret (string_col (lib E) (Err ''unable to load PostgresDb'') (row_data rows)))"

subsection \<open>Database privileges\<close>

definition grantDatabasePrivileges :: "env \<Rightarrow> privsAdjuster" where
  "grantDatabasePrivileges E conn user db privs =
     (let privsStr = Join privs '', '';
          escapedDb = pq_QuoteIdentifier (lib E) db;
          escapedUser = pq_QuoteIdentifier (lib E) user
      in if user = ''PUBLIC''
         then Exec E conn (''GRANT '' @ privsStr @ '' ON DATABASE '' @ escapedDb @ '' TO PUBLIC'') []
         else Exec E conn (''GRANT '' @ privsStr @ '' ON DATABASE '' @ escapedDb @ '' TO '' @ escapedUser) [])"

definition revokeDatabasePrivileges :: "env \<Rightarrow> privsAdjuster" where
  "revokeDatabasePrivileges E conn user db privs =
     (let privsStr = Join privs '', '';
          escapedDb = pq_QuoteIdentifier (lib E) db;
          escapedUser = pq_QuoteIdentifier (lib E) user
      in if user = ''PUBLIC''
         then Exec E conn (''REVOKE '' @ privsStr @ '' ON DATABASE '' @ escapedDb @ '' FROM PUBLIC'') []
         else Exec E conn (''REVOKE '' @ privsStr @ '' ON DATABASE '' @ escapedDb @ '' FROM '' @ escapedUser) [])"

text \<open>\<^verbatim>\<open>rows.Scan\<close> into three strings and a bool, keeping the third.\<close>

fun crdb_grants :: "libs \<Rightarrow> gval list list \<Rightarrow> error + string list" where
  "crdb_grants L [] = Inr []"
| "crdb_grants L (row # rest) =
     (case scan_any 4 row of Inl err \<Rightarrow> Inl err
      | Inr vs \<Rightarrow>
          (case scan_all L (take 3 vs) of Inl err \<Rightarrow> Inl err
           | Inr ss \<Rightarrow>
               (case scan_NullBool (drop 3 vs) of
                  Inr (Some _) \<Rightarrow> (case crdb_grants L rest of Inl err \<Rightarrow> Inl err | Inr ps \<Rightarrow> Inr (ss ! 2 # ps))
                | _ \<Rightarrow> Inl (Err ''sql: Scan error: couldn't convert to bool''))))"

definition getDatabasePrivilegesCrdb :: "env \<Rightarrow> privsGetter" where
  "getDatabasePrivilegesCrdb E conn user db =
     (let quotedDb = pq_QuoteIdentifier (lib E) db; quotedUser = pq_QuoteIdentifier (lib E) user in
      try_io (Query E conn (''SHOW GRANTS ON DATABASE '' @ quotedDb @ '' FOR '' @ quotedUser @ '';'') [])
        (\<lambda>err. ret (Inl err))
        (\<lambda>rows. ret (crdb_grants (lib E) (row_data rows))))"

text \<open>
  The access control list is searched with a regular expression that starts with the name
  of the user, put into the pattern as it is.  A name without metacharacters stands for
  itself; the expression of any other name is what the parser makes of it.
\<close>

definition acl_tail :: re where
  "acl_tail =
     Then (Opt (Lit [CHR 0x5C])) (Then (Opt (Lit [CHR 0x22])) (Then (Lit ''='')
       (Then (Group (Then (Opt (Lit ''C'')) (Then (Opt (Lit ''T'')) (Opt (Lit ''c'')))))
         (Then (Lit ''/'') (Then (Rep 1 (NoneOf '','')) (Opt (Lit '','')))))))"

definition acl_pattern :: "string \<Rightarrow> string" where
  "acl_pattern user = user @ [CHR 0x5C, CHR 0x5C, CHR ''?'', CHR 0x22] @ ''?=(C?T?c?)/[^,]+,?''"

definition acl_re :: "libs \<Rightarrow> string \<Rightarrow> re option" where
  "acl_re L user =
     (if list_all (\<lambda>c. is_alnum c \<or> c \<in> {CHR ''_'', CHR ''-'', CHR ''@''}) user then Some (Then (Lit user) acl_tail)
      else regexp_compile L (acl_pattern user))"

definition getDatabasePrivilegesPg :: "env \<Rightarrow> privsGetter" where
  "getDatabasePrivilegesPg E conn user db =
     try_io (SelectFirstValueStringNullToEmpty E conn ''SELECT datacl FROM pg_database WHERE datname = $1'' [GStr db])
       (\<lambda>err. ret (Inl (Err (''unable to read databasePrivs '' @ error_msg err))))
       (\<lambda>datacl. case acl_re (lib E) user of
          None \<Rightarrow> panic ''regexp: Compile''
        | Some re \<Rightarrow>
            let returnArray = (case FindSubmatch re datacl of
                  None \<Rightarrow> []
                | Some submatches \<Rightarrow> map (\<lambda>chr. case map_of DATABASE_PRIV_MAP [chr] of None \<Rightarrow> '''' | Some p \<Rightarrow> p) (submatches ! 1))
            in try_io (getServerVersion E conn) (\<lambda>err. ret (Inl err)) (\<lambda>serverVersion.
                 bind_io (lift_io (NormalizePrivileges (lib E) returnArray ''database'' serverVersion)) (\<lambda>ps. ret (Inr ps))))"

subsection \<open>Schema privileges\<close>

definition has_create_query :: string where
  "has_create_query = ''SELECT pg_catalog.has_schema_privilege($1, $2, 'CREATE')''"

definition has_usage_query :: string where
  "has_usage_query = ''SELECT pg_catalog.has_schema_privilege($1, $2, 'USAGE')''"

definition getSchemaPrivileges :: "env \<Rightarrow> privsGetter" where
  "getSchemaPrivileges E conn user schema =
     (if Contains schema ''.'' then ret (Inl (Err ''expected no dot in schema at this point''))
      else try_io (SelectFirstValueBool E conn has_create_query [GStr user, GStr schema])
             (\<lambda>err. ret (Inl (Err (''unable to read schemaPrivs '' @ error_msg err))))
             (\<lambda>createPriv. try_io (SelectFirstValueBool E conn has_usage_query [GStr user, GStr schema])
                (\<lambda>err. ret (Inl (Err (''unable to read schemaPrivs '' @ error_msg err))))
                (\<lambda>usagePriv. ret (Inr ((if createPriv then [''CREATE''] else []) @ (if usagePriv then [''USAGE''] else []))))))"

definition grantSchemaPrivileges :: "env \<Rightarrow> privsAdjuster" where
  "grantSchemaPrivileges E conn user schemaName privs =
     Exec E conn (''GRANT '' @ Join privs '', '' @ '' on SCHEMA '' @ pq_QuoteIdentifier (lib E) schemaName @
       '' to '' @ pq_QuoteIdentifier (lib E) user @ '';'') []"

definition revokeSchemaPrivileges :: "env \<Rightarrow> privsAdjuster" where
  "revokeSchemaPrivileges E conn user schemaName privs =
     Exec E conn (''REVOKE '' @ Join privs '', '' @ '' on SCHEMA '' @ pq_QuoteIdentifier (lib E) schemaName @
       '' FROM '' @ pq_QuoteIdentifier (lib E) user @ '';'') []"

subsection \<open>Table privileges\<close>

definition table_grants_query :: string where
  "table_grants_query = ''SELECT privilege_type FROM information_schema.role_table_grants WHERE grantee=$1 AND table_name=$2 AND table_schema=$3''"

definition getTablePrivileges :: "env \<Rightarrow> privsGetter" where
  "getTablePrivileges E conn user table =
     bind_io
       (if Contains table ''.'' then
          (let parts = SplitN table ''.'' 1 in
           bind_io (lift_io (idx parts 0)) (\<lambda>schema. bind_io (lift_io (idx parts 1)) (\<lambda>table. ret (schema, table))))
        else ret (''public'', table))
       (\<lambda>(schema, table).
          try_io (Query E conn table_grants_query [GStr user, GStr table, GStr schema])
            (\<lambda>err. ret (Inl (Err (''unable to read tablePrivs '' @ error_msg err))))
            (\<lambda>rows. ret (string_col (lib E) (Err ''unable to load privType'') (row_data rows))))"

definition grantTablePrivileges :: "env \<Rightarrow> privsAdjuster" where
  "grantTablePrivileges E conn user table privs =
     Exec E conn (''GRANT '' @ Join privs '', '' @ '' ON TABLE '' @ pq_QuoteIdentifier (lib E) table @
       '' TO '' @ pq_QuoteIdentifier (lib E) user) []"

definition revokeTablePrivileges :: "env \<Rightarrow> privsAdjuster" where
  "revokeTablePrivileges E conn user table privs =
     Exec E conn (''REVOKE '' @ Join privs '', '' @ '' ON TABLE '' @ pq_QuoteIdentifier (lib E) table @
       '' FROM '' @ pq_QuoteIdentifier (lib E) user) []"

definition all_tables_query :: string where
  "all_tables_query = ''SELECT table_schema, table_name 
		FROM information_schema.tables 
		WHERE table_schema = $2 
		AND has_table_privilege($1, table_schema || '.' || table_name, $3) = false;
		''"

definition getTablePrivilegesForAllTables :: "env \<Rightarrow> conn \<Rightarrow> string \<Rightarrow> string \<Rightarrow> string list \<Rightarrow> (error + string list) go" where
  "getTablePrivilegesForAllTables E conn user schema privs =
     for_io privs (\<lambda>priv privsFound.
       try_io (Query E conn all_tables_query [GStr user, GStr schema, GStr (ToUpper priv)])
         (\<lambda>err. ret (Inl (Err (''unable to read tablePrivs '' @ error_msg err))))
         (\<lambda>rows. ret (Inr (if row_data rows = [] then privsFound @ [priv] else privsFound)))) []"

definition grantPrivilegesOnAllTables :: "env \<Rightarrow> privsAdjuster" where
  "grantPrivilegesOnAllTables E conn user schema privs =
     Exec E conn (''GRANT '' @ Join privs '', '' @ '' ON ALL TABLES IN SCHEMA '' @ pq_QuoteIdentifier (lib E) schema @
       '' TO '' @ pq_QuoteIdentifier (lib E) user) []"

definition revokePrivilegesOnAllTables :: "env \<Rightarrow> privsAdjuster" where
  "revokePrivilegesOnAllTables E conn user schema privs =
     Exec E conn (''REVOKE '' @ Join privs '', '' @ '' ON ALL TABLES IN SCHEMA '' @ pq_QuoteIdentifier (lib E) schema @
       '' FROM '' @ pq_QuoteIdentifier (lib E) user) []"

subsection \<open>Default table privileges\<close>

definition revokeDefaultTablePrivileges :: "env \<Rightarrow> privsAdjuster" where
  "revokeDefaultTablePrivileges E conn user role privs =
     Exec E conn (''ALTER DEFAULT PRIVILEGES FOR ROLE '' @ pq_QuoteIdentifier (lib E) role @ '' REVOKE '' @ Join privs '', '' @
       '' ON TABLES FROM '' @ pq_QuoteIdentifier (lib E) user @ '';'') []"

definition grantDefaultTablePrivileges :: "env \<Rightarrow> privsAdjuster" where
  "grantDefaultTablePrivileges E conn user role privs =
     Exec E conn (''ALTER DEFAULT PRIVILEGES FOR ROLE '' @ pq_QuoteIdentifier (lib E) role @ '' GRANT '' @ Join privs '', '' @
       '' ON TABLES TO '' @ pq_QuoteIdentifier (lib E) user @ '';'') []"

definition stripOuterChars :: "string \<Rightarrow> string \<Rightarrow> string" where
  "stripOuterChars objectName chars =
     (if HasPrefix objectName chars \<and> HasSuffix objectName chars
      then TrimSuffix (TrimPrefix objectName chars) chars else objectName)"

definition default_acl_query :: string where
  "default_acl_query = ''SELECT d.defaclacl
	FROM pg_catalog.pg_default_acl d left join pg_catalog.pg_namespace n on n.oid = d.defaclnamespace
	WHERE pg_get_userbyid(d.defaclrole) = current_user
	AND n.nspname is NULL
	AND d.defaclobjtype = $1;
	''"

fun default_acls :: "string \<Rightarrow> string \<Rightarrow> string list \<Rightarrow> string list \<Rightarrow> (error + string list) outcome" where
  "default_acls objectType user [] privileges = Return (Inr privileges)"
| "default_acls objectType user (defaclacl # rest) privileges =
     (let parts = Split defaclacl ''=''; grantee = stripOuterChars (parts ! 0) [CHR 0x22] in
      bind_out (idx parts 1) (\<lambda>acl.
        let privs = (if Contains acl ''/'' then Split acl ''/'' ! 0 else acl) in
        if objectType = ''r'' then
          default_acls objectType user rest
            (privileges @
              (if user = grantee then
                 (if Contains privs ''a'' then [''INSERT''] else []) @
                 (if Contains privs ''r'' then [''SELECT''] else []) @
                 (if Contains privs ''w'' then [''UPDATE''] else []) @
                 (if Contains privs ''d'' then [''DELETE''] else [])
               else []))
        else Return (Inl (Err ''currently only default privileges for r(elation) is supported''))))"

definition getDefaultPrivilegesGivenByCurrentUser :: "env \<Rightarrow> conn \<Rightarrow> string \<Rightarrow> string \<Rightarrow> (error + string list) go" where
  "getDefaultPrivilegesGivenByCurrentUser E conn objectType user =
     try_io (Query E conn default_acl_query [GStr objectType]) (\<lambda>err. ret (Inl err)) (\<lambda>rows.
       case row_data rows of
         [] \<Rightarrow> ret (Inr [])
       | row # others \<Rightarrow>
           (case scan_any 1 row of Inl err \<Rightarrow> ret (Inl err)
            | Inr vs \<Rightarrow>
                (case pq_Array (lib E) (vs ! 0) of Inl err \<Rightarrow> ret (Inl err)
                 | Inr defaclacls \<Rightarrow>
                     try_io (lift_io (default_acls objectType user defaclacls [])) (\<lambda>err. ret (Inl err)) (\<lambda>privileges.
                       if others \<noteq> [] then ret (Inl (Err ''unexpected amount of rows returned when running getDefaultPrivileges''))
                       else ret (Inr privileges)))))"

subsection \<open>The privileges reconciler\<close>

record PrivsReconciler =
  pr_DbPriv :: DbPriv
  DesiredPrivSet :: "string list"
  FoundPrivSet :: "string list"
  pr_UserName :: string
  scopedName :: string
  IsDefaultPrivReconciler :: bool
  DefaultPrivObjectType :: string
  pr_conn :: conn
  grantFun :: privsAdjuster
  revokeFun :: privsAdjuster
  privsGetFun :: privsGetter

definition diffPrivSet :: "libs \<Rightarrow> string list \<Rightarrow> string list \<Rightarrow> string list \<times> string list \<times> string list" where
  "diffPrivSet L curPrivs privs =
     (let haveCurrently = funk_InnerJoin L curPrivs privs;
          (otherCurrent, desired) = funk_Difference L curPrivs privs
      in (haveCurrently, otherCurrent, desired))"

definition GetConn :: "PrivsReconciler \<Rightarrow> conn" where
  "GetConn r = pr_conn r"

definition ReconcilePrivs :: "env \<Rightarrow> PrivsReconciler \<Rightarrow> (PrivsReconciler \<times> bool \<times> error option) go" where
  "ReconcilePrivs E r =
     try_io (privsGetFun r (pr_conn r) (pr_UserName r) (scopedName r)) (\<lambda>err. ret (r, False, Some err)) (\<lambda>curPrivs.
       let r' = r\<lparr>FoundPrivSet := curPrivs\<rparr>;
           (_, toRevoke, toGrant) = diffPrivSet (lib E) curPrivs (DesiredPrivSet r)
       in check_io (if length toRevoke > 0 then revokeFun r (pr_conn r) (pr_UserName r) (scopedName r) toRevoke else ret None)
            (\<lambda>err. ret (r', False, Some err))
            (check_io (if length toGrant > 0 then grantFun r (pr_conn r) (pr_UserName r) (scopedName r) toGrant else ret None)
              (\<lambda>err. ret (r', length toRevoke > 0, Some err))
              (ret (r', length toRevoke > 0 \<or> length toGrant > 0, None))))"

definition RevokeAllPrivs :: "PrivsReconciler \<Rightarrow> error option go" where
  "RevokeAllPrivs r = revokeFun r (pr_conn r) (pr_UserName r) (scopedName r) (DesiredPrivSet r)"

definition NewDatabasePrivsReconciler :: "env \<Rightarrow> DbPriv \<Rightarrow> conn \<Rightarrow> string \<Rightarrow> string \<Rightarrow> string list \<Rightarrow> PostgresVersion \<Rightarrow> error + PrivsReconciler" where
  "NewDatabasePrivsReconciler E privs conn userName dbName normalizedPrivSet serverVersion =
     Inr \<lparr>pr_DbPriv = privs, DesiredPrivSet = normalizedPrivSet, FoundPrivSet = [], pr_UserName = userName,
          scopedName = dbName, IsDefaultPrivReconciler = False, DefaultPrivObjectType = '''', pr_conn = conn,
          grantFun = grantDatabasePrivileges E, revokeFun = revokeDatabasePrivileges E,
          privsGetFun = (if ProductName serverVersion = CockroachDB then getDatabasePrivilegesCrdb E
                         else getDatabasePrivilegesPg E)\<rparr>"

definition NewSchemaPrivsReconciler :: "env \<Rightarrow> DbPriv \<Rightarrow> conn \<Rightarrow> string \<Rightarrow> string \<Rightarrow> string list \<Rightarrow> PostgresVersion \<Rightarrow> error + PrivsReconciler" where
  "NewSchemaPrivsReconciler E privs conn userName schemaName normalizedPrivSet serverVersion =
     Inr \<lparr>pr_DbPriv = privs, DesiredPrivSet = normalizedPrivSet, FoundPrivSet = [], pr_UserName = userName,
          scopedName = schemaName, IsDefaultPrivReconciler = False, DefaultPrivObjectType = '''', pr_conn = conn,
          grantFun = grantSchemaPrivileges E, revokeFun = revokeSchemaPrivileges E,
          privsGetFun = getSchemaPrivileges E\<rparr>"

definition NewTablePrivsReconciler :: "env \<Rightarrow> DbPriv \<Rightarrow> conn \<Rightarrow> string \<Rightarrow> string \<Rightarrow> string list \<Rightarrow> PostgresVersion \<Rightarrow> error + PrivsReconciler" where
  "NewTablePrivsReconciler E privs conn userName scoped normalizedPrivSet serverVersion =
     (if HasSuffix scoped ''.ALL'' then
        (let name = TrimSuffix scoped ''.ALL'' in
         if \<not> Contains name ''.'' then Inl (Err (''invalid scope '' @ [CHR 0x22] @ name @ [CHR 0x22]))
         else
           Inr \<lparr>pr_DbPriv = privs, DesiredPrivSet = normalizedPrivSet, FoundPrivSet = [], pr_UserName = userName,
                scopedName = SplitN name ''.'' 2 ! 1, IsDefaultPrivReconciler = False, DefaultPrivObjectType = '''',
                pr_conn = conn, grantFun = grantPrivilegesOnAllTables E, revokeFun = revokePrivilegesOnAllTables E,
                privsGetFun = (\<lambda>conn user scopedName. getTablePrivilegesForAllTables E conn user scopedName normalizedPrivSet)\<rparr>)
      else
        Inr \<lparr>pr_DbPriv = privs, DesiredPrivSet = normalizedPrivSet, FoundPrivSet = [], pr_UserName = userName,
             scopedName = scoped, IsDefaultPrivReconciler = False, DefaultPrivObjectType = '''',
             pr_conn = conn, grantFun = grantTablePrivileges E, revokeFun = revokeTablePrivileges E,
             privsGetFun = getTablePrivileges E\<rparr>)"

definition NewDefaultTablePrivsReconciler :: "env \<Rightarrow> DbPriv \<Rightarrow> conn \<Rightarrow> string \<Rightarrow> string \<Rightarrow> string list \<Rightarrow> PostgresVersion \<Rightarrow> error + PrivsReconciler" where
  "NewDefaultTablePrivsReconciler E privs conn userName tableName normalizedPrivSet serverVersion =
     Inr \<lparr>pr_DbPriv = privs, DesiredPrivSet = normalizedPrivSet, FoundPrivSet = [], pr_UserName = userName,
          scopedName = tableName, IsDefaultPrivReconciler = True, DefaultPrivObjectType = ''TABLES'', pr_conn = conn,
          grantFun = grantDefaultTablePrivileges E, revokeFun = revokeDefaultTablePrivileges E,
          privsGetFun = (\<lambda>conn user scopedName. getDefaultPrivilegesGivenByCurrentUser E conn ''r'' user)\<rparr>"

definition PRIVS_RECONCILER_CONSTRUCTORS ::
  "env \<Rightarrow> (DbPriv \<Rightarrow> conn \<Rightarrow> string \<Rightarrow> string \<Rightarrow> string list \<Rightarrow> PostgresVersion \<Rightarrow> error + PrivsReconciler) gomap" where
  "PRIVS_RECONCILER_CONSTRUCTORS E =
     [(''table'', NewTablePrivsReconciler E), (''defaultTable'', NewDefaultTablePrivsReconciler E),
      (''database'', NewDatabasePrivsReconciler E), (''schema'', NewSchemaPrivsReconciler E)]"

definition normalizeDbPriv :: "libs \<Rightarrow> DbPriv \<Rightarrow> string \<Rightarrow> error + string \<times> string \<times> string list" where
  "normalizeDbPriv L dbPriv dbName =
     (if PrivType dbPriv \<noteq> '''' then
        (if DefaultPrivs dbPriv \<noteq> '''' then Inl (Err ''DefaultPrivs no longer supported with PrivType set'')
         else if PrivType dbPriv = ''defaultTable'' then
           Inr (PrivType dbPriv, case Grantor dbPriv of Some g \<Rightarrow> g | None \<Rightarrow> '''', toPrivSet L (Privs dbPriv))
         else if PrivType dbPriv = ''schema'' then
           (case GetScopeAfterDb (Scope dbPriv) of Inl err \<Rightarrow> Inl err
            | Inr scoped \<Rightarrow> Inr (PrivType dbPriv, scoped, toPrivSet L (Privs dbPriv)))
         else Inr (PrivType dbPriv, Scope dbPriv, toPrivSet L (Privs dbPriv)))
      else if Privs dbPriv \<noteq> '''' then
        (if Contains (Privs dbPriv) '':'' then
           (let elements = Split (Privs dbPriv) '':'' in Inr (''table'', elements ! 0, toPrivSet L (elements ! 1)))
         else if Contains (Scope dbPriv) ''.'' then
           (case GetScopeAfterDb (Scope dbPriv) of Inl err \<Rightarrow> Inl err
            | Inr scoped \<Rightarrow> Inr (''schema'', scoped, toPrivSet L (Privs dbPriv)))
         else Inr (''database'', dbName, toPrivSet L (Privs dbPriv)))
      else if DefaultPrivs dbPriv \<noteq> '''' then
        (case GetScopeAfterDb (Scope dbPriv) of Inl err \<Rightarrow> Inl err
         | Inr scopeAfterDb \<Rightarrow>
             if scopeAfterDb = ''TABLES'' then
               Inr (''defaultTable'', case Grantor dbPriv of Some g \<Rightarrow> g | None \<Rightarrow> '''', toPrivSet L (DefaultPrivs dbPriv))
             else Inl (Err (''Not implemented to update default privileges on '' @ scopeAfterDb)))
      else Inl (Err ''no privs or default privs specified''))"

text \<open>What \<^verbatim>\<open>GetPrivsReconciler\<close> does once it has the connection, which makes no external call.\<close>

definition build_reconciler :: "env \<Rightarrow> string \<Rightarrow> DbPriv \<Rightarrow> PostgresVersion \<Rightarrow> conn \<Rightarrow> (error + PrivsReconciler) outcome" where
  "build_reconciler E userName dbPriv serverVersion conn =
     (if Privs dbPriv \<noteq> '''' \<and> DefaultPrivs dbPriv \<noteq> '''' then Return (Inl (Err ''both privs and default privs specified''))
      else if Contains (Privs dbPriv) ''/'' then Return (Inl (Err ''privs cannot contain '/' this is deprecated''))
      else case normalizeDbPriv (lib E) dbPriv (GetDbNameFromScopeName (Scope dbPriv)) of
        Inl err \<Rightarrow> Return (Inl err)
      | Inr (privType, scoped, privSet) \<Rightarrow>
          let strippedPrivType = ToLower (TrimPrefix privType ''default'') in
          bind_out (GetValidPrivs serverVersion strippedPrivType) (\<lambda>valid.
            if \<not> funk_Subset (lib E) privSet valid
            then Return (Inl (Err (''invalid privs specified for '' @ strippedPrivType @ '': '' @
                   Join (funk_Subtract (lib E) privSet valid) '' '')))
            else bind_out (NormalizePrivileges (lib E) privSet privType serverVersion) (\<lambda>privSet'.
                   case map_of (PRIVS_RECONCILER_CONSTRUCTORS E) privType of
                     None \<Rightarrow> Return (Inl (Err (''invalid privType: '' @ privType)))
                   | Some constructor \<Rightarrow> Return (constructor dbPriv conn userName scoped privSet' serverVersion))))"

definition GetPrivsReconciler :: "env \<Rightarrow> string \<Rightarrow> DbPriv \<Rightarrow> PostgresVersion \<Rightarrow> ConnectionGetter \<Rightarrow> ConnectionsStore
    \<Rightarrow> (ConnectionsStore \<times> (error + PrivsReconciler)) go" where
  "GetPrivsReconciler E userName dbPriv serverVersion connectionGetter p =
     (let dbName = GetDbNameFromScopeName (Scope dbPriv) in
      bind_io (connectionGetter p (Grantor dbPriv) (Some dbName)) (\<lambda>(p, r). case r of
        Inl err \<Rightarrow> ret (p, Inl err)
      | Inr conn \<Rightarrow> bind_io (lift_io (build_reconciler E userName dbPriv serverVersion conn)) (\<lambda>r. ret (p, r))))"

definition revokeDefaultedPrivs :: "env \<Rightarrow> conn \<Rightarrow> string \<Rightarrow> string \<Rightarrow> string \<Rightarrow> error option go" where
  "revokeDefaultedPrivs E conn objType userName schemaName =
     (let quotedUserName = pq_QuoteIdentifier (lib E) userName; quotedSchemaName = pq_QuoteIdentifier (lib E) schemaName in
      if \<not> IsAllowedVariable objType [''TABLES'', ''SEQUENCES'', ''FUNCTIONS''] False
      then ret (Some (Err (''invalid object type '' @ objType)))
      else Exec E conn (''REVOKE ALL PRIVILEGES ON ALL '' @ objType @ '' IN SCHEMA '' @ quotedSchemaName @ '' FROM '' @ quotedUserName @ '';'') [])"

definition revoke_defaulted_in_schemas :: "env \<Rightarrow> string \<Rightarrow> PrivsReconciler \<Rightarrow> error option go" where
  "revoke_defaulted_in_schemas E user reconciler =
     try_io (GetSchemas E (GetConn reconciler)) (\<lambda>err. ret (Some err)) (\<lambda>schemas.
       bind_io (range_map E schemas) (\<lambda>entries.
         bind_io (for_io entries (\<lambda>(schema, _) _.
             check_io (revokeDefaultedPrivs E (GetConn reconciler) (DefaultPrivObjectType reconciler) user schema)
               (\<lambda>err. ret (Inl err)) (ret (Inr ()))) ())
           (\<lambda>r. ret (case r of Inl err \<Rightarrow> Some err | Inr _ \<Rightarrow> None))))"

text \<open>The body of the loop of \<^verbatim>\<open>RevokeAllDbPrivs\<close>.\<close>

definition revoke_db_priv :: "env \<Rightarrow> string \<Rightarrow> PostgresVersion \<Rightarrow> ConnectionGetter \<Rightarrow> DbPriv \<Rightarrow> ConnectionsStore
    \<Rightarrow> (ConnectionsStore \<times> error option + ConnectionsStore) go" where
  "revoke_db_priv E user serverVersion connectionGetter dbPriv p =
     bind_io (GetPrivsReconciler E user dbPriv serverVersion connectionGetter p) (\<lambda>(p, r). case r of
       Inl err \<Rightarrow> ret (Inl (p, Some err))
     | Inr reconciler \<Rightarrow>
         check_io (if IsDefaultPrivReconciler reconciler then revoke_defaulted_in_schemas E user reconciler else ret None)
           (\<lambda>err. ret (Inl (p, Some err)))
           (check_io (RevokeAllPrivs reconciler) (\<lambda>err. ret (Inl (p, Some err))) (ret (Inr p))))"

definition RevokeAllDbPrivs :: "env \<Rightarrow> conn \<Rightarrow> string \<Rightarrow> DbPriv list \<Rightarrow> ConnectionGetter \<Rightarrow> ConnectionsStore
    \<Rightarrow> (ConnectionsStore \<times> error option) go" where
  "RevokeAllDbPrivs E conn user dbPrivs connectionGetter p =
     try_io (getServerVersion E conn) (\<lambda>err. ret (p, Some err)) (\<lambda>serverVersion.
       bind_io (for_io dbPrivs (revoke_db_priv E user serverVersion connectionGetter) p)
         (\<lambda>r. ret (case r of Inl out \<Rightarrow> out | Inr p \<Rightarrow> (p, None))))"

text \<open>
  The comparison \<^verbatim>\<open>currentRoleAttrs[PRIV_TO_AUTHID_COLUMN[flag]] != roleAttrValue\<close>
  of two interface values: a flag without a column reads the key \<^verbatim>\<open>""\<close>, an absent
  column gives nil, and nil or a value of another type is not equal to a bool.
\<close>

definition role_attr_differs :: "gval gomap \<Rightarrow> string \<Rightarrow> bool" where
  "role_attr_differs currentRoleAttrs flag =
     (let roleAttrValue = \<not> HasPrefix flag ''NO'';
          column = (case map_of PRIV_TO_AUTHID_COLUMN flag of None \<Rightarrow> '''' | Some col \<Rightarrow> col)
      in map_of currentRoleAttrs column \<noteq> Some (GBool roleAttrValue))"

definition alter_user_stmt :: "libs \<Rightarrow> string \<Rightarrow> string list \<Rightarrow> string" where
  "alter_user_stmt L userName roleAttrFlags =
     Join ((''ALTER USER '' @ pq_QuoteIdentifier L userName) #
           (if length roleAttrFlags > 0 then [''WITH '' @ Join roleAttrFlags '' ''] else [])) '' ''"

text \<open>The body of the last loop of \<^verbatim>\<open>UpdateUserPrivs\<close>.\<close>

definition update_db_priv :: "env \<Rightarrow> string \<Rightarrow> PostgresVersion \<Rightarrow> ConnectionGetter \<Rightarrow> DbPriv \<Rightarrow> ConnectionsStore \<times> bool
    \<Rightarrow> (ConnectionsStore \<times> bool \<times> error option + ConnectionsStore \<times> bool) go" where
  "update_db_priv E userName serverVersion connectionGetter dbPriv st =
     (case st of (p, changed) \<Rightarrow>
       bind_io (GetPrivsReconciler E userName dbPriv serverVersion connectionGetter p) (\<lambda>(p, r). case r of
         Inl err \<Rightarrow> ret (Inl (p, changed, Some err))
       | Inr privReconciler \<Rightarrow>
           bind_io (ReconcilePrivs E privReconciler) (\<lambda>(_, curChange, e). case e of
             Some err \<Rightarrow> ret (Inl (p, changed, Some err))
           | None \<Rightarrow> ret (Inr (p, changed \<or> curChange)))))"

definition UpdateUserPrivs :: "env \<Rightarrow> conn \<Rightarrow> string \<Rightarrow> string \<Rightarrow> DbPriv list \<Rightarrow> ConnectionGetter \<Rightarrow> ConnectionsStore
    \<Rightarrow> (ConnectionsStore \<times> bool \<times> error option) go" where
  "UpdateUserPrivs E conn userName serverPrivs dbPrivs connectionGetter p =
     try_io (SelectToArrayMap E conn ''SELECT * FROM pg_roles WHERE rolname = $1'' [GStr userName]) (\<lambda>err. ret (p, False, Some err)) (\<lambda>maps.
       bind_io (lift_io (idx maps 0)) (\<lambda>currentRoleAttrs.
       try_io (getServerVersion E conn) (\<lambda>err. ret (p, False, Some err)) (\<lambda>serverVersion.
         case ParseRoleAttrs (lib E) serverPrivs 0 of
           Inl err \<Rightarrow> ret (p, False, Some err)
         | Inr roleAttrFlags \<Rightarrow>
             let serverPrivsChanging = list_ex (role_attr_differs currentRoleAttrs) roleAttrFlags in
             check_io (if serverPrivsChanging then Exec E conn (alter_user_stmt (lib E) userName roleAttrFlags) [] else ret None)
               (\<lambda>err. ret (p, False, Some err))
               (bind_io (for_io dbPrivs (update_db_priv E userName serverVersion connectionGetter) (p, serverPrivsChanging))
                 (\<lambda>r. ret (case r of Inl out \<Rightarrow> out | Inr (p, changed) \<Rightarrow> (p, changed, None)))))))"

subsection \<open>Parsing and normalising privileges\<close>

lemma Remove_filter [simp]: "Remove xs y = filter (\<lambda>x. x \<noteq> y) xs"
  by (induction xs) auto

text \<open>What normalisation does to a set of privileges: shorthands are replaced.\<close>

definition canon :: "string set \<Rightarrow> string set" where
  "canon X = (X - {''ALL'', ''TEMP''}) \<union> (if ''TEMP'' \<in> X then {''TEMPORARY''} else {})"

lemma canon_idem [simp]: "canon (canon X) = canon X"
  by (auto simp: canon_def)

lemma canon_shorthands [simp]: "''ALL'' \<notin> canon X" "''TEMP'' \<notin> canon X"
  by (auto simp: canon_def)

lemma canon_noop: "''ALL'' \<notin> X \<Longrightarrow> ''TEMP'' \<notin> X \<Longrightarrow> canon X = X"
  by (auto simp: canon_def)

lemma canon_subset: "X - {''ALL'', ''TEMP''} \<subseteq> A \<Longrightarrow> (''TEMP'' \<in> X \<Longrightarrow> ''TEMPORARY'' \<in> A) \<Longrightarrow> canon X \<subseteq> A"
  by (auto simp: canon_def)

lemma NormalizePrivileges_result:
  assumes "funk_laws L" and v: "GetValidPrivs v t = Return valid"
  shows "\<exists>ps. NormalizePrivileges L privs t v = Return ps \<and> distinct ps \<and>
    set ps = canon (set privs \<union> (if ''ALL'' \<in> set privs then set valid else {}))"
  using assms by (auto simp: NormalizePrivileges_def funk_laws_def canon_def)

lemma NormalizePrivileges_no_ALL:
  assumes "funk_laws L" "''ALL'' \<notin> set privs"
  shows "\<exists>ps. NormalizePrivileges L privs t v = Return ps \<and> distinct ps \<and> set ps = canon (set privs)"
  using assms by (auto simp: NormalizePrivileges_def funk_laws_def canon_def)

text \<open>C30: normalising a privilege list gives a list without duplicates and without the shorthands
  ALL and TEMP, in which ALL has become every privilege the server knows for this kind of
  object and TEMP has become TEMPORARY; normalising the result again changes nothing.\<close>

theorem NormalizePrivileges_spec:
  assumes "funk_laws L" and "GetValidPrivs v t = Return valid"
  shows "\<exists>ps qs. NormalizePrivileges L privs t v = Return ps \<and> distinct ps \<and>
    set ps = canon (set privs \<union> (if ''ALL'' \<in> set privs then set valid else {})) \<and>
    NormalizePrivileges L ps t v = Return qs \<and> set qs = set ps"
proof -
  obtain ps where ps: "NormalizePrivileges L privs t v = Return ps" "distinct ps"
    "set ps = canon (set privs \<union> (if ''ALL'' \<in> set privs then set valid else {}))"
    using NormalizePrivileges_result [OF assms] by blast
  then obtain qs where "NormalizePrivileges L ps t v = Return qs" "set qs = canon (set ps)"
    using NormalizePrivileges_no_ALL [OF assms(1), of ps t v] by auto
  with ps show ?thesis by auto
qed

definition pg15 :: PostgresVersion where
  "pg15 = \<lparr>ProductName = PostgreSQL, VersionStr = ''15.3'', Major = 15, Minor = 3, Patch = -1\<rparr>"

lemma valid_pg15_database:
  "GetValidPrivs pg15 ''database'' = Return [''CREATE'', ''CONNECT'', ''TEMPORARY'', ''TEMP'', ''ALL'']"
  by (simp add: GetValidPrivs_def pg15_def PostgreSQL_def lookup0_def)

theorem NormalizePrivileges_spec_witness:
  "\<exists>ps. NormalizePrivileges ref_libs [''ALL''] ''database'' pg15 = Return ps \<and>
     set ps = {''CREATE'', ''CONNECT'', ''TEMPORARY''}"
proof -
  have "canon (set [''ALL''] \<union> (if ''ALL'' \<in> set [''ALL''] then set [''CREATE'', ''CONNECT'', ''TEMPORARY'', ''TEMP'', ''ALL''] else {})) =
      {''CREATE'', ''CONNECT'', ''TEMPORARY''}"
    by (auto simp: canon_def)
  with NormalizePrivileges_spec [OF ref_libs_funk_laws valid_pg15_database, of "[''ALL'']"] show ?thesis
    by metis
qed

text \<open>Privilege names as a user would write them in canonical form.\<close>

definition canonical_priv :: "string \<Rightarrow> bool" where
  "canonical_priv p \<longleftrightarrow> p \<noteq> [] \<and> CHR '','' \<notin> set p \<and> ToUpper p = p \<and> TrimSpace p = p"

lemma toPrivSet_eq:
  assumes "funk_laws L"
  shows "toPrivSet L s = map ToUpper (filter (\<lambda>x. x \<noteq> []) (map TrimSpace (Split s '','')))"
proof -
  have "StringNotEmpty = (\<lambda>x. x \<noteq> [])" by (simp add: fun_eq_iff StringNotEmpty_def)
  with assms show ?thesis by (simp add: toPrivSet_def funk_laws_def)
qed

lemma upper_char_low: "of_char d < (65 :: nat) \<Longrightarrow> upper_char c = d \<longleftrightarrow> c = d"
proof -
  assume d: "of_char d < (65 :: nat)"
  have "of_char (upper_char c) \<ge> (65 :: nat)" if "of_char c \<ge> (97 :: nat)" "of_char c \<le> (122 :: nat)"
    using that by (simp add: upper_char_def Let_def)
  with d show ?thesis by (auto simp: upper_char_def Let_def)
qed

lemma upper_char_space [simp]: "is_space (upper_char c) \<longleftrightarrow> is_space c"
  by (simp add: is_space_def upper_char_low)

lemma upper_char_comma [simp]: "CHR '','' = upper_char c \<longleftrightarrow> c = CHR '',''"
  using upper_char_low [of "CHR '',''" c] by auto

lemma canonical_ToUpper:
  assumes "TrimSpace s \<noteq> []" "CHR '','' \<notin> set s"
  shows "canonical_priv (ToUpper (TrimSpace s))"
proof -
  let ?t = "TrimSpace s"
  have "\<not> is_space (hd ?t)" "\<not> is_space (last ?t)"
    using trim_both_ends assms(1) by (auto simp: TrimSpace_def)
  then have "TrimSpace (ToUpper ?t) = ToUpper ?t"
    unfolding TrimSpace_def ToUpper_def using assms(1)
    by (intro trim_both_id) (simp add: hd_map last_map TrimSpace_def)
  moreover have "CHR '','' \<notin> set (ToUpper ?t)"
    using assms(2) set_trim_both [of is_space s] by (auto simp: ToUpper_def TrimSpace_def)
  ultimately show ?thesis using assms(1) by (simp add: canonical_priv_def)
qed

lemma toPrivSet_canonical:
  "funk_laws L \<Longrightarrow> list_all canonical_priv (toPrivSet L s)"
  by (auto simp: toPrivSet_eq list_all_iff intro!: canonical_ToUpper dest: Split_char_free)

lemma toPrivSet_Join:
  assumes "funk_laws L" "list_all canonical_priv ps"
  shows "toPrivSet L (Join ps '','') = ps"
proof (cases "ps = []")
  case True
  then show ?thesis using assms(1) by (simp add: toPrivSet_eq Split_def TrimSpace_def trim_both_def trim_right_def)
next
  case False
  then have "Split (Join ps '','') '','' = ps"
    using assms(2) by (intro Split_Join_char) (auto simp: canonical_priv_def list_all_iff)
  moreover have "map TrimSpace ps = ps" "filter (\<lambda>x. x \<noteq> []) ps = ps" "map ToUpper ps = ps"
    using assms(2) by (auto simp: canonical_priv_def list_all_iff intro: map_idI)
  ultimately show ?thesis using assms(1) by (simp add: toPrivSet_eq)
qed

text \<open>Reading a comma-separated privilege list always gives canonical names (not empty, in
  upper case, without commas or surrounding blanks), and a list of canonical names joined with
  commas is read back as that same list.\<close>

theorem toPrivSet_roundtrip:
  assumes "funk_laws L"
  shows "list_all canonical_priv (toPrivSet L s) \<and>
    (list_all canonical_priv ps \<longrightarrow> toPrivSet L (Join ps '','') = ps)"
  using assms by (simp add: toPrivSet_canonical toPrivSet_Join)

theorem toPrivSet_roundtrip_witness:
  "list_all canonical_priv (toPrivSet ref_libs '' select , Insert,,'') \<and>
   toPrivSet ref_libs ''SELECT,INSERT'' = [''SELECT'', ''INSERT'']"
proof -
  have "list_all canonical_priv [''SELECT'', ''INSERT'']"
    by (simp add: canonical_priv_def ToUpper_def upper_char_def TrimSpace_def trim_both_def trim_right_def is_space_def)
  then show ?thesis
    using toPrivSet_roundtrip [OF ref_libs_funk_laws, of "'' select , Insert,,''" "[''SELECT'', ''INSERT'']"] by simp
qed

subsection \<open>Only privileges the server knows reach a reconciler\<close>

text \<open>The privileges that a statement about an object of this kind may list.\<close>

definition kind_privs :: "PostgresVersion \<Rightarrow> string \<Rightarrow> string set" where
  "kind_privs v kind =
     (if kind = ''schema'' then {''CREATE'', ''USAGE''}
      else if kind = ''database'' then
        {''CREATE'', ''CONNECT''} \<union> (if ProductName v = PostgreSQL then {''TEMPORARY''} else {''BACKUP'', ''RESTORE''})
      else if kind = ''table'' then
        {''SELECT'', ''INSERT'', ''UPDATE'', ''DELETE'', ''TRUNCATE'', ''REFERENCES'', ''TRIGGER''} \<union>
        (if ProductName v = PostgreSQL then {} else {''BACKUP''})
      else {})"

lemma kind_privs_valid: "GetValidPrivs v t = Return valid \<Longrightarrow> canon (set valid) \<subseteq> kind_privs v t"
  by (auto simp: GetValidPrivs_def lookup0_def kind_privs_def canon_def PostgreSQL_def CockroachDB_def split: if_splits option.splits)

lemma canon_mono: "X \<subseteq> Y \<Longrightarrow> canon X \<subseteq> canon Y"
  by (auto simp: canon_def)

text \<open>The kind in the name of a constructor, and what the list of the constructor's own name has.\<close>

lemma constructor_kinds:
  assumes "map_of (PRIVS_RECONCILER_CONSTRUCTORS E) t = Some mk" "GetValidPrivs v (ToLower (TrimPrefix t ''default'')) = Return valid"
  shows "\<exists>valid'. GetValidPrivs v t = Return valid' \<and> set valid' \<subseteq> set valid"
proof -
  have "t \<in> {''table'', ''defaultTable'', ''database'', ''schema''}"
    using assms(1) by (auto simp: PRIVS_RECONCILER_CONSTRUCTORS_def split: if_splits)
  moreover have "ToLower (TrimPrefix t ''default'') = t" if "t \<in> {''table'', ''database'', ''schema''}"
    using that by (auto simp: ToLower_def lower_char_def TrimPrefix_def)
  moreover have "\<exists>valid'. GetValidPrivs v ''defaultTable'' = Return valid' \<and> valid' = []"
    using assms(2) by (auto simp: GetValidPrivs_def lookup0_def split: if_splits)
  ultimately show ?thesis using assms(2) by auto
qed

lemmas constructor_defs =
  NewDatabasePrivsReconciler_def NewSchemaPrivsReconciler_def NewTablePrivsReconciler_def NewDefaultTablePrivsReconciler_def

lemma constructor_fields:
  assumes "map_of (PRIVS_RECONCILER_CONSTRUCTORS E) t = Some mk" "mk dp c u s ps v = Inr r"
  shows "DesiredPrivSet r = ps" "pr_UserName r = u" "pr_conn r = c" "pr_DbPriv r = dp"
  using assms by (auto simp: PRIVS_RECONCILER_CONSTRUCTORS_def constructor_defs Let_def split: if_splits)

lemma build_reconciler_cases:
  assumes "build_reconciler E u dp v c = Return (Inr r)"
  obtains t s ps valid ps' mk where
    "normalizeDbPriv (lib E) dp (GetDbNameFromScopeName (Scope dp)) = Inr (t, s, ps)"
    "GetValidPrivs v (ToLower (TrimPrefix t ''default'')) = Return valid" "funk_Subset (lib E) ps valid"
    "NormalizePrivileges (lib E) ps t v = Return ps'"
    "map_of (PRIVS_RECONCILER_CONSTRUCTORS E) t = Some mk" "mk dp c u s ps' v = Inr r"
  using assms
  by (auto simp: build_reconciler_def Let_def bind_out_Return_iff split: if_splits sum.splits prod.splits option.splits)

text \<open>A reconciler is the one of its kind, for privileges of that kind.\<close>

definition fits_kind :: "env \<Rightarrow> string \<Rightarrow> DbPriv \<Rightarrow> PostgresVersion \<Rightarrow> PrivsReconciler \<Rightarrow> bool" where
  "fits_kind E u dp v r \<longleftrightarrow>
     (\<exists>t s ps mk. normalizeDbPriv (lib E) dp (GetDbNameFromScopeName (Scope dp)) = Inr (t, s, ps) \<and>
        map_of (PRIVS_RECONCILER_CONSTRUCTORS E) t = Some mk \<and> mk dp (pr_conn r) u s (DesiredPrivSet r) v = Inr r \<and>
        set (DesiredPrivSet r) \<subseteq> kind_privs v (ToLower (TrimPrefix t ''default'')))"

lemma build_reconciler_fits:
  assumes L: "funk_laws (lib E)" and b: "build_reconciler E u dp v c = Return (Inr r)"
  shows "fits_kind E u dp v r \<and> pr_UserName r = u \<and> pr_conn r = c"
  using b
proof (rule build_reconciler_cases)
  fix t s ps valid ps' mk
  assume n: "normalizeDbPriv (lib E) dp (GetDbNameFromScopeName (Scope dp)) = Inr (t, s, ps)"
    and val: "GetValidPrivs v (ToLower (TrimPrefix t ''default'')) = Return valid" "funk_Subset (lib E) ps valid"
    and norm: "NormalizePrivileges (lib E) ps t v = Return ps'"
    and mk: "map_of (PRIVS_RECONCILER_CONSTRUCTORS E) t = Some mk" "mk dp c u s ps' v = Inr r"
  obtain valid' where v': "GetValidPrivs v t = Return valid'" "set valid' \<subseteq> set valid"
    using constructor_kinds [OF mk(1) val(1)] by blast
  have "set ps \<subseteq> set valid" using L val(2) by (simp add: funk_laws_def)
  then have "canon (set ps \<union> (if ''ALL'' \<in> set ps then set valid' else {})) \<subseteq> canon (set valid)"
    using v'(2) by (intro canon_mono) auto
  then have "set ps' \<subseteq> kind_privs v (ToLower (TrimPrefix t ''default''))"
    using NormalizePrivileges_result [OF L v'(1), of ps] norm kind_privs_valid [OF val(1)] by auto
  with n mk constructor_fields [OF mk] show ?thesis unfolding fits_kind_def by auto
qed

text \<open>C29: whatever strings a User resource holds, a reconciler that is built for an entry is the one for the kind of object that
  the entry names, and it aims at privileges of the fixed list of the server for that kind only (for a database CREATE, CONNECT and
  TEMPORARY on PostgreSQL, for a schema CREATE and USAGE, and so on), with the shorthands ALL and TEMP gone, so no text of the
  resource reaches the privilege list of a statement; and it is built for the given user on the connection of the grantor and the
  database of the scope.\<close>

theorem GetPrivsReconciler_only_known_privileges:
  assumes "funk_laws (lib E)"
    and "GetPrivsReconciler E u dp v getter p h = (Return (p', Inr r), h')"
  shows "(\<exists>t s ps mk. normalizeDbPriv (lib E) dp (GetDbNameFromScopeName (Scope dp)) = Inr (t, s, ps) \<and>
      map_of (PRIVS_RECONCILER_CONSTRUCTORS E) t = Some mk \<and> mk dp (pr_conn r) u s (DesiredPrivSet r) v = Inr r \<and>
      set (DesiredPrivSet r) \<subseteq> kind_privs v (ToLower (TrimPrefix t ''default''))) \<and> pr_UserName r = u \<and>
    getter p (Grantor dp) (Some (GetDbNameFromScopeName (Scope dp))) h = (Return (p', Inr (pr_conn r)), h')"
  using assms(2) build_reconciler_fits [OF assms(1), of u dp v] unfolding fits_kind_def [symmetric]
  by (auto simp: GetPrivsReconciler_def run split: prod.splits outcome.splits sum.splits)

definition demo_priv :: DbPriv where
  "demo_priv = \<lparr>Scope = ''app.public'', Privs = ''USAGE'', DefaultPrivs = '''', PrivType = '''', Grantor = None\<rparr>"

definition demo_getter :: ConnectionGetter where
  "demo_getter p u d = ret (p, Inr 5)"

lemma demo_reconciler:
  "GetPrivsReconciler null_env ''u'' demo_priv pg15 demo_getter demo_store [] =
     (Return (demo_store, NewSchemaPrivsReconciler null_env demo_priv 5 ''u'' ''public'' [''USAGE''] pg15), [])"
  by (simp add: GetPrivsReconciler_def build_reconciler_def demo_priv_def demo_getter_def run normalizeDbPriv_def
      Contains_def GetDbNameFromScopeName_def GetScopeAfterDb_def Split_def toPrivSet_def
      TrimSpace_def trim_both_def trim_right_def is_space_def ToUpper_def upper_char_def ToLower_def lower_char_def
      TrimPrefix_def GetValidPrivs_def pg15_def PostgreSQL_def lookup0_def NormalizePrivileges_def
      PRIVS_RECONCILER_CONSTRUCTORS_def StringNotEmpty_def)

theorem GetPrivsReconciler_only_known_privileges_witness:
  "\<exists>r. GetPrivsReconciler null_env ''u'' demo_priv pg15 demo_getter demo_store [] = (Return (demo_store, Inr r), []) \<and>
     DesiredPrivSet r = [''USAGE''] \<and> set (DesiredPrivSet r) \<subseteq> kind_privs pg15 ''schema''"
proof -
  have "normalizeDbPriv (lib null_env) demo_priv (GetDbNameFromScopeName (Scope demo_priv)) = Inr (''schema'', ''public'', [''USAGE''])"
    by (simp add: demo_priv_def normalizeDbPriv_def Contains_def GetDbNameFromScopeName_def GetScopeAfterDb_def Split_def toPrivSet_def
        TrimSpace_def trim_both_def trim_right_def is_space_def ToUpper_def upper_char_def StringNotEmpty_def)
  moreover have "ToLower (TrimPrefix ''schema'' ''default'') = ''schema''" by (simp add: ToLower_def lower_char_def TrimPrefix_def)
  moreover obtain r where r: "NewSchemaPrivsReconciler null_env demo_priv 5 ''u'' ''public'' [''USAGE''] pg15 = Inr r"
    and d: "DesiredPrivSet r = [''USAGE'']"
    by (simp add: NewSchemaPrivsReconciler_def)
  moreover have "funk_laws (lib null_env)" by (simp add: null_env_def)
  ultimately show ?thesis
    using GetPrivsReconciler_only_known_privileges [OF _ demo_reconciler [unfolded r]] demo_reconciler r d by auto
qed

subsection \<open>Versions\<close>

lemma Split_space_head:
  "CHR '' '' \<notin> set x \<Longrightarrow> Split (x @ '' '' @ s) '' '' = x # Split s '' ''"
  using Split_append_char [of "CHR '' ''" x s] by simp

lemma version_numbers_Itoa:
  assumes "0 \<le> a" "a < 2 ^ 63" "0 \<le> b" "b < 2 ^ 63"
  shows "version_numbers pn vs (Split (Itoa a @ ''.'' @ Itoa b) ''.'') =
    Return (Inr \<lparr>ProductName = pn, VersionStr = vs, Major = a, Minor = b, Patch = -1\<rparr>)"
proof -
  have d: "CHR ''.'' \<notin> set (Itoa i)" if "0 \<le> i" for i
    using that Itoa_chars is_digit_not_sign by metis
  have "Split (Itoa a @ ''.'' @ Itoa b) ''.'' = [Itoa a, Itoa b]"
    using d assms by (simp add: Split_append_char Split_no_sep)
  then show ?thesis
    using assms by (simp add: version_numbers_def idx_def Atoi_Itoa)
qed

lemma digits_no_space: "0 \<le> i \<Longrightarrow> CHR '' '' \<notin> set (Itoa i)"
  using Itoa_chars is_digit_not_sign by metis

text \<open>The banner a PostgreSQL server prints, product, a blank and \<open>major.minor\<close>,
  followed by nothing or by a blank and any text, is read back as exactly these numbers.\<close>

theorem parseVersionString_postgres:
  assumes "0 \<le> a" "a < 2 ^ 63" "0 \<le> b" "b < 2 ^ 63"
  shows "parseVersionString (''PostgreSQL '' @ Itoa a @ ''.'' @ Itoa b @ '' '' @ rest) =
      Return (Inr \<lparr>ProductName = PostgreSQL, VersionStr = Itoa a @ ''.'' @ Itoa b, Major = a, Minor = b, Patch = -1\<rparr>)"
proof -
  let ?v = "Itoa a @ ''.'' @ Itoa b"
  have "CHR '' '' \<notin> set ?v" using assms digits_no_space by simp
  then have "Split (''PostgreSQL '' @ ?v @ '' '' @ rest) '' '' = ''PostgreSQL'' # ?v # Split rest '' ''"
    using Split_space_head [of "''PostgreSQL''" "?v @ '' '' @ rest"] Split_space_head [of ?v rest] by simp
  then show ?thesis
    using version_numbers_Itoa [OF assms] by (simp add: parseVersionString_def PostgreSQL_def idx_def)
qed

theorem parseVersionString_postgres_witness:
  "parseVersionString (''PostgreSQL '' @ Itoa 15 @ ''.'' @ Itoa 3 @ '' '' @ ''(Debian 15.3-1) on x86_64'') =
     Return (Inr \<lparr>ProductName = PostgreSQL, VersionStr = Itoa 15 @ ''.'' @ Itoa 3, Major = 15, Minor = 3, Patch = -1\<rparr>)"
  using parseVersionString_postgres [of 15 3] by simp

subsection \<open>The contract of a privilege backend\<close>

text \<open>
  What \<^verbatim>\<open>ReconcilePrivs\<close> relies on: on one connection, for one user and one scope,
  \<open>holds h\<close> is the set of privileges the user has after the history \<open>h\<close>.  Reading
  lists it and changes nothing; granting adds exactly the given privileges.  Revoking removes them,
  but not those of \<open>inherited\<close>: what the user has in another way than by a grant that this revocation takes back,
  such as from \<^verbatim>\<open>PUBLIC\<close>, from a role it is a member of, or as a superuser.
\<close>

lemma string_col_names: "string_col L err (map (\<lambda>d. [GStr d]) names) = Inr names"
  by (induction names) (auto simp: scan_strings_def scan_any_def scan_string_def)

lemma diffPrivSet_sets:
  assumes "funk_laws L" "diffPrivSet L cur ps = (j, rv, gr)"
  shows "set rv = set cur - set ps" "set gr = set ps - set cur"
proof -
  have "funk_Difference L cur ps = (rv, gr)"
    using assms(2) by (cases "funk_Difference L cur ps") (simp add: diffPrivSet_def)
  moreover have "set (fst (funk_Difference L cur ps)) = set cur - set ps" "set (snd (funk_Difference L cur ps)) = set ps - set cur"
    using assms(1) by (simp_all add: funk_laws_def)
  ultimately show "set rv = set cur - set ps" "set gr = set ps - set cur" by simp_all
qed

locale privs_backend =
  fixes holds :: "hist \<Rightarrow> string set"
    and get :: "(error + string list) go"
    and grant :: "string list \<Rightarrow> error option go"
    and revoke :: "string list \<Rightarrow> error option go"
    and known :: "string set"
    and inherited :: "string set"
  assumes get_lists: "\<exists>ps h'. get h = (Return (Inr ps), h') \<and> set ps = holds h \<and> holds h' = holds h"
    and get_reads: "emits is_read get"
    and grant_adds: "ps \<noteq> [] \<Longrightarrow> set ps \<subseteq> known \<Longrightarrow> \<exists>h'. grant ps h = (Return None, h') \<and> holds h' = holds h \<union> set ps"
    and revoke_removes: "ps \<noteq> [] \<Longrightarrow> set ps \<subseteq> known \<Longrightarrow> \<exists>h'. revoke ps h = (Return None, h') \<and> holds h' = holds h - (set ps - inherited)"
    and holds_known: "holds h \<subseteq> known"
    and inherited_held: "inherited \<subseteq> holds h"
begin

text \<open>A reconciler that uses this backend, for a desired set of known privileges.\<close>

definition uses :: "PrivsReconciler \<Rightarrow> bool" where
  "uses r \<longleftrightarrow> privsGetFun r (pr_conn r) (pr_UserName r) (scopedName r) = get \<and>
     grantFun r (pr_conn r) (pr_UserName r) (scopedName r) = grant \<and>
     revokeFun r (pr_conn r) (pr_UserName r) (scopedName r) = revoke \<and>
     set (DesiredPrivSet r) \<subseteq> known"

lemma revoke_if:
  "set ps \<subseteq> known \<Longrightarrow> \<exists>h'. (if length ps > 0 then revoke ps else ret None) h = (Return None, h') \<and> holds h' = holds h - (set ps - inherited)"
  using revoke_removes [of ps h] by (cases ps) (auto simp: run)

lemma grant_if:
  "set ps \<subseteq> known \<Longrightarrow> \<exists>h'. (if length ps > 0 then grant ps else ret None) h = (Return None, h') \<and> holds h' = holds h \<union> set ps"
  using grant_adds [of ps h] by (cases ps) (auto simp: run)

lemma ReconcilePrivs_steps:
  assumes E: "funk_laws (lib E)" and r: "uses r"
  obtains r' ps rv gr h1 h2 h3 where
    "get h = (Return (Inr ps), h1)" "set rv = holds h - set (DesiredPrivSet r)" "set gr = set (DesiredPrivSet r) - holds h"
    "(if length rv > 0 then revoke rv else ret None) h1 = (Return None, h2)"
    "(if length gr > 0 then grant gr else ret None) h2 = (Return None, h3)"
    "holds h3 = set (DesiredPrivSet r) \<union> inherited"
    "ReconcilePrivs E r h = (Return (r', holds h \<noteq> set (DesiredPrivSet r), None), h3)"
proof -
  let ?D = "DesiredPrivSet r"
  obtain ps h1 where get: "get h = (Return (Inr ps), h1)" and ps: "set ps = holds h" and h1: "holds h1 = holds h"
    using get_lists by blast
  obtain j rv gr where d: "diffPrivSet (lib E) ps ?D = (j, rv, gr)" by (rule prod_cases3)
  then have rv: "set rv = holds h - set ?D" and gr: "set gr = set ?D - holds h"
    using diffPrivSet_sets [OF E d] ps by simp_all
  obtain h2 where r2: "(if length rv > 0 then revoke rv else ret None) h1 = (Return None, h2)"
    and h2: "holds h2 = holds h1 - (set rv - inherited)"
    using revoke_if [of rv h1] rv holds_known [of h] by blast
  obtain h3 where r3: "(if length gr > 0 then grant gr else ret None) h2 = (Return None, h3)"
    and h3: "holds h3 = holds h2 \<union> set gr"
    using grant_if [of gr h2] gr r by (auto simp: uses_def)
  have "rv = [] \<longleftrightarrow> holds h \<subseteq> set ?D" "gr = [] \<longleftrightarrow> set ?D \<subseteq> holds h"
    using rv gr by (metis Diff_eq_empty_iff set_empty)+
  then have "(length rv > 0 \<or> length gr > 0) \<longleftrightarrow> holds h \<noteq> set ?D" by auto
  then have "ReconcilePrivs E r h = (Return (r\<lparr>FoundPrivSet := ps\<rparr>, holds h \<noteq> set ?D, None), h3)"
    using r get d r2 r3 by (cases "rv = []"; cases "gr = []") (auto simp: ReconcilePrivs_def run uses_def Let_def)
  moreover have "holds h3 = (holds h - (set rv - inherited)) \<union> set gr" using h1 h2 h3 by simp
  then have "holds h3 = set ?D \<union> inherited" unfolding rv gr using inherited_held [of h] by blast
  ultimately show thesis using that get rv gr r2 r3 by blast
qed

lemma ReconcilePrivs_converges:
  assumes E: "funk_laws (lib E)" and r: "uses r" and D: "inherited \<subseteq> set (DesiredPrivSet r)"
  shows "\<exists>r' h'. ReconcilePrivs E r h = (Return (r', holds h \<noteq> set (DesiredPrivSet r), None), h') \<and>
    holds h' = set (DesiredPrivSet r)"
proof -
  obtain r' h' where run: "ReconcilePrivs E r h = (Return (r', holds h \<noteq> set (DesiredPrivSet r), None), h')"
    and h': "holds h' = set (DesiredPrivSet r) \<union> inherited" by (rule ReconcilePrivs_steps [OF E r, of h])
  have "holds h' = set (DesiredPrivSet r)" using h' D by blast
  with run show ?thesis by blast
qed

lemma ReconcilePrivs_quiet:
  assumes E: "funk_laws (lib E)" and r: "uses r" and D: "holds h = set (DesiredPrivSet r)"
  shows "\<exists>r' es. ReconcilePrivs E r h = (Return (r', False, None), h @ es) \<and> list_all is_read es"
proof -
  obtain ps h1 where get: "get h = (Return (Inr ps), h1)" and ps: "set ps = holds h"
    using get_lists by blast
  obtain j rv gr where d: "diffPrivSet (lib E) ps (DesiredPrivSet r) = (j, rv, gr)" by (rule prod_cases3)
  then have "rv = []" "gr = []"
    using diffPrivSet_sets [OF E d] ps D by simp_all
  moreover obtain es where "h1 = h @ es" "list_all is_read es" using get_reads get by (rule emitsD)
  ultimately have "ReconcilePrivs E r h = (Return (r\<lparr>FoundPrivSet := ps\<rparr>, False, None), h @ es)"
    using r get d by (simp add: ReconcilePrivs_def run uses_def Let_def)
  with \<open>list_all is_read es\<close> show ?thesis by blast
qed

end

text \<open>
  The rest of the server: what reading, granting and revoking for this object leave as it is, reconciling leaves as it is.
\<close>

locale framed_backend = privs_backend +
  fixes rest :: "hist \<Rightarrow> 'b"
  assumes get_rest: "get h = (x, h') \<Longrightarrow> rest h' = rest h"
    and grant_rest: "ps \<noteq> [] \<Longrightarrow> set ps \<subseteq> known \<Longrightarrow> grant ps h = (y, h') \<Longrightarrow> rest h' = rest h"
    and revoke_rest: "ps \<noteq> [] \<Longrightarrow> set ps \<subseteq> known \<Longrightarrow> revoke ps h = (y, h') \<Longrightarrow> rest h' = rest h"
begin

lemma ReconcilePrivs_framed:
  assumes E: "funk_laws (lib E)" and r: "uses r" and D: "inherited \<subseteq> set (DesiredPrivSet r)"
  shows "\<exists>r' h'. ReconcilePrivs E r h = (Return (r', holds h \<noteq> set (DesiredPrivSet r), None), h') \<and>
    holds h' = set (DesiredPrivSet r) \<and> rest h' = rest h"
proof (rule ReconcilePrivs_steps [OF E r, of h])
  fix r' ps rv gr h1 h2 h3
  assume g: "get h = (Return (Inr ps), h1)" and rv: "set rv = holds h - set (DesiredPrivSet r)"
    and gr: "set gr = set (DesiredPrivSet r) - holds h"
    and r2: "(if length rv > 0 then revoke rv else ret None) h1 = (Return None, h2)"
    and r3: "(if length gr > 0 then grant gr else ret None) h2 = (Return None, h3)"
    and fin: "holds h3 = set (DesiredPrivSet r) \<union> inherited" "ReconcilePrivs E r h = (Return (r', holds h \<noteq> set (DesiredPrivSet r), None), h3)"
  have "set rv \<subseteq> known" using rv holds_known [of h] by blast
  then have "rest h2 = rest h1" using r2 revoke_rest [of rv h1 _ h2] by (cases rv) (auto simp: run)
  moreover have "set gr \<subseteq> known" using gr r by (auto simp: uses_def)
  then have "rest h3 = rest h2" using r3 grant_rest [of gr h2 _ h3] by (cases gr) (auto simp: run)
  moreover have "holds h3 = set (DesiredPrivSet r)" using fin(1) D by blast
  ultimately show ?thesis using get_rest [OF g] fin(2) by auto
qed

end

text \<open>What the convergence of a backend gives for a reconciler that uses it.\<close>

lemma ReconcilePrivs_settles:
  assumes backend: "privs_backend holds get grant revoke known inherited" and L: "funk_laws (lib E)"
    and uses: "privs_backend.uses get grant revoke known r" and D: "inherited \<subseteq> set (DesiredPrivSet r)"
  shows "\<exists>r' h'. ReconcilePrivs E r h = (Return (r', holds h \<noteq> set (DesiredPrivSet r), None), h') \<and> holds h' = set (DesiredPrivSet r) \<and>
    (\<exists>r'' es. ReconcilePrivs E r h' = (Return (r'', False, None), h' @ es) \<and> list_all is_read es)"
  using privs_backend.ReconcilePrivs_converges [OF backend L uses D, of h] privs_backend.ReconcilePrivs_quiet [OF backend L uses] by metis

text \<open>
  What a server documents of \<^verbatim>\<open>GRANT\<close> and \<^verbatim>\<open>REVOKE\<close> on the connection \<open>c\<close>, for one user and one object: queries
  leave the privileges as they are, granting known privileges adds them and revoking takes them away.
\<close>

definition grants_apply ::
  "env \<Rightarrow> conn \<Rightarrow> string set \<Rightarrow> (string list \<Rightarrow> string) \<Rightarrow> (string list \<Rightarrow> string) \<Rightarrow> (hist \<Rightarrow> string set) \<Rightarrow> bool" where
  "grants_apply E c known grant revoke holds \<longleftrightarrow>
     (\<forall>h. holds h \<subseteq> known) \<and>
     (\<forall>h q args. holds (h @ [SqlQuery c q args]) = holds h) \<and>
     (\<forall>h ps. ps \<noteq> [] \<and> set ps \<subseteq> known \<longrightarrow>
        sql_exec E h c (grant ps) [] = None \<and> holds (h @ [SqlExec c (grant ps) []]) = holds h \<union> set ps) \<and>
     (\<forall>h ps. ps \<noteq> [] \<and> set ps \<subseteq> known \<longrightarrow>
        sql_exec E h c (revoke ps) [] = None \<and> holds (h @ [SqlExec c (revoke ps) []]) = holds h - set ps)"

lemma grants_applyD:
  assumes "grants_apply E c known grant revoke holds"
  shows "holds h \<subseteq> known"
    and "holds (h @ [SqlQuery c q args]) = holds h"
    and "ps \<noteq> [] \<Longrightarrow> set ps \<subseteq> known \<Longrightarrow> sql_exec E h c (grant ps) [] = None"
    and "ps \<noteq> [] \<Longrightarrow> set ps \<subseteq> known \<Longrightarrow> holds (h @ [SqlExec c (grant ps) []]) = holds h \<union> set ps"
    and "ps \<noteq> [] \<Longrightarrow> set ps \<subseteq> known \<Longrightarrow> sql_exec E h c (revoke ps) [] = None"
    and "ps \<noteq> [] \<Longrightarrow> set ps \<subseteq> known \<Longrightarrow> holds (h @ [SqlExec c (revoke ps) []]) = holds h - set ps"
  using assms by (simp_all add: grants_apply_def)

text \<open>The same for a user that has the privileges of \<open>inherited\<close> in another way: revoking does not take those away.\<close>

definition grants_beside ::
  "env \<Rightarrow> conn \<Rightarrow> string set \<Rightarrow> string set \<Rightarrow> (string list \<Rightarrow> string) \<Rightarrow> (string list \<Rightarrow> string) \<Rightarrow> (hist \<Rightarrow> string set) \<Rightarrow> bool" where
  "grants_beside E c known inherited grant revoke holds \<longleftrightarrow>
     (\<forall>h. holds h \<subseteq> known \<and> inherited \<subseteq> holds h) \<and>
     (\<forall>h q args. holds (h @ [SqlQuery c q args]) = holds h) \<and>
     (\<forall>h ps. ps \<noteq> [] \<and> set ps \<subseteq> known \<longrightarrow>
        sql_exec E h c (grant ps) [] = None \<and> holds (h @ [SqlExec c (grant ps) []]) = holds h \<union> set ps) \<and>
     (\<forall>h ps. ps \<noteq> [] \<and> set ps \<subseteq> known \<longrightarrow>
        sql_exec E h c (revoke ps) [] = None \<and> holds (h @ [SqlExec c (revoke ps) []]) = holds h - (set ps - inherited))"

lemma grants_besideD:
  assumes "grants_beside E c known inherited grant revoke holds"
  shows "holds h \<subseteq> known" "inherited \<subseteq> holds h"
    and "holds (h @ [SqlQuery c q args]) = holds h"
    and "ps \<noteq> [] \<Longrightarrow> set ps \<subseteq> known \<Longrightarrow> sql_exec E h c (grant ps) [] = None"
    and "ps \<noteq> [] \<Longrightarrow> set ps \<subseteq> known \<Longrightarrow> holds (h @ [SqlExec c (grant ps) []]) = holds h \<union> set ps"
    and "ps \<noteq> [] \<Longrightarrow> set ps \<subseteq> known \<Longrightarrow> sql_exec E h c (revoke ps) [] = None"
    and "ps \<noteq> [] \<Longrightarrow> set ps \<subseteq> known \<Longrightarrow> holds (h @ [SqlExec c (revoke ps) []]) = holds h - (set ps - inherited)"
  using assms by (simp_all add: grants_beside_def)

lemma grants_apply_beside: "grants_apply E c known grant revoke holds \<longleftrightarrow> grants_beside E c known {} grant revoke holds"
  by (simp add: grants_apply_def grants_beside_def)

lemma grants_beside_backend:
  assumes g: "grants_beside E c known inherited grant revoke holds"
    and get: "\<And>h. \<exists>ps h'. get h = (Return (Inr ps), h') \<and> set ps = holds h \<and> holds h' = holds h"
    and reads: "emits is_read get"
  shows "privs_backend holds get (\<lambda>ps. Exec E c (grant ps) []) (\<lambda>ps. Exec E c (revoke ps) []) known inherited"
  by standard (use get reads grants_besideD [OF g] in \<open>simp_all add: run\<close>)

lemmas grants_apply_backend = grants_beside_backend [OF grants_apply_beside [THEN iffD1]]

subsection \<open>Schema privileges on a PostgreSQL server\<close>

text \<open>
  What PostgreSQL documents of \<^verbatim>\<open>has_schema_privilege\<close>, \<^verbatim>\<open>GRANT ... ON SCHEMA\<close> and
  \<^verbatim>\<open>REVOKE ... ON SCHEMA\<close>, on the connection \<open>c\<close>, for one user and one schema.  \<^verbatim>\<open>has_schema_privilege\<close> answers
  for what the user was granted and for what it has from \<^verbatim>\<open>PUBLIC\<close>, from its roles or as a superuser; \<open>inherited\<close>
  is the latter, and \<^verbatim>\<open>REVOKE ... FROM\<close> the user does not take it away.
\<close>

definition schema_privs :: "string set" where
  "schema_privs = {''CREATE'', ''USAGE''}"

definition schema_grant :: "libs \<Rightarrow> string \<Rightarrow> string \<Rightarrow> string list \<Rightarrow> string" where
  "schema_grant L user schema ps =
     ''GRANT '' @ Join ps '', '' @ '' on SCHEMA '' @ pq_QuoteIdentifier L schema @ '' to '' @ pq_QuoteIdentifier L user @ '';''"

definition schema_revoke :: "libs \<Rightarrow> string \<Rightarrow> string \<Rightarrow> string list \<Rightarrow> string" where
  "schema_revoke L user schema ps =
     ''REVOKE '' @ Join ps '', '' @ '' on SCHEMA '' @ pq_QuoteIdentifier L schema @ '' FROM '' @ pq_QuoteIdentifier L user @ '';''"

definition schema_server :: "env \<Rightarrow> conn \<Rightarrow> string \<Rightarrow> string \<Rightarrow> string set \<Rightarrow> (hist \<Rightarrow> string set) \<Rightarrow> bool" where
  "schema_server E c user schema inherited holds \<longleftrightarrow>
     grants_beside E c schema_privs inherited (schema_grant (lib E) user schema) (schema_revoke (lib E) user schema) holds \<and>
     (\<forall>h. \<exists>cols. sql_query E h c has_create_query [GStr user, GStr schema] =
        Inr \<lparr>row_cols = cols, row_data = [[GBool (''CREATE'' \<in> holds h)]]\<rparr>) \<and>
     (\<forall>h. \<exists>cols. sql_query E h c has_usage_query [GStr user, GStr schema] =
        Inr \<lparr>row_cols = cols, row_data = [[GBool (''USAGE'' \<in> holds h)]]\<rparr>)"

lemma schema_serverD:
  assumes "schema_server E c user schema inherited holds"
  shows "grants_beside E c schema_privs inherited (schema_grant (lib E) user schema) (schema_revoke (lib E) user schema) holds"
    and "\<exists>cols. sql_query E h c has_create_query [GStr user, GStr schema] =
        Inr \<lparr>row_cols = cols, row_data = [[GBool (''CREATE'' \<in> holds h)]]\<rparr>"
    and "\<exists>cols. sql_query E h c has_usage_query [GStr user, GStr schema] =
        Inr \<lparr>row_cols = cols, row_data = [[GBool (''USAGE'' \<in> holds h)]]\<rparr>"
  using assms unfolding schema_server_def by - ((erule conjE)+, simp)+

lemma emits_getSchemaPrivileges: "emits is_read (getSchemaPrivileges E c user schema)"
  by (auto simp: getSchemaPrivileges_def intro!: emits_intro)

lemma select_bool_row:
  "sql_query E h c q args = Inr \<lparr>row_cols = cols, row_data = [[GBool b]]\<rparr> \<Longrightarrow>
     SelectFirstValueBool E c q args h = (Return (Inr b), h @ [SqlQuery c q args])"
  by (simp add: SelectFirstValueBool_def run scan_NullBool_def)

lemma getSchemaPrivileges_run:
  assumes s: "schema_server E c user schema inherited holds" and dot: "CHR ''.'' \<notin> set schema"
  shows "\<exists>ps h'. getSchemaPrivileges E c user schema h = (Return (Inr ps), h') \<and> set ps = holds h \<and> holds h' = holds h"
proof -
  let ?q1 = "SqlQuery c has_create_query [GStr user, GStr schema]"
  let ?q2 = "SqlQuery c has_usage_query [GStr user, GStr schema]"
  note grants = schema_serverD(1) [OF s]
  note same = grants_besideD(3) [OF grants]
  have c: "SelectFirstValueBool E c has_create_query [GStr user, GStr schema] h = (Return (Inr (''CREATE'' \<in> holds h)), h @ [?q1])"
    using select_bool_row schema_serverD(2) [OF s] by blast
  have u: "SelectFirstValueBool E c has_usage_query [GStr user, GStr schema] (h @ [?q1]) =
      (Return (Inr (''USAGE'' \<in> holds h)), (h @ [?q1]) @ [?q2])"
    using select_bool_row schema_serverD(3) [OF s, of "h @ [?q1]"] unfolding same by blast
  have "holds h \<subseteq> {''CREATE'', ''USAGE''}" using grants_besideD(1) [OF grants] by (simp add: schema_privs_def)
  moreover have "holds ((h @ [?q1]) @ [?q2]) = holds h" by (simp only: same)
  moreover have "getSchemaPrivileges E c user schema h =
      (Return (Inr ((if ''CREATE'' \<in> holds h then [''CREATE''] else []) @ (if ''USAGE'' \<in> holds h then [''USAGE''] else []))), (h @ [?q1]) @ [?q2])"
    using c u dot by (simp add: getSchemaPrivileges_def run Contains_char)
  moreover have "set ((if ''CREATE'' \<in> holds h then [''CREATE''] else []) @ (if ''USAGE'' \<in> holds h then [''USAGE''] else [])) = holds h"
    using \<open>holds h \<subseteq> {''CREATE'', ''USAGE''}\<close> by auto
  ultimately show ?thesis by blast
qed

lemma grant_schema_exec: "grantSchemaPrivileges E c user schema = (\<lambda>ps. Exec E c (schema_grant (lib E) user schema ps) [])"
  by (simp add: fun_eq_iff grantSchemaPrivileges_def schema_grant_def)

lemma revoke_schema_exec: "revokeSchemaPrivileges E c user schema = (\<lambda>ps. Exec E c (schema_revoke (lib E) user schema ps) [])"
  by (simp add: fun_eq_iff revokeSchemaPrivileges_def schema_revoke_def)

lemma schema_server_backend:
  assumes s: "schema_server E c user schema inherited holds" and dot: "CHR ''.'' \<notin> set schema"
  shows "privs_backend holds (getSchemaPrivileges E c user schema) (grantSchemaPrivileges E c user schema)
    (revokeSchemaPrivileges E c user schema) schema_privs inherited"
  unfolding grant_schema_exec revoke_schema_exec
  using schema_serverD(1) [OF s] getSchemaPrivileges_run [OF assms] emits_getSchemaPrivileges by (rule grants_beside_backend)

text \<open>
  A server that satisfies these laws: it replays the statements of the history on its own
  connection, which begin with GRANT or REVOKE and end as given.
\<close>

definition between :: "string \<Rightarrow> string \<Rightarrow> string \<Rightarrow> string option" where
  "between pre post q =
     (if prefix pre q \<and> suffix post q \<and> length pre + length post \<le> length q
      then Some (take (length q - length pre - length post) (drop (length pre) q)) else None)"

definition replay_event :: "conn \<Rightarrow> string set \<Rightarrow> string \<Rightarrow> string \<Rightarrow> event \<Rightarrow> string set \<Rightarrow> string set" where
  "replay_event c known to from ev S =
     (case ev of
        SqlExec c' q args \<Rightarrow>
          if c' \<noteq> c then S
          else (case between ''GRANT '' to q of
                  Some list \<Rightarrow> S \<union> (set (Split list '', '') \<inter> known)
                | None \<Rightarrow> (case between ''REVOKE '' from q of Some list \<Rightarrow> S - set (Split list '', '') | None \<Rightarrow> S))
      | _ \<Rightarrow> S)"

definition replay_grants :: "conn \<Rightarrow> string set \<Rightarrow> string \<Rightarrow> string \<Rightarrow> hist \<Rightarrow> string set" where
  "replay_grants c known to from h = fold (replay_event c known to from) h {}"

text \<open>The privileges of \<open>inherited\<close> the user has in any case.\<close>

definition replay :: "string set \<Rightarrow> conn \<Rightarrow> string \<Rightarrow> string \<Rightarrow> hist \<Rightarrow> string set" where
  "replay inherited c user schema h =
     inherited \<union> replay_grants c schema_privs
       ('' on SCHEMA '' @ pq_QuoteIdentifier ref_libs schema @ '' to '' @ pq_QuoteIdentifier ref_libs user @ '';'')
       ('' on SCHEMA '' @ pq_QuoteIdentifier ref_libs schema @ '' FROM '' @ pq_QuoteIdentifier ref_libs user @ '';'') h"

definition replay_env :: "string set \<Rightarrow> conn \<Rightarrow> string \<Rightarrow> string \<Rightarrow> env" where
  "replay_env inherited c user schema =
     null_env\<lparr>
       sql_query := (\<lambda>h c' q args.
         if q = has_create_query then Inr \<lparr>row_cols = Inr [''has_schema_privilege''], row_data = [[GBool (''CREATE'' \<in> replay inherited c user schema h)]]\<rparr>
         else if q = has_usage_query then Inr \<lparr>row_cols = Inr [''has_schema_privilege''], row_data = [[GBool (''USAGE'' \<in> replay inherited c user schema h)]]\<rparr>
         else Inl down),
       sql_exec := (\<lambda>h c' q args. None)\<rparr>"

lemma between_append [simp]: "between pre post (pre @ x @ post) = Some x"
proof -
  have "suffix post (pre @ x @ post)" by (metis append.assoc suffixI)
  then show ?thesis by (simp add: between_def)
qed

lemma between_prefix_other: "\<not> prefix pre q \<Longrightarrow> between pre post q = None"
  by (simp add: between_def)

lemma split_acc_sep_head:
  "c \<notin> set x \<Longrightarrow> split_acc (c # sep) acc (x @ (c # sep) @ s) = (rev acc @ x) # split_acc (c # sep) [] s"
  by (induction x arbitrary: acc) auto

lemma split_acc_sep_none: "c \<notin> set x \<Longrightarrow> split_acc (c # sep) acc x = [rev acc @ x]"
  by (induction x arbitrary: acc) auto

lemma Split_Join_sep:
  assumes "xs \<noteq> []" "\<forall>x \<in> set xs. c \<notin> set x"
  shows "Split (Join xs (c # sep)) (c # sep) = xs"
proof -
  have "split_acc (c # sep) [] (Join xs (c # sep)) = xs"
    using assms
  proof (induction xs rule: induct_list012)
    case (3 x y zs)
    then show ?case using split_acc_sep_head [of c x sep "[]"] by simp
  qed (simp_all add: split_acc_sep_none)
  then show ?thesis by (simp add: Split_def)
qed

lemma replay_grants_snoc:
  "replay_grants c known to from (h @ [ev]) = replay_event c known to from ev (replay_grants c known to from h)"
  by (simp add: replay_grants_def)

lemma replay_grants_known: "replay_grants c known to from h \<subseteq> known"
proof (induction h rule: rev_induct)
  case Nil
  then show ?case by (simp add: replay_grants_def)
next
  case (snoc ev h)
  then show ?case by (auto simp: replay_grants_snoc replay_event_def split: event.splits option.splits)
qed

lemma replay_grants_apply:
  assumes "\<forall>p \<in> known. CHR '','' \<notin> set p" and "\<And>h ps. sql_exec E h c (''GRANT '' @ Join ps '', '' @ to) [] = None"
    and "\<And>h ps. sql_exec E h c (''REVOKE '' @ Join ps '', '' @ from) [] = None"
  shows "grants_apply E c known (\<lambda>ps. ''GRANT '' @ Join ps '', '' @ to) (\<lambda>ps. ''REVOKE '' @ Join ps '', '' @ from)
    (replay_grants c known to from)"
proof -
  have "Split (Join ps '', '') '', '' = ps" if "ps \<noteq> [] \<and> set ps \<subseteq> known" for ps
    using that assms(1) by (intro Split_Join_sep) auto
  then have "replay_event c known to from (SqlExec c (''GRANT '' @ Join ps '', '' @ to) []) S = S \<union> set ps"
      "replay_event c known to from (SqlExec c (''REVOKE '' @ Join ps '', '' @ from) []) S = S - set ps"
    if "ps \<noteq> [] \<and> set ps \<subseteq> known" for ps S
    using that between_append [of "''GRANT ''" to "Join ps '', ''"] between_append [of "''REVOKE ''" "from" "Join ps '', ''"]
    by (auto simp: replay_event_def between_prefix_other simp del: between_append)
  moreover have "replay_event c known to from (SqlQuery c q args) S = S" for q args S by (simp add: replay_event_def)
  ultimately show ?thesis
    using assms(2,3) by (simp add: grants_apply_def replay_grants_snoc replay_grants_known)
qed

lemma replay_grants_beside:
  assumes g: "grants_apply E c known grant revoke granted" and i: "inherited \<subseteq> known"
  shows "grants_beside E c known inherited grant revoke (\<lambda>h. inherited \<union> granted h)"
  using grants_applyD [OF g] i unfolding grants_beside_def by auto

lemma replay_env_server:
  assumes "inherited \<subseteq> schema_privs"
  shows "schema_server (replay_env inherited c user schema) c user schema inherited (replay inherited c user schema)"
proof -
  let ?E = "replay_env inherited c user schema"
  have l: "lib ?E = ref_libs" by (simp add: replay_env_def)
  have q: "has_usage_query \<noteq> has_create_query" by (simp add: has_usage_query_def has_create_query_def)
  have "grants_beside ?E c schema_privs inherited (schema_grant ref_libs user schema) (schema_revoke ref_libs user schema)
      (replay inherited c user schema)"
    unfolding schema_grant_def [abs_def] schema_revoke_def [abs_def] replay_def [abs_def]
    by (intro replay_grants_beside replay_grants_apply assms) (auto simp: replay_env_def schema_privs_def)
  then show ?thesis unfolding schema_server_def l by (simp add: replay_env_def q)
qed

text \<open>A schema \<^verbatim>\<open>public\<close> on which \<^verbatim>\<open>PUBLIC\<close> has USAGE.\<close>

abbreviation from_public :: "string set" where
  "from_public \<equiv> {''USAGE''}"

interpretation schema_pg: privs_backend "replay from_public c user ''public''"
  "getSchemaPrivileges (replay_env from_public c user ''public'') c user ''public''"
  "grantSchemaPrivileges (replay_env from_public c user ''public'') c user ''public''"
  "revokeSchemaPrivileges (replay_env from_public c user ''public'') c user ''public''" schema_privs from_public for c user
  by (rule schema_server_backend [OF replay_env_server]) (simp_all add: schema_privs_def)

lemma schema_reconciler_uses:
  assumes "schema_server E c user schema inherited holds" "CHR ''.'' \<notin> set schema"
    and "NewSchemaPrivsReconciler E dp c user schema ps v = Inr r" "set ps \<subseteq> schema_privs"
  shows "privs_backend.uses (getSchemaPrivileges E c user schema) (grantSchemaPrivileges E c user schema)
      (revokeSchemaPrivileges E c user schema) schema_privs r"
    and "DesiredPrivSet r = ps"
  using assms(3,4) unfolding privs_backend.uses_def [OF schema_server_backend [OF assms(1,2)]]
  by (auto simp: NewSchemaPrivsReconciler_def)

text \<open>C23: reconciling the privileges of a user on a schema, without a dot in its name, of a PostgreSQL server: whatever the user held before, after one run
  it holds exactly the desired privileges and those that it has in another way than by a grant to itself, as from
  \<^verbatim>\<open>PUBLIC\<close>, from a role it is a member of or as a superuser; the run reports a change exactly when the user held others
  than the desired ones.  If the desired privileges include all that the user has in such a way, this is convergence: the user holds
  exactly what is desired and the next run reports no change and only reads.  If not, it never settles: every run, in whatever
  state it finds the server, revokes the privilege, reports a change, and leaves the user with it.\<close>

theorem ReconcilePrivs_schema_converges:
  assumes "funk_laws (lib E)" and "schema_server E c user schema inherited holds" and "CHR ''.'' \<notin> set schema"
    and "NewSchemaPrivsReconciler E dp c user schema ps v = Inr r" and "set ps \<subseteq> schema_privs"
  shows "\<exists>r' es. ReconcilePrivs E r h = (Return (r', holds h \<noteq> set ps, None), h @ es) \<and> holds (h @ es) = set ps \<union> inherited \<and>
    (inherited \<subseteq> set ps \<longrightarrow>
       holds (h @ es) = set ps \<and> (\<exists>r'' fs. ReconcilePrivs E r (h @ es) = (Return (r'', False, None), (h @ es) @ fs) \<and> list_all is_read fs)) \<and>
    (\<forall>priv \<in> inherited - set ps.
       holds h \<noteq> set ps \<and> (\<exists>rv. priv \<in> set rv \<and> SqlExec c (schema_revoke (lib E) user schema rv) [] \<in> set es))"
proof -
  note backend = schema_server_backend [OF assms(2,3)] and uses = schema_reconciler_uses [OF assms(2-5)]
  obtain r' qs rv gr h1 h2 h3 where g: "getSchemaPrivileges E c user schema h = (Return (Inr qs), h1)"
    and rv: "set rv = holds h - set (DesiredPrivSet r)"
    and r2: "(if length rv > 0 then revokeSchemaPrivileges E c user schema rv else ret None) h1 = (Return None, h2)"
    and r3: "(if length gr > 0 then grantSchemaPrivileges E c user schema gr else ret None) h2 = (Return None, h3)"
    and h3: "holds h3 = set (DesiredPrivSet r) \<union> inherited"
    and run: "ReconcilePrivs E r h = (Return (r', holds h \<noteq> set (DesiredPrivSet r), None), h3)"
    by (rule privs_backend.ReconcilePrivs_steps [OF backend assms(1) uses(1), of h])
  obtain es1 where h1: "h1 = h @ es1" using emitsD [OF emits_getSchemaPrivileges g] by blast
  obtain es2 where h3': "h3 = h2 @ es2" using r3 by (cases gr) (auto simp: grant_schema_exec run_Exec run_ret)
  have h2: "h2 = h1 @ (if rv = [] then [] else [SqlExec c (schema_revoke (lib E) user schema rv) []])"
    using r2 by (cases rv) (auto simp: revoke_schema_exec run_Exec run_ret)
  let ?es = "es1 @ (if rv = [] then [] else [SqlExec c (schema_revoke (lib E) user schema rv) []]) @ es2"
  have es: "h3 = h @ ?es" by (simp add: h3' h2 h1)
  have quiet: "\<exists>r'' fs. ReconcilePrivs E r (h @ ?es) = (Return (r'', False, None), (h @ ?es) @ fs) \<and> list_all is_read fs" if "inherited \<subseteq> set ps"
  proof -
    have "holds h3 = set (DesiredPrivSet r)" using h3 that uses(2) by blast
    from privs_backend.ReconcilePrivs_quiet [OF backend assms(1) uses(1) this] show ?thesis unfolding es .
  qed
  have stuck: "holds h \<noteq> set ps \<and> (\<exists>rv. priv \<in> set rv \<and> SqlExec c (schema_revoke (lib E) user schema rv) [] \<in> set ?es)"
    if "priv \<in> inherited - set ps" for priv
  proof -
    have "priv \<in> holds h" using privs_backend.inherited_held [OF backend, of h] that by blast
    moreover have "priv \<in> set rv" using calculation rv that uses(2) by simp
    ultimately show ?thesis using that by auto
  qed
  show ?thesis
  proof (rule exI [of _ r'], rule exI [of _ ?es], intro conjI impI ballI)
    show "ReconcilePrivs E r h = (Return (r', holds h \<noteq> set ps, None), h @ ?es)" using run es uses(2) by simp
    show all: "holds (h @ ?es) = set ps \<union> inherited" using h3 es uses(2) by simp
    show "holds (h @ ?es) = set ps" if "inherited \<subseteq> set ps" using all that by blast
  qed (use quiet stuck in blast)+
qed

theorem ReconcilePrivs_schema_converges_witness:
  "(\<exists>r r' es. NewSchemaPrivsReconciler (replay_env from_public 5 ''u'' ''public'') demo_priv 5 ''u'' ''public'' [''CREATE'', ''USAGE''] pg15 = Inr r \<and>
     ReconcilePrivs (replay_env from_public 5 ''u'' ''public'') r [] = (Return (r', True, None), [] @ es) \<and>
     replay from_public 5 ''u'' ''public'' ([] @ es) = {''CREATE'', ''USAGE''}) \<and>
   (\<exists>r r' es. NewSchemaPrivsReconciler (replay_env from_public 5 ''u'' ''public'') demo_priv 5 ''u'' ''public'' [''CREATE''] pg15 = Inr r \<and>
     ReconcilePrivs (replay_env from_public 5 ''u'' ''public'') r [] = (Return (r', True, None), [] @ es) \<and>
     replay from_public 5 ''u'' ''public'' ([] @ es) = {''CREATE'', ''USAGE''})"
proof -
  let ?E = "replay_env from_public 5 ''u'' ''public''"
  have "funk_laws (lib ?E)" by (simp add: replay_env_def)
  moreover have "from_public \<subseteq> schema_privs" "CHR ''.'' \<notin> set ''public''" "set [''CREATE'', ''USAGE''] \<subseteq> schema_privs" "set [''CREATE''] \<subseteq> schema_privs"
    by (simp_all add: schema_privs_def)
  moreover have "replay from_public 5 ''u'' ''public'' [] = {''USAGE''}" by (simp add: replay_def replay_grants_def)
  ultimately have run: "\<exists>r' es. ReconcilePrivs ?E r [] = (Return (r', True, None), [] @ es) \<and>
      replay from_public 5 ''u'' ''public'' ([] @ es) = set ps \<union> from_public"
    if "NewSchemaPrivsReconciler ?E demo_priv 5 ''u'' ''public'' ps pg15 = Inr r" "ps \<in> {[''CREATE'', ''USAGE''], [''CREATE'']}" for ps r
    using ReconcilePrivs_schema_converges [OF _ replay_env_server _ that(1), of "[]"] that(2) by auto
  obtain r1 r2 where "NewSchemaPrivsReconciler ?E demo_priv 5 ''u'' ''public'' [''CREATE'', ''USAGE''] pg15 = Inr r1"
    "NewSchemaPrivsReconciler ?E demo_priv 5 ''u'' ''public'' [''CREATE''] pg15 = Inr r2"
    by (simp add: NewSchemaPrivsReconciler_def)
  with run [OF this(1)] run [OF this(2)] show ?thesis by auto
qed

subsection \<open>The statements that privilege updates may run\<close>

text \<open>
  The events of the functions of this theory: reads, opened connections, and statements that
  change attributes or privileges of a role.
\<close>

definition priv_stmt :: "string \<Rightarrow> bool" where
  "priv_stmt q \<longleftrightarrow> prefix ''GRANT '' q \<or> prefix ''REVOKE '' q \<or> prefix ''ALTER USER '' q \<or> prefix ''ALTER DEFAULT PRIVILEGES '' q"

fun priv_event :: "event \<Rightarrow> bool" where
  "priv_event (SqlExec c q args) = priv_stmt q"
| "priv_event ev = (is_read ev \<or> is_open ev)"

lemma priv_event_query [simp]: "priv_event (SqlQuery c q args)"
  by simp

lemma priv_event_exec: "priv_stmt q \<Longrightarrow> priv_event (SqlExec c q args)"
  by simp

lemma emits_GetPrivsReconciler [emits_intro]:
  assumes "\<And>p u d. emits P (getter p u d)"
  shows "emits P (GetPrivsReconciler E userName dp v getter p)"
  using assms by (auto simp: GetPrivsReconciler_def intro!: emits_intro)

text \<open>The three functions of a reconciler, all of whose events satisfy \<open>P\<close>.\<close>

definition reconciler_emits :: "(event \<Rightarrow> bool) \<Rightarrow> PrivsReconciler \<Rightarrow> bool" where
  "reconciler_emits P r \<longleftrightarrow> (\<forall>c u s. emits P (privsGetFun r c u s)) \<and>
     (\<forall>c u s ps. emits P (grantFun r c u s ps)) \<and> (\<forall>c u s ps. emits P (revokeFun r c u s ps))"

lemma emits_ReconcilePrivs:
  "reconciler_emits P r \<Longrightarrow> emits P (ReconcilePrivs E r)"
  by (auto simp: ReconcilePrivs_def reconciler_emits_def Let_def intro!: emits_intro)

lemma emits_getters:
  "emits priv_event (getDatabasePrivilegesCrdb E c u s)" "emits priv_event (getDatabasePrivilegesPg E c u s)"
  "emits priv_event (getSchemaPrivileges E c u s)" "emits priv_event (getTablePrivileges E c u s)"
  "emits priv_event (getTablePrivilegesForAllTables E c u s ps)"
  "emits priv_event (getDefaultPrivilegesGivenByCurrentUser E c ot u)"
  by (auto simp: getDatabasePrivilegesCrdb_def getDatabasePrivilegesPg_def getSchemaPrivileges_def getTablePrivileges_def
      getTablePrivilegesForAllTables_def getDefaultPrivilegesGivenByCurrentUser_def getServerVersion_def Let_def
      intro!: emits_intro)

lemmas adjuster_defs =
  grantDatabasePrivileges_def revokeDatabasePrivileges_def grantSchemaPrivileges_def revokeSchemaPrivileges_def
  grantTablePrivileges_def revokeTablePrivileges_def grantPrivilegesOnAllTables_def revokePrivilegesOnAllTables_def
  grantDefaultTablePrivileges_def revokeDefaultTablePrivileges_def

lemma emits_adjusters:
  "emits priv_event (grantDatabasePrivileges E c u s ps)" "emits priv_event (revokeDatabasePrivileges E c u s ps)"
  "emits priv_event (grantSchemaPrivileges E c u s ps)" "emits priv_event (revokeSchemaPrivileges E c u s ps)"
  "emits priv_event (grantTablePrivileges E c u s ps)" "emits priv_event (revokeTablePrivileges E c u s ps)"
  "emits priv_event (grantPrivilegesOnAllTables E c u s ps)" "emits priv_event (revokePrivilegesOnAllTables E c u s ps)"
  "emits priv_event (grantDefaultTablePrivileges E c u s ps)" "emits priv_event (revokeDefaultTablePrivileges E c u s ps)"
  by (auto simp: adjuster_defs priv_stmt_def Let_def intro!: emits_intro)

lemma constructor_emits:
  assumes "map_of (PRIVS_RECONCILER_CONSTRUCTORS E) t = Some mk" "mk dp c u s ps v = Inr r"
  shows "reconciler_emits priv_event r"
  using assms by (auto simp: PRIVS_RECONCILER_CONSTRUCTORS_def constructor_defs Let_def reconciler_emits_def
      emits_getters emits_adjusters split: if_splits)

lemma build_reconciler_emits: "build_reconciler E u dp v c = Return (Inr r) \<Longrightarrow> reconciler_emits priv_event r"
  by (erule build_reconciler_cases) (rule constructor_emits)

lemma GetPrivsReconciler_emits:
  "GetPrivsReconciler E u dp v getter p h = (Return (p', Inr r), h') \<Longrightarrow> reconciler_emits priv_event r"
  by (auto simp: GetPrivsReconciler_def run split: prod.splits outcome.splits sum.splits intro: build_reconciler_emits)

lemma emits_with_reconciler:
  assumes "\<And>p u d. emits priv_event (getter p u d)"
    and "\<And>p e. emits priv_event (k (p, Inl e))"
    and "\<And>p r. reconciler_emits priv_event r \<Longrightarrow> emits priv_event (k (p, Inr r))"
  shows "emits priv_event (bind_io (GetPrivsReconciler E u dp v getter p) k)"
proof (rule emits_bind_run)
  show "emits priv_event (GetPrivsReconciler E u dp v getter p)"
    using assms(1) by (rule emits_GetPrivsReconciler)
  fix g x g'
  assume run: "GetPrivsReconciler E u dp v getter p g = (Return x, g')"
  obtain p' r where x: "x = (p', r)" by fastforce
  show "emits priv_event (k x)"
    using assms(2,3) GetPrivsReconciler_emits [of E u dp v getter p g p'] run x by (cases r) auto
qed

lemma emits_getServerVersion [emits_intro]:
  "P (SqlQuery c ''SELECT version();'' []) \<Longrightarrow> emits P (getServerVersion E c)"
  by (auto simp: getServerVersion_def intro!: emits_intro)

lemma emits_update_db_priv:
  assumes "\<And>p u d. emits priv_event (getter p u d)"
  shows "emits priv_event (update_db_priv E u v getter dp st)"
  unfolding update_db_priv_def
  by (rule emits_case_prod, rule emits_with_reconciler [OF assms])
     (auto intro!: emits_intro emits_ReconcilePrivs)

lemma emits_revoke_defaulted: "emits priv_event (revoke_defaulted_in_schemas E u r)"
  by (auto simp: revoke_defaulted_in_schemas_def revokeDefaultedPrivs_def GetSchemas_def Let_def priv_stmt_def
      intro!: emits_intro)

lemma emits_revoke_db_priv:
  assumes "\<And>p u d. emits priv_event (getter p u d)"
  shows "emits priv_event (revoke_db_priv E u v getter dp p)"
  unfolding revoke_db_priv_def
  by (rule emits_with_reconciler [OF assms])
     (auto simp: RevokeAllPrivs_def reconciler_emits_def intro!: emits_intro emits_revoke_defaulted)

lemma alter_user_priv_stmt: "priv_stmt (alter_user_stmt L u fs)"
proof -
  have "prefix ''ALTER USER '' (Join ((''ALTER USER '' @ q) # ws) '' '')" for q ws
    by (cases ws) simp_all
  then show ?thesis by (simp only: priv_stmt_def alter_user_stmt_def) blast
qed

lemma emits_UpdateUserPrivs:
  assumes "\<And>p u d. emits priv_event (getter p u d)"
  shows "emits priv_event (UpdateUserPrivs E c u sp dps getter p)"
  unfolding UpdateUserPrivs_def Let_def
  by (rule emits_intro emits_update_db_priv assms priv_event_query priv_event_exec alter_user_priv_stmt)+

lemma emits_RevokeAllDbPrivs:
  assumes "\<And>p u d. emits priv_event (getter p u d)"
  shows "emits priv_event (RevokeAllDbPrivs E c u dps getter p)"
  unfolding RevokeAllDbPrivs_def
  by (intro emits_intro emits_revoke_db_priv assms) auto

subsection \<open>Where the code does not do what it means to\<close>

text \<open>Reading the privileges of a table whose name has a schema part always panics: the name is
  split into at most one piece and the second piece is then read.\<close>

theorem getTablePrivileges_dotted_panics:
  assumes "CHR ''.'' \<in> set table"
  shows "getTablePrivileges E c user table h = (Panic ''index out of range'', h)"
  using assms by (simp add: getTablePrivileges_def Contains_char run idx_def)

theorem getTablePrivileges_dotted_panics_witness:
  "getTablePrivileges null_env 5 ''u'' ''public.orders'' [] = (Panic ''index out of range'', [])"
  by (rule getTablePrivileges_dotted_panics) simp

lemma no_flag_no_column: "HasPrefix flag ''NO'' \<Longrightarrow> map_of PRIV_TO_AUTHID_COLUMN flag = None"
proof -
  assume "HasPrefix flag ''NO''"
  then obtain rest where "flag = ''NO'' @ rest" unfolding HasPrefix_def prefix_def by blast
  then show ?thesis by (simp add: PRIV_TO_AUTHID_COLUMN_def)
qed

text \<open>A role attribute that is switched off, such as \<open>NOCREATEDB\<close>, is taken as differing from
  the role whatever the role's attributes are, so the role is altered on every run.\<close>

theorem role_attr_off_always_differs:
  assumes "HasPrefix flag ''NO''" and "'''' \<notin> fst ` set attrs"
  shows "role_attr_differs attrs flag"
proof -
  have "map_of attrs '''' = None" using assms(2) by (simp add: map_of_eq_None_iff)
  with no_flag_no_column [OF assms(1)] show ?thesis by (simp add: role_attr_differs_def)
qed

theorem role_attr_off_always_differs_witness:
  "role_attr_differs [(''rolcreatedb'', GBool False)] ''NOCREATEDB''"
  by (rule role_attr_off_always_differs) (auto simp: HasPrefix_def)

lemma defaultTable_kind: "ToLower (TrimPrefix ''defaultTable'' ''default'') = ''table''"
  by code_simp

lemma toPrivSet_ALL: "funk_laws L \<Longrightarrow> toPrivSet L ''ALL'' = [''ALL'']"
proof -
  assume "funk_laws L"
  moreover have "canonical_priv ''ALL''"
    by (simp add: canonical_priv_def ToUpper_def upper_char_def TrimSpace_def trim_both_def trim_right_def is_space_def)
  ultimately show ?thesis using toPrivSet_Join [of L "[''ALL'']"] by simp
qed

text \<open>The privilege ALL of the kind \<open>defaultTable\<close> is accepted and then expands to nothing: the
  reconciler that is built for it aims at the empty set of privileges.\<close>

theorem default_table_ALL_is_empty:
  assumes L: "funk_laws (lib E)" and v: "ProductName v = PostgreSQL"
  shows "\<exists>r. build_reconciler E u \<lparr>Scope = s, Privs = ''ALL'', DefaultPrivs = '''', PrivType = ''defaultTable'', Grantor = g\<rparr> v c =
      Return (Inr r) \<and> DesiredPrivSet r = []"
proof -
  have "\<exists>valid. GetValidPrivs v ''table'' = Return valid \<and> funk_Subset (lib E) [''ALL''] valid"
    using L v by (simp add: GetValidPrivs_def lookup0_def funk_laws_def)
  then obtain valid where valid: "GetValidPrivs v ''table'' = Return valid" "funk_Subset (lib E) [''ALL''] valid" by blast
  have "GetValidPrivs v ''defaultTable'' = Return []" using v by (simp add: GetValidPrivs_def lookup0_def)
  from NormalizePrivileges_result [OF L this, of "[''ALL'']"]
  have "NormalizePrivileges (lib E) [''ALL''] ''defaultTable'' v = Return []" by (auto simp: canon_def)
  with valid show ?thesis
    by (simp add: build_reconciler_def normalizeDbPriv_def toPrivSet_ALL [OF L] defaultTable_kind Contains_char
        PRIVS_RECONCILER_CONSTRUCTORS_def NewDefaultTablePrivsReconciler_def)
qed

theorem default_table_ALL_is_empty_witness:
  "\<exists>r. build_reconciler null_env ''u'' \<lparr>Scope = ''app'', Privs = ''ALL'', DefaultPrivs = '''', PrivType = ''defaultTable'', Grantor = None\<rparr> pg15 5 =
      Return (Inr r) \<and> DesiredPrivSet r = []"
  by (rule default_table_ALL_is_empty) (simp_all add: pg15_def)

end
