(* ===== verification/DatabasePrivs.thy ===== *)
theory DatabasePrivs
  imports PgPrivs
begin

section \<open>Reading and reconciling the privileges on databases and tables\<close>

text \<open>
  \<^verbatim>\<open>getDatabasePrivilegesPg\<close> of \<^verbatim>\<open>dbservers/postgres/database_privs.go\<close> searches the text of the access control list
  with a regular expression.  Here: which entry the search finds in a list as PostgreSQL writes it, that it is that of
  another user when a name ends with the name of the user, and that reconciling the privileges of a database converges
  when none does.  Then the same for CockroachDB and for a table, and what reconciling does for all tables of a schema.
\<close>

subsection \<open>Searching\<close>

lemma FindSubmatch_skip:
  "(\<And>i. i < length w \<Longrightarrow> rmatch r (drop i w @ s) = []) \<Longrightarrow> FindSubmatch r (w @ s) = FindSubmatch r s"
proof (induction w)
  case Nil
  show ?case by simp
next
  case (Cons c w)
  have "rmatch r (c # w @ s) = []" using Cons.prems [of 0] by simp
  moreover have "FindSubmatch r (w @ s) = FindSubmatch r s" using Cons.prems [of "Suc _"] by (intro Cons.IH) auto
  ultimately show ?case by simp
qed

lemma FindSubmatch_none: "(\<And>i. i \<le> length w \<Longrightarrow> rmatch r (drop i w) = []) \<Longrightarrow> FindSubmatch r w = None"
proof (induction w)
  case Nil
  then show ?case by simp
next
  case (Cons c w)
  have "rmatch r (c # w) = []" using Cons.prems [of 0] by simp
  moreover have "FindSubmatch r w = None" using Cons.prems [of "Suc _"] by (intro Cons.IH) auto
  ultimately show ?case by simp
qed

lemma rmatch_Lit: "rmatch (Then (Lit l) r) s \<noteq> [] \<longleftrightarrow> (\<exists>t. s = l @ t \<and> rmatch r t \<noteq> [])"
  by (auto simp: prefix_def)

lemma rmatch_Opt:
  "rmatch (Then (Opt (Lit [c])) r) s \<noteq> [] \<longleftrightarrow> rmatch r s \<noteq> [] \<or> (\<exists>t. s = c # t \<and> rmatch r t \<noteq> [])"
  by (cases s) (auto simp: prefix_def)

text \<open>The parts of the expression after the equals sign.\<close>

definition acl_group :: re where
  "acl_group = Group (Then (Opt (Lit ''C'')) (Then (Opt (Lit ''T'')) (Opt (Lit ''c''))))"

definition acl_end :: re where
  "acl_end = Then (Lit ''/'') (Then (Rep 1 (NoneOf '','')) (Opt (Lit '','')))"

lemma acl_tail_parts:
  "acl_tail = Then (Opt (Lit [CHR 0x5C])) (Then (Opt (Lit [CHR 0x22])) (Then (Lit ''='') (Then acl_group acl_end)))"
  by (simp add: acl_tail_def acl_group_def acl_end_def)

definition quote_char :: "char \<Rightarrow> bool" where
  "quote_char c \<longleftrightarrow> c = CHR 0x5C \<or> c = CHR 0x22"

definition plain_privs :: "string \<Rightarrow> bool" where
  "plain_privs p \<longleftrightarrow> p \<in> {'''', ''C'', ''T'', ''c'', ''CT'', ''Cc'', ''Tc'', ''CTc''}"

lemma acl_tail_match:
  assumes "rmatch acl_tail t \<noteq> []"
  shows "\<exists>m u. t = m @ CHR ''='' # u \<and> list_all quote_char m \<and> rmatch (Then acl_group acl_end) u \<noteq> []"
proof -
  let ?r = "Then (Lit ''='') (Then acl_group acl_end)"
  have "\<exists>m t'. t = m @ t' \<and> list_all quote_char m \<and> rmatch (Then (Opt (Lit [CHR 0x22])) ?r) t' \<noteq> []"
    using assms unfolding acl_tail_parts rmatch_Opt [of "CHR 0x5C"]
  proof (elim disjE exE conjE)
    fix t'
    assume "t = CHR 0x5C # t'" "rmatch (Then (Opt (Lit [CHR 0x22])) ?r) t' \<noteq> []"
    then show ?thesis by (intro exI [of _ "[CHR 0x5C]"] exI [of _ t']) (simp add: quote_char_def del: rmatch.simps)
  next
    assume "rmatch (Then (Opt (Lit [CHR 0x22])) ?r) t \<noteq> []"
    then show ?thesis by (intro exI [of _ "[]"] exI [of _ t]) (simp del: rmatch.simps)
  qed
  then obtain m t' where t: "t = m @ t'" "list_all quote_char m" "rmatch (Then (Opt (Lit [CHR 0x22])) ?r) t' \<noteq> []" by blast
  have "\<exists>m' t''. t' = m' @ t'' \<and> list_all quote_char m' \<and> rmatch ?r t'' \<noteq> []"
    using t(3) unfolding rmatch_Opt
  proof (elim disjE exE conjE)
    fix t''
    assume "t' = CHR 0x22 # t''" "rmatch ?r t'' \<noteq> []"
    then show ?thesis by (intro exI [of _ "[CHR 0x22]"] exI [of _ t'']) (simp add: quote_char_def del: rmatch.simps)
  next
    assume "rmatch ?r t' \<noteq> []"
    then show ?thesis by (intro exI [of _ "[]"] exI [of _ t']) (simp del: rmatch.simps)
  qed
  then obtain m' t'' where t': "t' = m' @ t''" "list_all quote_char m'" "rmatch ?r t'' \<noteq> []" by blast
  then obtain u where "t'' = CHR ''='' # u" "rmatch (Then acl_group acl_end) u \<noteq> []" unfolding rmatch_Lit by (auto simp del: rmatch.simps)
  with t(1,2) t'(1,2) show ?thesis by (intro exI [of _ "m @ m'"] exI [of _ u]) (simp del: rmatch.simps)
qed

lemma rmatch_opt_hit: "rmatch (Opt (Lit [c])) (c # s) = [([], s), ([], c # s)]"
  by simp

lemma rmatch_opt_miss: "c \<noteq> d \<Longrightarrow> rmatch (Opt (Lit [c])) (d # s) = [([], d # s)]"
  by simp

lemma rmatch_opt_results: "(gs, s') \<in> set (rmatch (Opt (Lit [c])) s) \<Longrightarrow> s = s' \<or> s = c # s'"
  by (auto simp: prefix_def split: if_splits)

lemma acl_group_results:
  assumes "(gs, s') \<in> set (rmatch acl_group s)"
  shows "\<exists>p. plain_privs p \<and> s = p @ s'"
proof -
  obtain gs' where "(gs', s') \<in> set (rmatch (Then (Opt (Lit ''C'')) (Then (Opt (Lit ''T'')) (Opt (Lit ''c'')))) s)"
    using assms unfolding acl_group_def rmatch.simps(6) by auto
  then obtain g1 g2 s1 where 1: "(g1, s1) \<in> set (rmatch (Opt (Lit ''C'')) s)"
    and "(g2, s') \<in> set (rmatch (Then (Opt (Lit ''T'')) (Opt (Lit ''c''))) s1)"
    using rmatch_Then by blast
  then obtain g3 g4 s2 where 2: "(g3, s2) \<in> set (rmatch (Opt (Lit ''T'')) s1)"
    and 3: "(g4, s') \<in> set (rmatch (Opt (Lit ''c'')) s2)"
    using rmatch_Then by blast
  show ?thesis
    using rmatch_opt_results [OF 1] rmatch_opt_results [OF 2] rmatch_opt_results [OF 3]
    by (elim disjE) (simp_all add: plain_privs_def)
qed

lemma acl_body_match:
  assumes "rmatch (Then acl_group acl_end) u \<noteq> []"
  shows "\<exists>p v. plain_privs p \<and> u = p @ CHR ''/'' # v"
proof -
  obtain gs s' where s': "(gs, s') \<in> set (rmatch acl_group u)" and "rmatch acl_end s' \<noteq> []"
    using assms by auto
  then obtain v where "s' = ''/'' @ v" unfolding acl_end_def rmatch_Lit by blast
  moreover obtain p where "plain_privs p" "u = p @ s'" using acl_group_results [OF s'] by blast
  ultimately show ?thesis by auto
qed

lemma acl_end_slash:
  "v \<noteq> [] \<Longrightarrow> hd v \<noteq> CHR '','' \<Longrightarrow> \<exists>s rest. rmatch acl_end (CHR ''/'' # v) = ([], s) # rest"
  by (cases v) (auto simp: acl_end_def)

lemma acl_end_other: "c \<noteq> CHR ''/'' \<Longrightarrow> rmatch acl_end (c # s) = []"
  by (simp add: acl_end_def)

lemma acl_body_group:
  assumes "plain_privs p" and "v \<noteq> []" and "hd v \<noteq> CHR '',''"
  shows "\<exists>s rest. rmatch (Then acl_group acl_end) (p @ CHR ''/'' # v) = ([p], s) # rest"
proof -
  obtain s rest where "rmatch acl_end (CHR ''/'' # v) = ([], s) # rest" using acl_end_slash [OF assms(2,3)] by blast
  then show ?thesis
    using assms(1) unfolding plain_privs_def acl_group_def
    by (elim insertE emptyE)
      (simp_all add: acl_end_other rmatch_opt_hit rmatch_opt_miss del: rmatch.simps(4))
qed


subsection \<open>Access control lists as PostgreSQL writes them\<close>

text \<open>
  An entry is the grantee, the letters of the privileges and the grantor; the grantee \<open>''''\<close> stands for PUBLIC.  A name
  with other characters than letters, digits and the underscore is put in quotes, and an entry with a quote is quoted
  again as an element of the array, each quote in it after a backslash.
\<close>

record acl_item =
  grantee :: string
  acl_privs :: string
  grantor :: string

definition quotes_of :: "string \<Rightarrow> string" where
  "quotes_of name = (if list_all (\<lambda>c. is_alnum c \<or> c = CHR ''_'') name then [] else [CHR 0x5C, CHR 0x22])"

definition elem_quote :: "acl_item \<Rightarrow> string" where
  "elem_quote i = (if quotes_of (grantee i) = [] \<and> quotes_of (grantor i) = [] then [] else [CHR 0x22])"

definition acl_after :: "acl_item \<Rightarrow> string" where
  "acl_after i = acl_privs i @ CHR ''/'' # quotes_of (grantor i) @ grantor i @ quotes_of (grantor i) @ elem_quote i"

definition acl_elem :: "acl_item \<Rightarrow> string" where
  "acl_elem i = elem_quote i @ quotes_of (grantee i) @ grantee i @ quotes_of (grantee i) @ CHR ''='' # acl_after i"

definition acl_text :: "acl_item list \<Rightarrow> string" where
  "acl_text acl = CHR ''{'' # Join (map acl_elem acl) '','' @ ''}''"

text \<open>Names that need no further escapes, and the letters of the privileges on a database with their grant options.\<close>

definition name_char :: "char \<Rightarrow> bool" where
  "name_char c \<longleftrightarrow> c \<notin> {CHR ''='', CHR '','', CHR ''/'', CHR ''{'', CHR ''}'', CHR 0x5C, CHR 0x22}"

definition item_ok :: "acl_item \<Rightarrow> bool" where
  "item_ok i \<longleftrightarrow> list_all name_char (grantee i) \<and> list_all name_char (grantor i) \<and> grantor i \<noteq> [] \<and>
     set (acl_privs i) \<subseteq> set ''CTc*''"

text \<open>The entry the search finds: the first one whose grantee ends with the name, if its privileges have no grant option.\<close>

definition found_by :: "string \<Rightarrow> acl_item \<Rightarrow> bool" where
  "found_by user i \<longleftrightarrow> suffix user (grantee i) \<and> plain_privs (acl_privs i)"

text \<open>The name at the end of a text: the characters of a name in front of the quotes it ends with.\<close>

definition last_name :: "string \<Rightarrow> string" where
  "last_name z = rev (takeWhile name_char (dropWhile quote_char (rev z)))"

lemma name_char_not_quote: "name_char c \<Longrightarrow> \<not> quote_char c"
  by (auto simp: name_char_def quote_char_def)

lemma dropWhile_quotes: "list_all quote_char m \<Longrightarrow> dropWhile quote_char (m @ z) = dropWhile quote_char z"
  by (simp add: list_all_iff dropWhile_append2)

lemma dropWhile_name: "list_all name_char n \<Longrightarrow> n \<noteq> [] \<Longrightarrow> dropWhile quote_char (n @ z) = n @ z"
  by (cases n) (auto simp: name_char_not_quote)

lemma takeWhile_name: "list_all name_char n \<Longrightarrow> takeWhile name_char (n @ z) = n @ takeWhile name_char z"
  by (simp add: list_all_iff takeWhile_append2)

lemma quote_stops: "list_all quote_char w \<Longrightarrow> takeWhile name_char z = [] \<Longrightarrow> takeWhile name_char (w @ z) = []"
  by (cases w) (auto simp: name_char_def quote_char_def)

lemma last_name_suffix:
  assumes "list_all quote_char m" "list_all name_char n" "n \<noteq> []"
  shows "suffix n (last_name (y @ n @ m))"
proof -
  have "last_name (y @ n @ m) = rev (takeWhile name_char (rev n @ rev y))"
    using assms dropWhile_quotes [of "rev m"] dropWhile_name [of "rev n"] by (simp add: last_name_def)
  then show ?thesis using takeWhile_name [of "rev n" "rev y"] assms by (simp add: suffix_def)
qed

lemma last_name_entry:
  assumes c: "c \<in> {CHR '','', CHR ''{''}" and o: "list_all quote_char w" and q: "list_all quote_char q" and g: "list_all name_char g"
  shows "last_name (x @ c # w @ q @ g @ q) = g"
proof -
  have stop: "takeWhile name_char (rev w @ c # rev x) = []"
    using quote_stops [of "rev w"] c o by (auto simp: name_char_def)
  have stop': "takeWhile name_char (rev q @ rev w @ c # rev x) = []"
    using quote_stops [OF _ stop, of "rev q"] q by simp
  have c': "\<not> quote_char c" using c by (auto simp: quote_char_def)
  show ?thesis
  proof (cases "g = []")
    case True
    then have "dropWhile quote_char (rev (x @ c # w @ q @ g @ q)) = c # rev x"
      using o q c' by (simp add: dropWhile_quotes)
    then show ?thesis using True c by (auto simp: last_name_def name_char_def)
  next
    case False
    then have "dropWhile quote_char (rev (x @ c # w @ q @ g @ q)) = rev g @ rev q @ rev w @ c # rev x"
      using q g dropWhile_name [of "rev g"] by (simp add: dropWhile_quotes)
    then show ?thesis using stop' takeWhile_name [of "rev g"] g by (simp add: last_name_def)
  qed
qed

lemma end_quotes:
  assumes "list_all quote_char m" "list_all quote_char q" "list_all name_char n" "n \<noteq> []"
    "list_all name_char g" "g \<noteq> []" "y @ n @ m = z @ g @ q"
  shows "m = q"
proof -
  have "takeWhile quote_char (rev m' @ rev n' @ k) = rev m'"
    if "list_all quote_char m'" "list_all name_char n'" "n' \<noteq> []" for m' n' k
    using that by (cases n' rule: rev_cases) (simp_all add: takeWhile_append2 list_all_iff name_char_not_quote takeWhile_append)
  from this [OF assms(1,3,4), of "rev y"] this [OF assms(2,5,6), of "rev z"] arg_cong [OF assms(7), of rev]
  show ?thesis by simp
qed

lemma first_equals:
  "c \<notin> set a \<Longrightarrow> c \<notin> set b \<Longrightarrow> a @ c # s = b @ c # t \<longleftrightarrow> a = b \<and> s = t"
proof (induction a arbitrary: b)
  case Nil
  then show ?case by (cases b) auto
next
  case (Cons d a)
  then show ?case by (cases b) auto
qed

abbreviation user_re :: "string \<Rightarrow> re" where
  "user_re user \<equiv> Then (Lit user) acl_tail"

lemma user_re_before_equals:
  assumes m: "rmatch (user_re user) (s @ CHR ''='' # t) \<noteq> []" and s: "CHR ''='' \<notin> set s" and u: "list_all name_char user"
  shows "\<exists>m. s = user @ m \<and> list_all quote_char m \<and> rmatch (Then acl_group acl_end) t \<noteq> []"
proof -
  obtain r where r: "s @ CHR ''='' # t = user @ r" "rmatch acl_tail r \<noteq> []" using m unfolding rmatch_Lit by blast
  then obtain m v where v: "r = m @ CHR ''='' # v" "list_all quote_char m" "rmatch (Then acl_group acl_end) v \<noteq> []"
    using acl_tail_match by blast
  moreover have "CHR ''='' \<notin> set (user @ m)"
    using u v(2) by (auto simp: list_all_iff name_char_def quote_char_def)
  ultimately show ?thesis using r(1) first_equals [OF s, of "user @ m" t v] by auto
qed

lemma user_re_no_equals:
  assumes "CHR ''='' \<notin> set s"
  shows "rmatch (user_re user) s = []"
proof (rule ccontr)
  assume "rmatch (user_re user) s \<noteq> []"
  then obtain r where "s = user @ r" "rmatch acl_tail r \<noteq> []" unfolding rmatch_Lit by blast
  with acl_tail_match assms show False by fastforce
qed

lemma quotes_of_quotes: "list_all quote_char (quotes_of n)"
  by (simp add: quotes_of_def quote_char_def)

lemma elem_quote_quotes: "list_all quote_char (elem_quote i)"
  by (simp add: elem_quote_def quote_char_def)

lemma quotes_no_equals: "list_all quote_char m \<Longrightarrow> CHR ''='' \<notin> set m"
  by (auto simp: list_all_iff quote_char_def)

lemma name_no_equals: "list_all name_char n \<Longrightarrow> CHR ''='' \<notin> set n"
  by (auto simp: list_all_iff name_char_def)

lemma acl_after_no_equals: "item_ok i \<Longrightarrow> CHR ''='' \<notin> set (acl_after i)"
  using quotes_no_equals [OF quotes_of_quotes, of "grantor i"] quotes_no_equals [OF elem_quote_quotes, of i]
    name_no_equals [of "grantor i"]
  by (auto simp: item_ok_def acl_after_def)

lemma plain_no_slash: "plain_privs p \<Longrightarrow> CHR ''/'' \<notin> set p"
  by (auto simp: plain_privs_def)

lemma body_of_entry:
  assumes i: "item_ok i" and m: "rmatch (Then acl_group acl_end) (acl_after i @ t) \<noteq> []"
  shows "plain_privs (acl_privs i)"
proof -
  obtain p v where p: "plain_privs p" "acl_after i @ t = p @ CHR ''/'' # v" using acl_body_match [OF m] by blast
  moreover have "CHR ''/'' \<notin> set (acl_privs i)" using i by (auto simp: item_ok_def)
  ultimately have "acl_privs i = p" using plain_no_slash [OF p(1)] by (auto simp: acl_after_def first_equals)
  with p show ?thesis by simp
qed

lemma after_entry:
  assumes i: "item_ok i" and p: "plain_privs (acl_privs i)"
  shows "\<exists>s rest. rmatch (Then acl_group acl_end) (acl_after i @ t) = ([acl_privs i], s) # rest"
proof -
  let ?v = "quotes_of (grantor i) @ grantor i @ quotes_of (grantor i) @ elem_quote i @ t"
  have "?v \<noteq> []" "hd ?v \<noteq> CHR '',''"
    using i by (cases "grantor i"; simp add: item_ok_def quotes_of_def name_char_def)+
  then show ?thesis using acl_body_group [OF p, of ?v] by (simp add: acl_after_def)
qed

lemma tail_after_quotes: "rmatch acl_tail (quotes_of n @ CHR ''='' # t) = rmatch (Then acl_group acl_end) t"
  by (simp add: quotes_of_def acl_tail_parts)

text \<open>The text in front of the equals sign of an entry, after any other text without that sign.\<close>

definition lead :: "string \<Rightarrow> char \<Rightarrow> acl_item \<Rightarrow> string" where
  "lead x c i = x @ c # elem_quote i @ quotes_of (grantee i) @ grantee i @ quotes_of (grantee i)"

lemma lead_no_equals:
  "CHR ''='' \<notin> set x \<Longrightarrow> c \<in> {CHR '','', CHR ''{''} \<Longrightarrow> item_ok i \<Longrightarrow> CHR ''='' \<notin> set (lead x c i)"
  using quotes_no_equals [OF quotes_of_quotes, of "grantee i"] quotes_no_equals [OF elem_quote_quotes, of i]
    name_no_equals [of "grantee i"]
  by (auto simp: item_ok_def lead_def)

lemma match_in_lead:
  assumes x: "CHR ''='' \<notin> set x" and c: "c \<in> {CHR '','', CHR ''{''}" and i: "item_ok i"
    and u: "list_all name_char user" "user \<noteq> []"
    and m: "rmatch (user_re user) (drop n (lead x c i) @ CHR ''='' # acl_after i @ t) \<noteq> []"
  shows "found_by user i \<and> drop n (lead x c i) = user @ quotes_of (grantee i)"
proof -
  have "CHR ''='' \<notin> set (drop n (lead x c i))" using lead_no_equals [OF x c i] by (meson in_set_dropD)
  then obtain m where m': "drop n (lead x c i) = user @ m" "list_all quote_char m"
    and body: "rmatch (Then acl_group acl_end) (acl_after i @ t) \<noteq> []"
    using user_re_before_equals [OF m _ u(1)] by blast
  obtain y where l: "lead x c i = y @ user @ m" using m'(1) by (metis append_take_drop_id)
  have g: "list_all name_char (grantee i)" using i by (simp add: item_ok_def)
  have "last_name (lead x c i) = grantee i"
    unfolding lead_def using last_name_entry [OF c elem_quote_quotes quotes_of_quotes g] .
  moreover have "suffix user (last_name (lead x c i))"
    using last_name_suffix [OF m'(2) u, of y] l by simp
  ultimately have s: "suffix user (grantee i)" by simp
  then have g': "grantee i \<noteq> []" using u(2) by auto
  have "y @ user @ m = (x @ c # elem_quote i @ quotes_of (grantee i)) @ grantee i @ quotes_of (grantee i)"
    using l by (simp add: lead_def)
  then have "m = quotes_of (grantee i)" by (rule end_quotes [OF m'(2) quotes_of_quotes u g g'])
  with m'(1) s body_of_entry [OF i body] show ?thesis by (simp add: found_by_def)
qed

lemma search_entry:
  assumes x: "CHR ''='' \<notin> set x" and c: "c \<in> {CHR '','', CHR ''{''}" and i: "item_ok i"
    and u: "list_all name_char user" "user \<noteq> []"
  shows "map_option (\<lambda>ms. ms ! 1) (FindSubmatch (user_re user) (x @ c # acl_elem i @ t)) =
    (if found_by user i then Some (acl_privs i)
     else map_option (\<lambda>ms. ms ! 1) (FindSubmatch (user_re user) (acl_after i @ t)))"
proof -
  have split: "x @ c # acl_elem i @ t = lead x c i @ CHR ''='' # acl_after i @ t" by (simp add: lead_def acl_elem_def)
  show ?thesis
  proof (cases "found_by user i")
    case True
    then obtain y where y: "lead x c i = y @ user @ quotes_of (grantee i)"
      by (auto simp: found_by_def suffix_def lead_def)
    let ?s = "user @ quotes_of (grantee i) @ CHR ''='' # acl_after i @ t"
    have "rmatch (user_re user) (drop n y @ ?s) = []" if "n < length y" for n
    proof (rule ccontr)
      assume "rmatch (user_re user) (drop n y @ ?s) \<noteq> []"
      then have "rmatch (user_re user) (drop n (lead x c i) @ CHR ''='' # acl_after i @ t) \<noteq> []"
        using that y by (simp del: rmatch.simps)
      from match_in_lead [OF x c i u this] y that show False by simp
    qed
    then have "FindSubmatch (user_re user) (y @ ?s) = FindSubmatch (user_re user) ?s" by (rule FindSubmatch_skip)
    moreover have "x @ c # acl_elem i @ t = y @ ?s" using split y by simp
    ultimately have "FindSubmatch (user_re user) (x @ c # acl_elem i @ t) = FindSubmatch (user_re user) ?s" by (simp only:)
    moreover obtain s rest where "rmatch (user_re user) ?s = ([acl_privs i], s) # rest"
      using after_entry [OF i, of t] True tail_after_quotes [of "grantee i" "acl_after i @ t"] by (auto simp: found_by_def)
    moreover obtain d ds where "?s = d # ds" using u(2) by (cases user) auto
    ultimately show ?thesis using True by (simp del: rmatch.simps)
  next
    case False
    then have "rmatch (user_re user) (drop n (lead x c i) @ CHR ''='' # acl_after i @ t) = []" for n
      using match_in_lead [OF x c i u] by blast
    moreover have "rmatch (user_re user) (CHR ''='' # acl_after i @ t) = []"
      using u by (cases user) (auto simp: name_char_def)
    ultimately have "FindSubmatch (user_re user) (x @ c # acl_elem i @ t) = FindSubmatch (user_re user) (acl_after i @ t)"
      unfolding split using FindSubmatch_skip [of "lead x c i" "user_re user" "CHR ''='' # acl_after i @ t"] by (simp del: rmatch.simps)
    then show ?thesis using False by simp
  qed
qed

fun acl_rest :: "acl_item list \<Rightarrow> string" where
  "acl_rest [] = ''}''"
| "acl_rest (i # acl) = CHR '','' # acl_elem i @ acl_rest acl"

lemma search_rest:
  assumes u: "list_all name_char user" "user \<noteq> []"
  shows "CHR ''='' \<notin> set x \<Longrightarrow> list_all item_ok acl \<Longrightarrow>
    map_option (\<lambda>ms. ms ! 1) (FindSubmatch (user_re user) (x @ acl_rest acl)) = map_option acl_privs (find (found_by user) acl)"
proof (induction acl arbitrary: x)
  case Nil
  then have "CHR ''='' \<notin> set (x @ ''}'')" by simp
  then have "FindSubmatch (user_re user) (x @ ''}'') = None"
    by (intro FindSubmatch_none user_re_no_equals) (meson in_set_dropD)
  then show ?case by simp
next
  case (Cons i acl)
  have "map_option (\<lambda>ms. ms ! 1) (FindSubmatch (user_re user) (acl_after i @ acl_rest acl)) = map_option acl_privs (find (found_by user) acl)"
    using Cons.prems acl_after_no_equals by (intro Cons.IH) auto
  then show ?case using search_entry [OF Cons.prems(1) _ _ u, of "CHR '',''" i "acl_rest acl"] Cons.prems(2) by simp
qed

lemma acl_rest_Join: "Join (map acl_elem (i # acl)) '','' @ ''}'' = acl_elem i @ acl_rest acl"
  by (induction acl arbitrary: i) auto

lemma search_acl:
  assumes u: "list_all name_char user" "user \<noteq> []" and acl: "list_all item_ok acl"
  shows "map_option (\<lambda>ms. ms ! 1) (FindSubmatch (user_re user) (acl_text acl)) = map_option acl_privs (find (found_by user) acl)"
proof (cases acl)
  case Nil
  then show ?thesis using search_rest [OF u, of "''{''" "[]"] by (simp add: acl_text_def)
next
  case (Cons i rest)
  have "map_option (\<lambda>ms. ms ! 1) (FindSubmatch (user_re user) (acl_after i @ acl_rest rest)) = map_option acl_privs (find (found_by user) rest)"
    using Cons acl acl_after_no_equals by (intro search_rest [OF u]) auto
  then show ?thesis
    using search_entry [OF _ _ _ u, of "[]" "CHR ''{''" i "acl_rest rest"] acl Cons acl_rest_Join [of i rest]
    by (simp add: acl_text_def)
qed

subsection \<open>Reading the privileges of a user\<close>

definition datacl_query :: string where
  "datacl_query = ''SELECT datacl FROM pg_database WHERE datname = $1''"

text \<open>The names of the privileges of an entry, and those a list of entries gives to a user.\<close>

definition acl_names :: "string \<Rightarrow> string list" where
  "acl_names = map (\<lambda>chr. case map_of DATABASE_PRIV_MAP [chr] of None \<Rightarrow> '''' | Some p \<Rightarrow> p)"

definition granted :: "string \<Rightarrow> acl_item list \<Rightarrow> string set" where
  "granted user acl = (\<Union>i \<in> {i \<in> set acl. grantee i = user}. set (acl_names (filter (\<lambda>c. c \<noteq> CHR ''*'') (acl_privs i))))"

definition plain_user :: "string \<Rightarrow> bool" where
  "plain_user user \<longleftrightarrow> user \<noteq> [] \<and> list_all (\<lambda>c. is_alnum c \<or> c \<in> {CHR ''_'', CHR ''-'', CHR ''@''}) user"

text \<open>
  What the code relies on when it reads: on the connection \<open>c\<close> the server gives the entries \<open>acl h\<close> of the database
  \<open>db\<close>, or NULL when there are none, and a banner with its version; reading changes nothing.
\<close>

definition acl_server :: "env \<Rightarrow> conn \<Rightarrow> string \<Rightarrow> (hist \<Rightarrow> acl_item list) \<Rightarrow> bool" where
  "acl_server E c db acl \<longleftrightarrow>
     (\<forall>h. list_all item_ok (acl h)) \<and>
     (\<forall>h q args. acl (h @ [SqlQuery c q args]) = acl h) \<and>
     (\<forall>h. \<exists>cols v. sql_query E h c datacl_query [GStr db] = Inr \<lparr>row_cols = cols, row_data = [[v]]\<rparr> \<and>
        (v \<in> {GStr (acl_text (acl h)), GBytes (acl_text (acl h))} \<or> v = GNull \<and> acl h = [])) \<and>
     (\<forall>h. \<exists>cols banner version. sql_query E h c ''SELECT version();'' [] = Inr \<lparr>row_cols = cols, row_data = [[GStr banner]]\<rparr> \<and>
        parseVersionString banner = Return (Inr version))"

lemma acl_serverD:
  assumes "acl_server E c db acl"
  shows "list_all item_ok (acl h)"
    and "acl (h @ [SqlQuery c q args]) = acl h"
    and "\<exists>cols v. sql_query E h c datacl_query [GStr db] = Inr \<lparr>row_cols = cols, row_data = [[v]]\<rparr> \<and>
        (v \<in> {GStr (acl_text (acl h)), GBytes (acl_text (acl h))} \<or> v = GNull \<and> acl h = [])"
    and "\<exists>cols banner version. sql_query E h c ''SELECT version();'' [] = Inr \<lparr>row_cols = cols, row_data = [[GStr banner]]\<rparr> \<and>
        parseVersionString banner = Return (Inr version)"
  using assms unfolding acl_server_def by - ((erule conjE)+, simp)+

lemma plain_user_re: "plain_user user \<Longrightarrow> acl_re L user = Some (user_re user)"
  by (simp add: plain_user_def acl_re_def)

lemma plain_user_name: "plain_user user \<Longrightarrow> list_all name_char user"
  by (auto simp: plain_user_def list_all_iff name_char_def is_alnum_def Let_def)

definition found_privs :: "string \<Rightarrow> acl_item list \<Rightarrow> string list" where
  "found_privs user acl = (case find (found_by user) acl of None \<Rightarrow> [] | Some i \<Rightarrow> acl_names (acl_privs i))"

lemma plain_privs_names: "plain_privs p \<Longrightarrow> set (acl_names p) \<subseteq> {''CREATE'', ''TEMPORARY'', ''CONNECT''}"
  by (auto simp: plain_privs_def acl_names_def DATABASE_PRIV_MAP_def)

lemma found_privs_known: "set (found_privs user acl) \<subseteq> {''CREATE'', ''TEMPORARY'', ''CONNECT''}"
proof (cases "find (found_by user) acl")
  case (Some i)
  then have "plain_privs (acl_privs i)" by (auto simp: find_Some_iff found_by_def)
  then show ?thesis using Some plain_privs_names by (simp add: found_privs_def)
qed (simp add: found_privs_def)

lemma search_found:
  assumes "plain_user user" "list_all item_ok acl"
  shows "(case FindSubmatch (user_re user) (acl_text acl) of None \<Rightarrow> [] | Some submatches \<Rightarrow> acl_names (submatches ! 1)) =
    found_privs user acl"
proof -
  have "user \<noteq> []" using assms(1) by (simp add: plain_user_def)
  with search_acl [OF plain_user_name [OF assms(1)] _ assms(2)]
  have s: "map_option (\<lambda>ms. ms ! 1) (FindSubmatch (user_re user) (acl_text acl)) = map_option acl_privs (find (found_by user) acl)" .
  show ?thesis
  proof (cases "FindSubmatch (user_re user) (acl_text acl)")
    case None
    then have "find (found_by user) acl = None" using s by simp
    then show ?thesis using None by (simp add: found_privs_def)
  next
    case (Some ms)
    then obtain i where "find (found_by user) acl = Some i" "acl_privs i = ms ! 1"
      using s by (cases "find (found_by user) acl") simp_all
    then show ?thesis using Some by (simp add: found_privs_def)
  qed
qed

lemma search_nothing: "plain_user user \<Longrightarrow> FindSubmatch (user_re user) '''' = None"
  by (cases user) (auto simp: plain_user_def)

lemma select_null_string_row:
  "sql_query E h c q args = Inr \<lparr>row_cols = cols, row_data = [[v]]\<rparr> \<Longrightarrow> v \<in> {GStr s, GBytes s} \<or> v = GNull \<and> s = '''' \<Longrightarrow>
     SelectFirstValueStringNullToEmpty E c q args h = (Return (Inr s), h @ [SqlQuery c q args])"
  by (auto simp: SelectFirstValueStringNullToEmpty_def run scan_NullString_def)

lemma getServerVersion_run:
  "sql_query E h c ''SELECT version();'' [] = Inr \<lparr>row_cols = cols, row_data = [[GStr banner]]\<rparr> \<Longrightarrow>
     parseVersionString banner = Return (Inr version) \<Longrightarrow>
     getServerVersion E c h = (Return (Inr version), h @ [SqlQuery c ''SELECT version();'' []])"
  by (simp add: getServerVersion_def SelectFirstValueString_def run scan_NullString_def)

lemma getDatabasePrivilegesPg_run:
  assumes L: "funk_laws (lib E)" and s: "acl_server E c db acl" and u: "plain_user user"
  shows "\<exists>ps. getDatabasePrivilegesPg E c user db h =
      (Return (Inr ps), h @ [SqlQuery c datacl_query [GStr db], SqlQuery c ''SELECT version();'' []]) \<and>
    distinct ps \<and> set ps = set (found_privs user (acl h))"
proof -
  let ?q = "SqlQuery c datacl_query [GStr db]"
  obtain cols v where v: "sql_query E h c datacl_query [GStr db] = Inr \<lparr>row_cols = cols, row_data = [[v]]\<rparr>"
    "v \<in> {GStr (acl_text (acl h)), GBytes (acl_text (acl h))} \<or> v = GNull \<and> acl h = []" using acl_serverD(3) [OF s] by blast
  obtain s' where s': "v \<in> {GStr s', GBytes s'} \<or> v = GNull \<and> s' = ''''"
    and f: "(case FindSubmatch (user_re user) s' of None \<Rightarrow> [] | Some submatches \<Rightarrow> acl_names (submatches ! 1)) = found_privs user (acl h)"
    using v(2)
  proof
    assume "v \<in> {GStr (acl_text (acl h)), GBytes (acl_text (acl h))}"
    with search_found [OF u acl_serverD(1) [OF s]] that show ?thesis by blast
  next
    assume "v = GNull \<and> acl h = []"
    with that [of "''''"] search_nothing [OF u] show ?thesis by (simp add: found_privs_def)
  qed
  note r1 = select_null_string_row [OF v(1) s']
  obtain version where r2: "getServerVersion E c (h @ [?q]) = (Return (Inr version), (h @ [?q]) @ [SqlQuery c ''SELECT version();'' []])"
    using getServerVersion_run acl_serverD(4) [OF s, of "h @ [?q]"] by blast
  have known: "''ALL'' \<notin> set (found_privs user (acl h))" "''TEMP'' \<notin> set (found_privs user (acl h))"
    using found_privs_known [of user "acl h"] by auto
  then obtain ps where n: "NormalizePrivileges (lib E) (found_privs user (acl h)) ''database'' version = Return ps" "distinct ps"
    "set ps = set (found_privs user (acl h))"
    using NormalizePrivileges_no_ALL [OF L, of "found_privs user (acl h)" "''database''" version] by (auto simp: canon_noop)
  have "getDatabasePrivilegesPg E c user db h = (Return (Inr ps), (h @ [?q]) @ [SqlQuery c ''SELECT version();'' []])"
    using r1 r2 n(1) plain_user_re [OF u] f
    unfolding getDatabasePrivilegesPg_def acl_names_def datacl_query_def by (simp add: run Let_def)
  with n(2,3) show ?thesis by simp
qed

text \<open>C26: the text of the list is searched for the name of the user, not compared with the grantees: what is read for a
  user is the first entry whose grantee ends with the user's name and whose privileges carry no grant option, and
  nothing if there is none.\<close>

theorem getDatabasePrivilegesPg_first_match:
  assumes "funk_laws (lib E)" and "acl_server E c db acl" and "plain_user user"
  shows "\<exists>ps. getDatabasePrivilegesPg E c user db h =
      (Return (Inr ps), h @ [SqlQuery c datacl_query [GStr db], SqlQuery c ''SELECT version();'' []]) \<and>
    distinct ps \<and>
    set ps = (case find (\<lambda>i. suffix user (grantee i) \<and> plain_privs (acl_privs i)) (acl h) of
                None \<Rightarrow> {} | Some i \<Rightarrow> set (acl_names (acl_privs i)))"
proof -
  have "found_by user = (\<lambda>i. suffix user (grantee i) \<and> plain_privs (acl_privs i))" by (simp add: fun_eq_iff found_by_def)
  then have "set (found_privs user (acl h)) = (case find (\<lambda>i. suffix user (grantee i) \<and> plain_privs (acl_privs i)) (acl h) of
                None \<Rightarrow> {} | Some i \<Rightarrow> set (acl_names (acl_privs i)))"
    by (simp add: found_privs_def split: option.splits)
  then show ?thesis using getDatabasePrivilegesPg_run [OF assms, of h] by (simp only:)
qed

subsection \<open>Reconciling the privileges on a database\<close>

definition database_privs :: "string set" where
  "database_privs = {''CREATE'', ''TEMPORARY'', ''CONNECT''}"

definition database_grant :: "libs \<Rightarrow> string \<Rightarrow> string \<Rightarrow> string list \<Rightarrow> string" where
  "database_grant L user db ps =
     ''GRANT '' @ Join ps '', '' @ '' ON DATABASE '' @ pq_QuoteIdentifier L db @ '' TO '' @ pq_QuoteIdentifier L user"

definition database_revoke :: "libs \<Rightarrow> string \<Rightarrow> string \<Rightarrow> string list \<Rightarrow> string" where
  "database_revoke L user db ps =
     ''REVOKE '' @ Join ps '', '' @ '' ON DATABASE '' @ pq_QuoteIdentifier L db @ '' FROM '' @ pq_QuoteIdentifier L user"

text \<open>The name tells the user's entry from the others: no other grantee ends with it, and the user has one entry at most.\<close>

definition told_apart :: "string \<Rightarrow> acl_item list \<Rightarrow> bool" where
  "told_apart user acl \<longleftrightarrow>
     list_all (\<lambda>i. suffix user (grantee i) \<longrightarrow> grantee i = user \<and> plain_privs (acl_privs i)) acl \<and> distinct (map grantee acl)"

definition database_server :: "env \<Rightarrow> conn \<Rightarrow> string \<Rightarrow> string \<Rightarrow> (hist \<Rightarrow> acl_item list) \<Rightarrow> bool" where
  "database_server E c user db acl \<longleftrightarrow>
     acl_server E c db acl \<and> (\<forall>h. told_apart user (acl h)) \<and>
     grants_apply E c database_privs (database_grant (lib E) user db) (database_revoke (lib E) user db) (\<lambda>h. granted user (acl h))"

lemma plain_privs_no_option: "plain_privs p \<Longrightarrow> filter (\<lambda>c. c \<noteq> CHR ''*'') p = p"
  by (auto simp: plain_privs_def)

lemma told_apart_found:
  assumes "told_apart user acl"
  shows "set (found_privs user acl) = granted user acl"
proof -
  have f: "found_by user i \<longleftrightarrow> grantee i = user" if "i \<in> set acl" for i
    using assms that by (auto simp: told_apart_def list_all_iff found_by_def)
  show ?thesis
  proof (cases "find (found_by user) acl")
    case None
    then have "{i \<in> set acl. grantee i = user} = {}" using f by (auto simp: find_None_iff)
    then have "granted user acl = {}" unfolding granted_def by (simp only: UN_empty)
    with None show ?thesis by (simp add: found_privs_def)
  next
    case (Some i)
    then have m: "i \<in> set acl" "found_by user i" unfolding find_Some_iff by auto
    have "grantee i = user" using f [OF m(1)] m(2) by (rule iffD1)
    moreover have "plain_privs (acl_privs i)" using m(2) unfolding found_by_def by (rule conjunct2)
    ultimately have i: "i \<in> set acl" "grantee i = user" "plain_privs (acl_privs i)" using m(1) by blast+
    have "inj_on grantee (set acl)" using assms by (simp add: told_apart_def distinct_map)
    then have "j = i" if "j \<in> set acl" "grantee j = user" for j
      using inj_onD [of grantee "set acl" j i] that i(1,2) by simp
    then have "{i \<in> set acl. grantee i = user} = {i}" using i(1,2) by blast
    with Some i(3) show ?thesis by (simp add: found_privs_def granted_def plain_privs_no_option)
  qed
qed

lemma emits_getDatabasePrivilegesPg: "emits is_read (getDatabasePrivilegesPg E c user db)"
  by (auto simp: getDatabasePrivilegesPg_def Let_def intro!: emits_intro split: option.splits)

lemma grant_database_exec:
  "user \<noteq> ''PUBLIC'' \<Longrightarrow> grantDatabasePrivileges E c user db = (\<lambda>ps. Exec E c (database_grant (lib E) user db ps) [])"
  by (simp add: fun_eq_iff grantDatabasePrivileges_def database_grant_def)

lemma revoke_database_exec:
  "user \<noteq> ''PUBLIC'' \<Longrightarrow> revokeDatabasePrivileges E c user db = (\<lambda>ps. Exec E c (database_revoke (lib E) user db ps) [])"
  by (simp add: fun_eq_iff revokeDatabasePrivileges_def database_revoke_def)

lemma database_server_backend:
  assumes L: "funk_laws (lib E)" and s: "database_server E c user db acl" and u: "plain_user user" "user \<noteq> ''PUBLIC''"
  shows "privs_backend (\<lambda>h. granted user (acl h)) (getDatabasePrivilegesPg E c user db)
    (grantDatabasePrivileges E c user db) (revokeDatabasePrivileges E c user db) database_privs {}"
proof -
  have acl: "acl_server E c db acl" "\<And>h. told_apart user (acl h)"
    and g: "grants_apply E c database_privs (database_grant (lib E) user db) (database_revoke (lib E) user db) (\<lambda>h. granted user (acl h))"
    using s by (simp_all add: database_server_def)
  have "\<exists>ps h'. getDatabasePrivilegesPg E c user db h = (Return (Inr ps), h') \<and> set ps = granted user (acl h) \<and> granted user (acl h') = granted user (acl h)" for h
  proof -
    let ?h = "(h @ [SqlQuery c datacl_query [GStr db]]) @ [SqlQuery c ''SELECT version();'' []]"
    have "granted user (acl ?h) = granted user (acl h)" by (simp only: acl_serverD(2) [OF acl(1)])
    moreover obtain ps where "getDatabasePrivilegesPg E c user db h = (Return (Inr ps), ?h)" "set ps = granted user (acl h)"
      using getDatabasePrivilegesPg_run [OF L acl(1) u(1), of h] told_apart_found [OF acl(2), of h] by auto
    ultimately show ?thesis by blast
  qed
  note b = grants_apply_backend [OF g this emits_getDatabasePrivilegesPg]
  with b u show ?thesis by (simp add: grant_database_exec revoke_database_exec)
qed

text \<open>C25: reconciling the privileges of a user on a PostgreSQL database converges in one run, if no other grantee's name
  ends with the name of the user and the user has no grant option: afterwards the list gives the user exactly the desired
  privileges, the run reports a change exactly when it gave others before, and a run that finds the desired ones only reads.\<close>

theorem ReconcilePrivs_database_converges:
  assumes "funk_laws (lib E)" and "database_server E c user db acl" and "plain_user user" and "user \<noteq> ''PUBLIC''"
    and "NewDatabasePrivsReconciler E dp c user db ps v = Inr r" and "ProductName v \<noteq> CockroachDB" and "set ps \<subseteq> database_privs"
  shows "\<exists>r' h'. ReconcilePrivs E r h = (Return (r', granted user (acl h) \<noteq> set ps, None), h') \<and> granted user (acl h') = set ps \<and>
    (\<exists>r'' es. ReconcilePrivs E r h' = (Return (r'', False, None), h' @ es) \<and> list_all is_read es)"
proof -
  note backend = database_server_backend [OF assms(1-4)]
  have D: "DesiredPrivSet r = ps" using assms(5) by (auto simp: NewDatabasePrivsReconciler_def)
  have "privs_backend.uses (getDatabasePrivilegesPg E c user db) (grantDatabasePrivileges E c user db)
      (revokeDatabasePrivileges E c user db) database_privs r"
    using assms(5-7) unfolding privs_backend.uses_def [OF backend] by (auto simp: NewDatabasePrivsReconciler_def)
  from ReconcilePrivs_settles [OF backend assms(1) this] show ?thesis unfolding D by simp
qed

text \<open>Without that condition it does not: when the entry that is found, whoever it is of, has the desired privileges, the
  run reports that nothing changed and only reads, whatever the user holds.\<close>

theorem database_privileges_of_another_user:
  assumes "funk_laws (lib E)" and "acl_server E c db acl" and "plain_user user"
    and "find (found_by user) (acl h) = Some i" and "set ps = set (acl_names (acl_privs i))"
    and "NewDatabasePrivsReconciler E dp c user db ps v = Inr r" and "ProductName v \<noteq> CockroachDB"
  shows "\<exists>r'. ReconcilePrivs E r h =
    (Return (r', False, None), h @ [SqlQuery c datacl_query [GStr db], SqlQuery c ''SELECT version();'' []])"
proof -
  obtain qs where q: "getDatabasePrivilegesPg E c user db h =
      (Return (Inr qs), h @ [SqlQuery c datacl_query [GStr db], SqlQuery c ''SELECT version();'' []])" "set qs = set ps"
    using getDatabasePrivilegesPg_run [OF assms(1-3), of h] assms(4,5) by (auto simp: found_privs_def)
  obtain j rv gr where d: "diffPrivSet (lib E) qs ps = (j, rv, gr)" by (rule prod_cases3)
  then have "rv = []" "gr = []" using diffPrivSet_sets [OF assms(1) d] q(2) by simp_all
  with q(1) d assms(6,7) show ?thesis by (auto simp: ReconcilePrivs_def NewDatabasePrivsReconciler_def run Let_def)
qed

subsection \<open>A PostgreSQL server with a list\<close>

text \<open>
  A server that satisfies the laws for one user and one database: the list has the entries \<open>others\<close>, and after them the
  entry of the user with the privileges that the statements of the history leave.
\<close>

definition letters :: "string set \<Rightarrow> string" where
  "letters S = filter (\<lambda>chr. case map_of DATABASE_PRIV_MAP [chr] of None \<Rightarrow> False | Some p \<Rightarrow> p \<in> S) ''CTc''"

definition listed_acl :: "conn \<Rightarrow> string \<Rightarrow> string \<Rightarrow> acl_item list \<Rightarrow> hist \<Rightarrow> acl_item list" where
  "listed_acl c user db others h =
     others @ [\<lparr>grantee = user, acl_privs = letters (replay_grants c database_privs
       ('' ON DATABASE '' @ pq_QuoteIdentifier ref_libs db @ '' TO '' @ pq_QuoteIdentifier ref_libs user)
       ('' ON DATABASE '' @ pq_QuoteIdentifier ref_libs db @ '' FROM '' @ pq_QuoteIdentifier ref_libs user) h),
       grantor = ''postgres''\<rparr>]"

definition listed_env :: "conn \<Rightarrow> string \<Rightarrow> string \<Rightarrow> acl_item list \<Rightarrow> env" where
  "listed_env c user db others =
     null_env\<lparr>
       sql_query := (\<lambda>h c' q args.
         if q = datacl_query then Inr \<lparr>row_cols = Inr [''datacl''], row_data = [[GBytes (acl_text (listed_acl c user db others h))]]\<rparr>
         else Inr \<lparr>row_cols = Inr [''version''], row_data = [[GStr (''PostgreSQL '' @ Itoa 15 @ ''.'' @ Itoa 3 @ '' '' @ ''on x86_64'')]]\<rparr>),
       sql_exec := (\<lambda>h c' q args. None)\<rparr>"

lemma letters_plain: "plain_privs (letters S)"
  by (simp add: letters_def plain_privs_def DATABASE_PRIV_MAP_def)

lemma letters_names: "S \<subseteq> database_privs \<Longrightarrow> set (acl_names (letters S)) = S"
  by (auto simp: letters_def acl_names_def DATABASE_PRIV_MAP_def database_privs_def)

definition others_ok :: "string \<Rightarrow> acl_item list \<Rightarrow> bool" where
  "others_ok user others \<longleftrightarrow>
     list_all (\<lambda>i. item_ok i \<and> \<not> suffix user (grantee i)) others \<and> distinct (map grantee others)"

lemma listed_acl_server:
  assumes "plain_user user" "list_all item_ok others"
  shows "acl_server (listed_env c user db others) c db (listed_acl c user db others)"
proof -
  have "set (letters S) \<subseteq> set ''CTc*''" for S by (auto simp: letters_def)
  moreover have "list_all name_char ''postgres''" by (simp add: name_char_def)
  moreover have "parseVersionString (''PostgreSQL '' @ Itoa 15 @ ''.'' @ Itoa 3 @ '' '' @ ''on x86_64'') =
      Return (Inr \<lparr>ProductName = PostgreSQL, VersionStr = Itoa 15 @ ''.'' @ Itoa 3, Major = 15, Minor = 3, Patch = -1\<rparr>)"
    by (rule parseVersionString_postgres) simp_all
  moreover have "datacl_query \<noteq> ''SELECT version();''" by (simp add: datacl_query_def)
  moreover have "replay_event c known add sub (SqlQuery c q args) S = S" for known add sub q args S
    by (simp add: replay_event_def)
  ultimately show ?thesis
    using assms plain_user_name [OF assms(1)] unfolding acl_server_def
    by (intro conjI allI) (simp_all add: listed_acl_def listed_env_def item_ok_def replay_grants_snoc, blast?)
qed

lemma listed_database_server:
  assumes u: "plain_user user" and o: "others_ok user others"
  shows "database_server (listed_env c user db others) c user db (listed_acl c user db others)"
proof -
  have l: "lib (listed_env c user db others) = ref_libs" by (simp add: listed_env_def)
  have n: "grantee i \<noteq> user" if "i \<in> set others" for i
    using that o by (auto simp: others_ok_def list_all_iff)
  then have "{i \<in> set (listed_acl c user db others h). grantee i = user} = {last (listed_acl c user db others h)}" for h
    by (auto simp: listed_acl_def)
  then have "granted user (listed_acl c user db others h) = replay_grants c database_privs
       ('' ON DATABASE '' @ pq_QuoteIdentifier ref_libs db @ '' TO '' @ pq_QuoteIdentifier ref_libs user)
       ('' ON DATABASE '' @ pq_QuoteIdentifier ref_libs db @ '' FROM '' @ pq_QuoteIdentifier ref_libs user) h" for h
    unfolding granted_def
    by (simp add: listed_acl_def plain_privs_no_option letters_plain letters_names replay_grants_known)
  moreover have "told_apart user (listed_acl c user db others h)" for h
    using o n by (auto simp: told_apart_def listed_acl_def others_ok_def letters_plain list_all_iff)
  moreover have "acl_server (listed_env c user db others) c db (listed_acl c user db others)"
    using o by (intro listed_acl_server [OF u]) (auto simp: others_ok_def list_all_iff)
  moreover have "grants_apply (listed_env c user db others) c database_privs (database_grant ref_libs user db) (database_revoke ref_libs user db)
      (replay_grants c database_privs
       ('' ON DATABASE '' @ pq_QuoteIdentifier ref_libs db @ '' TO '' @ pq_QuoteIdentifier ref_libs user)
       ('' ON DATABASE '' @ pq_QuoteIdentifier ref_libs db @ '' FROM '' @ pq_QuoteIdentifier ref_libs user))"
    unfolding database_grant_def [abs_def] database_revoke_def [abs_def]
    by (rule replay_grants_apply) (auto simp: listed_env_def database_privs_def)
  ultimately show ?thesis unfolding database_server_def l by simp
qed

interpretation database_pg: privs_backend
  "\<lambda>h. granted ''app'' (listed_acl c ''app'' db [\<lparr>grantee = '''', acl_privs = ''Tc'', grantor = ''postgres''\<rparr>] h)"
  "getDatabasePrivilegesPg (listed_env c ''app'' db [\<lparr>grantee = '''', acl_privs = ''Tc'', grantor = ''postgres''\<rparr>]) c ''app'' db"
  "grantDatabasePrivileges (listed_env c ''app'' db [\<lparr>grantee = '''', acl_privs = ''Tc'', grantor = ''postgres''\<rparr>]) c ''app'' db"
  "revokeDatabasePrivileges (listed_env c ''app'' db [\<lparr>grantee = '''', acl_privs = ''Tc'', grantor = ''postgres''\<rparr>]) c ''app'' db"
  database_privs "{}" for c db
proof (rule database_server_backend)
  show "funk_laws (lib (listed_env c ''app'' db [\<lparr>grantee = '''', acl_privs = ''Tc'', grantor = ''postgres''\<rparr>]))" by (simp add: listed_env_def)
  show "plain_user ''app''" by (simp add: plain_user_def is_alnum_def)
  then show "database_server (listed_env c ''app'' db [\<lparr>grantee = '''', acl_privs = ''Tc'', grantor = ''postgres''\<rparr>]) c ''app'' db
      (listed_acl c ''app'' db [\<lparr>grantee = '''', acl_privs = ''Tc'', grantor = ''postgres''\<rparr>])"
    by (rule listed_database_server) (simp add: others_ok_def item_ok_def name_char_def)
qed simp

text \<open>An example: the entry of PUBLIC, the owner's, and that of a user whose name ends with the name looked for.\<close>

definition demo_others :: "acl_item list" where
  "demo_others =
     [\<lparr>grantee = '''', acl_privs = ''Tc'', grantor = ''postgres''\<rparr>,
      \<lparr>grantee = ''my-app'', acl_privs = ''c'', grantor = ''postgres''\<rparr>]"

lemma demo_others_items: "list_all item_ok demo_others"
  by (simp add: demo_others_def item_ok_def name_char_def)

lemma demo_text:
  "acl_text [\<lparr>grantee = '''', acl_privs = ''Tc'', grantor = ''postgres''\<rparr>, \<lparr>grantee = ''my_app'', acl_privs = ''c'', grantor = ''postgres''\<rparr>,
     \<lparr>grantee = ''app'', acl_privs = '''', grantor = ''postgres''\<rparr>] =
   ''{=Tc/postgres,my_app=c/postgres,app=/postgres}''"
  by (simp add: acl_text_def acl_elem_def acl_after_def elem_quote_def quotes_of_def is_alnum_def)

lemma plain_demo: "plain_user ''app''" "plain_user ''reader''"
  by (simp_all add: plain_user_def is_alnum_def)

theorem getDatabasePrivilegesPg_first_match_witness:
  "\<exists>ps. getDatabasePrivilegesPg (listed_env 5 ''app'' ''orders'' demo_others) 5 ''app'' ''orders'' [] =
      (Return (Inr ps), [SqlQuery 5 datacl_query [GStr ''orders''], SqlQuery 5 ''SELECT version();'' []]) \<and>
    set ps = {''CONNECT''}"
proof -
  have "funk_laws (lib (listed_env 5 ''app'' ''orders'' demo_others))" by (simp add: listed_env_def)
  note first = getDatabasePrivilegesPg_first_match [OF this listed_acl_server [OF plain_demo(1) demo_others_items] plain_demo(1), of "[]"]
  have "find (\<lambda>i. suffix ''app'' (grantee i) \<and> plain_privs (acl_privs i)) (listed_acl 5 ''app'' ''orders'' demo_others []) =
      Some \<lparr>grantee = ''my-app'', acl_privs = ''c'', grantor = ''postgres''\<rparr>"
    by (simp add: listed_acl_def demo_others_def plain_privs_def suffix_to_prefix)
  with first show ?thesis by (auto simp: acl_names_def DATABASE_PRIV_MAP_def)
qed

theorem ReconcilePrivs_database_converges_witness:
  "\<exists>r r' h'. NewDatabasePrivsReconciler (listed_env 5 ''reader'' ''orders'' demo_others) demo_priv 5 ''reader'' ''orders'' [''CONNECT''] pg15 = Inr r \<and>
     ReconcilePrivs (listed_env 5 ''reader'' ''orders'' demo_others) r [] = (Return (r', True, None), h') \<and>
     granted ''reader'' (listed_acl 5 ''reader'' ''orders'' demo_others h') = {''CONNECT''}"
proof -
  let ?E = "listed_env 5 ''reader'' ''orders'' demo_others"
  let ?acl = "listed_acl 5 ''reader'' ''orders'' demo_others"
  obtain r where r: "NewDatabasePrivsReconciler ?E demo_priv 5 ''reader'' ''orders'' [''CONNECT''] pg15 = Inr r"
    by (simp add: NewDatabasePrivsReconciler_def)
  have L: "funk_laws (lib ?E)" by (simp add: listed_env_def)
  have s: "database_server ?E 5 ''reader'' ''orders'' ?acl"
    by (intro listed_database_server plain_demo)
      (simp add: others_ok_def demo_others_def item_ok_def name_char_def suffix_to_prefix)
  have "granted ''reader'' (?acl []) = {}"
    by (auto simp: granted_def listed_acl_def demo_others_def replay_grants_def letters_def acl_names_def DATABASE_PRIV_MAP_def)
  moreover have "''reader'' \<noteq> ''PUBLIC''" "ProductName pg15 \<noteq> CockroachDB" "set [''CONNECT''] \<subseteq> database_privs"
    by (simp_all add: pg15_def PostgreSQL_def CockroachDB_def database_privs_def)
  ultimately show ?thesis
    using ReconcilePrivs_database_converges [OF L s plain_demo(2) _ r, of "[]"] r by auto
qed

text \<open>The user \<open>app\<close> holds nothing and is to be given CONNECT, which the entry of \<open>my-app\<close> has.\<close>

theorem database_privileges_of_another_user_witness:
  "\<exists>r r'. NewDatabasePrivsReconciler (listed_env 5 ''app'' ''orders'' demo_others) demo_priv 5 ''app'' ''orders'' [''CONNECT''] pg15 = Inr r \<and>
     ReconcilePrivs (listed_env 5 ''app'' ''orders'' demo_others) r [] =
       (Return (r', False, None), [SqlQuery 5 datacl_query [GStr ''orders''], SqlQuery 5 ''SELECT version();'' []]) \<and>
     granted ''app'' (listed_acl 5 ''app'' ''orders'' demo_others []) = {}"
proof -
  let ?E = "listed_env 5 ''app'' ''orders'' demo_others"
  let ?acl = "listed_acl 5 ''app'' ''orders'' demo_others"
  obtain r where r: "NewDatabasePrivsReconciler ?E demo_priv 5 ''app'' ''orders'' [''CONNECT''] pg15 = Inr r"
    by (simp add: NewDatabasePrivsReconciler_def)
  have L: "funk_laws (lib ?E)" by (simp add: listed_env_def)
  have f: "find (found_by ''app'') (?acl []) = Some \<lparr>grantee = ''my-app'', acl_privs = ''c'', grantor = ''postgres''\<rparr>"
    by (simp add: listed_acl_def demo_others_def found_by_def plain_privs_def suffix_to_prefix)
  have ps: "set [''CONNECT''] = set (acl_names (acl_privs \<lparr>grantee = ''my-app'', acl_privs = ''c'', grantor = ''postgres''\<rparr>))"
    by (simp add: acl_names_def DATABASE_PRIV_MAP_def)
  have v: "ProductName pg15 \<noteq> CockroachDB" by (simp add: pg15_def PostgreSQL_def CockroachDB_def)
  have "granted ''app'' (?acl []) = {}"
    by (auto simp: granted_def listed_acl_def demo_others_def replay_grants_def letters_def acl_names_def DATABASE_PRIV_MAP_def)
  with database_privileges_of_another_user [OF L listed_acl_server [OF plain_demo(1) demo_others_items] plain_demo(1) f ps r v] r
  show ?thesis by auto
qed

subsection \<open>Privileges on a CockroachDB database and on a table\<close>

text \<open>
  A server that lists the privileges of a user on an object, one to a row: CockroachDB with \<^verbatim>\<open>SHOW GRANTS ON DATABASE\<close>,
  both servers with \<^verbatim>\<open>information_schema.role_table_grants\<close>.
\<close>

definition lists_grants :: "env \<Rightarrow> conn \<Rightarrow> string \<Rightarrow> gval list \<Rightarrow> (string \<Rightarrow> gval list) \<Rightarrow> (hist \<Rightarrow> string set) \<Rightarrow> bool" where
  "lists_grants E c q args row holds \<longleftrightarrow>
     (\<forall>h. \<exists>cols ps. sql_query E h c q args = Inr \<lparr>row_cols = cols, row_data = map row ps\<rparr> \<and> set ps = holds h)"

definition crdb_query :: "libs \<Rightarrow> string \<Rightarrow> string \<Rightarrow> string" where
  "crdb_query L user db = ''SHOW GRANTS ON DATABASE '' @ pq_QuoteIdentifier L db @ '' FOR '' @ pq_QuoteIdentifier L user @ '';''"

definition crdb_server :: "env \<Rightarrow> conn \<Rightarrow> string \<Rightarrow> string \<Rightarrow> string set \<Rightarrow> (hist \<Rightarrow> string set) \<Rightarrow> bool" where
  "crdb_server E c user db known holds \<longleftrightarrow>
     lists_grants E c (crdb_query (lib E) user db) [] (\<lambda>p. [GStr db, GStr user, GStr p, GBool False]) holds \<and>
     grants_apply E c known (database_grant (lib E) user db) (database_revoke (lib E) user db) holds"

definition table_grant :: "libs \<Rightarrow> string \<Rightarrow> string \<Rightarrow> string list \<Rightarrow> string" where
  "table_grant L user table ps =
     ''GRANT '' @ Join ps '', '' @ '' ON TABLE '' @ pq_QuoteIdentifier L table @ '' TO '' @ pq_QuoteIdentifier L user"

definition table_revoke :: "libs \<Rightarrow> string \<Rightarrow> string \<Rightarrow> string list \<Rightarrow> string" where
  "table_revoke L user table ps =
     ''REVOKE '' @ Join ps '', '' @ '' ON TABLE '' @ pq_QuoteIdentifier L table @ '' FROM '' @ pq_QuoteIdentifier L user"

text \<open>The list of a table's privileges has those that were granted by others too, which the operator does not revoke.\<close>

definition table_server :: "env \<Rightarrow> conn \<Rightarrow> string \<Rightarrow> string \<Rightarrow> string set \<Rightarrow> string set \<Rightarrow> (hist \<Rightarrow> string set) \<Rightarrow> bool" where
  "table_server E c user table known inherited holds \<longleftrightarrow>
     lists_grants E c table_grants_query [GStr user, GStr table, GStr ''public''] (\<lambda>p. [GStr p]) holds \<and>
     grants_beside E c known inherited (table_grant (lib E) user table) (table_revoke (lib E) user table) holds"

lemma crdb_grants_rows: "crdb_grants L (map (\<lambda>p. [GStr db, GStr user, GStr p, GBool g]) ps) = Inr ps"
  by (induction ps) (auto simp: scan_any_def scan_string_def scan_NullBool_def)

lemma listing_get:
  assumes l: "lists_grants E c q args row holds" and g: "grants_beside E c known inherited grant revoke holds"
    and get: "\<And>h cols ps. sql_query E h c q args = Inr \<lparr>row_cols = cols, row_data = map row ps\<rparr> \<Longrightarrow>
      get h = (Return (Inr ps), h @ [SqlQuery c q args])"
  shows "\<exists>ps h'. get h = (Return (Inr ps), h') \<and> set ps = holds h \<and> holds h' = holds h"
proof -
  obtain cols ps where "sql_query E h c q args = Inr \<lparr>row_cols = cols, row_data = map row ps\<rparr>" "set ps = holds h"
    using l unfolding lists_grants_def by blast
  with get [OF this(1)] grants_besideD(3) [OF g, of h q args] show ?thesis by blast
qed

lemma crdb_server_backend:
  assumes s: "crdb_server E c user db known holds" and u: "user \<noteq> ''PUBLIC''"
  shows "privs_backend holds (getDatabasePrivilegesCrdb E c user db) (grantDatabasePrivileges E c user db)
    (revokeDatabasePrivileges E c user db) known {}"
proof -
  have l: "lists_grants E c (crdb_query (lib E) user db) [] (\<lambda>p. [GStr db, GStr user, GStr p, GBool False]) holds"
    and g: "grants_beside E c known {} (database_grant (lib E) user db) (database_revoke (lib E) user db) holds"
    using s by (simp_all add: crdb_server_def grants_apply_beside)
  have get: "getDatabasePrivilegesCrdb E c user db h = (Return (Inr ps), h @ [SqlQuery c (crdb_query (lib E) user db) []])"
    if "sql_query E h c (crdb_query (lib E) user db) [] = Inr \<lparr>row_cols = cols, row_data = map (\<lambda>p. [GStr db, GStr user, GStr p, GBool False]) ps\<rparr>"
    for h cols ps
    using that by (simp add: getDatabasePrivilegesCrdb_def crdb_query_def run crdb_grants_rows Let_def)
  have "emits is_read (getDatabasePrivilegesCrdb E c user db)"
    by (auto simp: getDatabasePrivilegesCrdb_def Let_def intro!: emits_intro)
  note b = grants_beside_backend [OF g listing_get [OF l g get] this]
  with b u show ?thesis by (simp add: grant_database_exec revoke_database_exec)
qed

lemma grant_table_exec: "grantTablePrivileges E c user table = (\<lambda>ps. Exec E c (table_grant (lib E) user table ps) [])"
  by (simp add: fun_eq_iff grantTablePrivileges_def table_grant_def)

lemma revoke_table_exec: "revokeTablePrivileges E c user table = (\<lambda>ps. Exec E c (table_revoke (lib E) user table ps) [])"
  by (simp add: fun_eq_iff revokeTablePrivileges_def table_revoke_def)

lemma emits_getTablePrivileges: "emits is_read (getTablePrivileges E c user table)"
  by (auto simp: getTablePrivileges_def Let_def intro!: emits_intro split: if_splits)

lemma table_server_backend:
  assumes s: "table_server E c user table known inherited holds" and dot: "CHR ''.'' \<notin> set table"
  shows "privs_backend holds (getTablePrivileges E c user table) (grantTablePrivileges E c user table)
    (revokeTablePrivileges E c user table) known inherited"
proof -
  have l: "lists_grants E c table_grants_query [GStr user, GStr table, GStr ''public''] (\<lambda>p. [GStr p]) holds"
    and g: "grants_beside E c known inherited (table_grant (lib E) user table) (table_revoke (lib E) user table) holds"
    using s by (simp_all add: table_server_def)
  have get: "getTablePrivileges E c user table h = (Return (Inr ps), h @ [SqlQuery c table_grants_query [GStr user, GStr table, GStr ''public'']])"
    if "sql_query E h c table_grants_query [GStr user, GStr table, GStr ''public''] = Inr \<lparr>row_cols = cols, row_data = map (\<lambda>p. [GStr p]) ps\<rparr>"
    for h cols ps
    using that dot by (simp add: getTablePrivileges_def run Contains_char string_col_names)
  note b = grants_beside_backend [OF g listing_get [OF l g get] emits_getTablePrivileges]
  with b show ?thesis by (simp add: grant_table_exec revoke_table_exec)
qed

theorem ReconcilePrivs_crdb_database_converges:
  assumes "funk_laws (lib E)" and "crdb_server E c user db known holds" and "user \<noteq> ''PUBLIC''"
    and "NewDatabasePrivsReconciler E dp c user db ps v = Inr r" and "ProductName v = CockroachDB" and "set ps \<subseteq> known"
  shows "\<exists>r' h'. ReconcilePrivs E r h = (Return (r', holds h \<noteq> set ps, None), h') \<and> holds h' = set ps \<and>
    (\<exists>r'' es. ReconcilePrivs E r h' = (Return (r'', False, None), h' @ es) \<and> list_all is_read es)"
proof -
  note backend = crdb_server_backend [OF assms(2,3)]
  have D: "DesiredPrivSet r = ps" using assms(4) by (auto simp: NewDatabasePrivsReconciler_def)
  have "privs_backend.uses (getDatabasePrivilegesCrdb E c user db) (grantDatabasePrivileges E c user db)
      (revokeDatabasePrivileges E c user db) known r"
    using assms(4-6) unfolding privs_backend.uses_def [OF backend] by (auto simp: NewDatabasePrivsReconciler_def)
  from ReconcilePrivs_settles [OF backend assms(1) this] show ?thesis unfolding D by simp
qed

theorem ReconcilePrivs_table_converges:
  assumes "funk_laws (lib E)" and "table_server E c user table known inherited holds" and "CHR ''.'' \<notin> set table"
    and "NewTablePrivsReconciler E dp c user table ps v = Inr r" and "set ps \<subseteq> known" and "inherited \<subseteq> set ps"
  shows "\<exists>r' h'. ReconcilePrivs E r h = (Return (r', holds h \<noteq> set ps, None), h') \<and> holds h' = set ps \<and>
    (\<exists>r'' es. ReconcilePrivs E r h' = (Return (r'', False, None), h' @ es) \<and> list_all is_read es)"
proof -
  note backend = table_server_backend [OF assms(2,3)]
  have "\<not> HasSuffix table ''.ALL''" using assms(3) by (auto simp: HasSuffix_def suffix_def)
  then have n: "NewTablePrivsReconciler E dp c user table ps v =
      Inr \<lparr>pr_DbPriv = dp, DesiredPrivSet = ps, FoundPrivSet = [], pr_UserName = user, scopedName = table,
           IsDefaultPrivReconciler = False, DefaultPrivObjectType = '''', pr_conn = c,
           grantFun = grantTablePrivileges E, revokeFun = revokeTablePrivileges E, privsGetFun = getTablePrivileges E\<rparr>"
    by (simp add: NewTablePrivsReconciler_def)
  then have D: "DesiredPrivSet r = ps" using assms(4) by auto
  have "privs_backend.uses (getTablePrivileges E c user table) (grantTablePrivileges E c user table)
      (revokeTablePrivileges E c user table) known r"
    using assms(4,5) n unfolding privs_backend.uses_def [OF backend] by auto
  from ReconcilePrivs_settles [OF backend assms(1) this] show ?thesis using assms(6) unfolding D by simp
qed

subsection \<open>Privileges on all tables of a schema\<close>

text \<open>Of all tables only the desired privileges are read, so none is ever found that is not desired.\<close>

definition grants_only :: "event \<Rightarrow> bool" where
  "grants_only ev = (is_read ev \<or> (\<exists>c q args. ev = SqlExec c q args \<and> HasPrefix q ''GRANT ''))"

lemma all_tables_desired:
  assumes "getTablePrivilegesForAllTables E c user schema privs h = (Return (Inr found), h')"
  shows "set found \<subseteq> set privs"
proof -
  define body where "body = (\<lambda>priv privsFound.
       try_io (Query E c all_tables_query [GStr user, GStr schema, GStr (ToUpper priv)])
         (\<lambda>err. ret (Inl (Err (''unable to read tablePrivs '' @ error_msg err))))
         (\<lambda>rows. ret (Inr (if row_data rows = [] then privsFound @ [priv] else privsFound))))"
  have step: "set acc' \<subseteq> insert p (set acc)" if "body p acc g = (Return (Inr acc'), g')" for p acc g acc' g'
    using that by (auto simp: body_def run split: sum.splits if_splits)
  have "set found \<subseteq> set xs \<union> set acc" if "for_io xs body acc g = (Return (Inr found), h')" for xs acc g
    using that
  proof (induction xs arbitrary: acc g)
    case (Cons p xs)
    then obtain acc' g' where b: "body p acc g = (Return (Inr acc'), g')" and r: "for_io xs body acc' g' = (Return (Inr found), h')"
      by (auto simp: run split: prod.splits outcome.splits sum.splits)
    show ?case using Cons.IH [OF r] step [OF b] by auto
  qed (simp add: run)
  from this [of privs "[]" h] assms show ?thesis unfolding getTablePrivilegesForAllTables_def body_def by simp
qed

text \<open>C27: reconciling the privileges of a user on all tables of a schema never revokes one: every call either reads or is
  a GRANT, so a privilege that is taken out of the list of the resource stays with the user.\<close>

theorem all_tables_never_revoked:
  assumes L: "funk_laws (lib E)" and r: "NewTablePrivsReconciler E dp c user scoped ps v = Inr r" and all: "HasSuffix scoped ''.ALL''"
  shows "emits grants_only (ReconcilePrivs E r)"
proof -
  have r: "privsGetFun r = (\<lambda>c user schema. getTablePrivilegesForAllTables E c user schema ps)" "DesiredPrivSet r = ps"
    "grantFun r = grantPrivilegesOnAllTables E"
    using r all by (auto simp: NewTablePrivsReconciler_def Let_def split: if_splits)
  have none: "toRevoke = []"
    if "getTablePrivilegesForAllTables E c' u s ps g = (Return (Inr cur), g')" "diffPrivSet (lib E) cur ps = (j, toRevoke, toGrant)"
    for c' u s g cur g' j toRevoke toGrant
    using all_tables_desired [OF that(1)] diffPrivSet_sets(1) [OF L that(2)] by (cases toRevoke) auto
  have get: "emits grants_only (getTablePrivilegesForAllTables E c' u s ps)" for c' u s
    by (auto simp: getTablePrivilegesForAllTables_def grants_only_def intro!: emits_intro)
  have grant: "emits grants_only (grantPrivilegesOnAllTables E c' u s gs)" for c' u s gs
    by (auto simp: grantPrivilegesOnAllTables_def grants_only_def HasPrefix_def intro!: emits_intro)
  show ?thesis
    unfolding ReconcilePrivs_def r
    by (rule emits_try_run)
      (auto simp: Let_def get intro!: emits_intro grant split: prod.split dest: none)
qed

theorem all_tables_never_revoked_witness:
  "\<exists>r. NewTablePrivsReconciler null_env demo_priv 5 ''u'' ''app.public.ALL'' [''SELECT''] pg15 = Inr r \<and>
     emits grants_only (ReconcilePrivs null_env r)"
proof -
  have "suffix ''.ALL'' ''app.public.ALL''" by (simp add: suffix_to_prefix)
  then have all: "HasSuffix ''app.public.ALL'' ''.ALL''" by (simp add: HasSuffix_def)
  moreover have "TrimSuffix ''app.public.ALL'' ''.ALL'' = ''app.public''" using \<open>suffix ''.ALL'' ''app.public.ALL''\<close> by (simp add: TrimSuffix_def)
  ultimately obtain r where r: "NewTablePrivsReconciler null_env demo_priv 5 ''u'' ''app.public.ALL'' [''SELECT''] pg15 = Inr r"
    by (simp add: NewTablePrivsReconciler_def Contains_char)
  with all_tables_never_revoked [OF _ r all] show ?thesis by simp
qed

end
