(* ===== verification/Scripts.thy ===== *)
theory Scripts
  imports Shared
begin

section \<open>Package shared: the scripts of the jobs\<close>

text \<open>
  \<^verbatim>\<open>shared/scripts.go\<close>: the shell scripts that the containers of backup, restore and copy
  jobs run, and the map of file names to scripts that is kept in a ConfigMap.
\<close>

definition UPLOAD_AZ_BLOBS_SCRIPT :: string where
  "UPLOAD_AZ_BLOBS_SCRIPT = ''#!/bin/bash -e
# Only supports up/downloading with service principal
# But should be fairly simple to expand with other methods.
LATEST_BACKUP=$(find /backups/ -type f | sort | tail -n 1)
LATEST_BACKUP_BASE_NAME=$(basename \"$LATEST_BACKUP\")
az login --service-principal -u $AZ_BLOBS_USER -p $AZ_BLOBS_USER_PW --tenant $AZ_BLOBS_TENANT_ID
az storage blob upload '' @ [CHR 0x5C] @ ''
  --account-name $AZ_BLOBS_STORAGE_ACCOUNT '' @ [CHR 0x5C] @ ''
  --container-name $AZ_BLOBS_CONTAINER '' @ [CHR 0x5C] @ ''
  --name $LATEST_BACKUP_BASE_NAME '' @ [CHR 0x5C] @ ''
  --file $LATEST_BACKUP
echo \"upload done\"
''"

definition BACKUP_POSTGRES_SCRIPT :: string where
  "BACKUP_POSTGRES_SCRIPT = ''#!/bin/bash -e
pg_dump '' @ [CHR 0x5C] @ ''
	--format=custom '' @ [CHR 0x5C] @ ''
	--compress=9 '' @ [CHR 0x5C] @ ''
	--file=/backups/${1:-\"$DATABASE\"_\"`date +%Y%m%d%H%M`.dump\"} '' @ [CHR 0x5C] @ ''
	--no-owner '' @ [CHR 0x5C] @ ''
	--no-acl '' @ [CHR 0x5C] @ ''
	--host=$PGHOST '' @ [CHR 0x5C] @ ''
	--user=$PGUSER '' @ [CHR 0x5C] @ ''
	--port=$PGPORT '' @ [CHR 0x5C] @ ''
	$DATABASE
echo \"pg_dump done\"
''"

definition RESTORE_POSTGRES_SCRIPT :: string where
  "RESTORE_POSTGRES_SCRIPT = ''#!/bin/bash -e
LATEST_BACKUP=$(find /backups/ -type f | sort | tail -n 1)
pg_restore '' @ [CHR 0x5C] @ ''
	--host=$PGHOST '' @ [CHR 0x5C] @ ''
	--user=$PGUSER '' @ [CHR 0x5C] @ ''
	--port=$PGPORT '' @ [CHR 0x5C] @ ''
	--dbname=$DATABASE '' @ [CHR 0x5C] @ ''
	--single-transaction '' @ [CHR 0x5C] @ ''
	--no-owner '' @ [CHR 0x5C] @ ''
	--clean '' @ [CHR 0x5C] @ ''
	--no-acl '' @ [CHR 0x5C] @ ''
	-n public '' @ [CHR 0x5C] @ ''
	$LATEST_BACKUP
echo \"pg_restore done\"
''"

definition BACKUP_MYSQL_SCRIPT :: string where
  "BACKUP_MYSQL_SCRIPT = ''#!/bin/bash -e
mysqldump '' @ [CHR 0x5C] @ ''
	-u $MYSQL_USER '' @ [CHR 0x5C] @ ''
	-h $MYSQL_HOST '' @ [CHR 0x5C] @ ''
	-d $MYSQL_DATABASE '' @ [CHR 0x5C] @ ''
	> /backups/${1:-\"$MYSQL_DATABASE\"_\"`date +%Y%m%d%H%M`.sql\"}
echo \"mysqldump done\"
''"

definition RESTORE_MYSQL_SCRIPT :: string where
  "RESTORE_MYSQL_SCRIPT = ''#!/bin/bash -e
LATEST_BACKUP=$(find /backups/ -type f | sort | tail -n 1)
mysql -u $MYSQL_USER -h $MYSQL_HOST $MYSQL_DATABASE < $LATEST_BACKUP
echo \"mysql restore done\"
''"

definition DOWNLOAD_AZ_BLOBS_SCRIPT :: string where
  "DOWNLOAD_AZ_BLOBS_SCRIPT = ''#!/bin/bash -e
# Only supports up/downloading with service principal
# But should be fairly simple to expand with other methods.
az login --service-principal -u $AZ_BLOBS_USER -p $AZ_BLOBS_USER_PW --tenant $AZ_BLOBS_TENANT_ID
az storage blob download '' @ [CHR 0x5C] @ ''
  --account-name $AZ_BLOBS_STORAGE_ACCOUNT '' @ [CHR 0x5C] @ ''
  --container-name $AZ_BLOBS_CONTAINER '' @ [CHR 0x5C] @ ''
  --name $AZ_BLOBS_FILE_NAME '' @ [CHR 0x5C] @ ''
  --file /backups/$AZ_BLOBS_FILE_NAME
echo \"download done\"
''"

definition UPLOAD_S3_SCRIPT :: string where
  "UPLOAD_S3_SCRIPT = ''#!/bin/bash -e
shopt -s expand_aliases
if [[ ! -z \"${S3_ENDPOINT}\" ]]; then alias aws='' @ [CHR 0x27] @ ''aws --endpoint-url $S3_ENDPOINT'' @ [CHR 0x27] @ ''; fi

LATEST_BACKUP=$(find /backups/ -type f | sort | tail -n 1)
LATEST_BACKUP_BASE_NAME=$(basename \"$LATEST_BACKUP\")
# aws s3 cp test.txt s3://mybucket/(prefix/)test2.txt
aws s3 cp $LATEST_BACKUP s3://$S3_BUCKET_NAME/$S3_PREFIX$LATEST_BACKUP_BASE_NAME
echo \"upload done\"
''"

definition DOWNLOAD_S3_SCRIPT :: string where
  "DOWNLOAD_S3_SCRIPT = ''#!/bin/bash -e
shopt -s expand_aliases
if [[ ! -z \"${S3_ENDPOINT}\" ]]; then alias aws='' @ [CHR 0x27] @ ''aws --endpoint-url $S3_ENDPOINT'' @ [CHR 0x27] @ ''; fi

if [[ -z \"$S3_FILE_NAME\" ]]; then
	# if not set find the latest file
	S3_FILE_NAME=$(aws s3 ls $S3_BUCKET_NAME/$S3_PREFIX | sort | tail -n 1 | awk '' @ [CHR 0x27] @ ''{print $4}'' @ [CHR 0x27] @ '')
fi

aws s3 cp s3://$S3_BUCKET_NAME/$S3_PREFIX$S3_FILE_NAME /backups/$S3_FILE_NAME
echo \"download done\"
''"

definition BACKUP_POSTGRES :: string where
  "BACKUP_POSTGRES = ''backup_postgres.sh''"

definition RESTORE_POSTGRES :: string where
  "RESTORE_POSTGRES = ''restore_postgres.sh''"

definition BACKUP_MYSQL :: string where
  "BACKUP_MYSQL = ''backup_mysql.sh''"

definition RESTORE_MYSQL :: string where
  "RESTORE_MYSQL = ''restore_mysql.sh''"

definition UPLOAD_AZ_BLOBS :: string where
  "UPLOAD_AZ_BLOBS = ''upload_az_blobs.sh''"

definition DOWNLOAD_AZ_BLOBS :: string where
  "DOWNLOAD_AZ_BLOBS = ''download_az_blobs.sh''"

definition UPLOAD_S3 :: string where
  "UPLOAD_S3 = ''upload_s3.sh''"

definition DOWNLOAD_S3 :: string where
  "DOWNLOAD_S3 = ''download_s3.sh''"

definition SCRIPTS_MAP :: "string gomap" where
  "SCRIPTS_MAP =
    [(BACKUP_POSTGRES, BACKUP_POSTGRES_SCRIPT),
     (RESTORE_POSTGRES, RESTORE_POSTGRES_SCRIPT),
     (BACKUP_MYSQL, BACKUP_MYSQL_SCRIPT),
     (RESTORE_MYSQL, RESTORE_MYSQL_SCRIPT),
     (UPLOAD_AZ_BLOBS, UPLOAD_AZ_BLOBS_SCRIPT),
     (DOWNLOAD_AZ_BLOBS, DOWNLOAD_AZ_BLOBS_SCRIPT),
     (UPLOAD_S3, UPLOAD_S3_SCRIPT),
     (DOWNLOAD_S3, DOWNLOAD_S3_SCRIPT)]"

end
