(* ===== verification/PgConn.thy ===== *)
theory PgConn
  imports PgPrivs Scripts
begin

section \<open>Package postgres: connections\<close>

text \<open>
  \<^verbatim>\<open>dbservers/postgres/connector.go\<close>, \<^verbatim>\<open>connection.go\<close> and \<^verbatim>\<open>dbinfo.go\<close>, for
  PostgreSQL and CockroachDB servers: opening a connection (with certificates written to
  files), the statements for users, databases, schemas, backups and schedules, and the
  container of a backup or restore job.
\<close>

subsection \<open>The connector\<close>

definition tempCertsDir :: string where
  "tempCertsDir = ''tempCertsDir''"

text \<open>
  A file named by the hash of its contents is written only once.  The pair of
  \<^verbatim>\<open>writeToTempFile\<close> is the path, or the error of the write.
\<close>

definition writeToTempFile :: "env \<Rightarrow> string \<Rightarrow> (error + string) go" where
  "writeToTempFile E contents =
     (let fileName = sha256_hex (lib E) contents; filePath = tempCertsDir @ ''/'' @ fileName in
      bind_io (ask (\<lambda>h. fs_exists E h filePath)) (\<lambda>existed.
        if existed then ret (Inr filePath)
        else check_io (call (WriteFile filePath contents) (\<lambda>h. fs_write E h filePath contents))
               (\<lambda>err. ret (Inl err)) (ret (Inr filePath))))"

text \<open>One of the three certificate options: nothing is added for a nil pointer.\<close>

definition add_cert :: "env \<Rightarrow> string \<Rightarrow> string option \<Rightarrow> string \<Rightarrow> (error + string) go" where
  "add_cert E option cert connStr =
     (case cert of None \<Rightarrow> ret (Inr connStr)
      | Some contents \<Rightarrow>
          try_io (writeToTempFile E contents) (\<lambda>err. ret (Inl err)) (\<lambda>filePath.
            ret (Inr (connStr @ '' '' @ option @ ''='' @ filePath))))"

text \<open>The part of the connection string that needs no file.\<close>

definition conn_base :: "string \<Rightarrow> string \<Rightarrow> string \<Rightarrow> string \<Rightarrow> int \<Rightarrow> string option \<Rightarrow> string" where
  "conn_base host userName dbName sslMode port password =
     ''host='' @ host @ '' port='' @ Itoa port @ '' user='' @ userName @ '' dbname='' @ dbName @ '' sslmode='' @ sslMode @
     (case password of None \<Rightarrow> '''' | Some pw \<Rightarrow> '' password='' @ pw)"

definition getConnectionString :: "env \<Rightarrow> string \<Rightarrow> string \<Rightarrow> string \<Rightarrow> string \<Rightarrow> int \<Rightarrow> string option
    \<Rightarrow> string option \<Rightarrow> string option \<Rightarrow> string option \<Rightarrow> (error + string) go" where
  "getConnectionString E host userName dbName sslMode port password caCert tlsCrt tlsKey =
     (let connStr = conn_base host userName dbName sslMode port password
      in if caCert \<noteq> None \<or> tlsCrt \<noteq> None \<or> tlsKey \<noteq> None then
           bind_io (emit (MkdirAll tempCertsDir)) (\<lambda>_.
             try_io (add_cert E ''sslrootcert'' caCert connStr) (\<lambda>err. ret (Inl err)) (\<lambda>connStr.
             try_io (add_cert E ''sslkey'' tlsKey connStr) (\<lambda>err. ret (Inl err)) (\<lambda>connStr.
               add_cert E ''sslcert'' tlsCrt connStr)))
         else ret (Inr connStr))"

text \<open>The choice of credentials in \<^verbatim>\<open>Connect\<close>: the user's own, or those of the server.\<close>

definition connect_string :: "env \<Rightarrow> DbServerConnectInfo \<Rightarrow> Credentials option \<Rightarrow> string \<Rightarrow> string \<Rightarrow> (error + string) go" where
  "connect_string E connectInfo credentials dbName sslMode =
     (case credentials of
        None \<Rightarrow>
          (let cr = ci_Credentials connectInfo in
           getConnectionString E (ci_Host connectInfo) (cr_UserName cr) dbName sslMode (ci_Port connectInfo)
             (cr_Password cr) (cr_CaCert cr) (cr_TlsCrt cr) (cr_TlsKey cr))
      | Some cr \<Rightarrow>
          (let caCert = (if cr_CaCert cr \<noteq> None then cr_CaCert cr else cr_CaCert (ci_Credentials connectInfo)) in
           getConnectionString E (ci_Host connectInfo) (cr_UserName cr) dbName sslMode (ci_Port connectInfo)
             (cr_Password cr) caCert (cr_TlsCrt cr) (cr_TlsKey cr)))"

definition PostgresConnect :: "env \<Rightarrow> Connector" where
  "PostgresConnect E connectInfo credentials databaseName =
     (let dbName = (case databaseName of
            Some d \<Rightarrow> d
          | None \<Rightarrow> if ci_Database connectInfo = '''' then ''postgres'' else ci_Database connectInfo);
          sslMode = (case map_of (ci_Options connectInfo) ''sslmode'' of None \<Rightarrow> ''require'' | Some m \<Rightarrow> m)
      in try_io (connect_string E connectInfo credentials dbName sslMode)
           (\<lambda>err. ret (Inl err))
           (\<lambda>connStr. call (SqlOpen ''postgres'' connStr) (\<lambda>h. sql_open E h ''postgres'' connStr)))"

text \<open>Credentials without certificates need no file.\<close>

definition plain_creds :: "Credentials \<Rightarrow> bool" where
  "plain_creds cr \<longleftrightarrow> cr_CaCert cr = None \<and> cr_TlsKey cr = None \<and> cr_TlsCrt cr = None"

lemma emits_writeToTempFile [emits_intro]:
  "(\<And>f c. P (WriteFile f c)) \<Longrightarrow> emits P (writeToTempFile E contents)"
  by (auto simp: writeToTempFile_def Let_def intro!: emits_intro)

lemma emits_add_cert [emits_intro]: "(\<And>f c. P (WriteFile f c)) \<Longrightarrow> emits P (add_cert E opt cert s)"
  by (auto simp: add_cert_def intro!: emits_intro)

lemma emits_getConnectionString [emits_intro]:
  "(\<And>d. P (MkdirAll d)) \<Longrightarrow> (\<And>f c. P (WriteFile f c)) \<Longrightarrow> emits P (getConnectionString E host u d m port pw ca crt key)"
  by (auto simp: getConnectionString_def Let_def intro!: emits_intro)

lemma emits_connect_string [emits_intro]:
  "(\<And>d. P (MkdirAll d)) \<Longrightarrow> (\<And>f c. P (WriteFile f c)) \<Longrightarrow> emits P (connect_string E info creds d m)"
  by (auto simp: connect_string_def Let_def intro!: emits_intro)

interpretation pg_connector: connector "PostgresConnect E" for E
  by unfold_locales (auto simp: PostgresConnect_def Let_def intro!: emits_intro)

subsection \<open>Statements\<close>

type_synonym PostgresConnection = SqlConnection

definition NewPostgresConnection :: "DbServerConnectInfo \<Rightarrow> Credentials option gomap \<Rightarrow> string \<Rightarrow> PostgresConnection" where
  "NewPostgresConnection connectionInfo userCredentials flavor =
     \<lparr>pc_store = \<lparr>cs_ServerConnInfo = connectionInfo, cs_UserCredentials = userCredentials, cs_connections = None\<rparr>,
      pc_Flavor = flavor\<rparr>"

definition pg_getter :: "env \<Rightarrow> ConnectionGetter" where
  "pg_getter E = GetDbConnection (PostgresConnect E)"

definition CreateUser_pg :: "env \<Rightarrow> PostgresConnection \<Rightarrow> string \<Rightarrow> string \<Rightarrow> (PostgresConnection \<times> error option) go" where
  "CreateUser_pg E p userName password =
     on_conn (PostgresConnect E) p None None Some (\<lambda>p conn.
       keep p (Exec E conn (''CREATE USER '' @ pq_QuoteIdentifier (lib E) userName @ '' LOGIN PASSWORD '' @
         pq_QuoteLiteral (lib E) password @ '';'') []))"

text \<open>The loop of \<^verbatim>\<open>DropUser\<close> over the databases the user can reach.\<close>

definition drop_owned :: "env \<Rightarrow> string \<Rightarrow> string list \<Rightarrow> PostgresConnection \<Rightarrow> (PostgresConnection \<times> error option) go" where
  "drop_owned E quotedUserName databases p =
     bind_io (for_io databases (\<lambda>db p.
         bind_io (on_conn (PostgresConnect E) p None (Some db) Some (\<lambda>p dbConn.
             keep p (Exec E dbConn (''DROP OWNED BY '' @ quotedUserName @ '';'') [])))
           (\<lambda>(p, e). ret (case e of Some err \<Rightarrow> Inl (p, Some err) | None \<Rightarrow> Inr p))) p)
       (\<lambda>r. ret (case r of Inl out \<Rightarrow> out | Inr p \<Rightarrow> (p, None)))"

definition exclusive_msg :: string where
  "exclusive_msg = ''DROP USER options 'ReassingOwnedTo' and 'DropOwned' are mutually exclusive''"

definition drop_user_options :: "env \<Rightarrow> conn \<Rightarrow> UserSpec \<Rightarrow> DropUserOptions \<Rightarrow> PostgresConnection \<Rightarrow> (PostgresConnection \<times> error option) go" where
  "drop_user_options E conn userSpec opts p =
     (let userName = usr_UserName userSpec; quotedUserName = pq_QuoteIdentifier (lib E) userName; dbPrivs = usr_DbPrivs userSpec in
      if ReassingOwnedTo opts \<noteq> '''' \<and> DropOwned opts then ret (p, Some (Err exclusive_msg))
      else
        and_then
          (if DropOwned opts then
             try_io (GetDatabasesUserHasAccessTo E conn userName) (\<lambda>err. ret (p, Some err)) (\<lambda>databases. drop_owned E quotedUserName databases p)
           else ret (p, None)) (\<lambda>p.
        and_then
          (if ReassingOwnedTo opts \<noteq> '''' then
             keep p (Exec E conn (''REASSIGN OWNED BY '' @ quotedUserName @ '' TO '' @ pq_QuoteIdentifier (lib E) (ReassingOwnedTo opts) @ '';'') [])
           else ret (p, None)) (\<lambda>p.
          if RevokePrivileges opts \<and> length dbPrivs > 0 then
            bind_io (RevokeAllDbPrivs E conn userName dbPrivs (pg_getter E) (pc_store p)) (\<lambda>(st, e). ret (p\<lparr>pc_store := st\<rparr>, e))
          else ret (p, None))))"

definition DropUser_pg :: "env \<Rightarrow> PostgresConnection \<Rightarrow> UserSpec \<Rightarrow> (PostgresConnection \<times> error option) go" where
  "DropUser_pg E p userSpec =
     on_conn (PostgresConnect E) p None None Some (\<lambda>p conn.
       and_then (case usr_DropUserOptions userSpec of None \<Rightarrow> ret (p, None) | Some opts \<Rightarrow> drop_user_options E conn userSpec opts p) (\<lambda>p.
         keep p (Exec E conn (''DROP USER IF EXISTS '' @ pq_QuoteIdentifier (lib E) (usr_UserName userSpec) @ '';'') [])))"

text \<open>\<^verbatim>\<open>PG_GRANT_SCRIPT\<close> with its nine arguments put in; the names are not quoted by a function.\<close>

definition PG_GRANT_SCRIPT :: "string \<Rightarrow> string \<Rightarrow> string" where
  "PG_GRANT_SCRIPT user db = ''
GRANT USAGE ON SCHEMA public TO \"'' @ user @ ''\";
GRANT ALL ON ALL TABLES IN SCHEMA public TO \"'' @ user @ ''\";
GRANT ALL ON ALL SEQUENCES IN SCHEMA public TO \"'' @ user @ ''\";
ALTER DEFAULT PRIVILEGES FOR ROLE \"'' @ user @ ''\" IN SCHEMA public
GRANT ALL ON TABLES TO \"'' @ user @ ''\";
ALTER DEFAULT PRIVILEGES FOR ROLE \"'' @ user @ ''\" IN SCHEMA public
GRANT ALL ON SEQUENCES TO \"'' @ user @ ''\";
ALTER DATABASE \"'' @ db @ ''\" OWNER TO \"'' @ user @ ''\";
''"

definition MakeUserDbOwner_pg :: "env \<Rightarrow> PostgresConnection \<Rightarrow> string \<Rightarrow> string \<Rightarrow> (PostgresConnection \<times> error option) go" where
  "MakeUserDbOwner_pg E p userName dbName =
     on_conn (PostgresConnect E) p None None Some (\<lambda>p conn. keep p (Exec E conn (PG_GRANT_SCRIPT userName dbName) []))"

definition UpdateUserPrivs_pg :: "env \<Rightarrow> PostgresConnection \<Rightarrow> string \<Rightarrow> string \<Rightarrow> DbPriv list \<Rightarrow> (PostgresConnection \<times> bool \<times> error option) go" where
  "UpdateUserPrivs_pg E p userName serverPrivs dbPrivs =
     on_conn (PostgresConnect E) p None None (\<lambda>err. (False, Some err)) (\<lambda>p conn.
       bind_io (UpdateUserPrivs E conn userName serverPrivs dbPrivs (pg_getter E) (pc_store p)) (\<lambda>(st, changed, e).
         ret (p\<lparr>pc_store := st\<rparr>, changed, e)))"

definition pg_users_query :: string where
  "pg_users_query = ''SELECT usename AS role_name,
			CASE 
			WHEN usesuper AND usecreatedb THEN 
				CAST('superuser, create database' AS pg_catalog.text)
			WHEN usesuper THEN 
				CAST('superuser' AS pg_catalog.text)
			WHEN usecreatedb THEN 
				CAST('create database' AS pg_catalog.text)
			ELSE 
				CAST('' @ [CHR 0x27, CHR 0x27] @ '' AS pg_catalog.text)
			END role_attributes
		FROM pg_catalog.pg_user
		ORDER BY usename ASC;''"

fun user_rows :: "libs \<Rightarrow> gval list list \<Rightarrow> DbSideUser gomap \<Rightarrow> error + DbSideUser gomap" where
  "user_rows L [] users = Inr users"
| "user_rows L (row # rest) users =
     (case scan_strings L 2 row of
        Inr [name, attrs] \<Rightarrow> user_rows L rest (AList.update name \<lparr>su_UserName = name, su_Attributes = attrs\<rparr> users)
      | _ \<Rightarrow> Inl (Err ''unable to load DbUser''))"

definition GetUsers_pg :: "env \<Rightarrow> PostgresConnection \<Rightarrow> (PostgresConnection \<times> (error + DbSideUser gomap)) go" where
  "GetUsers_pg E p =
     on_conn (PostgresConnect E) p None None Inl (\<lambda>p conn. keep p
       (try_io (Query E conn pg_users_query [])
         (\<lambda>err. ret (Inl (Err (''unable to read users from server '' @ error_msg err))))
         (\<lambda>rows. ret (user_rows (lib E) (row_data rows) []))))"

definition Execute_pg :: "env \<Rightarrow> PostgresConnection \<Rightarrow> string \<Rightarrow> string option \<Rightarrow> (PostgresConnection \<times> error option) go" where
  "Execute_pg E p qry user = on_conn (PostgresConnect E) p user None Some (\<lambda>p conn. keep p (Exec E conn qry []))"

definition CreateDb_pg :: "env \<Rightarrow> PostgresConnection \<Rightarrow> string \<Rightarrow> (PostgresConnection \<times> error option) go" where
  "CreateDb_pg E p dbName = Execute_pg E p (''CREATE DATABASE '' @ pq_QuoteIdentifier (lib E) dbName @ '';'') None"

definition CreateSchema_pg :: "env \<Rightarrow> PostgresConnection \<Rightarrow> string \<Rightarrow> string option \<Rightarrow> (PostgresConnection \<times> error option) go" where
  "CreateSchema_pg E p schemaName creator =
     Execute_pg E p (''CREATE SCHEMA '' @ pq_QuoteIdentifier (lib E) schemaName @ '';'') creator"

definition cascade_error :: error where
  "cascade_error = Err ''cascade option is only supported for cockroachdb''"

definition DropDb_pg :: "env \<Rightarrow> PostgresConnection \<Rightarrow> string \<Rightarrow> bool \<Rightarrow> (PostgresConnection \<times> error option) go" where
  "DropDb_pg E p dbName cascade =
     on_conn (PostgresConnect E) p None None Some (\<lambda>p conn.
       if cascade \<and> pc_Flavor p \<noteq> ''cockroachdb'' then ret (p, Some cascade_error)
       else (let cascadeStr = (if cascade then ''CASCADE'' else '''') in
             keep p (Exec E conn (''DROP DATABASE '' @ pq_QuoteIdentifier (lib E) dbName @ '' '' @ cascadeStr @ '';'') [])))"

definition DropSchema_pg :: "env \<Rightarrow> PostgresConnection \<Rightarrow> string \<Rightarrow> string option \<Rightarrow> bool \<Rightarrow> (PostgresConnection \<times> error option) go" where
  "DropSchema_pg E p schemaName userName cascade =
     (let dbName = (if Contains schemaName ''.'' then Some (GetDbNameFromScopeName schemaName) else None) in
      on_conn (PostgresConnect E) p userName dbName Some (\<lambda>p conn.
       if cascade \<and> pc_Flavor p \<noteq> ''cockroachdb'' then ret (p, Some cascade_error)
       else (let cascadeStr = (if cascade then ''CASCADE'' else '''') in
             keep p (Exec E conn (''DROP SCHEMA '' @ pq_QuoteIdentifier (lib E) schemaName @ '' '' @ cascadeStr @ '';'') []))))"

definition GetDbs_pg :: "env \<Rightarrow> PostgresConnection \<Rightarrow> (PostgresConnection \<times> (error + DbSideDb gomap)) go" where
  "GetDbs_pg E p =
     on_conn (PostgresConnect E) p None None Inl (\<lambda>p conn. keep p
       (try_io (Query E conn ''SELECT d.datname FROM pg_catalog.pg_database d WHERE d.datistemplate = false ORDER BY d.datname;'' [])
         (\<lambda>err. ret (Inl err))
         (\<lambda>rows. ret (case string_col (lib E) (Err ''unable to load PostgresDb'') (row_data rows) of
             Inl err \<Rightarrow> Inl err
           | Inr names \<Rightarrow> Inr (fold (\<lambda>d m. AList.update d \<lparr>sd_DatbaseName = d\<rparr> m) names [])))))"

definition GetSchemas_pg :: "env \<Rightarrow> PostgresConnection \<Rightarrow> string option \<Rightarrow> (PostgresConnection \<times> (error + DbSideSchema gomap)) go" where
  "GetSchemas_pg E p userName = on_conn (PostgresConnect E) p userName None Inl (\<lambda>p conn. keep p (GetSchemas E conn))"

definition Close_pg :: "env \<Rightarrow> PostgresConnection \<Rightarrow> (PostgresConnection \<times> error option) go" where
  "Close_pg E p = bind_io (Close_store E (pc_store p)) (\<lambda>(st, e). ret (p\<lparr>pc_store := st\<rparr>, e))"

subsection \<open>CockroachDB backups and schedules\<close>

definition GetBackupJobs :: "env \<Rightarrow> PostgresConnection \<Rightarrow> (PostgresConnection \<times> (error + gval gomap list)) go" where
  "GetBackupJobs E p =
     on_conn (PostgresConnect E) p None None Inl (\<lambda>p conn. keep p
       (SelectToArrayMap E conn ''WITH x as (SHOW JOBS) SELECT * FROM x WHERE job_type = 'BACKUP' ORDER BY created DESC LIMIT 100;'' []))"

text \<open>The second result, whether the job was found, is the \<open>option\<close>.\<close>

definition GetBackupJobById :: "env \<Rightarrow> PostgresConnection \<Rightarrow> int \<Rightarrow> (PostgresConnection \<times> (error + gval gomap option)) go" where
  "GetBackupJobById E p jobId =
     on_conn (PostgresConnect E) p None None Inl (\<lambda>p conn. keep p
       (try_io (SelectToArrayMap E conn ''WITH x as (SHOW JOBS) SELECT * FROM x WHERE job_type = 'BACKUP' AND job_id=$1;'' [GInt jobId])
         (\<lambda>err. ret (Inl err))
         (\<lambda>maps. ret (Inr (if length maps = 0 then None else Some (maps ! 0))))))"

definition GetBackupScheduleById :: "env \<Rightarrow> PostgresConnection \<Rightarrow> int \<Rightarrow> (PostgresConnection \<times> (error + gval gomap)) go" where
  "GetBackupScheduleById E p scheduleId =
     on_conn (PostgresConnect E) p None None Inl (\<lambda>p conn. keep p
       (try_io (SelectToArrayMap E conn ''WITH x as (SHOW SCHEDULES) SELECT * FROM x WHERE id=$1;'' [GInt scheduleId])
         (\<lambda>err. ret (Inl err))
         (\<lambda>maps. ret (if length maps = 0 then Inl (Err (''BackupSchedule with id '' @ Itoa scheduleId @ '' not found'')) else Inr (maps ! 0)))))"

definition GetBackupScheduleByLabel :: "env \<Rightarrow> PostgresConnection \<Rightarrow> string \<Rightarrow> (PostgresConnection \<times> (error + gval gomap)) go" where
  "GetBackupScheduleByLabel E p scheduleLabel =
     on_conn (PostgresConnect E) p None None Inl (\<lambda>p conn. keep p
       (try_io (SelectToArrayMap E conn ''WITH x as (SHOW SCHEDULES) SELECT * FROM x WHERE label=$1;'' [GStr scheduleLabel])
         (\<lambda>err. ret (Inl err))
         (\<lambda>maps. ret (if length maps = 0 then Inl (Err (''BackupSchedule with label '' @ scheduleLabel @ '' not found'')) else Inr (maps ! 0)))))"

definition ResumeSchedule :: "env \<Rightarrow> PostgresConnection \<Rightarrow> int \<Rightarrow> (PostgresConnection \<times> error option) go" where
  "ResumeSchedule E p scheduleId =
     on_conn (PostgresConnect E) p None None Some (\<lambda>p conn. keep p (Exec E conn (''RESUME SCHEDULE '' @ Itoa scheduleId) []))"

definition PauseSchedule :: "env \<Rightarrow> PostgresConnection \<Rightarrow> int \<Rightarrow> (PostgresConnection \<times> error option) go" where
  "PauseSchedule E p scheduleId =
     on_conn (PostgresConnect E) p None None Some (\<lambda>p conn. keep p (Exec E conn (''PAUSE SCHEDULE '' @ Itoa scheduleId) []))"

definition DropBackupSchedule :: "env \<Rightarrow> PostgresConnection \<Rightarrow> int \<Rightarrow> (PostgresConnection \<times> error option) go" where
  "DropBackupSchedule E p scheduleId =
     on_conn (PostgresConnect E) p None None Some (\<lambda>p conn. keep p (Exec E conn (''DROP SCHEDULE '' @ Itoa scheduleId) []))"

text \<open>
  The part of \<^verbatim>\<open>net/url\<close> that is used: percent-encoding of a host, of a path and of a
  query component, \<^verbatim>\<open>Values.Encode\<close> (sorted by key) and \<^verbatim>\<open>URL.String\<close> for a URL with
  scheme, host, path and query.
\<close>

datatype url_mode = EncodeHost | EncodePath | EncodeQuery

definition should_escape :: "url_mode \<Rightarrow> char \<Rightarrow> bool" where
  "should_escape mode c =
     (if is_alnum c then False
      else if mode = EncodeHost \<and> c \<in> set (''!$&()*+,;=:[]<>'' @ [CHR 0x27, CHR 0x22]) then False
      else if c \<in> set ''-_.~'' then False
      else if mode = EncodePath \<and> c \<in> set ''$&+,/:;=@'' then False
      else True)"

definition hex_digit :: "nat \<Rightarrow> char" where
  "hex_digit n = ''0123456789ABCDEF'' ! n"

definition url_escape :: "url_mode \<Rightarrow> string \<Rightarrow> string" where
  "url_escape mode s =
     concat (map (\<lambda>c. if \<not> should_escape mode c then [c]
                      else if mode = EncodeQuery \<and> c = CHR '' '' then ''+''
                      else [CHR ''%'', hex_digit (of_char c div 16), hex_digit (of_char c mod 16)]) s)"

definition Encode_values :: "string gomap \<Rightarrow> string" where
  "Encode_values query =
     Join (map (\<lambda>k. url_escape EncodeQuery k @ ''='' @ url_escape EncodeQuery (case map_of query k of None \<Rightarrow> '''' | Some v \<Rightarrow> v))
            (sort_Strings (map fst query))) ''&''"

definition url_String :: "string \<Rightarrow> string \<Rightarrow> string \<Rightarrow> string \<Rightarrow> string" where
  "url_String scheme host path rawQuery =
     (let escaped = (if path = ''*'' then ''*'' else url_escape EncodePath path);
          head = (if scheme \<noteq> '''' then scheme @ '':'' else '''') @
                 (if (scheme \<noteq> '''' \<or> host \<noteq> '''') \<and> (host \<noteq> '''' \<or> path \<noteq> '''') then ''//'' else '''') @
                 url_escape EncodeHost host @
                 (if escaped \<noteq> '''' \<and> hd escaped \<noteq> CHR ''/'' \<and> host \<noteq> '''' then ''/'' else '''');
          dot = (if head = '''' \<and> Contains (hd (Split escaped ''/'')) '':'' then ''./'' else '''')
      in head @ dot @ escaped @ (if rawQuery \<noteq> '''' then ''?'' @ rawQuery else ''''))"

text \<open>The query of the bucket string, for the secret that \<^verbatim>\<open>GetBucketSecret\<close> gave.\<close>

definition bucket_query :: "BucketStorageInfo \<Rightarrow> bool \<Rightarrow> string \<Rightarrow> string gomap" where
  "bucket_query bi redact bucketSecret =
     (let query = (if bi_KeyName bi \<noteq> '''' then
                     AList.update ''AWS_SECRET_ACCESS_KEY'' (if redact then ''redacted'' else bucketSecret)
                       (AList.update ''AWS_ACCESS_KEY_ID'' (bi_KeyName bi) [])
                   else AList.update ''AUTH'' ''implicit'' [])
      in if bi_Endpoint bi \<noteq> '''' then AList.update ''AWS_ENDPOINT'' (bi_Endpoint bi) query else query)"

definition getBucketString :: "env \<Rightarrow> BucketStorageInfo \<Rightarrow> bool \<Rightarrow> (error + string) go" where
  "getBucketString E bi redact =
     try_io (if bi_KeyName bi \<noteq> '''' then GetBucketSecret E bi else ret (Inr '''')) (\<lambda>err. ret (Inl err)) (\<lambda>bucketSecret.
       ret (Inr (url_String (bi_StorageTypeName bi) (bi_BucketName bi) (bi_Prefix bi) (Encode_values (bucket_query bi redact bucketSecret)))))"

definition ConstructBackupJobStatement :: "env \<Rightarrow> BucketStorageInfo \<Rightarrow> string \<Rightarrow> string \<Rightarrow> bool \<Rightarrow> (error + string) go" where
  "ConstructBackupJobStatement E bucketStorageInfo dbName systemTimeOffsetStr redact =
     try_io (getBucketString E bucketStorageInfo redact) (\<lambda>err. ret (Inl err)) (\<lambda>bucketString.
       ret (Inr (''BACKUP DATABASE '' @ pq_QuoteIdentifier (lib E) dbName @ '' INTO '' @ [CHR 0x27] @ bucketString @ [CHR 0x27] @ '' '' @
         systemTimeOffsetStr @ ''WITH detached;'')))"

definition CreateBackupJob :: "env \<Rightarrow> PostgresConnection \<Rightarrow> string \<Rightarrow> BucketStorageInfo \<Rightarrow> (PostgresConnection \<times> (error + int)) go" where
  "CreateBackupJob E p dbName bucketStorageInfo =
     on_conn (PostgresConnect E) p None None Inl (\<lambda>p conn. keep p
       (try_io (ConstructBackupJobStatement E bucketStorageInfo dbName (''AS OF SYSTEM TIME '-10s' '') False)
         (\<lambda>err. ret (Inl err))
         (\<lambda>qry. SelectFirstValueInt64 E conn qry [])))"

definition CreateBackupSchedule :: "env \<Rightarrow> PostgresConnection \<Rightarrow> string \<Rightarrow> BucketStorageInfo \<Rightarrow> string \<Rightarrow> string \<Rightarrow> bool \<Rightarrow> bool
    \<Rightarrow> (PostgresConnection \<times> (error + gval gomap list)) go" where
  "CreateBackupSchedule E p dbName bucketStorageInfo scheduleName schedule runNow ignoreExistingBackups =
     on_conn (PostgresConnect E) p None None Inl (\<lambda>p conn. keep p
       (try_io (getBucketString E bucketStorageInfo False) (\<lambda>err. ret (Inl err)) (\<lambda>bucketString.
          let qry = ''CREATE SCHEDULE IF NOT EXISTS '' @ pq_QuoteIdentifier (lib E) scheduleName @
                '' FOR BACKUP DATABASE '' @ pq_QuoteIdentifier (lib E) dbName @
                '' INTO '' @ pq_QuoteLiteral (lib E) bucketString @
                '' RECURRING '' @ pq_QuoteLiteral (lib E) schedule @ '' FULL BACKUP ALWAYS'';
              qry = (if runNow \<or> ignoreExistingBackups then
                       qry @ '' WITH SCHEDULE OPTIONS'' @ (if runNow then '' first_run=now'' else '''') @
                       (if ignoreExistingBackups then '',ignore_existing_backups'' else '''')
                     else qry)
          in SelectToArrayMap E conn (qry @ '';'') [])))"

subsection \<open>Containers of backup and restore jobs\<close>


text \<open>\<^verbatim>\<open>path.Join("/", SCRIPTS_VOLUME_NAME, scriptName)\<close>, for a script name that is a plain file name.\<close>

definition script_path :: "string \<Rightarrow> string" where
  "script_path scriptName = ''/'' @ SCRIPTS_VOLUME_NAME @ ''/'' @ scriptName"

definition BuildContainer_pg :: "DbServer \<Rightarrow> Db \<Rightarrow> string \<Rightarrow> Container" where
  "BuildContainer_pg dbServer db scriptName =
     (let spec = srv_Spec dbServer;
          envVars =
            [\<lparr>ev_Name = ''PGHOST'', ev_Value = Value (srv_Address spec)\<rparr>,
             \<lparr>ev_Name = ''PGUSER'', ev_Value = Value (srv_UserName spec)\<rparr>,
             \<lparr>ev_Name = ''PGPORT'', ev_Value = Value (Itoa (srv_Port spec))\<rparr>,
             \<lparr>ev_Name = ''PGPASSWORD'', ev_Value = SecretKeyRef (srv_SecretName spec) (Nvl (srv_PasswordKey spec) ''password'')\<rparr>,
             \<lparr>ev_Name = ''DATABASE'', ev_Value = Value (db_DbName (db_Spec db))\<rparr>]
      in \<lparr>co_Name = ''pg-'' @ ReplaceNonAllowedChars (ReplaceFirst scriptName ''.sh'' ''''),
          co_Image = ''postgres:'' @ Nvl (srv_Version spec) ''latest'',
          co_Env = envVars,
          co_Command = [script_path scriptName],
          co_VolumeMounts = VOLUME_MOUNTS\<rparr>)"

definition BuildBackupContainer_pg :: "DbServer \<Rightarrow> Db \<Rightarrow> Container" where
  "BuildBackupContainer_pg dbServer db = BuildContainer_pg dbServer db BACKUP_POSTGRES"

definition BuildRestoreContainer_pg :: "DbServer \<Rightarrow> Db \<Rightarrow> Container" where
  "BuildRestoreContainer_pg dbServer db = BuildContainer_pg dbServer db RESTORE_POSTGRES"

subsection \<open>What the statements are\<close>

lemmas emits_on_pg = pg_connector.on_conn_emits

lemma emits_pg_getter: "(\<And>ev. is_open ev \<Longrightarrow> P ev) \<Longrightarrow> emits P (pg_getter E p u d)"
  unfolding pg_getter_def by (rule pg_connector.GetDbConnection_emits)

lemma priv_event_open: "is_open ev \<Longrightarrow> priv_event ev"
  by (cases ev) auto

lemma emits_UpdateUserPrivs_pg: "emits priv_event (UpdateUserPrivs_pg E p userName serverPrivs dbPrivs)"
  unfolding UpdateUserPrivs_pg_def
  by (rule emits_on_pg [OF priv_event_open])
     (auto intro!: emits_intro emits_UpdateUserPrivs emits_pg_getter priv_event_open)

text \<open>C28: updating the privileges of a user on a PostgreSQL or CockroachDB server runs no statement
  but GRANT, REVOKE, ALTER USER and ALTER DEFAULT PRIVILEGES: whatever the server answers and
  whatever the User resource holds, nothing is created or dropped.\<close>

theorem UpdateUserPrivs_pg_only_privileges:
  "\<exists>es. snd (UpdateUserPrivs_pg E p userName serverPrivs dbPrivs h) = h @ es \<and> list_all priv_event es"
  by (rule emitsE [OF emits_UpdateUserPrivs_pg]) blast

lemma on_conn_run:
  "on_conn Connect p u d fail k h =
     (case GetDbConnection Connect (pc_store p) u d h of
        (Return (st, Inl err), h') \<Rightarrow> (Return (p\<lparr>pc_store := st\<rparr>, fail err), h')
      | (Return (st, Inr c), h') \<Rightarrow> k (p\<lparr>pc_store := st\<rparr>) c h'
      | (Panic s, h') \<Rightarrow> (Panic s, h'))"
  by (simp add: on_conn_def run split: prod.split outcome.split sum.split)

text \<open>Asking to drop the objects of a user and to give them to another role at once is refused
  before any statement runs: the calls made only open connections, and the result is an error.\<close>

theorem DropUser_pg_exclusive_options:
  assumes "usr_DropUserOptions us = Some opts" "DropOwned opts" "ReassingOwnedTo opts \<noteq> ''''"
    and "DropUser_pg E p us h = (Return (p', e), h')"
  shows "e \<noteq> None \<and> (\<exists>es. h' = h @ es \<and> list_all is_open es)"
proof -
  have opts: "drop_user_options E c us opts q = ret (q, Some (Err exclusive_msg))" for c q
    using assms(2,3) by (simp add: drop_user_options_def)
  have "emits is_open (DropUser_pg E p us)"
    unfolding DropUser_pg_def and_then_def
    by (rule emits_on_pg) (simp_all add: assms(1) opts bind_io_def ret_def emits_def)
  then obtain es where "h' = h @ es" "list_all is_open es" using assms(4) by (rule emitsD)
  moreover have "e \<noteq> None"
    using assms(1,4) by (auto simp: DropUser_pg_def and_then_def on_conn_run opts run split: prod.splits outcome.splits sum.splits)
  ultimately show ?thesis by blast
qed

text \<open>Dropping a database with CASCADE on a server that is not CockroachDB is refused before any
  statement runs.\<close>

theorem DropDb_pg_cascade_refused:
  assumes "pc_Flavor p \<noteq> ''cockroachdb''" and "DropDb_pg E p dbName True h = (Return (p', e), h')"
  shows "e \<noteq> None \<and> (\<exists>es. h' = h @ es \<and> list_all is_open es)"
proof -
  have "emits is_open (DropDb_pg E p dbName True)"
    unfolding DropDb_pg_def by (rule emits_on_pg) (auto simp: assms(1) intro!: emits_intro)
  then obtain es where "h' = h @ es" "list_all is_open es" using assms(2) by (rule emitsD)
  moreover have "e \<noteq> None"
    using assms by (auto simp: DropDb_pg_def on_conn_run run split: prod.splits outcome.splits sum.splits)
  ultimately show ?thesis by blast
qed

text \<open>A user is dropped only as the last statement of a successful run: when dropping a user
  reports no error, the last call made is the DROP USER statement for the quoted name, and it
  succeeded.\<close>

theorem DropUser_pg_drops_last:
  assumes "DropUser_pg E p us h = (Return (p', None), h')"
  shows "\<exists>g c. h' = g @ [SqlExec c (''DROP USER IF EXISTS '' @ pq_QuoteIdentifier (lib E) (usr_UserName us) @ '';'') []] \<and>
    sql_exec E g c (''DROP USER IF EXISTS '' @ pq_QuoteIdentifier (lib E) (usr_UserName us) @ '';'') [] = None"
  using assms
  by (auto simp: DropUser_pg_def and_then_def on_conn_run run split: prod.splits outcome.splits sum.splits option.splits)

text \<open>A server that accepts every connection and every statement.\<close>

definition open_env :: env where
  "open_env = null_env\<lparr>sql_open := (\<lambda>_ _ _. Inr 5), sql_exec := (\<lambda>_ _ _ _. None)\<rparr>"

definition demo_pg :: PostgresConnection where
  "demo_pg = \<lparr>pc_store = demo_store, pc_Flavor = ''postgres''\<rparr>"

definition demo_user_spec :: UserSpec where
  "demo_user_spec =
     \<lparr>usr_UserName = ''u'', usr_SecretName = ''s'', usr_GenerateSecret = False, usr_PasswordKey = '''', usr_CaCertKey = '''',
      usr_TlsCrtKey = '''', usr_TlsKeyKey = '''', usr_DbServerName = ''srv'', usr_DbPrivs = [], usr_ServerPrivs = '''',
      usr_DropOnDeletion = True, usr_DropUserOptions = None\<rparr>"

definition demo_conn_str :: string where
  "demo_conn_str = conn_base ''h'' ''root'' ''postgres'' ''require'' 5432 (Some ''pw'')"

definition demo_pg_open :: PostgresConnection where
  "demo_pg_open = demo_pg\<lparr>pc_store := demo_store\<lparr>cs_connections := Some [(NewConnectionKey None None, 5)]\<rparr>\<rparr>"

lemma demo_pg_conn:
  "GetDbConnection (PostgresConnect open_env) demo_store None None [] =
     (Return (demo_store\<lparr>cs_connections := Some [(NewConnectionKey None None, 5)]\<rparr>, Inr 5), [SqlOpen ''postgres'' demo_conn_str])"
  by (simp add: GetDbConnection_def demo_store_def demo_conn_str_def open_conns_def store_creds_def PostgresConnect_def connect_string_def getConnectionString_def
      run open_env_def)

lemma on_demo_conn:
  "on_conn (PostgresConnect open_env) demo_pg None None fail k [] = k demo_pg_open 5 [SqlOpen ''postgres'' demo_conn_str]"
  by (simp add: on_conn_run demo_pg_def demo_pg_conn demo_pg_open_def)

lemma open_env_exec [simp]: "sql_exec open_env h c q args = None"
  by (simp add: open_env_def)

theorem DropUser_pg_drops_last_witness:
  "\<exists>g c. [SqlOpen ''postgres'' demo_conn_str, SqlExec 5 (''DROP USER IF EXISTS '' @ pq_QuoteIdentifier (lib open_env) ''u'' @ '';'') []] =
     g @ [SqlExec c (''DROP USER IF EXISTS '' @ pq_QuoteIdentifier (lib open_env) ''u'' @ '';'') []]"
proof -
  have "DropUser_pg open_env demo_pg demo_user_spec [] = (Return (demo_pg_open, None),
      [SqlOpen ''postgres'' demo_conn_str, SqlExec 5 (''DROP USER IF EXISTS '' @ pq_QuoteIdentifier (lib open_env) ''u'' @ '';'') []])"
    by (simp add: DropUser_pg_def on_demo_conn and_then_def demo_user_spec_def run)
  from DropUser_pg_drops_last [OF this] show ?thesis by (auto simp: demo_user_spec_def)
qed

theorem DropUser_pg_exclusive_options_witness:
  "\<exists>p' e h'. DropUser_pg open_env demo_pg
      (demo_user_spec\<lparr>usr_DropUserOptions := Some \<lparr>RevokePrivileges = False, DropOwned = True, ReassingOwnedTo = ''other''\<rparr>\<rparr>) [] =
        (Return (p', e), h') \<and> e \<noteq> None \<and> (\<exists>es. h' = [] @ es \<and> list_all is_open es)"
proof -
  let ?us = "demo_user_spec\<lparr>usr_DropUserOptions := Some \<lparr>RevokePrivileges = False, DropOwned = True, ReassingOwnedTo = ''other''\<rparr>\<rparr>"
  have "DropUser_pg open_env demo_pg ?us [] = (Return (demo_pg_open, Some (Err exclusive_msg)), [SqlOpen ''postgres'' demo_conn_str])"
    by (simp add: DropUser_pg_def on_demo_conn and_then_def drop_user_options_def run)
  moreover from DropUser_pg_exclusive_options [OF _ _ _ this] have "\<exists>es. [SqlOpen ''postgres'' demo_conn_str] = [] @ es \<and> list_all is_open es"
    by simp
  ultimately show ?thesis by blast
qed

lemma pc_Flavor_demo: "pc_Flavor demo_pg_open = ''postgres''"
  by (simp add: demo_pg_open_def demo_pg_def)

theorem DropDb_pg_cascade_refused_witness:
  "\<exists>p' e h'. DropDb_pg open_env demo_pg ''app'' True [] = (Return (p', e), h') \<and> e \<noteq> None \<and> (\<exists>es. h' = [] @ es \<and> list_all is_open es)"
proof -
  have run: "DropDb_pg open_env demo_pg ''app'' True [] = (Return (demo_pg_open, Some cascade_error), [SqlOpen ''postgres'' demo_conn_str])"
    using pc_Flavor_demo by (simp add: DropDb_pg_def on_demo_conn run)
  have "pc_Flavor demo_pg \<noteq> ''cockroachdb''" by (simp add: demo_pg_def)
  from DropDb_pg_cascade_refused [OF this run] run show ?thesis by blast
qed

subsection \<open>Secrets and encryption\<close>

lemma bucket_query_redacted: "bucket_query bi True secret = bucket_query bi True secret'"
  by (simp add: bucket_query_def)

text \<open>C36: a redacted backup statement does not depend on the secret: two environments that differ
  in the contents of their Secrets only, but find the bucket's key in both or in none, construct
  the same text.\<close>

theorem redacted_statement_hides_secret:
  assumes "lib E' = lib E"
    and "ConstructBackupJobStatement E bi db offset True h = (Return (Inr s), g)"
    and "ConstructBackupJobStatement E' bi db offset True h' = (Return (Inr s'), g')"
  shows "s' = s"
  using assms bucket_query_redacted [of bi]
  by (auto simp: ConstructBackupJobStatement_def getBucketString_def run split: prod.splits outcome.splits sum.splits if_splits)
    metis+

text \<open>The events of opening a connection that asks for encryption.\<close>

fun encrypted_open :: "event \<Rightarrow> bool" where
  "encrypted_open (SqlOpen driver connStr) = (driver = ''postgres'' \<and> Contains connStr '' sslmode=require'')"
| "encrypted_open ev = is_open ev"

lemma add_cert_extends:
  "add_cert E opt cert s h = (Return (Inr s'), h') \<Longrightarrow> prefix s s'"
  by (auto simp: add_cert_def run split: option.splits prod.splits outcome.splits sum.splits)

lemma getConnectionString_base:
  "getConnectionString E host u d m port pw ca crt key h = (Return (Inr s), h') \<Longrightarrow> prefix (conn_base host u d m port pw) s"
  by (auto simp: getConnectionString_def Let_def run split: prod.splits outcome.splits sum.splits if_splits
      dest!: add_cert_extends)

lemma getConnectionString_sslmode:
  assumes "getConnectionString E host u d m port pw ca crt key h = (Return (Inr s), h')"
  shows "Contains s ('' sslmode='' @ m)"
proof -
  have "sublist ('' sslmode='' @ m) (conn_base host u d m port pw)"
    unfolding conn_base_def sublist_def by (metis append.assoc)
  moreover have "sublist (conn_base host u d m port pw) s"
    using getConnectionString_base [OF assms] by (rule prefix_imp_sublist)
  ultimately show ?thesis unfolding Contains_iff by (rule sublist_order.order_trans)
qed

text \<open>Unless the server's options say otherwise, every connection to a PostgreSQL or CockroachDB
  server is opened with \<open>sslmode=require\<close>, whatever the credentials and the database.\<close>

theorem PostgresConnect_encrypts_by_default:
  assumes "map_of (ci_Options info) ''sslmode'' = None"
  shows "\<exists>es. snd (PostgresConnect E info creds d h) = h @ es \<and> list_all encrypted_open es"
proof -
  have "emits encrypted_open (PostgresConnect E info creds d)"
    unfolding PostgresConnect_def Let_def assms
  proof (rule emits_try_run)
    fix g s g'
    let ?dbName = "case d of Some d \<Rightarrow> d | None \<Rightarrow> if ci_Database info = '''' then ''postgres'' else ci_Database info"
    assume "connect_string E info creds ?dbName (case None of None \<Rightarrow> ''require'' | Some m \<Rightarrow> m) g = (Return (Inr s), g')"
    then have "Contains s ('' sslmode='' @ ''require'')"
      by (cases creds) (auto simp: connect_string_def Let_def dest: getConnectionString_sslmode)
    then show "emits encrypted_open (call (SqlOpen ''postgres'' s) (\<lambda>h. sql_open E h ''postgres'' s))"
      by (intro emits_intro) simp
  qed (auto intro!: emits_intro)
  then show ?thesis by (auto elim: emitsE)
qed

theorem PostgresConnect_encrypts_by_default_witness:
  "\<exists>es. snd (PostgresConnect open_env (cs_ServerConnInfo demo_store) None None []) = [] @ es \<and> list_all encrypted_open es"
  by (rule PostgresConnect_encrypts_by_default) (simp add: demo_store_def)

definition demo_bucket :: BucketStorageInfo where
  "demo_bucket =
     \<lparr>bi_StorageTypeName = ''s3'', bi_BucketName = ''b'', bi_Prefix = '''', bi_Region = '''', bi_KeyName = ''key'', bi_K8sSecret = ''s'',
      bi_K8sSecretKey = ''k'', bi_AssumeRoleName = '''', bi_Endpoint = '''', bi_Namespace = ''ns''\<rparr>"

definition secret_env :: "string \<Rightarrow> env" where
  "secret_env secret = null_env\<lparr>get_Secret := (\<lambda>_ n. Inr \<lparr>sec_meta = \<lparr>m_Name = ''s'', m_Namespace = ''ns'', m_CreationTimestamp = 0,
     m_DeletionTimestamp = None, m_Finalizers = [], m_Labels = []\<rparr>, sec_Data = [(''k'', secret)]\<rparr>)\<rparr>"

lemma secret_env_statement:
  "\<exists>s g. ConstructBackupJobStatement (secret_env secret) demo_bucket ''app'' '''' True [] = (Return (Inr s), g)"
  by (simp add: ConstructBackupJobStatement_def getBucketString_def GetBucketSecret_def demo_bucket_def secret_env_def run)

theorem redacted_statement_hides_secret_witness:
  "fst (ConstructBackupJobStatement (secret_env ''hunter2'') demo_bucket ''app'' '''' True []) =
   fst (ConstructBackupJobStatement (secret_env ''other'') demo_bucket ''app'' '''' True [])"
proof -
  obtain s g where s: "ConstructBackupJobStatement (secret_env ''hunter2'') demo_bucket ''app'' '''' True [] = (Return (Inr s), g)"
    using secret_env_statement by blast
  obtain s' g' where s': "ConstructBackupJobStatement (secret_env ''other'') demo_bucket ''app'' '''' True [] = (Return (Inr s'), g')"
    using secret_env_statement by blast
  have "lib (secret_env ''other'') = lib (secret_env ''hunter2'')" by (simp add: secret_env_def)
  from redacted_statement_hides_secret [OF this s s'] s s' show ?thesis by simp
qed

end
