(* ===== verification/UserPrivs.thy ===== *)
theory UserPrivs
  imports DatabasePrivs PgConn
begin

section \<open>All privileges of a user on a PostgreSQL server\<close>

text \<open>
  The loop of \<^verbatim>\<open>UpdateUserPrivs\<close> in \<^verbatim>\<open>dbservers/postgres/privileges.go\<close> over the privileges of a resource, each on its own
  object and its own connection.  The abstract state of the server is a function from objects to the privileges that the
  user holds; a call of \<^verbatim>\<open>UpdateUserPrivs\<close> is one assignment to it, and a second call only reads.
\<close>

subsection \<open>Objects\<close>

datatype pobj = PDatabase string | PSchema string string | PTable string string

text \<open>The database an object is in, and its name on a connection to that database.\<close>

fun obj_db :: "pobj \<Rightarrow> string" where
  "obj_db (PDatabase db) = db"
| "obj_db (PSchema db schema) = db"
| "obj_db (PTable db table) = db"

fun obj_name :: "pobj \<Rightarrow> string" where
  "obj_name (PDatabase db) = db"
| "obj_name (PSchema db schema) = schema"
| "obj_name (PTable db table) = table"

definition table_privs :: "string set" where
  "table_privs = {''SELECT'', ''INSERT'', ''UPDATE'', ''DELETE'', ''TRUNCATE'', ''REFERENCES'', ''TRIGGER''}"

fun known_privs :: "pobj \<Rightarrow> string set" where
  "known_privs (PDatabase db) = database_privs"
| "known_privs (PSchema db schema) = schema_privs"
| "known_privs (PTable db table) = table_privs"

fun obj_get :: "env \<Rightarrow> conn \<Rightarrow> string \<Rightarrow> pobj \<Rightarrow> (error + string list) go" where
  "obj_get E c user (PDatabase db) = getDatabasePrivilegesPg E c user db"
| "obj_get E c user (PSchema db schema) = getSchemaPrivileges E c user schema"
| "obj_get E c user (PTable db table) = getTablePrivileges E c user table"

fun obj_grant :: "libs \<Rightarrow> string \<Rightarrow> pobj \<Rightarrow> string list \<Rightarrow> string" where
  "obj_grant L user (PDatabase db) = database_grant L user db"
| "obj_grant L user (PSchema db schema) = schema_grant L user schema"
| "obj_grant L user (PTable db table) = table_grant L user table"

fun obj_revoke :: "libs \<Rightarrow> string \<Rightarrow> pobj \<Rightarrow> string list \<Rightarrow> string" where
  "obj_revoke L user (PDatabase db) = database_revoke L user db"
| "obj_revoke L user (PSchema db schema) = schema_revoke L user schema"
| "obj_revoke L user (PTable db table) = table_revoke L user table"

text \<open>The code reads a name with a dot in another way, so it is not one of these names.\<close>

definition obj_ok :: "pobj \<Rightarrow> bool" where
  "obj_ok ob \<longleftrightarrow> obj_db ob \<noteq> '''' \<and> (case ob of PDatabase _ \<Rightarrow> True | PSchema _ n \<Rightarrow> CHR ''.'' \<notin> set n | PTable _ n \<Rightarrow> CHR ''.'' \<notin> set n)"

subsection \<open>The server\<close>

text \<open>
  A server for one user: \<open>pg_at c\<close> is the database of the connection \<open>c\<close>, \<open>pg_holds h ob\<close> what the user holds on an
  object after the history \<open>h\<close>, \<open>pg_acl h db\<close> the list of a database and \<open>pg_roles h\<close> the user's row of \<^verbatim>\<open>pg_roles\<close>.  What
  PostgreSQL reports of a schema includes what the user has from \<^verbatim>\<open>PUBLIC\<close>, from roles it is a member of or as a superuser, and
  the list of a table includes what others granted: \<open>pg_fixed ob\<close> is what the user has on an object in these ways, which
  revoking does not take away.  The list of a database has only direct grants, and those the operator can revoke.
  The laws speak of the objects of a set \<open>obs\<close>.
\<close>

record pg_server =
  pg_at :: "conn \<Rightarrow> string"
  pg_holds :: "hist \<Rightarrow> pobj \<Rightarrow> string set"
  pg_acl :: "hist \<Rightarrow> string \<Rightarrow> acl_item list"
  pg_roles :: "hist \<Rightarrow> gval gomap"
  pg_fixed :: "pobj \<Rightarrow> string set"

definition roles_query :: string where
  "roles_query = ''SELECT * FROM pg_roles WHERE rolname = $1''"

text \<open>Statements change what they name and nothing else; reading and opening connections change nothing.\<close>

definition applies_grants :: "env \<Rightarrow> string \<Rightarrow> pobj set \<Rightarrow> pg_server \<Rightarrow> bool" where
  "applies_grants E user obs S \<longleftrightarrow>
     (\<forall>h. \<forall>ob \<in> obs. pg_holds S h ob \<subseteq> known_privs ob \<and> pg_fixed S ob \<subseteq> pg_holds S h ob) \<and>
     (\<forall>db. pg_fixed S (PDatabase db) = {}) \<and>
     (\<forall>h ev. is_read ev \<longrightarrow>
        pg_holds S (h @ [ev]) = pg_holds S h \<and> pg_acl S (h @ [ev]) = pg_acl S h \<and> pg_roles S (h @ [ev]) = pg_roles S h) \<and>
     (\<forall>h c ob ps. ob \<in> obs \<and> pg_at S c = obj_db ob \<and> ps \<noteq> [] \<and> set ps \<subseteq> known_privs ob \<longrightarrow>
        sql_exec E h c (obj_grant (lib E) user ob ps) [] = None \<and>
        pg_holds S (h @ [SqlExec c (obj_grant (lib E) user ob ps) []]) = (pg_holds S h)(ob := pg_holds S h ob \<union> set ps) \<and>
        pg_roles S (h @ [SqlExec c (obj_grant (lib E) user ob ps) []]) = pg_roles S h) \<and>
     (\<forall>h c ob ps. ob \<in> obs \<and> pg_at S c = obj_db ob \<and> ps \<noteq> [] \<and> set ps \<subseteq> known_privs ob \<longrightarrow>
        sql_exec E h c (obj_revoke (lib E) user ob ps) [] = None \<and>
        pg_holds S (h @ [SqlExec c (obj_revoke (lib E) user ob ps) []]) = (pg_holds S h)(ob := pg_holds S h ob - (set ps - pg_fixed S ob)) \<and>
        pg_roles S (h @ [SqlExec c (obj_revoke (lib E) user ob ps) []]) = pg_roles S h)"

definition lists_privs :: "env \<Rightarrow> string \<Rightarrow> PostgresVersion \<Rightarrow> pobj set \<Rightarrow> pg_server \<Rightarrow> bool" where
  "lists_privs E user v obs S \<longleftrightarrow>
     (\<forall>h c schema. PSchema (pg_at S c) schema \<in> obs \<longrightarrow>
        (\<exists>cols. sql_query E h c has_create_query [GStr user, GStr schema] =
           Inr \<lparr>row_cols = cols, row_data = [[GBool (''CREATE'' \<in> pg_holds S h (PSchema (pg_at S c) schema))]]\<rparr>) \<and>
        (\<exists>cols. sql_query E h c has_usage_query [GStr user, GStr schema] =
           Inr \<lparr>row_cols = cols, row_data = [[GBool (''USAGE'' \<in> pg_holds S h (PSchema (pg_at S c) schema))]]\<rparr>)) \<and>
     (\<forall>c table. PTable (pg_at S c) table \<in> obs \<longrightarrow>
        lists_grants E c table_grants_query [GStr user, GStr table, GStr ''public''] (\<lambda>p. [GStr p])
          (\<lambda>h. pg_holds S h (PTable (pg_at S c) table))) \<and>
     (\<forall>h db. PDatabase db \<in> obs \<longrightarrow>
        list_all item_ok (pg_acl S h db) \<and> told_apart user (pg_acl S h db) \<and> granted user (pg_acl S h db) = pg_holds S h (PDatabase db)) \<and>
     (\<forall>h c db. PDatabase db \<in> obs \<longrightarrow>
        (\<exists>cols w. sql_query E h c datacl_query [GStr db] = Inr \<lparr>row_cols = cols, row_data = [[w]]\<rparr> \<and>
          (w \<in> {GStr (acl_text (pg_acl S h db)), GBytes (acl_text (pg_acl S h db))} \<or> w = GNull \<and> pg_acl S h db = []))) \<and>
     (\<forall>h c. \<exists>cols banner. sql_query E h c ''SELECT version();'' [] = Inr \<lparr>row_cols = cols, row_data = [[GStr banner]]\<rparr> \<and>
        parseVersionString banner = Return (Inr v))"

text \<open>
  The row of the user, and \<^verbatim>\<open>ALTER USER\<close> with attributes that are switched on, of those that say nothing about privileges on objects:
  a superuser has every privilege, and INHERIT decides whether the privileges of roles count.
\<close>

definition plain_flags :: "string set" where
  "plain_flags = {''CREATEROLE'', ''CREATEDB'', ''LOGIN'', ''REPLICATION''}"

definition applies_roles :: "env \<Rightarrow> string \<Rightarrow> pg_server \<Rightarrow> bool" where
  "applies_roles E user S \<longleftrightarrow>
     (\<forall>h c. \<exists>cols rows others. sql_query E h c roles_query [GStr user] = Inr \<lparr>row_cols = Inr cols, row_data = rows\<rparr> \<and>
        row_maps cols rows = Inr (pg_roles S h # others)) \<and>
     (\<forall>h c flags. flags \<noteq> [] \<and> set flags \<subseteq> plain_flags \<longrightarrow>
        sql_exec E h c (alter_user_stmt (lib E) user flags) [] = None \<and>
        pg_holds S (h @ [SqlExec c (alter_user_stmt (lib E) user flags) []]) = pg_holds S h \<and>
        \<not> list_ex (role_attr_differs (pg_roles S (h @ [SqlExec c (alter_user_stmt (lib E) user flags) []]))) flags)"

text \<open>
  Connections open, and each to the database of its connection string.  The values of a connection string are not quoted,
  so one with a blank could be read as more settings: the law is for values without.
\<close>

definition blankless :: "string \<Rightarrow> bool" where
  "blankless s \<longleftrightarrow> CHR '' '' \<notin> set s"

definition opens :: "env \<Rightarrow> string set \<Rightarrow> pg_server \<Rightarrow> bool" where
  "opens E dbs S \<longleftrightarrow>
     (\<forall>h s. \<exists>c. sql_open E h ''postgres'' s = Inr c) \<and>
     (\<forall>h host user db mode port pw c. db \<in> dbs \<and> blankless host \<and> blankless user \<and> blankless mode \<and>
        sql_open E h ''postgres'' (conn_base host user db mode port pw) = Inr c \<longrightarrow>
        pg_at S c = db)"

definition serves_privs :: "env \<Rightarrow> string \<Rightarrow> PostgresVersion \<Rightarrow> pobj set \<Rightarrow> pg_server \<Rightarrow> bool" where
  "serves_privs E user v obs S \<longleftrightarrow>
     applies_grants E user obs S \<and> lists_privs E user v obs S \<and> applies_roles E user S \<and> opens E (obj_db ` obs) S"

lemma serves_privsD:
  assumes "serves_privs E user v obs S"
  shows "applies_grants E user obs S" "lists_privs E user v obs S" "applies_roles E user S" "opens E (obj_db ` obs) S"
  using assms by (simp_all add: serves_privs_def)

lemma applies_grantsD:
  assumes "applies_grants E user obs S"
  shows "ob \<in> obs \<Longrightarrow> pg_holds S h ob \<subseteq> known_privs ob"
    and "is_read ev \<Longrightarrow> pg_holds S (h @ [ev]) = pg_holds S h"
    and "is_read ev \<Longrightarrow> pg_acl S (h @ [ev]) = pg_acl S h"
    and "is_read ev \<Longrightarrow> pg_roles S (h @ [ev]) = pg_roles S h"
    and "ob \<in> obs \<Longrightarrow> pg_at S c = obj_db ob \<Longrightarrow> ps \<noteq> [] \<Longrightarrow> set ps \<subseteq> known_privs ob \<Longrightarrow>
        sql_exec E h c (obj_grant (lib E) user ob ps) [] = None \<and>
        pg_holds S (h @ [SqlExec c (obj_grant (lib E) user ob ps) []]) = (pg_holds S h)(ob := pg_holds S h ob \<union> set ps) \<and>
        pg_roles S (h @ [SqlExec c (obj_grant (lib E) user ob ps) []]) = pg_roles S h"
    and "ob \<in> obs \<Longrightarrow> pg_at S c = obj_db ob \<Longrightarrow> ps \<noteq> [] \<Longrightarrow> set ps \<subseteq> known_privs ob \<Longrightarrow>
        sql_exec E h c (obj_revoke (lib E) user ob ps) [] = None \<and>
        pg_holds S (h @ [SqlExec c (obj_revoke (lib E) user ob ps) []]) = (pg_holds S h)(ob := pg_holds S h ob - (set ps - pg_fixed S ob)) \<and>
        pg_roles S (h @ [SqlExec c (obj_revoke (lib E) user ob ps) []]) = pg_roles S h"
    and "ob \<in> obs \<Longrightarrow> pg_fixed S ob \<subseteq> pg_holds S h ob"
    and "pg_fixed S (PDatabase db) = {}"
  using assms unfolding applies_grants_def by - ((erule conjE)+, simp)+

lemma lists_privsD:
  assumes "lists_privs E user v obs S"
  shows "PSchema (pg_at S c) schema \<in> obs \<Longrightarrow> \<exists>cols. sql_query E h c has_create_query [GStr user, GStr schema] =
        Inr \<lparr>row_cols = cols, row_data = [[GBool (''CREATE'' \<in> pg_holds S h (PSchema (pg_at S c) schema))]]\<rparr>"
    and "PSchema (pg_at S c) schema \<in> obs \<Longrightarrow> \<exists>cols. sql_query E h c has_usage_query [GStr user, GStr schema] =
        Inr \<lparr>row_cols = cols, row_data = [[GBool (''USAGE'' \<in> pg_holds S h (PSchema (pg_at S c) schema))]]\<rparr>"
    and "PTable (pg_at S c) table \<in> obs \<Longrightarrow>
        lists_grants E c table_grants_query [GStr user, GStr table, GStr ''public''] (\<lambda>p. [GStr p]) (\<lambda>h. pg_holds S h (PTable (pg_at S c) table))"
    and "PDatabase db \<in> obs \<Longrightarrow> list_all item_ok (pg_acl S h db)"
    and "PDatabase db \<in> obs \<Longrightarrow> told_apart user (pg_acl S h db)"
    and "PDatabase db \<in> obs \<Longrightarrow> granted user (pg_acl S h db) = pg_holds S h (PDatabase db)"
    and "PDatabase db \<in> obs \<Longrightarrow> \<exists>cols w. sql_query E h c datacl_query [GStr db] = Inr \<lparr>row_cols = cols, row_data = [[w]]\<rparr> \<and>
        (w \<in> {GStr (acl_text (pg_acl S h db)), GBytes (acl_text (pg_acl S h db))} \<or> w = GNull \<and> pg_acl S h db = [])"
    and "\<exists>cols banner. sql_query E h c ''SELECT version();'' [] = Inr \<lparr>row_cols = cols, row_data = [[GStr banner]]\<rparr> \<and>
        parseVersionString banner = Return (Inr v)"
  using assms unfolding lists_privs_def by - ((erule conjE)+, simp)+

text \<open>What does not depend on the object at hand.\<close>

definition pg_rest :: "pg_server \<Rightarrow> pobj \<Rightarrow> hist \<Rightarrow> (pobj \<Rightarrow> string set) \<times> gval gomap" where
  "pg_rest S ob h = ((pg_holds S h)(ob := {}), pg_roles S h)"

lemma reads_keep:
  assumes "applies_grants E user obs S" "list_all is_read es"
  shows "pg_holds S (h @ es) = pg_holds S h" "pg_acl S (h @ es) = pg_acl S h" "pg_roles S (h @ es) = pg_roles S h"
proof -
  have "pg_holds S (h @ es) = pg_holds S h \<and> pg_acl S (h @ es) = pg_acl S h \<and> pg_roles S (h @ es) = pg_roles S h"
    using assms(2)
  proof (induction es rule: rev_induct)
    case (snoc ev es)
    then show ?case using applies_grantsD(2-4) [OF assms(1), of ev "h @ es"] by simp
  qed simp
  then show "pg_holds S (h @ es) = pg_holds S h" "pg_acl S (h @ es) = pg_acl S h" "pg_roles S (h @ es) = pg_roles S h"
    by simp_all
qed

lemma emits_obj_get: "emits is_read (obj_get E c user ob)"
  by (cases ob) (auto simp: emits_getSchemaPrivileges emits_getDatabasePrivilegesPg emits_getTablePrivileges)

lemma obj_grants_beside:
  assumes g: "applies_grants E user obs S" and ob: "ob \<in> obs" "pg_at S c = obj_db ob"
  shows "grants_beside E c (known_privs ob) (pg_fixed S ob) (obj_grant (lib E) user ob) (obj_revoke (lib E) user ob) (\<lambda>h. pg_holds S h ob)"
  unfolding grants_beside_def
  using applies_grantsD(1) [OF g ob(1)] applies_grantsD(2) [OF g, of "SqlQuery c _ _"] applies_grantsD(5,6) [OF g ob]
    applies_grantsD(7) [OF g ob(1)] by simp

text \<open>Each object is a backend of the reconciler.\<close>

lemma obj_backend:
  assumes L: "funk_laws (lib E)" and s: "serves_privs E user v obs S" and u: "plain_user user" "user \<noteq> ''PUBLIC''"
    and ob: "ob \<in> obs" "obj_ok ob" "pg_at S c = obj_db ob"
  shows "privs_backend (\<lambda>h. pg_holds S h ob) (obj_get E c user ob) (\<lambda>ps. Exec E c (obj_grant (lib E) user ob ps) [])
    (\<lambda>ps. Exec E c (obj_revoke (lib E) user ob ps) []) (known_privs ob) (pg_fixed S ob)"
proof -
  note g = obj_grants_beside [OF serves_privsD(1) [OF s] ob(1,3)]
  note l = lists_privsD [OF serves_privsD(2) [OF s]]
  show ?thesis
  proof (cases ob)
    case (PDatabase db)
    then have db: "PDatabase db \<in> obs" using ob by simp
    have "acl_server E c db (\<lambda>h. pg_acl S h db)"
      unfolding acl_server_def
    proof (intro conjI allI)
      fix h q args
      show "list_all item_ok (pg_acl S h db)" using db by (rule l(4))
      show "pg_acl S (h @ [SqlQuery c q args]) db = pg_acl S h db"
        using applies_grantsD(3) [OF serves_privsD(1) [OF s], of "SqlQuery c q args"] by simp
      show "\<exists>cols w. sql_query E h c datacl_query [GStr db] = Inr \<lparr>row_cols = cols, row_data = [[w]]\<rparr> \<and>
        (w \<in> {GStr (acl_text (pg_acl S h db)), GBytes (acl_text (pg_acl S h db))} \<or> w = GNull \<and> pg_acl S h db = [])"
        using db by (rule l(7))
      show "\<exists>cols banner v. sql_query E h c ''SELECT version();'' [] = Inr \<lparr>row_cols = cols, row_data = [[GStr banner]]\<rparr> \<and>
        parseVersionString banner = Return (Inr v)" using l(8) by blast
    qed
    moreover have "pg_fixed S ob = {}" using applies_grantsD(8) [OF serves_privsD(1) [OF s]] PDatabase by simp
    ultimately have "database_server E c user db (\<lambda>h. pg_acl S h db)" "pg_fixed S ob = {}"
      using g PDatabase l(5,6) [OF db] by (simp_all add: database_server_def grants_apply_beside)
    with database_server_backend [OF L this(1) u] show ?thesis
      using u PDatabase l(6) [OF db] by (simp add: grant_database_exec revoke_database_exec)
  next
    case (PSchema db schema)
    then have "PSchema (pg_at S c) schema \<in> obs" "db = pg_at S c" using ob by simp_all
    then have "schema_server E c user schema (pg_fixed S ob) (\<lambda>h. pg_holds S h ob)"
      using g l(1,2) PSchema by (simp add: schema_server_def)
    from schema_server_backend [OF this] show ?thesis
      using ob PSchema by (simp add: obj_ok_def grant_schema_exec revoke_schema_exec)
  next
    case (PTable db table)
    then have "PTable (pg_at S c) table \<in> obs" "db = pg_at S c" using ob by simp_all
    then have "table_server E c user table table_privs (pg_fixed S ob) (\<lambda>h. pg_holds S h ob)"
      using g l(3) PTable by (simp add: table_server_def)
    from table_server_backend [OF this] show ?thesis
      using ob PTable by (simp add: obj_ok_def grant_table_exec revoke_table_exec)
  qed
qed

lemma obj_framed:
  assumes L: "funk_laws (lib E)" and s: "serves_privs E user v obs S" and u: "plain_user user" "user \<noteq> ''PUBLIC''"
    and ob: "ob \<in> obs" "obj_ok ob" "pg_at S c = obj_db ob"
  shows "framed_backend (\<lambda>h. pg_holds S h ob) (obj_get E c user ob) (\<lambda>ps. Exec E c (obj_grant (lib E) user ob ps) [])
    (\<lambda>ps. Exec E c (obj_revoke (lib E) user ob ps) []) (known_privs ob) (pg_fixed S ob) (pg_rest S ob)"
proof (rule framed_backend.intro [OF obj_backend [OF assms]], standard)
  note g = serves_privsD(1) [OF s]
  fix h h' x y ps
  show "pg_rest S ob h' = pg_rest S ob h" if "obj_get E c user ob h = (x, h')"
    using emitsD [OF emits_obj_get that] reads_keep [OF g] by (metis pg_rest_def)
  assume "ps \<noteq> []" "set ps \<subseteq> known_privs ob"
  note st = applies_grantsD(5,6) [OF g ob(1,3) this, of h]
  show "pg_rest S ob h' = pg_rest S ob h" if "Exec E c (obj_grant (lib E) user ob ps) [] h = (y, h')"
    using that st(1) by (auto simp: run pg_rest_def)
  show "pg_rest S ob h' = pg_rest S ob h" if "Exec E c (obj_revoke (lib E) user ob ps) [] h = (y, h')"
    using that st(2) by (auto simp: run pg_rest_def)
qed




subsection \<open>The entries of a resource\<close>







subsection \<open>Connections\<close>








lemma open_conns_update [simp]: "open_conns (st\<lparr>cs_connections := Some m\<rparr>) = m"
  by (simp add: open_conns_def)


subsection \<open>The loop\<close>






subsection \<open>The whole call\<close>








subsection \<open>A server with two databases\<close>

text \<open>
  A server that satisfies the laws, for the user \<open>app\<close>: the databases \<open>orders\<close> (connection 1) and \<open>ledger\<close> (connection 2),
  each with a schema \<open>public\<close>, and a table in the second.  What the user holds is replayed from the statements of the history.
\<close>

definition shop_objs :: "pobj set" where
  "shop_objs = {PDatabase ''orders'', PSchema ''orders'' ''public'', PSchema ''ledger'' ''public'', PTable ''ledger'' ''invoices''}"

definition shop_at :: "conn \<Rightarrow> string" where
  "shop_at c = (if c = 1 then ''orders'' else if c = 2 then ''ledger'' else '''')"

definition shop_conn :: "string \<Rightarrow> conn" where
  "shop_conn db = (if db = ''orders'' then 1 else if db = ''ledger'' then 2 else 3)"

text \<open>What follows the list of privileges in a statement.\<close>

fun grant_tail :: "pobj \<Rightarrow> string" where
  "grant_tail (PDatabase db) = '' ON DATABASE '' @ pq_QuoteIdentifier ref_libs db @ '' TO '' @ pq_QuoteIdentifier ref_libs ''app''"
| "grant_tail (PSchema db schema) = '' on SCHEMA '' @ pq_QuoteIdentifier ref_libs schema @ '' to '' @ pq_QuoteIdentifier ref_libs ''app'' @ '';''"
| "grant_tail (PTable db table) = '' ON TABLE '' @ pq_QuoteIdentifier ref_libs table @ '' TO '' @ pq_QuoteIdentifier ref_libs ''app''"

fun revoke_tail :: "pobj \<Rightarrow> string" where
  "revoke_tail (PDatabase db) = '' ON DATABASE '' @ pq_QuoteIdentifier ref_libs db @ '' FROM '' @ pq_QuoteIdentifier ref_libs ''app''"
| "revoke_tail (PSchema db schema) = '' on SCHEMA '' @ pq_QuoteIdentifier ref_libs schema @ '' FROM '' @ pq_QuoteIdentifier ref_libs ''app'' @ '';''"
| "revoke_tail (PTable db table) = '' ON TABLE '' @ pq_QuoteIdentifier ref_libs table @ '' FROM '' @ pq_QuoteIdentifier ref_libs ''app''"

text \<open>\<^verbatim>\<open>PUBLIC\<close> has USAGE on the schemas.\<close>

fun shop_fixed :: "pobj \<Rightarrow> string set" where
  "shop_fixed (PSchema db schema) = {''USAGE''}"
| "shop_fixed _ = {}"

definition shop_holds :: "hist \<Rightarrow> pobj \<Rightarrow> string set" where
  "shop_holds h ob =
     (if ob \<in> shop_objs then shop_fixed ob \<union> replay_grants (shop_conn (obj_db ob)) (known_privs ob) (grant_tail ob) (revoke_tail ob) h else {})"

definition shop_acl :: "hist \<Rightarrow> string \<Rightarrow> acl_item list" where
  "shop_acl h db =
     [\<lparr>grantee = '''', acl_privs = ''Tc'', grantor = ''postgres''\<rparr>,
      \<lparr>grantee = ''app'', acl_privs = letters (shop_holds h (PDatabase db)), grantor = ''postgres''\<rparr>]"

text \<open>The attributes of the user are off until the first \<^verbatim>\<open>ALTER USER\<close>.\<close>

fun alters_user :: "event \<Rightarrow> bool" where
  "alters_user (SqlExec c q args) = prefix ''ALTER USER '' q"
| "alters_user _ = False"

definition shop_roles :: "hist \<Rightarrow> gval gomap" where
  "shop_roles h = map (\<lambda>col. (col, GBool (list_ex alters_user h))) (map snd PRIV_TO_AUTHID_COLUMN)"

definition shop :: pg_server where
  "shop = \<lparr>pg_at = shop_at, pg_holds = shop_holds, pg_acl = shop_acl, pg_roles = shop_roles, pg_fixed = shop_fixed\<rparr>"

definition shop_v :: PostgresVersion where
  "shop_v = \<lparr>ProductName = PostgreSQL, VersionStr = Itoa 15 @ ''.'' @ Itoa 3, Major = 15, Minor = 3, Patch = -1\<rparr>"

definition shop_query :: "hist \<Rightarrow> conn \<Rightarrow> string \<Rightarrow> gval list \<Rightarrow> error + rows" where
  "shop_query h c q args =
     (case args of
        [GStr user, GStr name, GStr schema] \<Rightarrow>
          Inr \<lparr>row_cols = Inr [''privilege_type''],
            row_data = map (\<lambda>p. [GStr p]) (filter (\<lambda>p. p \<in> shop_holds h (PTable (shop_at c) name))
              [''SELECT'', ''INSERT'', ''UPDATE'', ''DELETE'', ''TRUNCATE'', ''REFERENCES'', ''TRIGGER''])\<rparr>
      | [GStr user, GStr name] \<Rightarrow>
          Inr \<lparr>row_cols = Inr [''has_schema_privilege''],
            row_data = [[GBool ((if q = has_create_query then ''CREATE'' else ''USAGE'') \<in> shop_holds h (PSchema (shop_at c) name))]]\<rparr>
      | [GStr name] \<Rightarrow>
          if q = datacl_query then Inr \<lparr>row_cols = Inr [''datacl''], row_data = [[GBytes (acl_text (shop_acl h name))]]\<rparr>
          else Inr \<lparr>row_cols = Inr (map fst (shop_roles h)), row_data = [map snd (shop_roles h)]\<rparr>
      | _ \<Rightarrow>
          if q = pg_users_query then Inr \<lparr>row_cols = Inr [''role_name'', ''role_attributes''], row_data = [[GStr ''app'', GStr '''']]\<rparr>
          else Inr \<lparr>row_cols = Inr [''version''], row_data = [[GStr (''PostgreSQL '' @ Itoa 15 @ ''.'' @ Itoa 3 @ '' '' @ ''on x86_64'')]]\<rparr>)"

text \<open>The fourth field of a connection string is the database.\<close>

definition shop_env :: env where
  "shop_env = null_env\<lparr>
     sql_open := (\<lambda>h driver s. Inr (case Split s '' '' of
        f0 # f1 # f2 # f3 # fs \<Rightarrow> shop_conn (if prefix ''dbname='' f3 then drop 7 f3 else '''') | _ \<Rightarrow> 3)),
     sql_query := shop_query, sql_exec := (\<lambda>h c q args. None)\<rparr>"

lemma shop_sel [simp]:
  "pg_at shop = shop_at" "pg_holds shop = shop_holds" "pg_acl shop = shop_acl" "pg_roles shop = shop_roles"
  "pg_fixed shop = shop_fixed"
  "lib shop_env = ref_libs" "sql_exec shop_env h c q args = None" "sql_query shop_env = shop_query"
  by (simp_all add: shop_def shop_env_def)

lemma obj_stmt_tails:
  "obj_grant ref_libs ''app'' ob ps = ''GRANT '' @ Join ps '', '' @ grant_tail ob"
  "obj_revoke ref_libs ''app'' ob ps = ''REVOKE '' @ Join ps '', '' @ revoke_tail ob"
  by (cases ob; simp add: database_grant_def schema_grant_def table_grant_def database_revoke_def schema_revoke_def table_revoke_def)+

text \<open>A statement about one object is not about another one of the same database.\<close>

lemma replay_event_other:
  "\<not> suffix grant' q \<Longrightarrow> \<not> suffix revoke' q \<Longrightarrow> replay_event c known grant' revoke' (SqlExec c' q []) S = S"
  by (simp add: replay_event_def between_def)

lemma replay_event_elsewhere: "c' \<noteq> c \<Longrightarrow> replay_event c known grant' revoke' (SqlExec c' q []) S = S"
  by (simp add: replay_event_def)

lemma replay_event_read: "is_read ev \<Longrightarrow> replay_event c known grant' revoke' ev S = S"
  by (cases ev) (simp_all add: replay_event_def)

lemma shop_at_conn: "pg_at shop c = obj_db ob \<Longrightarrow> ob \<in> shop_objs \<Longrightarrow> c = shop_conn (obj_db ob)"
  by (auto simp: shop_objs_def shop_at_def shop_conn_def split: if_splits)

lemma shop_tails_apart:
  assumes "ob \<in> shop_objs" "ob' \<in> shop_objs" "ob \<noteq> ob'" "obj_db ob = obj_db ob'"
  shows "\<not> suffix (grant_tail ob') (x @ grant_tail ob)" "\<not> suffix (revoke_tail ob') (x @ grant_tail ob)"
    "\<not> suffix (grant_tail ob') (x @ revoke_tail ob)" "\<not> suffix (revoke_tail ob') (x @ revoke_tail ob)"
  using assms unfolding shop_objs_def
  by (elim insertE emptyE; simp add: suffix_to_prefix ref_libs_def)+

lemma shop_stmt_other:
  assumes "ob \<in> shop_objs" "ob' \<in> shop_objs" "ob \<noteq> ob'"
  shows "replay_event (shop_conn (obj_db ob')) known (grant_tail ob') (revoke_tail ob') (SqlExec (shop_conn (obj_db ob)) (x @ grant_tail ob) []) X = X"
    and "replay_event (shop_conn (obj_db ob')) known (grant_tail ob') (revoke_tail ob') (SqlExec (shop_conn (obj_db ob)) (x @ revoke_tail ob) []) X = X"
proof -
  have "shop_conn (obj_db ob) \<noteq> shop_conn (obj_db ob')" if "obj_db ob \<noteq> obj_db ob'"
    using that assms by (auto simp: shop_objs_def shop_conn_def)
  then show "replay_event (shop_conn (obj_db ob')) known (grant_tail ob') (revoke_tail ob') (SqlExec (shop_conn (obj_db ob)) (x @ grant_tail ob) []) X = X"
    "replay_event (shop_conn (obj_db ob')) known (grant_tail ob') (revoke_tail ob') (SqlExec (shop_conn (obj_db ob)) (x @ revoke_tail ob) []) X = X"
    using shop_tails_apart [OF assms] replay_event_other replay_event_elsewhere by metis+
qed

lemma known_no_comma: "p \<in> known_privs ob \<Longrightarrow> CHR '','' \<notin> set p"
  by (cases ob) (auto simp: database_privs_def schema_privs_def table_privs_def)

lemma shop_fixed_known: "shop_fixed ob \<subseteq> known_privs ob"
  by (cases ob) (simp_all add: schema_privs_def)

lemma shop_grants_beside:
  "grants_beside shop_env c (known_privs ob) (shop_fixed ob) (\<lambda>ps. ''GRANT '' @ Join ps '', '' @ grant_tail ob)
    (\<lambda>ps. ''REVOKE '' @ Join ps '', '' @ revoke_tail ob)
    (\<lambda>h. shop_fixed ob \<union> replay_grants c (known_privs ob) (grant_tail ob) (revoke_tail ob) h)"
  by (intro replay_grants_beside replay_grants_apply shop_fixed_known) (auto dest: known_no_comma)

text \<open>What changes one object's holdings changes nothing else.\<close>

lemma shop_holds_other:
  assumes "ob \<in> shop_objs" "shop_holds (h @ [ev]) ob = X"
    and "\<And>ob' Y. ob' \<in> shop_objs \<Longrightarrow> ob' \<noteq> ob \<Longrightarrow> replay_event (shop_conn (obj_db ob')) (known_privs ob') (grant_tail ob') (revoke_tail ob') ev Y = Y"
  shows "shop_holds (h @ [ev]) = (shop_holds h)(ob := X)"
proof
  fix ob'
  show "shop_holds (h @ [ev]) ob' = ((shop_holds h)(ob := X)) ob'"
    using assms(2) assms(3) [of ob'] by (cases "ob' = ob") (simp_all add: shop_holds_def replay_grants_snoc)
qed

lemma shop_applies_grants: "applies_grants shop_env ''app'' shop_objs shop"
  unfolding applies_grants_def
proof (intro conjI allI ballI impI)
  fix h ob c ps ev
  assume "is_read ev"
  then have read: "shop_holds (h @ [ev]) = shop_holds h" "list_ex alters_user (h @ [ev]) = list_ex alters_user h"
    by (auto simp: shop_holds_def replay_grants_snoc replay_event_read fun_eq_iff elim: is_read.elims)
  then show "pg_holds shop (h @ [ev]) = pg_holds shop h" "pg_acl shop (h @ [ev]) = pg_acl shop h" "pg_roles shop (h @ [ev]) = pg_roles shop h"
    by (simp_all add: shop_acl_def shop_roles_def fun_eq_iff)
next
  fix h ob
  assume "ob \<in> shop_objs"
  then show "pg_holds shop h ob \<subseteq> known_privs ob" "pg_fixed shop ob \<subseteq> pg_holds shop h ob"
    by (simp_all add: shop_holds_def replay_grants_known shop_fixed_known)
next
  show "pg_fixed shop (PDatabase db) = {}" for db by simp
next
  fix h c ob ps
  assume *: "ob \<in> shop_objs \<and> pg_at shop c = obj_db ob \<and> ps \<noteq> [] \<and> set ps \<subseteq> known_privs ob"
  then have ob: "ob \<in> shop_objs" and c: "c = shop_conn (obj_db ob)" and ps: "ps \<noteq> [] \<and> set ps \<subseteq> known_privs ob"
    using shop_at_conn by blast+
  note g = grants_besideD(5,7) [OF shop_grants_beside [of c ob]]
  show "sql_exec shop_env h c (obj_grant (lib shop_env) ''app'' ob ps) [] = None"
    "sql_exec shop_env h c (obj_revoke (lib shop_env) ''app'' ob ps) [] = None" by simp_all
  show "pg_roles shop (h @ [SqlExec c (obj_grant (lib shop_env) ''app'' ob ps) []]) = pg_roles shop h"
    "pg_roles shop (h @ [SqlExec c (obj_revoke (lib shop_env) ''app'' ob ps) []]) = pg_roles shop h"
    by (simp_all add: obj_stmt_tails shop_roles_def)
  have "shop_holds (h @ [SqlExec c (''GRANT '' @ Join ps '', '' @ grant_tail ob) []]) = (shop_holds h)(ob := shop_holds h ob \<union> set ps)"
    using g ps c ob shop_stmt_other(1) [OF ob, of _ _ "''GRANT '' @ Join ps '', ''"]
    by (intro shop_holds_other [OF ob]) (simp_all add: shop_holds_def)
  then show "pg_holds shop (h @ [SqlExec c (obj_grant (lib shop_env) ''app'' ob ps) []]) = (pg_holds shop h)(ob := pg_holds shop h ob \<union> set ps)"
    by (simp add: obj_stmt_tails)
  have "shop_holds (h @ [SqlExec c (''REVOKE '' @ Join ps '', '' @ revoke_tail ob) []]) = (shop_holds h)(ob := shop_holds h ob - (set ps - shop_fixed ob))"
    using g ps c ob shop_stmt_other(2) [OF ob, of _ _ "''REVOKE '' @ Join ps '', ''"]
    by (intro shop_holds_other [OF ob]) (simp_all add: shop_holds_def)
  then show "pg_holds shop (h @ [SqlExec c (obj_revoke (lib shop_env) ''app'' ob ps) []]) = (pg_holds shop h)(ob := pg_holds shop h ob - (set ps - pg_fixed shop ob))"
    by (simp add: obj_stmt_tails)
qed

lemma shop_lists_privs: "lists_privs shop_env ''app'' shop_v shop_objs shop"
  unfolding lists_privs_def
proof (intro conjI allI impI)
  fix h c schema
  have "has_usage_query \<noteq> has_create_query" by (simp add: has_usage_query_def has_create_query_def)
  then show "\<exists>cols. sql_query shop_env h c has_create_query [GStr ''app'', GStr schema] =
      Inr \<lparr>row_cols = cols, row_data = [[GBool (''CREATE'' \<in> pg_holds shop h (PSchema (pg_at shop c) schema))]]\<rparr>"
    "\<exists>cols. sql_query shop_env h c has_usage_query [GStr ''app'', GStr schema] =
      Inr \<lparr>row_cols = cols, row_data = [[GBool (''USAGE'' \<in> pg_holds shop h (PSchema (pg_at shop c) schema))]]\<rparr>"
    by (simp_all add: shop_query_def)
next
  fix c table
  let ?ps = "\<lambda>h. filter (\<lambda>p. p \<in> shop_holds h (PTable (shop_at c) table))
    [''SELECT'', ''INSERT'', ''UPDATE'', ''DELETE'', ''TRUNCATE'', ''REFERENCES'', ''TRIGGER'']"
  have "shop_holds h (PTable (shop_at c) table) \<subseteq> table_privs" for h
    using replay_grants_known by (simp add: shop_holds_def)
  then have ps: "set (?ps h) = shop_holds h (PTable (shop_at c) table)" for h
    unfolding table_privs_def set_filter by fastforce
  show "lists_grants shop_env c table_grants_query [GStr ''app'', GStr table, GStr ''public''] (\<lambda>p. [GStr p])
      (\<lambda>h. pg_holds shop h (PTable (pg_at shop c) table))"
    unfolding lists_grants_def shop_sel
  proof (intro allI exI conjI)
    fix h
    show "shop_query h c table_grants_query [GStr ''app'', GStr table, GStr ''public''] =
        Inr \<lparr>row_cols = Inr [''privilege_type''], row_data = map (\<lambda>p. [GStr p]) (?ps h)\<rparr>"
      by (simp only: shop_query_def list.case gval.case)
    show "set (?ps h) = shop_holds h (PTable (shop_at c) table)" by (rule ps)
  qed
next
  fix h db
  assume "PDatabase db \<in> shop_objs"
  have "shop_holds h (PDatabase db) \<subseteq> database_privs" using replay_grants_known by (simp add: shop_holds_def)
  then have names: "set (acl_names (letters (shop_holds h (PDatabase db)))) = shop_holds h (PDatabase db)" by (rule letters_names)
  have "set (letters X) \<subseteq> set ''CTc*''" for X by (auto simp: letters_def)
  moreover have "list_all name_char ''postgres''" "list_all name_char ''app''" by (simp_all add: name_char_def)
  ultimately show "list_all item_ok (pg_acl shop h db)" by (simp add: shop_acl_def item_ok_def)
  show "told_apart ''app'' (pg_acl shop h db)" by (simp add: told_apart_def shop_acl_def letters_plain)
  have "{i \<in> set (shop_acl h db). grantee i = ''app''} = {last (shop_acl h db)}" by (auto simp: shop_acl_def)
  then show "granted ''app'' (pg_acl shop h db) = pg_holds shop h (PDatabase db)"
    unfolding granted_def by (simp add: shop_acl_def plain_privs_no_option letters_plain names)
next
  fix h c db
  show "\<exists>cols w. sql_query shop_env h c datacl_query [GStr db] = Inr \<lparr>row_cols = cols, row_data = [[w]]\<rparr> \<and>
      (w \<in> {GStr (acl_text (pg_acl shop h db)), GBytes (acl_text (pg_acl shop h db))} \<or> w = GNull \<and> pg_acl shop h db = [])"
    by (simp add: shop_query_def)
next
  fix h c
  show "\<exists>cols banner. sql_query shop_env h c ''SELECT version();'' [] = Inr \<lparr>row_cols = cols, row_data = [[GStr banner]]\<rparr> \<and>
      parseVersionString banner = Return (Inr shop_v)"
    using parseVersionString_postgres [of 15 3 "''on x86_64''"] by (simp add: shop_query_def shop_v_def pg_users_query_def)
qed

lemma shop_applies_roles: "applies_roles shop_env ''app'' shop"
  unfolding applies_roles_def
proof (intro conjI allI impI)
  fix h c
  have "roles_query \<noteq> datacl_query" by (simp add: roles_query_def datacl_query_def)
  then show "\<exists>cols rows others. sql_query shop_env h c roles_query [GStr ''app''] = Inr \<lparr>row_cols = Inr cols, row_data = rows\<rparr> \<and>
      row_maps cols rows = Inr (pg_roles shop h # others)"
    by (simp add: shop_query_def shop_roles_def PRIV_TO_AUTHID_COLUMN_def scan_any_def)
next
  fix h c flags
  assume f: "flags \<noteq> [] \<and> set flags \<subseteq> plain_flags"
  let ?ev = "SqlExec c (alter_user_stmt (lib shop_env) ''app'' flags) []"
  have stmt: "alter_user_stmt ref_libs ''app'' flags = ''ALTER USER '' @ pq_QuoteIdentifier ref_libs ''app'' @ '' WITH '' @ Join flags '' ''"
    using f by (simp add: alter_user_stmt_def)
  then have a: "alters_user ?ev" by simp
  have "replay_event c' known grant' revoke' ?ev X = X" for c' known grant' revoke' X
    by (simp add: stmt replay_event_def between_def)
  then show "pg_holds shop (h @ [?ev]) = pg_holds shop h"
    by (simp add: shop_holds_def replay_grants_snoc fun_eq_iff)
  have "\<not> role_attr_differs (pg_roles shop (h @ [?ev])) flag" if "flag \<in> plain_flags" for flag
    using that a by (auto simp: role_attr_differs_def shop_roles_def plain_flags_def PRIV_TO_AUTHID_COLUMN_def HasPrefix_def)
  then show "\<not> list_ex (role_attr_differs (pg_roles shop (h @ [?ev]))) flags"
    using f by (auto simp: list_ex_iff)
qed simp

lemma Itoa_blankless: "CHR '' '' \<notin> set (Itoa i)"
  using nat_str_digits is_digit_not_sign by (auto simp: Itoa_def)

lemma shop_opens: "opens shop_env (obj_db ` shop_objs) shop"
  unfolding opens_def
proof (intro conjI allI impI)
  fix h s
  show "\<exists>c. sql_open shop_env h ''postgres'' s = Inr c" by (simp add: shop_env_def)
next
  fix h host user db mode port pw c
  assume *: "db \<in> obj_db ` shop_objs \<and> blankless host \<and> blankless user \<and> blankless mode \<and>
    sql_open shop_env h ''postgres'' (conn_base host user db mode port pw) = Inr c"
  then have db: "db = ''orders'' \<or> db = ''ledger''" by (auto simp: shop_objs_def)
  let ?rest = "''sslmode='' @ mode @ (case pw of None \<Rightarrow> '''' | Some pw \<Rightarrow> '' password='' @ pw)"
  have "Split (conn_base host user db mode port pw) '' '' =
      (''host='' @ host) # (''port='' @ Itoa port) # (''user='' @ user) # (''dbname='' @ db) # Split ?rest '' ''"
    using * db Itoa_blankless [of port] Split_space_head [of "''host='' @ host" "''port='' @ Itoa port @ '' user='' @ user @ '' dbname='' @ db @ '' '' @ ?rest"]
      Split_space_head [of "''port='' @ Itoa port" "''user='' @ user @ '' dbname='' @ db @ '' '' @ ?rest"]
      Split_space_head [of "''user='' @ user" "''dbname='' @ db @ '' '' @ ?rest"] Split_space_head [of "''dbname='' @ db" ?rest]
    by (auto simp: conn_base_def blankless_def)
  then have "c = shop_conn db" using * by (simp add: shop_env_def)
  then show "pg_at shop c = db" using db by (auto simp: shop_at_def shop_conn_def)
qed

lemma shop_serves: "serves_privs shop_env ''app'' shop_v shop_objs shop"
  by (simp add: serves_privs_def shop_applies_grants shop_lists_privs shop_applies_roles shop_opens)

interpretation shop_schema: framed_backend "\<lambda>h. pg_holds shop h (PSchema ''orders'' ''public'')"
  "obj_get shop_env 1 ''app'' (PSchema ''orders'' ''public'')"
  "\<lambda>ps. Exec shop_env 1 (obj_grant (lib shop_env) ''app'' (PSchema ''orders'' ''public'') ps) []"
  "\<lambda>ps. Exec shop_env 1 (obj_revoke (lib shop_env) ''app'' (PSchema ''orders'' ''public'') ps) []"
  "known_privs (PSchema ''orders'' ''public'')" "pg_fixed shop (PSchema ''orders'' ''public'')" "pg_rest shop (PSchema ''orders'' ''public'')"
  by (rule obj_framed [OF _ shop_serves])
    (simp_all add: plain_user_def is_alnum_def is_digit_def shop_objs_def obj_ok_def shop_at_def)

subsection \<open>A call on this server\<close>







end
