(* ===== verification/MySqlPrivs.thy ===== *)
theory MySqlPrivs
  imports PgPrivs
begin

section \<open>Package mysql: privileges\<close>

text \<open>
  \<^verbatim>\<open>dbservers/mysql/privileges.go\<close>: server information, the parser of privilege lists, the
  normalisation of grants on columns, and the update of a user's privileges.  The helpers for
  slices and scans (\<^const>\<open>idx\<close>, \<^const>\<open>scan_strings\<close>) are those of the postgres theory.
\<close>

subsection \<open>Constants and types\<close>

record MySQLVersion =
  mv_Product :: string
  mv_VersionStr :: string
  mv_Major :: int
  mv_Minor :: int
  mv_Patch :: int

definition VALID_PRIVS :: "string list" where
  "VALID_PRIVS =
    [''CREATE'', ''DROP'', ''GRANT'', ''GRANT OPTION'',
     ''LOCK TABLES'', ''REFERENCES'', ''EVENT'', ''ALTER'',
     ''DELETE'', ''INDEX'', ''INSERT'', ''SELECT'', ''UPDATE'',
     ''CREATE TEMPORARY TABLES'', ''TRIGGER'', ''CREATE VIEW'',
     ''SHOW VIEW'', ''ALTER ROUTINE'', ''CREATE ROUTINE'',
     ''EXECUTE'', ''FILE'', ''CREATE TABLESPACE'', ''CREATE USER'',
     ''PROCESS'', ''PROXY'', ''RELOAD'', ''REPLICATION CLIENT'',
     ''REPLICATION SLAVE'', ''SHOW DATABASES'', ''SHUTDOWN'',
     ''SUPER'', ''ALL'', ''ALL PRIVILEGES'', ''USAGE'',
     ''REQUIRESSL'',
     ''CREATE ROLE'', ''DROP ROLE'', ''APPLICATION_PASSWORD_ADMIN'',
     ''AUDIT_ADMIN'', ''BACKUP_ADMIN'', ''BINLOG_ADMIN'',
     ''BINLOG_ENCRYPTION_ADMIN'', ''CLONE_ADMIN'', ''CONNECTION_ADMIN'',
     ''ENCRYPTION_KEY_ADMIN'', ''FIREWALL_ADMIN'', ''FIREWALL_USER'',
     ''GROUP_REPLICATION_ADMIN'', ''INNODB_REDO_LOG_ARCHIVE'',
     ''NDB_STORED_USER'', ''PERSIST_RO_VARIABLES_ADMIN'',
     ''REPLICATION_APPLIER'', ''REPLICATION_SLAVE_ADMIN'',
     ''RESOURCE_GROUP_ADMIN'', ''RESOURCE_GROUP_USER'',
     ''ROLE_ADMIN'', ''SESSION_VARIABLES_ADMIN'', ''SET_USER_ID'',
     ''SYSTEM_USER'', ''SYSTEM_VARIABLES_ADMIN'', ''SYSTEM_USER'',
     ''TABLE_ENCRYPTION_ADMIN'', ''VERSION_TOKEN_ADMIN'',
     ''XA_RECOVER_ADMIN'', ''LOAD FROM S3'', ''SELECT INTO S3'',
     ''INVOKE LAMBDA'',
     ''ALTER ROUTINE'',
     ''BINLOG ADMIN'',
     ''BINLOG MONITOR'',
     ''BINLOG REPLAY'',
     ''CONNECTION ADMIN'',
     ''READ_ONLY ADMIN'',
     ''REPLICATION MASTER ADMIN'',
     ''REPLICATION SLAVE ADMIN'',
     ''SET USER'',
     ''SHOW_ROUTINE'',
     ''SLAVE MONITOR'',
     ''REPLICA MONITOR'']"

definition ALL_PRIVS :: "string list" where
  "ALL_PRIVS =
    [''SELECT'', ''INSERT'', ''UPDATE'', ''DELETE'', ''CREATE'', ''DROP'', ''RELOAD'', ''SHUTDOWN'', ''PROCESS'', ''FILE'',
     ''REFERENCES'', ''INDEX'', ''ALTER'', ''SHOW DATABASES'', ''SUPER'', ''CREATE TEMPORARY TABLES'', ''LOCK TABLES'',
     ''EXECUTE'', ''REPLICATION SLAVE'', ''REPLICATION CLIENT'', ''CREATE VIEW'', ''SHOW VIEW'', ''CREATE ROUTINE'',
     ''ALTER ROUTINE'', ''CREATE USER'', ''EVENT'', ''TRIGGER'', ''CREATE TABLESPACE'', ''CREATE ROLE'', ''DROP ROLE'',
     ''APPLICATION_PASSWORD_ADMIN'', ''AUDIT_ABORT_EXEMPT'', ''AUDIT_ADMIN'', ''AUTHENTICATION_POLICY_ADMIN'',
     ''BACKUP_ADMIN'', ''BINLOG_ADMIN'', ''BINLOG_ENCRYPTION_ADMIN'', ''CLONE_ADMIN'', ''CONNECTION_ADMIN'',
     ''ENCRYPTION_KEY_ADMIN'', ''FIREWALL_EXEMPT'', ''FLUSH_OPTIMIZER_COSTS'', ''FLUSH_STATUS'', ''FLUSH_TABLES'',
     ''FLUSH_USER_RESOURCES'', ''GROUP_REPLICATION_ADMIN'', ''GROUP_REPLICATION_STREAM'', ''INNODB_REDO_LOG_ARCHIVE'',
     ''INNODB_REDO_LOG_ENABLE'', ''PASSWORDLESS_USER_ADMIN'', ''PERSIST_RO_VARIABLES_ADMIN'', ''REPLICATION_APPLIER'',
     ''REPLICATION_SLAVE_ADMIN'', ''RESOURCE_GROUP_ADMIN'', ''RESOURCE_GROUP_USER'', ''ROLE_ADMIN'',
     ''SENSITIVE_VARIABLES_OBSERVER'', ''SERVICE_CONNECTION_ADMIN'', ''SESSION_VARIABLES_ADMIN'',
     ''SHOW_ROUTINE'', ''SYSTEM_USER'', ''SYSTEM_VARIABLES_ADMIN'', ''TABLE_ENCRYPTION_ADMIN'', ''XA_RECOVER_ADMIN'']"

definition quote_class :: char_class where
  "quote_class = OneOf [CHR 0x27, CHR 0x60, CHR 0x22]"

definition GRANTS_RE :: re where
  "GRANTS_RE =
     Then (Lit ''GRANT '') (Then (Group (Rep 1 Dot)) (Then (Lit '' ON '') (Then (Group (Rep 1 Dot)) (Then (Lit '' TO '')
     (Then (Group (Class quote_class)) (Then (Rep 0 Dot) (Then (Group (Class quote_class)) (Then (Lit ''@'')
     (Then (Group (Class quote_class)) (Then (Rep 0 Dot) (Then (Group (Class quote_class))
     (Then (Opt (Group (Then (Lit '' IDENTIFIED BY PASSWORD '')
        (Then (Group (Class quote_class)) (Then (Rep 1 Dot) (Group (Class quote_class)))))))
     (Then (Opt (Lit '' '')) (Group (Rep 0 Dot)))))))))))))))"

text \<open>A nil map is \<^term>\<open>None\<close>.\<close>

record TlsRequires =
  RequiresMap :: "string gomap option"
  RequiresStr :: "string option"

abbreviation no_tls :: TlsRequires where
  "no_tls \<equiv> \<lparr>RequiresMap = None, RequiresStr = None\<rparr>"

definition HasTlsRequirements :: "TlsRequires \<Rightarrow> bool" where
  "HasTlsRequirements t = (RequiresMap t \<noteq> None \<and> RequiresStr t \<noteq> None)"

definition getMode :: "env \<Rightarrow> conn \<Rightarrow> (error + string) go" where
  "getMode E conn =
     try_io (Query E conn ''SELECT @@GLOBAL.sql_mode;'' [])
       (\<lambda>err. ret (Inl (Err (''unable to read sql mode '' @ error_msg err))))
       (\<lambda>rows. ret (case row_data rows of
           [] \<Rightarrow> Inl (Err ''unable to load modeStr sql: Rows are closed'')
         | row # _ \<Rightarrow>
             (case scan_strings (lib E) 1 row of
                Inl err \<Rightarrow> Inl (Err (''unable to load modeStr '' @ error_msg err))
              | Inr ss \<Rightarrow> if Contains (ss ! 0) ''ANSI'' then Inr ''ANSI'' else Inr ''NOTANSI'')))"

definition userExists :: "env \<Rightarrow> conn \<Rightarrow> string \<Rightarrow> string \<Rightarrow> bool \<Rightarrow> (error + bool) go" where
  "userExists E conn user host hostAll =
     try_io
       (if hostAll then SelectFirstValueInt E conn ''SELECT count(*) FROM mysql.user WHERE user = ?'' [GStr user]
        else SelectFirstValueInt E conn ''SELECT count(*) FROM mysql.user WHERE user = ? AND host = ?'' [GStr user, GStr host])
       (\<lambda>err. ret (Inl (Err (''unable to read mysql.user '' @ error_msg err))))
       (\<lambda>count. ret (Inr (count > 0)))"

definition Mogrify :: "libs \<Rightarrow> TlsRequires \<Rightarrow> string \<Rightarrow> string list \<Rightarrow> string \<times> string list" where
  "Mogrify L t query params =
     (if HasTlsRequirements t then
        (case RequiresMap t of
           Some m \<Rightarrow>
             (let keys = funk_Keys L m; values = funk_Values L m;
                  criteria = funk_Map L (\<lambda>key. key @ '' %s'') keys
              in (query @ '' REQUIRE '' @ Join criteria '' AND '', params @ values))
         | None \<Rightarrow> (query @ '' REQUIRE '' @ the (RequiresStr t), params))
      else (query, params))"

subsection \<open>The server\<close>

datatype ServerType = MYSQL | MARIADB

record ServerInfo =
  si_ServerType :: ServerType
  si_Mode :: string
  si_Quote :: string
  si_Version :: string

text \<open>A parsed \<^verbatim>\<open>version.Version\<close> is what the package's parser makes of the text.\<close>

definition NewServerInfo :: "libs \<Rightarrow> string \<Rightarrow> string \<Rightarrow> error + ServerInfo" where
  "NewServerInfo L versionStr mode =
     (case version_NewVersion L versionStr of
        Inl err \<Rightarrow> Inl (Err (''unable to parse version '' @ error_msg err))
      | Inr v \<Rightarrow>
          Inr \<lparr>si_ServerType = (if Contains (ToLower versionStr) ''mariadb'' then MARIADB else MYSQL),
               si_Mode = mode,
               si_Quote = (if mode = ''ANSI'' then [CHR 0x22] else ''`''),
               si_Version = v\<rparr>)"

text \<open>Comparing with a threshold that did not parse would dereference nil.\<close>

definition version_below :: "libs \<Rightarrow> string \<Rightarrow> string \<Rightarrow> bool outcome" where
  "version_below L v threshold =
     (case version_NewVersion L threshold of
        Inl _ \<Rightarrow> Panic ''nil pointer dereference''
      | Inr t \<Rightarrow> Return (version_LessThan L v t))"

definition UseOldUserMgmt :: "libs \<Rightarrow> ServerInfo \<Rightarrow> bool outcome" where
  "UseOldUserMgmt L si =
     (if si_ServerType si = MARIADB then version_below L (si_Version si) ''10.2'' else version_below L (si_Version si) ''5.7'')"

definition SupportsIdentifiedByPassword :: "libs \<Rightarrow> ServerInfo \<Rightarrow> bool outcome" where
  "SupportsIdentifiedByPassword L si =
     (if si_ServerType si = MARIADB then Return True else version_below L (si_Version si) ''8'')"

definition getServerInfo :: "env \<Rightarrow> conn \<Rightarrow> (error + ServerInfo) go" where
  "getServerInfo E conn =
     try_io (SelectFirstValueString E conn ''SELECT VERSION();'' [])
       (\<lambda>err. ret (Inl (Err (''failed getting server info '' @ error_msg err))))
       (\<lambda>versionStr. try_io (getMode E conn)
          (\<lambda>err. ret (Inl (Err (''failed getting mode for server info '' @ error_msg err))))
          (\<lambda>mode. ret (NewServerInfo (lib E) versionStr mode)))"

definition quote1 :: "string \<Rightarrow> string" where
  "quote1 s = [CHR 0x27] @ s @ [CHR 0x27]"

text \<open>\<^verbatim>\<open>'%s'@'%s'\<close>\<close>

definition user_at_host :: "string \<Rightarrow> string \<Rightarrow> string" where
  "user_at_host user host = quote1 user @ ''@'' @ quote1 host"

definition require_words :: "string list \<Rightarrow> TlsRequires outcome" where
  "require_words words =
     bind_out (idx words 0) (\<lambda>firstRequire. Return
       (if HasPrefix firstRequire ''NONE'' then no_tls
        else if firstRequire = ''SSL'' \<or> firstRequire = ''X509'' then \<lparr>RequiresMap = None, RequiresStr = Some firstRequire\<rparr>
        else \<lparr>RequiresMap = Some (fold (\<lambda>word m. AList.update word word m) words []), RequiresStr = None\<rparr>))"

definition getTlsRequires :: "env \<Rightarrow> conn \<Rightarrow> ServerInfo \<Rightarrow> string \<Rightarrow> string \<Rightarrow> (error + TlsRequires) go" where
  "getTlsRequires E conn serverInfo user host =
     bind_io (lift_io (UseOldUserMgmt (lib E) serverInfo)) (\<lambda>old.
       let query = (if old then ''SHOW GRANTS for '' @ user_at_host user host else ''SHOW CREATE USER '' @ user_at_host user host) in
       try_io (SelectFirstValueStringSlice E conn query [])
         (\<lambda>err. ret (Inl (Err (''unable to read user grants for TLS requires '' @ error_msg err))))
         (\<lambda>grants.
            case funk_Filter (lib E) (\<lambda>s. Contains s ''REQUIRE'') grants of
              [] \<Rightarrow> ret (Inr no_tls)
            | requireLine # _ \<Rightarrow>
                bind_io (lift_io (require_words (Fields (GetStringInBetween requireLine ''REQUIRE'' ''PASSWORD''))))
                  (\<lambda>t. ret (Inr t))))"

definition getServerGrants :: "env \<Rightarrow> conn \<Rightarrow> string \<Rightarrow> string \<Rightarrow> (error + string list) go" where
  "getServerGrants E conn user host =
     try_io (SelectFirstValueStringSlice E conn (''SHOW GRANTS FOR '' @ user_at_host user host) [])
       (\<lambda>err. ret (Inl (Err (''failed getting grants  '' @ error_msg err))))
       (\<lambda>grants.
          bind_io (lift_io (idx (funk_FilterString (lib E) (\<lambda>s. Contains s ''ON *.*'') grants) 0)) (\<lambda>line.
            let grantsLine = TrimSpace (GetStringInBetween line ''GRANT'' ''ON'') in
            ret (Inr (Split grantsLine '', ''))))"

definition native_password_query :: string where
  "native_password_query = ''SELECT CONCAT('*', UCASE(SHA1(UNHEX(SHA1(?)))))''"

text \<open>\<^verbatim>\<open>Mogrify\<close> has a value receiver: called on a nil pointer it panics.\<close>

definition CreateUserSi :: "env \<Rightarrow> conn \<Rightarrow> string \<Rightarrow> string \<Rightarrow> string \<Rightarrow> ServerInfo \<Rightarrow> TlsRequires option \<Rightarrow> error option go" where
  "CreateUserSi E conn user host password serverInfo tlsRequires =
     bind_io (lift_io (UseOldUserMgmt (lib E) serverInfo)) (\<lambda>oldUserMgmt.
       if length password = 0 then ret (Some (Err ''password is required''))
       else if oldUserMgmt then
         (case tlsRequires of
            None \<Rightarrow> panic ''nil pointer dereference''
          | Some t \<Rightarrow>
              let (query, params) = Mogrify (lib E) t ''CREATE USER ?@? IDENTIFIED BY ?;'' [user, host, password] in
              Exec E conn query (map GStr params))
       else
         try_io (SelectFirstValueString E conn native_password_query [GStr password])
           (\<lambda>err. ret (Some (Err (''unable to create password for user '' @ user @ '' '' @ error_msg err))))
           (\<lambda>password. Exec E conn ''CREATE USER ?@? IDENTIFIED WITH mysql_native_password AS ?;''
              (map GStr [user, host, password])))"

definition CreateUser :: "env \<Rightarrow> conn \<Rightarrow> string \<Rightarrow> string \<Rightarrow> string \<Rightarrow> TlsRequires option \<Rightarrow> error option go" where
  "CreateUser E conn user host password tlsRequires =
     try_io (getServerInfo E conn) (\<lambda>err. ret (Some (Err (''unable to create user '' @ error_msg err))))
       (\<lambda>serverInfo. CreateUserSi E conn user host password serverInfo tlsRequires)"

subsection \<open>Parsing privilege lists\<close>

text \<open>A negative count makes the slice expression run past the end.\<close>

definition Rsplit :: "string \<Rightarrow> string \<Rightarrow> int \<Rightarrow> string list outcome" where
  "Rsplit s sep cnt =
     (if cnt = 0 then Return [s]
      else let parts = Split s sep; splitsAvailable = int (length parts) - 1 in
        if splitsAvailable = 0 then Return [s]
        else let maxSplits = (if splitsAvailable < cnt then splitsAvailable else cnt);
                 splitLoc = int (length parts) - maxSplits in
          if splitLoc > int (length parts) then Panic ''slice bounds out of range''
          else let firstPart = Join (take (nat splitLoc) parts) sep in
               Return (firstPart # drop (nat splitLoc) parts))"

text \<open>
  The loop of \<^verbatim>\<open>parsePrivPiece\<close>: \<open>stripped\<close> and \<open>item\<close> are the current item
  without and with what is inside parentheses.
\<close>

fun priv_piece :: "bool \<Rightarrow> string \<Rightarrow> string \<Rightarrow> string list \<Rightarrow> string list \<Rightarrow> string \<Rightarrow> string list \<times> string list" where
  "priv_piece inParens stripped item privs privsStripped [] =
     (if length item > 0 then privs @ [item] else privs,
      if length stripped > 0 then privsStripped @ [stripped] else privsStripped)"
| "priv_piece inParens stripped item privs privsStripped (c # cs) =
     (if inParens then priv_piece (c \<noteq> CHR '')'') stripped (item @ [c]) privs privsStripped cs
      else if c = CHR '','' then priv_piece False [] [] (privs @ [item]) (privsStripped @ [stripped]) cs
      else if c = CHR ''('' then priv_piece True stripped (item @ [c]) privs privsStripped cs
      else priv_piece False (stripped @ [c]) (item @ [c]) privs privsStripped cs)"

definition parsePrivPiece :: "string \<Rightarrow> string list \<times> string list" where
  "parsePrivPiece piece = priv_piece False [] [] [] [] piece"

fun col_grant_from :: "string \<Rightarrow> nat \<Rightarrow> nat option \<Rightarrow> string list \<Rightarrow> (nat \<times> nat) option" where
  "col_grant_from grant n start [] = None"
| "col_grant_from grant n start (priv # rest) =
     (let start' = (if Contains priv (grant @ '' ('') then Some n else start) in
      case start' of
        Some s \<Rightarrow> if Contains priv '')'' then Some (s, n) else col_grant_from grant (Suc n) start' rest
      | None \<Rightarrow> col_grant_from grant (Suc n) start' rest)"

definition hasGrantOnCol :: "string list \<Rightarrow> string \<Rightarrow> (nat \<times> nat) option" where
  "hasGrantOnCol privileges grant = col_grant_from grant 0 None privileges"

definition sortColumnOrder :: "string \<Rightarrow> string outcome" where
  "sortColumnOrder statement =
     (let tmp = Split statement ''(''; privName = tmp ! 0 in
      bind_out (idx tmp 1) (\<lambda>inner.
        let columnsStr = TrimRight inner '')'';
            columns = map (\<lambda>col. Trim (TrimSpace col) ''`'') (Split columnsStr '','')
        in Return (privName @ ''('' @ Join (sort_Strings columns) '', '' @ '')'')))"

text \<open>
  \<^verbatim>\<open>copy\<close> into a slice of length 0 copies nothing.  In the second branch the slice
  stays empty, so the index \<^verbatim>\<open>output[start]\<close> is out of range.
\<close>

definition handleGrantOnCol :: "string list \<Rightarrow> nat \<Rightarrow> nat \<Rightarrow> string list outcome" where
  "handleGrantOnCol privileges start end =
     (let output = [] :: string list in
      if start \<noteq> end then
        (let selectOnCol = Join (take (end + 1 - start) (drop start privileges)) '', '' in
         bind_out (sortColumnOrder selectOnCol) (\<lambda>selectOnCol.
           Return (output @ [selectOnCol] @ drop (end + 1) privileges)))
      else bind_out (idx output start) (\<lambda>old. bind_out (sortColumnOrder old) (\<lambda>new. Return (output[start := new]))))"

fun normalize_grants :: "string list \<Rightarrow> string list \<Rightarrow> string list outcome" where
  "normalize_grants [] privileges = Return privileges"
| "normalize_grants (grant # grants) privileges =
     (case hasGrantOnCol privileges grant of
        None \<Rightarrow> normalize_grants grants privileges
      | Some (start, end) \<Rightarrow> bind_out (handleGrantOnCol privileges start end) (normalize_grants grants))"

definition normalizeColGrants :: "string list \<Rightarrow> string list outcome" where
  "normalizeColGrants privileges = normalize_grants [''SELECT'', ''UPDATE'', ''INSERT'', ''REFERENCES''] privileges"

definition unpack_scope :: "string \<Rightarrow> DbPriv \<Rightarrow> string" where
  "unpack_scope quote item =
     (let dbPriv = Split (Scope item) ''.'';
          parts = SplitN (Privs item) '' '' 2;
          isObject = (length parts > 1 \<and> (parts ! 0 = ''FUNCTION'' \<or> parts ! 0 = ''PROCEDURE''));
          objectType = (if isObject then parts ! 0 @ '' '' else '''');
          dbPriv = (if isObject then dbPriv[0 := parts ! 1] else dbPriv);
          dbPriv = map (\<lambda>side. if Trim side ''`'' \<noteq> ''*'' then quote @ TrimSpace side @ quote else side) dbPriv
      in objectType @ Join dbPriv ''.'')"

fun unpack_items :: "libs \<Rightarrow> string \<Rightarrow> DbPriv list \<Rightarrow> string list gomap \<Rightarrow> (error + string list gomap) outcome" where
  "unpack_items L quote [] output = Return (Inr output)"
| "unpack_items L quote (item # items) output =
     (let scope = unpack_scope quote item;
          (privs, privsStripped) = parsePrivPiece (ToUpper (Privs item));
          invalidPrivs = funk_Subtract L privsStripped VALID_PRIVS
      in if length invalidPrivs > 0 then Return (Inl (Err (''invalid privileges found ['' @ Join invalidPrivs '' '' @ '']'')))
         else bind_out (normalizeColGrants privs) (\<lambda>normalized.
                unpack_items L quote items (AList.update scope normalized output)))"

definition privilegesUnpack :: "libs \<Rightarrow> DbPriv list \<Rightarrow> string \<Rightarrow> (error + string list gomap) outcome" where
  "privilegesUnpack L dbPrivs mode =
     (let quote = (if mode = ''ANSI'' then [CHR 0x22] else ''`'') in
      bind_out (unpack_items L quote dbPrivs []) (\<lambda>r. case r of
        Inl err \<Rightarrow> Return (Inl err)
      | Inr output \<Rightarrow>
          Return (Inr (case map_of output ''*.*'' of None \<Rightarrow> AList.update ''*.*'' [''USAGE''] output | Some _ \<Rightarrow> output))))"

subsection \<open>Changing privileges\<close>

definition isQuoted :: "string \<Rightarrow> bool outcome" where
  "isQuoted input = bind_out (idx input 0) (\<lambda>c. Return (c = CHR 0x22 \<or> c = CHR 0x60))"

text \<open>The two checks that \<^verbatim>\<open>privilegesRevoke\<close> and \<^verbatim>\<open>privilegesGrant\<close> begin with.\<close>

definition quoting_error :: "string \<Rightarrow> string \<Rightarrow> string \<Rightarrow> error option outcome" where
  "quoting_error user host dbTable =
     bind_out (isQuoted host) (\<lambda>qh.
       bind_out (if qh then Return True else isQuoted user) (\<lambda>q.
         if q then Return (Some (Err ''quoted user or host''))
         else if dbTable \<noteq> ''*.*'' then
           bind_out (isQuoted dbTable) (\<lambda>qt. Return (if \<not> qt then Some (Err ''unquoted dbTable'') else None))
         else Return None))"

definition privilegesRevoke :: "env \<Rightarrow> conn \<Rightarrow> string \<Rightarrow> string \<Rightarrow> string \<Rightarrow> string list \<Rightarrow> bool \<Rightarrow> error option go" where
  "privilegesRevoke E conn user host dbTable priv grantOption =
     check_io (lift_io (quoting_error user host dbTable)) (\<lambda>err. ret (Some err))
       (let dbTable = ReplaceAll dbTable ''%'' ''%%'' in
        check_io
          (if grantOption then Exec E conn (''REVOKE GRANT OPTION ON ? FROM '' @ user_at_host user host @ '';'') [GStr dbTable] else ret None)
          (\<lambda>err. ret (Some err))
          (let nonGrantPrivs = funk_FilterString (lib E) (\<lambda>s. s \<noteq> ''GRANT'') priv;
               privStr = Join nonGrantPrivs '',''
           in Exec E conn (''REVOKE '' @ privStr @ '' ON '' @ dbTable @ '' FROM '' @ user_at_host user host @ '';'') []))"

text \<open>The result of \<^verbatim>\<open>Mogrify\<close> is not used by the code; it changes nothing.\<close>

definition privilegesGrant :: "env \<Rightarrow> conn \<Rightarrow> string \<Rightarrow> string \<Rightarrow> string \<Rightarrow> string list \<Rightarrow> TlsRequires \<Rightarrow> ServerInfo \<Rightarrow> error option go" where
  "privilegesGrant E conn user host dbTable priv tlsRequires si =
     check_io (lift_io (quoting_error user host dbTable)) (\<lambda>err. ret (Some err))
       (let dbTable = ReplaceAll dbTable ''%'' ''%%'';
            nonGrantPrivs = funk_FilterString (lib E) (\<lambda>s. s \<noteq> ''GRANT'') priv;
            privStr = Join nonGrantPrivs '','';
            grantPrivQuery = ''GRANT '' @ privStr @ '' ON '' @ dbTable @ '' TO '' @ user_at_host user host @ '';''
        in bind_io (if HasTlsRequirements tlsRequires then lift_io (UseOldUserMgmt (lib E) si) else ret False) (\<lambda>_.
             Exec E conn (if funk_Contains (lib E) priv ''GRANT'' then grantPrivQuery @ '' WITH GRANT OPTION'' else grantPrivQuery) []))"

text \<open>One row of SHOW GRANTS: the object and the privileges on it.\<close>

definition parse_grant :: "string \<Rightarrow> (error + string \<times> string list) outcome" where
  "parse_grant grant =
     (case FindSubmatch GRANTS_RE grant of
        None \<Rightarrow> Return (Inl (Err ''getPrivileges: Regex string did not match expected format''))
      | Some stringGroups \<Rightarrow>
          if length stringGroups \<noteq> 11 then Return (Inl (Err ''getPrivileges: Regex string did not match expected format''))
          else
            (let privileges = map (\<lambda>priv. if TrimSpace priv = ''ALL PRIVILEGES'' then ''ALL'' else TrimSpace priv)
                   (Split (stringGroups ! 1) '','')
             in bind_out (normalizeColGrants privileges) (\<lambda>privileges.
                  Return (Inr (stringGroups ! 2,
                    if Contains (stringGroups ! 3) ''WITH GRANT OPTION'' then privileges @ [''GRANT''] else privileges)))))"

fun grant_rows :: "libs \<Rightarrow> gval list list \<Rightarrow> string list gomap \<Rightarrow> (error + string list gomap) outcome" where
  "grant_rows L [] grants = Return (Inr grants)"
| "grant_rows L (row # rest) grants =
     (case scan_strings L 1 row of
        Inl err \<Rightarrow> Return (Inl err)
      | Inr ss \<Rightarrow>
          bind_out (parse_grant (ss ! 0)) (\<lambda>r. case r of
            Inl err \<Rightarrow> Return (Inl err)
          | Inr (db, privileges) \<Rightarrow>
              grant_rows L rest (AList.update db
                (case map_of grants db of Some prevPrivs \<Rightarrow> prevPrivs @ privileges | None \<Rightarrow> privileges) grants)))"

definition getPrivileges :: "env \<Rightarrow> conn \<Rightarrow> string \<Rightarrow> string \<Rightarrow> (error + string list gomap) go" where
  "getPrivileges E conn userName host =
     try_io (Query E conn (''SHOW GRANTS for '' @ user_at_host userName host @ '';'') [])
       (\<lambda>err. ret (Inl (Err (''unable to read databases from server '' @ error_msg err))))
       (\<lambda>rows. lift_io (grant_rows (lib E) (row_data rows) []))"

text \<open>
  The body of the first loop of \<^verbatim>\<open>UpdateUserPrivs\<close>, over the current privileges: a very
  long list has to be ALL.  The error of the revocation is not looked at.
\<close>

definition revoke_surplus :: "env \<Rightarrow> conn \<Rightarrow> string \<Rightarrow> string \<Rightarrow> string list gomap \<Rightarrow> string \<times> string list
    \<Rightarrow> string list gomap \<times> bool \<Rightarrow> (bool \<times> error option + string list gomap \<times> bool) go" where
  "revoke_surplus E conn userName host desiredPrivs entry st =
     (let (dbTable, cur) = entry; (curPrivs, changes) = st;
          desired = lookup0 desiredPrivs dbTable;
          subtracted = funk_Subtract (lib E) ALL_PRIVS cur
      in bind_io
           (if length cur > 50 then
              (if length subtracted = 0 then ret ([''ALL''], AList.update dbTable [''ALL''] curPrivs)
               else panic (''Not entirely sure if current list of privileges is equal to ALL privileges '' @ Join subtracted '', ''))
            else ret (cur, curPrivs))
           (\<lambda>(cur, curPrivs).
              let grantIndex = funk_IndexOfString (lib E) cur ''GRANT'';
                  grantOption = (grantIndex \<noteq> -1);
                  cur = (if grantOption then funk_DropString (lib E) cur grantIndex else cur);
                  toRevoke = funk_SubtractString (lib E) cur desired
              in if length toRevoke > 0 then
                   bind_io (privilegesRevoke E conn userName host dbTable toRevoke grantOption) (\<lambda>_. ret (Inr (curPrivs, True)))
                 else ret (Inr (curPrivs, changes))))"

definition grant_missing :: "env \<Rightarrow> conn \<Rightarrow> string \<Rightarrow> string \<Rightarrow> TlsRequires \<Rightarrow> ServerInfo \<Rightarrow> string list gomap \<Rightarrow> string \<times> string list
    \<Rightarrow> bool \<Rightarrow> (bool \<times> error option + bool) go" where
  "grant_missing E conn userName host tlsRequires si curPrivs entry changes =
     (let (dbTable, desired) = entry; toGrant = funk_SubtractString (lib E) desired (lookup0 curPrivs dbTable) in
      if length toGrant > 0 then
        check_io (privilegesGrant E conn userName host dbTable toGrant tlsRequires si)
          (\<lambda>err. ret (Inl (changes, Some err))) (ret (Inr True))
      else ret (Inr changes))"

definition UpdateUserPrivs_mysql :: "env \<Rightarrow> conn \<Rightarrow> string \<Rightarrow> string \<Rightarrow> DbPriv list \<Rightarrow> (bool \<times> error option) go" where
  "UpdateUserPrivs_mysql E conn userName serverPrivs dbPrivs =
     (let host = ''%'' in
      try_io (getServerInfo E conn)
        (\<lambda>err. ret (False, Some (Err (''failed to getServerInfo for UpdateUserPrivs '' @ error_msg err)))) (\<lambda>si.
      try_io (getTlsRequires E conn si userName host)
        (\<lambda>err. ret (False, Some (Err (''failed to getTlsRequires for UpdateUserPrivs '' @ error_msg err)))) (\<lambda>tlsRequires.
      try_io (getPrivileges E conn userName host)
        (\<lambda>err. ret (False, Some (Err (''failed to UpdateUserPrivs '' @ error_msg err)))) (\<lambda>curPrivs.
      let allPrivs = (if length serverPrivs = 0 then dbPrivs
                      else dbPrivs @ [\<lparr>Scope = ''*.*'', Privs = serverPrivs, DefaultPrivs = '''', PrivType = '''', Grantor = None\<rparr>]) in
      try_io (lift_io (privilegesUnpack (lib E) allPrivs (si_Mode si)))
        (\<lambda>err. ret (False, Some (Err (''failed to privilegesUnpack desiredPrivs '' @ error_msg err)))) (\<lambda>desiredPrivs.
      bind_io (range_map E curPrivs) (\<lambda>entries.
      bind_io (for_io entries (revoke_surplus E conn userName host desiredPrivs) (curPrivs, False)) (\<lambda>r. case r of
        Inl out \<Rightarrow> ret out
      | Inr (curPrivs, changes) \<Rightarrow>
          bind_io (range_map E desiredPrivs) (\<lambda>entries.
          bind_io (for_io entries (grant_missing E conn userName host tlsRequires si curPrivs) changes) (\<lambda>r. case r of
            Inl out \<Rightarrow> ret out
          | Inr changes \<Rightarrow> ret (changes, None))))))))))"

subsection \<open>The version\<close>

text \<open>\<^verbatim>\<open>%s\<close> of \<^verbatim>\<open>fmt\<close> for a value of an interface.\<close>

fun fmt_s :: "libs \<Rightarrow> gval \<Rightarrow> string" where
  "fmt_s L (GStr s) = s"
| "fmt_s L (GBytes s) = s"
| "fmt_s L GNull = ''%!s(<nil>)''"
| "fmt_s L (GInt i) = ''%!s(int64='' @ Itoa i @ '')''"
| "fmt_s L (GBool b) = ''%!s(bool='' @ (if b then ''true'' else ''false'') @ '')''"
| "fmt_s L (GTime t) = time_String L t"

fun assert_string :: "gval \<Rightarrow> string outcome" where
  "assert_string (GStr s) = Return s"
| "assert_string _ = Panic ''interface conversion''"

definition propertiesMapToMySqlVersion :: "libs \<Rightarrow> gval gomap \<Rightarrow> (error + MySQLVersion) outcome" where
  "propertiesMapToMySqlVersion L properties =
     (case map_of properties ''version'' of
        None \<Rightarrow> Return (Inl (Err (''Unable to find '' @ quote1 ''version'')))
      | Some version \<Rightarrow>
        (case map_of properties ''version_comment'' of
           None \<Rightarrow> Return (Inl (Err (''Unable to find '' @ quote1 ''version_comment'')))
         | Some versionComment \<Rightarrow>
             bind_out (assert_string version) (\<lambda>versionStr.
               let versionParts = Split versionStr ''.'';
                   result = (\<lambda>comment patch major minor. bind_out (assert_string comment) (\<lambda>product.
                     Return (Inr \<lparr>mv_Product = product, mv_VersionStr = versionStr, mv_Major = major, mv_Minor = minor, mv_Patch = patch\<rparr>)))
               in case Atoi (versionParts ! 0) of
                    None \<Rightarrow> Return (Inl (Err ''Failed parsing major version''))
                  | Some major \<Rightarrow>
                      bind_out (idx versionParts 1) (\<lambda>p1. case Atoi p1 of
                        None \<Rightarrow> Return (Inl (Err ''Failed parsing minor version''))
                      | Some minor \<Rightarrow>
                          if length versionParts > 2 then
                            (let patchParts = Split (versionParts ! 2) ''-'';
                                 dash = Contains (versionParts ! 2) ''-'';
                                 comment = (if dash then GStr (patchParts ! 1 @ '' '' @ fmt_s L versionComment) else versionComment);
                                 patchStr = (if dash then patchParts ! 0 else versionParts ! 2)
                             in case Atoi patchStr of
                                  None \<Rightarrow> Return (Inl (Err ''Failed parsing patch version''))
                                | Some patch \<Rightarrow> result comment patch major minor)
                          else result versionComment (-1) major minor))))"

definition getServerVersion_mysql :: "env \<Rightarrow> conn \<Rightarrow> (error + MySQLVersion) go" where
  "getServerVersion_mysql E conn =
     try_io (SelectToPropertyMap E conn ''SHOW GLOBAL VARIABLES where Variable_name like 'version%';'' ''Variable_name'' ''Value'' [])
       (\<lambda>err. ret (Inl err))
       (\<lambda>properties. lift_io (propertiesMapToMySqlVersion (lib E) properties))"

subsection \<open>Splitting\<close>

lemma Join_append: "xs \<noteq> [] \<Longrightarrow> Join (Join xs sep # ys) sep = Join (xs @ ys) sep"
proof (induction xs rule: induct_list012)
  case (3 x y zs)
  then show ?case by (cases ys) (simp_all add: Join_Cons)
qed simp_all

text \<open>Splitting from the right keeps the text: for a count that is not negative the pieces joined
  with the separator are the original string, and there is at most one piece more than the count.\<close>

theorem Rsplit_join:
  assumes "sep \<noteq> []" "0 \<le> cnt"
  shows "\<exists>ps. Rsplit s sep cnt = Return ps \<and> Join ps sep = s \<and> int (length ps) \<le> cnt + 1"
proof -
  let ?parts = "Split s sep"
  let ?m = "min (int (length ?parts) - 1) cnt"
  let ?loc = "int (length ?parts) - ?m"
  show ?thesis
  proof (cases "cnt = 0 \<or> length ?parts = 1")
    case True
    then show ?thesis using assms by (auto simp: Rsplit_def Let_def)
  next
    case False
    have len: "length ?parts \<ge> 1" using assms(1) by (cases ?parts) auto
    with False have loc: "1 \<le> ?loc" "?loc \<le> int (length ?parts)" using assms(2) by auto
    have run: "Rsplit s sep cnt = Return (Join (take (nat ?loc) ?parts) sep # drop (nat ?loc) ?parts)"
      using False loc by (auto simp: Rsplit_def Let_def min_def)
    have "take (nat ?loc) ?parts \<noteq> []" using loc len by auto
    then have "Join (Join (take (nat ?loc) ?parts) sep # drop (nat ?loc) ?parts) sep = s"
      using assms(1) by (simp add: Join_append Join_Split)
    moreover have "int (length (drop (nat ?loc) ?parts)) = ?m"
      using loc by (simp add: of_nat_diff nat_le_iff)
    then have "int (length (Join (take (nat ?loc) ?parts) sep # drop (nat ?loc) ?parts)) \<le> cnt + 1" by simp
    ultimately show ?thesis using run by blast
  qed
qed

theorem Rsplit_join_witness:
  "\<exists>ps. Rsplit ''a,b,c,d'' '','' 1 = Return ps \<and> Join ps '','' = ''a,b,c,d'' \<and> int (length ps) \<le> 1 + 1"
  by (rule Rsplit_join) simp_all

subsection \<open>Privilege lists with columns\<close>

text \<open>One item of a list: a name, possibly followed by columns in parentheses.\<close>

definition priv_item :: "string \<Rightarrow> string option \<Rightarrow> string" where
  "priv_item name cols = (case cols of None \<Rightarrow> name | Some cs \<Rightarrow> name @ ''('' @ cs @ '')'')"

definition wf_item :: "string \<times> string option \<Rightarrow> bool" where
  "wf_item it \<longleftrightarrow> fst it \<noteq> [] \<and> CHR '','' \<notin> set (fst it) \<and> CHR ''('' \<notin> set (fst it) \<and>
     (case snd it of None \<Rightarrow> True | Some cs \<Rightarrow> CHR '')'' \<notin> set cs)"

lemma priv_piece_plain:
  "CHR '','' \<notin> set xs \<Longrightarrow> CHR ''('' \<notin> set xs \<Longrightarrow>
     priv_piece False s i ps st (xs @ ys) = priv_piece False (s @ xs) (i @ xs) ps st ys"
  by (induction xs arbitrary: s i) auto

lemma priv_piece_cols:
  "CHR '')'' \<notin> set cs \<Longrightarrow> priv_piece True s i ps st (cs @ CHR '')'' # ys) = priv_piece False s (i @ cs @ '')'') ps st ys"
  by (induction cs arbitrary: i) auto

lemma priv_piece_item:
  assumes "wf_item it"
  shows "priv_piece False [] [] ps st (priv_item (fst it) (snd it) @ ys) =
    priv_piece False (fst it) (priv_item (fst it) (snd it)) ps st ys"
  using assms priv_piece_plain [of "fst it" "[]" "[]"] priv_piece_cols
  by (cases "snd it") (auto simp: wf_item_def priv_item_def)

lemma priv_piece_items:
  assumes "its \<noteq> []" "list_all wf_item its"
  shows "priv_piece False [] [] ps st (Join (map (\<lambda>it. priv_item (fst it) (snd it)) its) '','') =
    (ps @ map (\<lambda>it. priv_item (fst it) (snd it)) its, st @ map fst its)"
  using assms
proof (induction its arbitrary: ps st rule: induct_list012)
  case (2 it)
  then show ?case using priv_piece_item [of it ps st "[]"] by (auto simp: wf_item_def priv_item_def split: option.splits)
next
  case (3 it it' its)
  then show ?case
    using priv_piece_item [of it ps st "'','' @ Join (map (\<lambda>it. priv_item (fst it) (snd it)) (it' # its)) '',''"] by simp
qed simp

text \<open>A comma-separated list of privileges, some with columns in parentheses that may contain
  commas themselves, is cut exactly into its items, and the second result has their names
  without the columns.\<close>

theorem parsePrivPiece_items:
  assumes "its \<noteq> []" "list_all wf_item its"
  shows "parsePrivPiece (Join (map (\<lambda>it. priv_item (fst it) (snd it)) its) '','') =
    (map (\<lambda>it. priv_item (fst it) (snd it)) its, map fst its)"
  using priv_piece_items [OF assms, of "[]" "[]"] by (simp add: parsePrivPiece_def)

theorem parsePrivPiece_items_witness:
  "parsePrivPiece ''INSERT,SELECT(col1,col2),UPDATE'' =
     ([''INSERT'', ''SELECT(col1,col2)'', ''UPDATE''], [''INSERT'', ''SELECT'', ''UPDATE''])"
  using parsePrivPiece_items [of "[(''INSERT'', None), (''SELECT'', Some ''col1,col2''), (''UPDATE'', None)]"]
  by (simp add: wf_item_def priv_item_def)

text \<open>The privileges of one item of a User that the check lets through.\<close>

definition valid_item :: "DbPriv \<Rightarrow> bool" where
  "valid_item dp \<longleftrightarrow> set (snd (parsePrivPiece (ToUpper (Privs dp)))) \<subseteq> set VALID_PRIVS"

lemma unpack_items_valid:
  assumes "funk_laws L" "unpack_items L q dps out = Return (Inr out')"
  shows "list_all valid_item dps"
  using assms(2)
proof (induction dps arbitrary: out)
  case (Cons dp dps)
  obtain ps st where p: "parsePrivPiece (ToUpper (Privs dp)) = (ps, st)" by fastforce
  with Cons.prems have none: "funk_Subtract L st VALID_PRIVS = []"
    by (auto simp: Let_def split: if_splits)
  have "set (funk_Subtract L st VALID_PRIVS) = set st - set VALID_PRIVS" using assms(1) by (simp add: funk_laws_def)
  then have "valid_item dp" unfolding valid_item_def p none by auto
  moreover have "list_all valid_item dps"
    using Cons.prems none by (auto simp: Let_def p bind_out_Return_iff intro: Cons.IH)
  ultimately show ?case by simp
qed simp

text \<open>C31: unpacking the privileges of a User for a MySQL server either fails or has checked every
  privilege name against the fixed list of MySQL's privileges; when it succeeds the map has an
  entry for the whole server, \<open>*.*\<close>, which is USAGE (no privilege) unless the User asks for more.\<close>

theorem privilegesUnpack_checked:
  assumes "funk_laws L" and "privilegesUnpack L dps mode = Return (Inr out)"
  shows "list_all valid_item dps \<and> map_of out ''*.*'' \<noteq> None \<and> (dps = [] \<longrightarrow> out = [(''*.*'', [''USAGE''])])"
proof -
  obtain q o' where u: "unpack_items L q dps [] = Return (Inr o')"
    and out: "out = (case map_of o' ''*.*'' of None \<Rightarrow> AList.update ''*.*'' [''USAGE''] o' | Some _ \<Rightarrow> o')"
    using assms(2) by (cases "unpack_items L (if mode = ''ANSI'' then [CHR 0x22] else ''`'') dps []")
      (auto simp: privilegesUnpack_def Let_def split: sum.splits)
  show ?thesis
    using unpack_items_valid [OF assms(1) u] u out by (auto simp: update_conv' split: option.splits)
qed

theorem privilegesUnpack_checked_witness:
  "\<exists>out. privilegesUnpack ref_libs [\<lparr>Scope = ''app.t'', Privs = ''select,insert'', DefaultPrivs = '''', PrivType = '''', Grantor = None\<rparr>] ''ANSI'' =
       Return (Inr out) \<and>
     valid_item \<lparr>Scope = ''app.t'', Privs = ''select,insert'', DefaultPrivs = '''', PrivType = '''', Grantor = None\<rparr> \<and> map_of out ''*.*'' \<noteq> None"
  (is "\<exists>out. privilegesUnpack _ [?dp] _ = _ \<and> _ \<and> _")
proof -
  have "case privilegesUnpack ref_libs [?dp] ''ANSI'' of Return (Inr out) \<Rightarrow> True | _ \<Rightarrow> False" by code_simp
  then obtain out where run: "privilegesUnpack ref_libs [?dp] ''ANSI'' = Return (Inr out)" by (auto split: outcome.splits sum.splits)
  from privilegesUnpack_checked [OF ref_libs_funk_laws run] run show ?thesis by auto
qed

subsection \<open>Grants on columns\<close>

lemma col_grant_none: "\<forall>p \<in> set ps. CHR ''('' \<notin> set p \<Longrightarrow> col_grant_from g n None ps = None"
proof (induction ps arbitrary: n)
  case (Cons p ps)
  have "\<not> Contains p (g @ '' ('')"
  proof
    assume "Contains p (g @ '' ('')"
    then have "CHR ''('' \<in> set p" by (auto simp: Contains_iff sublist_def)
    with Cons.prems show False by simp
  qed
  with Cons show ?case by simp
qed simp

lemma normalize_grants_id: "\<forall>p \<in> set ps. CHR ''('' \<notin> set p \<Longrightarrow> normalize_grants gs ps = Return ps"
  by (induction gs) (simp_all add: hasGrantOnCol_def col_grant_none)

text \<open>A list of privileges without parentheses is left as it is by the normalisation of grants on
  columns.\<close>

theorem normalizeColGrants_plain:
  assumes "\<forall>p \<in> set ps. CHR ''('' \<notin> set p"
  shows "normalizeColGrants ps = Return ps"
  unfolding normalizeColGrants_def using assms by (rule normalize_grants_id)

theorem normalizeColGrants_plain_witness:
  "normalizeColGrants [''INSERT'', ''ALL''] = Return [''INSERT'', ''ALL'']"
  by (rule normalizeColGrants_plain) simp

text \<open>A column name as SHOW GRANTS prints it, without quotes.\<close>

definition wf_col :: "string \<Rightarrow> bool" where
  "wf_col c \<longleftrightarrow> c \<noteq> [] \<and> (\<forall>x \<in> set c. x \<notin> set ''(),`'' \<and> \<not> is_space x)"

lemma TrimSpace_col: "wf_col c \<Longrightarrow> TrimSpace c = c"
  unfolding TrimSpace_def by (rule trim_both_id) (auto simp: wf_col_def hd_in_set)

lemma trim_col: "wf_col c \<Longrightarrow> Trim (TrimSpace c) ''`'' = c"
  unfolding TrimSpace_col Trim_def by (rule trim_both_id) (use hd_in_set last_in_set in \<open>fastforce simp: wf_col_def\<close>)

lemma TrimSpace_blank: "TrimSpace (CHR '' '' # c) = TrimSpace c"
  by (simp add: TrimSpace_def trim_both_def is_space_def)

lemma Join_push: "Join ((x # a) # ws) sep = x # Join (a # ws) sep"
  by (cases ws) simp_all

lemma Join_comma_blank: "Join (c # cs) '', '' = Join (c # map (\<lambda>x. CHR '' '' # x) cs) '',''"
  by (induction cs arbitrary: c) (simp_all add: Join_push)

lemma columns_read_back:
  assumes "cols \<noteq> []" "list_all wf_col cols"
  shows "map (\<lambda>col. Trim (TrimSpace col) ''`'') (Split (Join cols '', '') '','') = cols"
proof -
  obtain c cs where cols: "cols = c # cs" using assms(1) by (cases cols) auto
  have "Split (Join (c # map (\<lambda>x. CHR '' '' # x) cs) '','') '','' = c # map (\<lambda>x. CHR '' '' # x) cs"
    using assms(2) cols by (intro Split_Join_char) (auto simp: list_all_iff wf_col_def)
  moreover have "map (\<lambda>x. Trim (TrimSpace (CHR '' '' # x)) ''`'') cs = cs" "Trim (TrimSpace c) ''`'' = c"
    using assms(2) cols by (auto simp: list_all_iff TrimSpace_blank trim_col intro!: map_idI)
  ultimately show ?thesis unfolding cols Join_comma_blank by (simp add: comp_def)
qed

lemma set_Join: "c \<in> set (Join xs sep) \<Longrightarrow> c \<in> set sep \<or> (\<exists>x \<in> set xs. c \<in> set x)"
  by (induction xs rule: induct_list012) auto

lemma TrimRight_paren: "CHR '')'' \<notin> set s \<Longrightarrow> TrimRight (s @ '')'') '')'' = s"
proof -
  assume "CHR '')'' \<notin> set s"
  then have "dropWhile (\<lambda>c. c = CHR '')'') (rev s) = rev s" by (intro dropWhile_eq_self_iff [THEN iffD2]) (metis hd_in_set set_rev)
  then show ?thesis by (simp add: TrimRight_def trim_right_def)
qed

text \<open>Sorting the columns of a grant makes the order in which they were written irrelevant: the
  result lists the columns in ascending order, and two grants on the same columns give the same
  text.\<close>

theorem sortColumnOrder_canonical:
  assumes "CHR ''('' \<notin> set name" "cols \<noteq> []" "list_all wf_col cols" "mset cols' = mset cols"
  shows "sortColumnOrder (name @ ''('' @ Join cols '', '' @ '')'') = Return (name @ ''('' @ Join (sort_Strings cols) '', '' @ '')'') \<and>
    sorted (sort_Strings cols) \<and>
    sortColumnOrder (name @ ''('' @ Join cols' '', '' @ '')'') = sortColumnOrder (name @ ''('' @ Join cols '', '' @ '')'')"
proof -
  have run: "sortColumnOrder (name @ ''('' @ Join xs '', '' @ '')'') = Return (name @ ''('' @ Join (sort_Strings xs) '', '' @ '')'')"
    if xs: "xs \<noteq> []" "list_all wf_col xs" for xs
  proof -
    have no: "c \<notin> set (Join xs '', '')" if "c \<in> {CHR ''('', CHR '')''}" for c
      using that xs(2) set_Join [of c xs "'', ''"] by (auto simp: list_all_iff wf_col_def)
    have "Split (name @ ''('' @ Join xs '', '' @ '')'') ''('' = [name, Join xs '', '' @ '')'']"
      using assms(1) no by (simp add: Split_append_char Split_no_sep)
    then show ?thesis
      using no xs by (simp add: sortColumnOrder_def idx_def TrimRight_paren columns_read_back)
  qed
  have "sort_Strings cols' = sort_Strings cols" unfolding sort_Strings_def
    using assms(4) by (intro properties_for_sort) (simp_all)
  moreover have "cols' \<noteq> []" "list_all wf_col cols'"
    using assms(2-4) by (auto simp: list_all_iff dest: mset_eq_setD)
  ultimately show ?thesis using run assms(2,3) by (simp add: sort_Strings_def)
qed

theorem sortColumnOrder_canonical_witness:
  "sortColumnOrder (''SELECT '' @ ''('' @ Join [''b'', ''a''] '', '' @ '')'') =
     sortColumnOrder (''SELECT '' @ ''('' @ Join [''a'', ''b''] '', '' @ '')'')"
  using sortColumnOrder_canonical [of "''SELECT ''" "[''a'', ''b'']" "[''b'', ''a'']"]
  by (simp add: wf_col_def is_space_def)

subsection \<open>The statements that privilege updates may run\<close>

fun mysql_priv_event :: "event \<Rightarrow> bool" where
  "mysql_priv_event (SqlQuery c q args) = True"
| "mysql_priv_event (SqlExec c q args) = (prefix ''GRANT '' q \<or> prefix ''REVOKE '' q)"
| "mysql_priv_event _ = False"

lemma emits_getServerInfo [emits_intro]: "emits mysql_priv_event (getServerInfo E c)"
  by (auto simp: getServerInfo_def getMode_def intro!: emits_intro)

lemma emits_getTlsRequires [emits_intro]: "emits mysql_priv_event (getTlsRequires E c si u host)"
  by (auto simp: getTlsRequires_def Let_def intro!: emits_intro)

lemma emits_getPrivileges [emits_intro]: "emits mysql_priv_event (getPrivileges E c u host)"
  by (auto simp: getPrivileges_def intro!: emits_intro)

lemma emits_privilegesRevoke [emits_intro]: "emits mysql_priv_event (privilegesRevoke E c u host t ps g)"
  by (auto simp: privilegesRevoke_def Let_def intro!: emits_intro)

lemma emits_privilegesGrant [emits_intro]: "emits mysql_priv_event (privilegesGrant E c u host t ps tls si)"
  by (auto simp: privilegesGrant_def Let_def intro!: emits_intro)

lemma emits_revoke_surplus [emits_intro]: "emits mysql_priv_event (revoke_surplus E c u host desired entry st)"
  unfolding revoke_surplus_def Let_def by (intro emits_intro)

lemma emits_grant_missing [emits_intro]: "emits mysql_priv_event (grant_missing E c u host tls si cur entry st)"
  unfolding grant_missing_def Let_def by (intro emits_intro)

lemma emits_UpdateUserPrivs_mysql: "emits mysql_priv_event (UpdateUserPrivs_mysql E c u sp dps)"
  unfolding UpdateUserPrivs_mysql_def Let_def by (intro emits_intro)

subsection \<open>Where the code does not do what it means to\<close>

lemma require_words_one: "require_words ws = Return t \<Longrightarrow> \<not> HasTlsRequirements t"
  by (auto simp: require_words_def HasTlsRequirements_def bind_out_Return_iff split: if_splits)

text \<open>Whatever the server requires of a user's connections, the requirements that are read are
  never recognised as such: one of the map and the string is always nil, and the test asks for
  both.\<close>

theorem getTlsRequires_never_recognised:
  assumes "getTlsRequires E c si user host h = (Return (Inr t), h')"
  shows "\<not> HasTlsRequirements t"
  using assms require_words_one
  by (auto simp: getTlsRequires_def Let_def run HasTlsRequirements_def split: prod.splits outcome.splits sum.splits list.splits)

definition ssl_env :: env where
  "ssl_env = null_env\<lparr>sql_query := (\<lambda>_ _ _ _. Inr \<lparr>row_cols = Inr [''CREATE USER''], row_data = [[GStr ''CREATE USER u REQUIRE SSL PASSWORD EXPIRE DEFAULT'']]\<rparr>)\<rparr>"

definition demo_si :: ServerInfo where
  "demo_si = \<lparr>si_ServerType = MYSQL, si_Mode = ''ANSI'', si_Quote = [CHR 0x22], si_Version = ''8.0''\<rparr>"

lemma ssl_words:
  "require_words (Fields (GetStringInBetween ''CREATE USER u REQUIRE SSL PASSWORD EXPIRE DEFAULT'' ''REQUIRE'' ''PASSWORD'')) =
     Return \<lparr>RequiresMap = None, RequiresStr = Some ''SSL''\<rparr>"
  "Contains ''CREATE USER u REQUIRE SSL PASSWORD EXPIRE DEFAULT'' ''REQUIRE''"
  by code_simp+

lemma demo_si_new: "UseOldUserMgmt ref_libs demo_si = Return False"
  by code_simp

lemma ssl_required:
  "getTlsRequires ssl_env 5 demo_si ''u'' ''%'' [] =
     (Return (Inr \<lparr>RequiresMap = None, RequiresStr = Some ''SSL''\<rparr>), [SqlQuery 5 (''SHOW CREATE USER '' @ user_at_host ''u'' ''%'') []])"
proof -
  have l: "lib ssl_env = ref_libs" by (simp add: ssl_env_def)
  show ?thesis
    using ssl_words
    by (simp add: getTlsRequires_def l demo_si_new run SelectFirstValueStringSlice_def scan_NullString_def)
       (simp add: ssl_env_def scan_NullString_def run)
qed

theorem getTlsRequires_never_recognised_witness:
  "\<not> HasTlsRequirements \<lparr>RequiresMap = None, RequiresStr = Some ''SSL''\<rparr>"
  using getTlsRequires_never_recognised [OF ssl_required] by simp

lemma rmatch_group_class: "(gs, s') \<in> set (rmatch (Group (Class k)) s) \<Longrightarrow> \<exists>g. gs = [g] \<and> length g = 1"
  by (cases s) (auto split: if_splits)

lemma rmatch_Then_one: "(gs, s'') \<in> set (rmatch (Then a b) s) \<Longrightarrow> ngroups a = 1 \<Longrightarrow>
     \<exists>g gb s'. gs = g # gb \<and> ([g], s') \<in> set (rmatch a s) \<and> (gb, s'') \<in> set (rmatch b s')"
proof -
  assume "(gs, s'') \<in> set (rmatch (Then a b) s)" and one: "ngroups a = 1"
  from rmatch_Then [OF this(1)] obtain ga gb s' where gs: "gs = ga @ gb" "length ga = ngroups a"
    "(ga, s') \<in> set (rmatch a s)" "(gb, s'') \<in> set (rmatch b s')" by blast
  with one obtain g where "ga = [g]" by (cases ga) auto
  with gs show ?thesis by auto
qed

lemma rmatch_Then_none: "(gs, s'') \<in> set (rmatch (Then a b) s) \<Longrightarrow> ngroups a = 0 \<Longrightarrow> \<exists>s'. (gs, s'') \<in> set (rmatch b s')"
  using rmatch_Then [of gs s'' a b s] by (auto simp del: rmatch.simps)

lemma GRANTS_RE_group3:
  assumes "(gs, s') \<in> set (rmatch GRANTS_RE s)"
  shows "length (gs ! 2) = 1"
proof -
  obtain r5 where re: "GRANTS_RE = Then (Lit ''GRANT '') (Then (Group (Rep 1 Dot)) (Then (Lit '' ON '') (Then (Group (Rep 1 Dot))
      (Then (Lit '' TO '') (Then (Group (Class quote_class)) r5)))))"
    unfolding GRANTS_RE_def by blast
  obtain t1 where "(gs, s') \<in> set (rmatch (Then (Group (Rep 1 Dot)) (Then (Lit '' ON '') (Then (Group (Rep 1 Dot))
      (Then (Lit '' TO '') (Then (Group (Class quote_class)) r5))))) t1)"
    using rmatch_Then_none [OF assms [unfolded re]] by (auto simp del: rmatch.simps)
  from rmatch_Then_one [OF this] obtain g1 gs1 t2 where 1: "gs = g1 # gs1"
    and "(gs1, s') \<in> set (rmatch (Then (Lit '' ON '') (Then (Group (Rep 1 Dot)) (Then (Lit '' TO '') (Then (Group (Class quote_class)) r5)))) t2)"
    by (auto simp del: rmatch.simps)
  from rmatch_Then_none [OF this(2)] obtain t3 where
    "(gs1, s') \<in> set (rmatch (Then (Group (Rep 1 Dot)) (Then (Lit '' TO '') (Then (Group (Class quote_class)) r5))) t3)" by (auto simp del: rmatch.simps)
  from rmatch_Then_one [OF this] obtain g2 gs2 t4 where 2: "gs1 = g2 # gs2"
    and "(gs2, s') \<in> set (rmatch (Then (Lit '' TO '') (Then (Group (Class quote_class)) r5)) t4)" by (auto simp del: rmatch.simps)
  from rmatch_Then_none [OF this(2)] obtain t5 where "(gs2, s') \<in> set (rmatch (Then (Group (Class quote_class)) r5) t5)" by (auto simp del: rmatch.simps)
  from rmatch_Then_one [OF this] obtain g3 gs3 t6 where 3: "gs2 = g3 # gs3" and "([g3], t6) \<in> set (rmatch (Group (Class quote_class)) t5)"
    by (auto simp del: rmatch.simps)
  from rmatch_group_class [OF this(2)] 1 2 3 show ?thesis by simp
qed

lemma short_no_grant_option: "length g = 1 \<Longrightarrow> \<not> Contains g ''WITH GRANT OPTION''"
  by (auto simp: Contains_iff sublist_def)

text \<open>The clause WITH GRANT OPTION of a grant that the server prints is never seen: it is looked
  for in a part of the match that is a single quote character, so the privileges that are read
  are the normalised list of names and nothing is ever added to it.\<close>

theorem parse_grant_no_grant_option:
  assumes "parse_grant g = Return (Inr (db, ps))"
  shows "\<exists>gs. FindSubmatch GRANTS_RE g = Some gs \<and>
    normalizeColGrants (map (\<lambda>p. if TrimSpace p = ''ALL PRIVILEGES'' then ''ALL'' else TrimSpace p) (Split (gs ! 1) '','')) = Return ps"
proof -
  obtain gs where gs: "FindSubmatch GRANTS_RE g = Some gs"
    using assms by (auto simp: parse_grant_def split: option.splits)
  from FindSubmatch_Some [OF gs] GRANTS_RE_group3 have "length (gs ! 3) = 1" by (auto simp: numeral_3_eq_3 numeral_2_eq_2)
  with assms gs have "normalizeColGrants (map (\<lambda>p. if TrimSpace p = ''ALL PRIVILEGES'' then ''ALL'' else TrimSpace p) (Split (gs ! 1) '','')) = Return ps"
    by (auto simp: parse_grant_def Let_def bind_out_Return_iff short_no_grant_option split: if_splits)
  with gs show ?thesis by blast
qed

text \<open>Fixing a grant on several columns loses the privileges in front of it, and fixing one that is
  a single element of the list panics.\<close>

theorem handleGrantOnCol_loses:
  "(handleGrantOnCol ps n n = Panic ''index out of range'') \<and>
   (start < end \<and> handleGrantOnCol ps start end = Return out \<longrightarrow> length out = Suc (length ps - Suc end))"
  by (auto simp: handleGrantOnCol_def idx_def bind_out_Return_iff)

theorem handleGrantOnCol_loses_witness:
  "handleGrantOnCol [''DELETE'', ''SELECT (b'', ''a)'', ''INSERT''] 1 2 = Return [''SELECT (a, b)'', ''INSERT''] \<and>
   length [''SELECT (a, b)'', ''INSERT''] = Suc (length [''DELETE'', ''SELECT (b'', ''a)'', ''INSERT''] - Suc 2)"
proof -
  have "handleGrantOnCol [''DELETE'', ''SELECT (b'', ''a)'', ''INSERT''] 1 2 = Return [''SELECT (a, b)'', ''INSERT'']"
    by code_simp
  with handleGrantOnCol_loses [of "[''DELETE'', ''SELECT (b'', ''a)'', ''INSERT'']" 0 1 2 "[''SELECT (a, b)'', ''INSERT'']"]
  show ?thesis by simp
qed

theorem parse_grant_no_grant_option_witness:
  "\<exists>gs. FindSubmatch GRANTS_RE ''GRANT SELECT ON d.* TO `u`@`h` WITH GRANT OPTION'' = Some gs \<and>
     normalizeColGrants (map (\<lambda>p. if TrimSpace p = ''ALL PRIVILEGES'' then ''ALL'' else TrimSpace p) (Split (gs ! 1) '','')) = Return [''SELECT'']"
proof -
  have "parse_grant ''GRANT SELECT ON d.* TO `u`@`h` WITH GRANT OPTION'' = Return (Inr (''d.*'', [''SELECT'']))"
    by code_simp
  then show ?thesis by (rule parse_grant_no_grant_option)
qed

lemma ToUpper_append: "ToUpper (xs @ ys) = ToUpper xs @ ToUpper ys"
  by (simp add: ToUpper_def)

lemma ToUpper_paren: "CHR '')'' \<notin> set cols \<Longrightarrow> CHR '')'' \<notin> set (ToUpper cols)"
proof
  assume no: "CHR '')'' \<notin> set cols" and "CHR '')'' \<in> set (ToUpper cols)"
  then obtain x where x: "x \<in> set cols" "upper_char x = CHR '')''" by (auto simp: ToUpper_def)
  from x(2) have "x = CHR '')''" by (subst (asm) upper_char_low) simp_all
  with x(1) no show False by simp
qed

lemma upper_col_grants:
  "g \<in> {''SELECT'', ''UPDATE'', ''INSERT'', ''REFERENCES''} \<Longrightarrow> ToUpper (g @ '' ('') = g @ '' ('' \<and> ToUpper '')'' = '')''"
  by (auto simp: ToUpper_def upper_char_def)

text \<open>A grant on columns written with a blank before the parenthesis, as MySQL prints it and as the
  comments of the code show it, is always refused as an invalid privilege.\<close>

theorem column_grant_with_blank_refused:
  assumes "funk_laws L" and g: "g \<in> {''SELECT'', ''UPDATE'', ''INSERT'', ''REFERENCES''}"
    and "CHR '')'' \<notin> set cols" and "Privs dp = g @ '' ('' @ cols @ '')''"
  shows "\<exists>e. privilegesUnpack L [dp] mode = Return (Inl e)"
proof -
  have up: "ToUpper (Privs dp) = priv_item (g @ '' '') (Some (ToUpper cols))"
    using upper_col_grants [OF g] ToUpper_append [of "g @ '' (''" "cols @ '')''"] ToUpper_append [of cols "'')''"] assms(4)
    by (simp add: priv_item_def)
  have "wf_item (g @ '' '', Some (ToUpper cols))" using g ToUpper_paren [OF assms(3)] by (auto simp: wf_item_def)
  from priv_piece_items [of "[(g @ '' '', Some (ToUpper cols))]" "[]" "[]"] this
  have "snd (parsePrivPiece (ToUpper (Privs dp))) = [g @ '' '']" by (simp add: up parsePrivPiece_def)
  moreover have "g @ '' '' \<notin> set VALID_PRIVS" using g by (auto simp: VALID_PRIVS_def)
  ultimately have "set (funk_Subtract L (snd (parsePrivPiece (ToUpper (Privs dp)))) VALID_PRIVS) \<noteq> {}"
    using assms(1) by (simp add: funk_laws_def)
  then show ?thesis
    by (auto simp: privilegesUnpack_def Let_def split: prod.split)
qed

theorem column_grant_with_blank_refused_witness:
  "\<exists>e. privilegesUnpack ref_libs [\<lparr>Scope = ''d.t'', Privs = ''SELECT (a,b)'', DefaultPrivs = '''', PrivType = '''', Grantor = None\<rparr>] ''ANSI'' = Return (Inl e)"
  by (rule column_grant_with_blank_refused [of ref_libs "''SELECT''" "''a,b''"]) simp_all

end
