(* ===== verification/MySqlConn.thy ===== *)
theory MySqlConn
  imports MySqlPrivs PgConn
begin

section \<open>Package mysql: connections\<close>

text \<open>
  \<^verbatim>\<open>dbservers/mysql/connector.go\<close>, \<^verbatim>\<open>connection.go\<close> and \<^verbatim>\<open>dbinfo.go\<close>: opening a
  connection, the statements for users and databases, the container of a backup or restore
  job, and the quoting of identifiers.
\<close>

subsection \<open>The connector\<close>

definition passwordless_error :: error where
  "passwordless_error = Err ''Passwordless connections not yet implemented for MySQL connections''"

definition MySqlConnect :: "env \<Rightarrow> Connector" where
  "MySqlConnect E connectInfo credentials databaseName =
     (let db = (case databaseName of None \<Rightarrow> ci_Database connectInfo | Some d \<Rightarrow> d);
          cr = (case credentials of None \<Rightarrow> ci_Credentials connectInfo | Some cr \<Rightarrow> cr)
      in case cr_Password cr of
           None \<Rightarrow> ret (Inl passwordless_error)
         | Some password \<Rightarrow>
             (let connStr = cr_UserName cr @ '':'' @ password @ ''@tcp('' @ ci_Host connectInfo @ '':'' @ Itoa (ci_Port connectInfo) @ '')/'' @ db
              in call (SqlOpen ''mysql'' connStr) (\<lambda>h. sql_open E h ''mysql'' connStr)))"

interpretation mysql_connector: connector "MySqlConnect E" for E
  by unfold_locales (auto simp: MySqlConnect_def Let_def intro!: emits_intro)

subsection \<open>Statements\<close>

type_synonym MySqlConnection = SqlConnection

definition NewMySqlConnection :: "DbServerConnectInfo \<Rightarrow> Credentials option gomap \<Rightarrow> string \<Rightarrow> MySqlConnection" where
  "NewMySqlConnection connectionInfo userCredentials flavor =
     \<lparr>pc_store = \<lparr>cs_ServerConnInfo = connectionInfo, cs_UserCredentials = userCredentials, cs_connections = None\<rparr>,
      pc_Flavor = flavor\<rparr>"

definition CreateUser_mysql :: "env \<Rightarrow> MySqlConnection \<Rightarrow> string \<Rightarrow> string \<Rightarrow> (MySqlConnection \<times> error option) go" where
  "CreateUser_mysql E m userName password =
     on_conn (MySqlConnect E) m None None Some (\<lambda>m conn.
       keep m (Exec E conn (''CREATE USER '' @ user_at_host userName ''%'' @ '' IDENTIFIED BY '' @ quote1 password @ '';'') []))"

definition SelectToArrayMap_mysql :: "env \<Rightarrow> MySqlConnection \<Rightarrow> string \<Rightarrow> (MySqlConnection \<times> (error + gval gomap list)) go" where
  "SelectToArrayMap_mysql E m query =
     on_conn (MySqlConnect E) m None None Inl (\<lambda>m conn. keep m (SelectToArrayMap E conn query []))"

definition drop_options_error :: error where
  "drop_options_error = Err ''DROP USER options not supported (yet?) for MySQL''"

definition DropUser_mysql :: "env \<Rightarrow> MySqlConnection \<Rightarrow> UserSpec \<Rightarrow> (MySqlConnection \<times> error option) go" where
  "DropUser_mysql E m userSpec =
     (if usr_DropUserOptions userSpec \<noteq> None then ret (m, Some drop_options_error)
      else on_conn (MySqlConnect E) m None None Some (\<lambda>m conn.
        keep m (Exec E conn (''DROP USER '' @ user_at_host (usr_UserName userSpec) ''%'' @ '';'') [])))"

fun mysql_user_rows :: "libs \<Rightarrow> gval list list \<Rightarrow> DbSideUser gomap \<Rightarrow> error + DbSideUser gomap" where
  "mysql_user_rows L [] users = Inr users"
| "mysql_user_rows L (row # rest) users =
     (case scan_strings L 2 row of
        Inr [name, attrs] \<Rightarrow>
          mysql_user_rows L rest
            (if \<not> HasPrefix name ''mysql.'' then AList.update name \<lparr>su_UserName = name, su_Attributes = attrs\<rparr> users else users)
      | _ \<Rightarrow> Inl (Err ''unable to load DbUser''))"

definition GetUsers_mysql :: "env \<Rightarrow> MySqlConnection \<Rightarrow> (MySqlConnection \<times> (error + DbSideUser gomap)) go" where
  "GetUsers_mysql E m =
     on_conn (MySqlConnect E) m None None Inl (\<lambda>m conn. keep m
       (try_io (Query E conn ''select user, host from mysql.user;'' [])
         (\<lambda>err. ret (Inl (Err ''unable to read users from server'')))
         (\<lambda>rows. ret (mysql_user_rows (lib E) (row_data rows) []))))"

definition Execute_mysql :: "env \<Rightarrow> MySqlConnection \<Rightarrow> string \<Rightarrow> string option \<Rightarrow> (MySqlConnection \<times> error option) go" where
  "Execute_mysql E m query userName = on_conn (MySqlConnect E) m userName None Some (\<lambda>m conn. keep m (Exec E conn query []))"

definition CreateDb_mysql :: "env \<Rightarrow> MySqlConnection \<Rightarrow> string \<Rightarrow> (MySqlConnection \<times> error option) go" where
  "CreateDb_mysql E m dbName = Execute_mysql E m (''CREATE DATABASE `'' @ dbName @ ''`;'') None"

definition DropDb_mysql :: "env \<Rightarrow> MySqlConnection \<Rightarrow> string \<Rightarrow> bool \<Rightarrow> (MySqlConnection \<times> error option) go" where
  "DropDb_mysql E m dbName cascade =
     on_conn (MySqlConnect E) m None None Some (\<lambda>m conn.
       if cascade then ret (m, Some (Err ''CASCADE option not posible for MySQL''))
       else keep m (Exec E conn (''DROP DATABASE `'' @ dbName @ ''`;'') []))"

text \<open>A failed type assertion panics.\<close>

fun ToString :: "gval \<Rightarrow> string outcome" where
  "ToString (GBytes s) = Return s"
| "ToString _ = Panic ''interface conversion''"

definition dbs_query :: string where
  "dbs_query = ''SELECT DISTINCT SCHEMA_NAME AS `database` FROM information_schema.SCHEMATA WHERE SCHEMA_NAME NOT IN ('information_schema', 'performance_schema', 'mysql', 'sys') ORDER BY SCHEMA_NAME;''"

fun db_rows :: "libs \<Rightarrow> gval list list \<Rightarrow> DbSideDb gomap \<Rightarrow> error + DbSideDb gomap" where
  "db_rows L [] dbs = Inr dbs"
| "db_rows L (row # rest) dbs =
     (case scan_strings L 1 row of
        Inl err \<Rightarrow> Inl (Err (''unable to load Db: '' @ error_msg err))
      | Inr ss \<Rightarrow> db_rows L rest (AList.update (ss ! 0) \<lparr>sd_DatbaseName = ss ! 0\<rparr> dbs))"

definition GetDbs_mysql :: "env \<Rightarrow> MySqlConnection \<Rightarrow> (MySqlConnection \<times> (error + DbSideDb gomap)) go" where
  "GetDbs_mysql E m =
     on_conn (MySqlConnect E) m None None Inl (\<lambda>m conn. keep m
       (try_io (Query E conn dbs_query [])
         (\<lambda>err. ret (Inl (Err (''unable to read databases from server '' @ error_msg err))))
         (\<lambda>rows. ret (db_rows (lib E) (row_data rows) []))))"

definition no_schemas_error :: error where
  "no_schemas_error = Err ''TODO check if there is a difference between schemas and dbs in MySQL''"

definition GetSchemas_mysql :: "MySqlConnection \<Rightarrow> string option \<Rightarrow> (MySqlConnection \<times> (error + DbSideSchema gomap)) go" where
  "GetSchemas_mysql m userName = ret (m, Inl no_schemas_error)"

definition CreateSchema_mysql :: "MySqlConnection \<Rightarrow> string \<Rightarrow> string option \<Rightarrow> (MySqlConnection \<times> error option) go" where
  "CreateSchema_mysql m schemaName creator = ret (m, Some no_schemas_error)"

definition DropSchema_mysql :: "MySqlConnection \<Rightarrow> string \<Rightarrow> string option \<Rightarrow> bool \<Rightarrow> (MySqlConnection \<times> error option) go" where
  "DropSchema_mysql m schemaName userName cascade = ret (m, Some no_schemas_error)"

definition UpdateUserPrivs_my :: "env \<Rightarrow> MySqlConnection \<Rightarrow> string \<Rightarrow> string \<Rightarrow> DbPriv list \<Rightarrow> (MySqlConnection \<times> bool \<times> error option) go" where
  "UpdateUserPrivs_my E p userName serverPrivs dbPrivs =
     on_conn (MySqlConnect E) p None None (\<lambda>err. (False, Some err)) (\<lambda>p conn.
       keep p (UpdateUserPrivs_mysql E conn userName serverPrivs dbPrivs))"

definition Close_mysql :: "env \<Rightarrow> MySqlConnection \<Rightarrow> (MySqlConnection \<times> error option) go" where
  "Close_mysql E m = bind_io (Close_store E (pc_store m)) (\<lambda>(st, e). ret (m\<lparr>pc_store := st\<rparr>, e))"

definition quoteMySQLIdentifier :: "string \<Rightarrow> string" where
  "quoteMySQLIdentifier identifier = ''`'' @ ReplaceAll identifier ''`'' ''``'' @ ''`''"

subsection \<open>Containers of backup and restore jobs\<close>


definition BuildContainer_mysql :: "DbServer \<Rightarrow> Db \<Rightarrow> string \<Rightarrow> Container" where
  "BuildContainer_mysql dbServer db scriptName =
     (let spec = srv_Spec dbServer;
          envVars =
            [\<lparr>ev_Name = ''MYSQL_HOST'', ev_Value = Value (srv_Address spec)\<rparr>,
             \<lparr>ev_Name = ''MYSQL_USER'', ev_Value = Value (srv_UserName spec)\<rparr>,
             \<lparr>ev_Name = ''MYSQL_PWD'', ev_Value = SecretKeyRef (srv_SecretName spec) (Nvl (srv_PasswordKey spec) ''password'')\<rparr>,
             \<lparr>ev_Name = ''MYSQL_DATABASE'', ev_Value = Value (db_DbName (db_Spec db))\<rparr>]
      in \<lparr>co_Name = ''mysql-'' @ ReplaceNonAllowedChars (ReplaceFirst scriptName ''.sh'' ''''),
          co_Image = ''mysql:'' @ Nvl (srv_Version spec) ''latest'',
          co_Env = envVars,
          co_Command = [script_path scriptName],
          co_VolumeMounts = VOLUME_MOUNTS\<rparr>)"

definition BuildBackupContainer_mysql :: "DbServer \<Rightarrow> Db \<Rightarrow> Container" where
  "BuildBackupContainer_mysql dbServer db = BuildContainer_mysql dbServer db BACKUP_MYSQL"

definition BuildRestoreContainer_mysql :: "DbServer \<Rightarrow> Db \<Rightarrow> Container" where
  "BuildRestoreContainer_mysql dbServer db = BuildContainer_mysql dbServer db RESTORE_MYSQL"

subsection \<open>Quoted identifiers cannot be left\<close>

text \<open>
  How MySQL reads a quoted identifier: after the opening backtick, two backticks stand for
  one, and a single one ends the identifier.  The result is the identifier and the rest.
\<close>

fun read_quoted :: "string \<Rightarrow> (string \<times> string) option" where
  "read_quoted [] = None"
| "read_quoted [c] = (if c = CHR 0x60 then Some ([], []) else None)"
| "read_quoted (c # d # cs) =
     (if c = CHR 0x60 then
        (if d = CHR 0x60 then map_option (\<lambda>(i, r). (CHR 0x60 # i, r)) (read_quoted cs) else Some ([], d # cs))
      else map_option (\<lambda>(i, r). (c # i, r)) (read_quoted (d # cs)))"

definition read_identifier :: "string \<Rightarrow> (string \<times> string) option" where
  "read_identifier s = (case s of c # cs \<Rightarrow> if c = CHR 0x60 then read_quoted cs else None | [] \<Rightarrow> None)"

lemma read_quoted_end: "rest = [] \<or> hd rest \<noteq> CHR 0x60 \<Longrightarrow> read_quoted (CHR 0x60 # rest) = Some ([], rest)"
  by (cases rest) auto

lemma read_quoted_Cons: "c \<noteq> CHR 0x60 \<Longrightarrow> cs \<noteq> [] \<Longrightarrow> read_quoted (c # cs) = map_option (\<lambda>(i, r). (c # i, r)) (read_quoted cs)"
  by (cases cs) auto

lemma ReplaceAll_backtick:
  "ReplaceAll (c # cs) ''`'' ''``'' = (if c = CHR 0x60 then ''``'' else [c]) @ ReplaceAll cs ''`'' ''``''"
  by simp

lemma read_quoted_doubled:
  assumes "rest = [] \<or> hd rest \<noteq> CHR 0x60"
  shows "read_quoted (ReplaceAll s ''`'' ''``'' @ CHR 0x60 # rest) = Some (s, rest)"
  using assms
  by (induction s) (simp_all add: read_quoted_end ReplaceAll_backtick read_quoted_Cons del: ReplaceAll.simps(2))

text \<open>C32: a quoted identifier is read back by the server as exactly the given name, whatever
  characters (backticks included) the name has, and the text after it stays outside: a name
  cannot break out of its quotes.\<close>

theorem quoteMySQLIdentifier_read_back:
  assumes "rest = [] \<or> hd rest \<noteq> CHR 0x60"
  shows "read_identifier (quoteMySQLIdentifier s @ rest) = Some (s, rest)"
  using read_quoted_doubled [OF assms, of s] by (simp add: read_identifier_def quoteMySQLIdentifier_def)

theorem quoteMySQLIdentifier_read_back_witness:
  "read_identifier (quoteMySQLIdentifier ''a`; DROP TABLE x; --'' @ '';'') = Some (''a`; DROP TABLE x; --'', '';'')"
  by (rule quoteMySQLIdentifier_read_back) simp

subsection \<open>Events\<close>

lemmas emits_on_mysql = mysql_connector.on_conn_emits

text \<open>On a MySQL server a user with drop options is not dropped and a database is not dropped with
  CASCADE: both are refused and no statement runs.\<close>

theorem mysql_drop_refused:
  assumes "usr_DropUserOptions us \<noteq> None"
  shows "DropUser_mysql E m us h = (Return (m, Some drop_options_error), h) \<and>
    (\<exists>es. snd (DropDb_mysql E m dbName True h) = h @ es \<and> list_all is_open es)"
proof -
  have "emits is_open (DropDb_mysql E m dbName True)"
    unfolding DropDb_mysql_def by (rule emits_on_mysql) (auto intro!: emits_intro)
  with assms show ?thesis by (auto simp: DropUser_mysql_def run elim: emitsE)
qed

theorem mysql_drop_refused_witness:
  "DropUser_mysql null_env demo_pg (demo_user_spec\<lparr>usr_DropUserOptions := Some \<lparr>RevokePrivileges = True, DropOwned = False, ReassingOwnedTo = ''''\<rparr>\<rparr>) [] =
     (Return (demo_pg, Some drop_options_error), [])"
  using mysql_drop_refused [of "demo_user_spec\<lparr>usr_DropUserOptions := Some \<lparr>RevokePrivileges = True, DropOwned = False, ReassingOwnedTo = ''''\<rparr>\<rparr>" null_env demo_pg "[]"]
  by simp

lemma emits_UpdateUserPrivs_my: "emits (\<lambda>ev. is_open ev \<or> mysql_priv_event ev) (UpdateUserPrivs_my E p userName serverPrivs dbPrivs)"
  unfolding UpdateUserPrivs_my_def
  by (rule emits_on_mysql) (auto intro!: emits_keep emits_mono [OF emits_UpdateUserPrivs_mysql])

text \<open>Updating the privileges of a user on a MySQL server runs no statement but GRANT and REVOKE,
  whatever the server answers and whatever the User resource holds.\<close>

theorem UpdateUserPrivs_my_only_privileges:
  "\<exists>es. snd (UpdateUserPrivs_my E p userName serverPrivs dbPrivs h) = h @ es \<and>
     list_all (\<lambda>ev. is_open ev \<or> mysql_priv_event ev) es"
  by (rule emitsE [OF emits_UpdateUserPrivs_my]) blast

end
