(* ===== verification/DbServers.thy ===== *)
theory DbServers
  imports PgConn MySqlConn
begin

section \<open>Package dbservers: choosing the server\<close>

text \<open>
  \<^verbatim>\<open>dbservers/dbservers.go\<close> and the interfaces of \<^verbatim>\<open>shared/db_side.go\<close> and
  \<^verbatim>\<open>shared/db_info.go\<close>.  A value of the interface \<^verbatim>\<open>DbServerConnectionInterface\<close> is one of
  the two connection types, and a call of a method is a case distinction on it.
\<close>

datatype DbServerConnection = Pg SqlConnection | MySql SqlConnection

datatype DbActions = PostgresActions DbServer Db "string gomap" | MySqlActions DbServer Db "string gomap"

definition server_type_error :: error where
  "server_type_error = Err ''expected either mysql or postgres server''"

definition GetServerActions :: "DbServer \<Rightarrow> Db \<Rightarrow> string gomap \<Rightarrow> error + DbActions" where
  "GetServerActions dbServer db options =
     (let serverType = srv_ServerType (srv_Spec dbServer) in
      if ToLower serverType = ''postgres'' \<or> ToLower serverType = ''cockroachdb'' then Inr (PostgresActions dbServer db options)
      else if ToLower serverType = ''mysql'' then Inr (MySqlActions dbServer db options)
      else Inl server_type_error)"

definition GetServerConnection :: "string \<Rightarrow> DbServerConnectInfo \<Rightarrow> Credentials option gomap \<Rightarrow> error + DbServerConnection" where
  "GetServerConnection serverType connectInfo userCredentials =
     (let flavor = ToLower serverType in
      if flavor = ''postgres'' \<or> flavor = ''cockroachdb'' then Inr (Pg (NewPostgresConnection connectInfo userCredentials flavor))
      else if flavor = ''mysql'' then Inr (MySql (NewMySqlConnection connectInfo userCredentials flavor))
      else Inl server_type_error)"

definition BuildBackupContainer :: "DbActions \<Rightarrow> Container" where
  "BuildBackupContainer a =
     (case a of PostgresActions s d _ \<Rightarrow> BuildBackupContainer_pg s d | MySqlActions s d _ \<Rightarrow> BuildBackupContainer_mysql s d)"

definition BuildRestoreContainer :: "DbActions \<Rightarrow> Container" where
  "BuildRestoreContainer a =
     (case a of PostgresActions s d _ \<Rightarrow> BuildRestoreContainer_pg s d | MySqlActions s d _ \<Rightarrow> BuildRestoreContainer_mysql s d)"

text \<open>A method call: the method of the connection's type, and the changed connection.\<close>

definition dispatch :: "DbServerConnection \<Rightarrow> (SqlConnection \<Rightarrow> (SqlConnection \<times> 'a) go) \<Rightarrow> (SqlConnection \<Rightarrow> (SqlConnection \<times> 'a) go)
    \<Rightarrow> (DbServerConnection \<times> 'a) go" where
  "dispatch conn pg my =
     (case conn of
        Pg p \<Rightarrow> bind_io (pg p) (\<lambda>(p, r). ret (Pg p, r))
      | MySql m \<Rightarrow> bind_io (my m) (\<lambda>(m, r). ret (MySql m, r)))"

definition conn_CreateUser :: "env \<Rightarrow> DbServerConnection \<Rightarrow> string \<Rightarrow> string \<Rightarrow> (DbServerConnection \<times> error option) go" where
  "conn_CreateUser E conn userName password =
     dispatch conn (\<lambda>p. CreateUser_pg E p userName password) (\<lambda>m. CreateUser_mysql E m userName password)"

definition conn_DropUser :: "env \<Rightarrow> DbServerConnection \<Rightarrow> UserSpec \<Rightarrow> (DbServerConnection \<times> error option) go" where
  "conn_DropUser E conn userSpec = dispatch conn (\<lambda>p. DropUser_pg E p userSpec) (\<lambda>m. DropUser_mysql E m userSpec)"

definition conn_GetUsers :: "env \<Rightarrow> DbServerConnection \<Rightarrow> (DbServerConnection \<times> (error + DbSideUser gomap)) go" where
  "conn_GetUsers E conn = dispatch conn (GetUsers_pg E) (GetUsers_mysql E)"

definition conn_CreateDb :: "env \<Rightarrow> DbServerConnection \<Rightarrow> string \<Rightarrow> (DbServerConnection \<times> error option) go" where
  "conn_CreateDb E conn dbName = dispatch conn (\<lambda>p. CreateDb_pg E p dbName) (\<lambda>m. CreateDb_mysql E m dbName)"

definition conn_CreateSchema :: "env \<Rightarrow> DbServerConnection \<Rightarrow> string \<Rightarrow> string option \<Rightarrow> (DbServerConnection \<times> error option) go" where
  "conn_CreateSchema E conn schemaName creator =
     dispatch conn (\<lambda>p. CreateSchema_pg E p schemaName creator) (\<lambda>m. CreateSchema_mysql m schemaName creator)"

definition conn_DropDb :: "env \<Rightarrow> DbServerConnection \<Rightarrow> string \<Rightarrow> bool \<Rightarrow> (DbServerConnection \<times> error option) go" where
  "conn_DropDb E conn dbName cascade = dispatch conn (\<lambda>p. DropDb_pg E p dbName cascade) (\<lambda>m. DropDb_mysql E m dbName cascade)"

definition conn_DropSchema :: "env \<Rightarrow> DbServerConnection \<Rightarrow> string \<Rightarrow> string option \<Rightarrow> bool \<Rightarrow> (DbServerConnection \<times> error option) go" where
  "conn_DropSchema E conn schemaName userName cascade =
     dispatch conn (\<lambda>p. DropSchema_pg E p schemaName userName cascade) (\<lambda>m. DropSchema_mysql m schemaName userName cascade)"

definition conn_GetDbs :: "env \<Rightarrow> DbServerConnection \<Rightarrow> (DbServerConnection \<times> (error + DbSideDb gomap)) go" where
  "conn_GetDbs E conn = dispatch conn (GetDbs_pg E) (GetDbs_mysql E)"

definition conn_GetSchemas :: "env \<Rightarrow> DbServerConnection \<Rightarrow> string option \<Rightarrow> (DbServerConnection \<times> (error + DbSideSchema gomap)) go" where
  "conn_GetSchemas E conn userName = dispatch conn (\<lambda>p. GetSchemas_pg E p userName) (\<lambda>m. GetSchemas_mysql m userName)"

definition conn_UpdateUserPrivs :: "env \<Rightarrow> DbServerConnection \<Rightarrow> string \<Rightarrow> string \<Rightarrow> DbPriv list \<Rightarrow> (DbServerConnection \<times> bool \<times> error option) go" where
  "conn_UpdateUserPrivs E conn userName serverPrivs dbPrivs =
     dispatch conn (\<lambda>p. UpdateUserPrivs_pg E p userName serverPrivs dbPrivs) (\<lambda>m. UpdateUserPrivs_my E m userName serverPrivs dbPrivs)"

definition conn_Close :: "env \<Rightarrow> DbServerConnection \<Rightarrow> (DbServerConnection \<times> error option) go" where
  "conn_Close E conn = dispatch conn (Close_pg E) (Close_mysql E)"

definition conn_Execute :: "env \<Rightarrow> DbServerConnection \<Rightarrow> string \<Rightarrow> string option \<Rightarrow> (DbServerConnection \<times> error option) go" where
  "conn_Execute E conn query userName = dispatch conn (\<lambda>p. Execute_pg E p query userName) (\<lambda>m. Execute_mysql E m query userName)"

subsection \<open>The contract of a server connection\<close>

text \<open>
  What the controllers rely on, whatever the server: reading operations only read, creating
  a database and dropping one run a statement of that kind only, and closing only closes.
\<close>

fun quiet :: "event \<Rightarrow> bool" where
  "quiet (SqlExec _ _ _) = False"
| "quiet (SqlClose _) = False"
| "quiet ev = (is_read ev \<or> is_open ev)"

fun is_close :: "event \<Rightarrow> bool" where
  "is_close (SqlClose _) = True"
| "is_close _ = False"

definition exec_of :: "string \<Rightarrow> event \<Rightarrow> bool" where
  "exec_of pre ev \<longleftrightarrow> (\<exists>c q args. ev = SqlExec c q args \<and> prefix pre q)"

locale server_connection =
  fixes get_dbs :: "'c \<Rightarrow> ('c \<times> (error + DbSideDb gomap)) go"
    and get_users :: "'c \<Rightarrow> ('c \<times> (error + DbSideUser gomap)) go"
    and create_db :: "'c \<Rightarrow> string \<Rightarrow> ('c \<times> error option) go"
    and drop_db :: "'c \<Rightarrow> string \<Rightarrow> bool \<Rightarrow> ('c \<times> error option) go"
    and close :: "'c \<Rightarrow> ('c \<times> error option) go"
  assumes get_dbs_reads: "emits quiet (get_dbs c)"
    and get_users_reads: "emits quiet (get_users c)"
    and create_db_creates: "emits (\<lambda>ev. quiet ev \<or> exec_of ''CREATE DATABASE '' ev) (create_db c n)"
    and drop_db_drops: "emits (\<lambda>ev. quiet ev \<or> exec_of ''DROP DATABASE '' ev) (drop_db c n b)"
    and close_closes: "emits is_close (close c)"
begin

lemma emits_get_dbs: "(\<And>ev. quiet ev \<Longrightarrow> P ev) \<Longrightarrow> emits P (get_dbs c)"
  by (rule emits_mono [OF get_dbs_reads])

lemma emits_get_users: "(\<And>ev. quiet ev \<Longrightarrow> P ev) \<Longrightarrow> emits P (get_users c)"
  by (rule emits_mono [OF get_users_reads])

lemma emits_create_db: "(\<And>ev. quiet ev \<Longrightarrow> P ev) \<Longrightarrow> (\<And>ev. exec_of ''CREATE DATABASE '' ev \<Longrightarrow> P ev) \<Longrightarrow> emits P (create_db c n)"
  by (rule emits_mono [OF create_db_creates]) auto

lemma emits_drop_db: "(\<And>ev. quiet ev \<Longrightarrow> P ev) \<Longrightarrow> (\<And>ev. exec_of ''DROP DATABASE '' ev \<Longrightarrow> P ev) \<Longrightarrow> emits P (drop_db c n b)"
  by (rule emits_mono [OF drop_db_drops]) auto

lemma emits_close: "(\<And>ev. is_close ev \<Longrightarrow> P ev) \<Longrightarrow> emits P (close c)"
  by (rule emits_mono [OF close_closes])

end

lemma open_quiet: "is_open ev \<Longrightarrow> quiet ev"
  by (cases ev) auto

lemma emits_Close_store: "emits is_close (Close_store E st)"
  by (auto simp: Close_store_def intro!: emits_intro)

interpretation pg_server: server_connection "GetDbs_pg E" "GetUsers_pg E" "CreateDb_pg E" "DropDb_pg E" "Close_pg E" for E
proof
  fix c n b
  show "emits quiet (GetDbs_pg E c)"
    unfolding GetDbs_pg_def by (rule emits_on_pg) (auto simp: open_quiet intro!: emits_intro)
  show "emits quiet (GetUsers_pg E c)"
    unfolding GetUsers_pg_def by (rule emits_on_pg) (auto simp: open_quiet intro!: emits_intro)
  show "emits (\<lambda>ev. quiet ev \<or> exec_of ''CREATE DATABASE '' ev) (CreateDb_pg E c n)"
    unfolding CreateDb_pg_def Execute_pg_def by (rule emits_on_pg) (auto simp: exec_of_def open_quiet intro!: emits_intro)
  show "emits (\<lambda>ev. quiet ev \<or> exec_of ''DROP DATABASE '' ev) (DropDb_pg E c n b)"
    unfolding DropDb_pg_def Let_def by (rule emits_on_pg) (auto simp: exec_of_def open_quiet intro!: emits_intro)
  show "emits is_close (Close_pg E c)"
    unfolding Close_pg_def by (auto intro!: emits_intro emits_Close_store)
qed

interpretation mysql_server: server_connection "GetDbs_mysql E" "GetUsers_mysql E" "CreateDb_mysql E" "DropDb_mysql E" "Close_mysql E" for E
proof
  fix c n b
  show "emits quiet (GetDbs_mysql E c)"
    unfolding GetDbs_mysql_def by (rule emits_on_mysql) (auto simp: open_quiet intro!: emits_intro)
  show "emits quiet (GetUsers_mysql E c)"
    unfolding GetUsers_mysql_def by (rule emits_on_mysql) (auto simp: open_quiet intro!: emits_intro)
  show "emits (\<lambda>ev. quiet ev \<or> exec_of ''CREATE DATABASE '' ev) (CreateDb_mysql E c n)"
    unfolding CreateDb_mysql_def Execute_mysql_def by (rule emits_on_mysql) (auto simp: exec_of_def open_quiet intro!: emits_intro)
  show "emits (\<lambda>ev. quiet ev \<or> exec_of ''DROP DATABASE '' ev) (DropDb_mysql E c n b)"
    unfolding DropDb_mysql_def by (rule emits_on_mysql) (auto simp: exec_of_def open_quiet intro!: emits_intro)
  show "emits is_close (Close_mysql E c)"
    unfolding Close_mysql_def by (auto intro!: emits_intro emits_Close_store)
qed

lemma emits_dispatch:
  "(\<And>p. emits P (pg p)) \<Longrightarrow> (\<And>m. emits P (my m)) \<Longrightarrow> emits P (dispatch conn pg my)"
  unfolding dispatch_def by (cases conn) (auto intro!: emits_intro)

interpretation any_server: server_connection "conn_GetDbs E" "conn_GetUsers E" "conn_CreateDb E" "conn_DropDb E" "conn_Close E" for E
  by unfold_locales
    (auto simp: conn_GetDbs_def conn_GetUsers_def conn_CreateDb_def conn_DropDb_def conn_Close_def intro!: emits_dispatch
      pg_server.get_dbs_reads pg_server.get_users_reads pg_server.create_db_creates pg_server.drop_db_drops pg_server.close_closes
      mysql_server.get_dbs_reads mysql_server.get_users_reads mysql_server.create_db_creates mysql_server.drop_db_drops mysql_server.close_closes)

lemma emits_conn_Execute:
  assumes "\<And>ev. quiet ev \<Longrightarrow> P ev" "\<And>c. P (SqlExec c q [])"
  shows "emits P (conn_Execute E conn q u)"
  unfolding conn_Execute_def Execute_pg_def Execute_mysql_def
  by (rule emits_dispatch; (rule emits_on_pg | rule emits_on_mysql))
    (auto simp: open_quiet assms intro!: emits_intro)

subsection \<open>The contract for users\<close>

definition priv_exec :: "event \<Rightarrow> bool" where
  "priv_exec ev \<longleftrightarrow> (\<exists>c q args. ev = SqlExec c q args \<and> priv_stmt q)"

definition drop_user_exec :: "event \<Rightarrow> bool" where
  "drop_user_exec ev \<longleftrightarrow> priv_exec ev \<or> exec_of ''DROP USER '' ev \<or> exec_of ''DROP OWNED BY '' ev \<or> exec_of ''REASSIGN OWNED BY '' ev"

locale user_server = server_connection get_dbs get_users create_db drop_db close
  for get_dbs :: "'c \<Rightarrow> ('c \<times> (error + DbSideDb gomap)) go"
    and get_users :: "'c \<Rightarrow> ('c \<times> (error + DbSideUser gomap)) go"
    and create_db :: "'c \<Rightarrow> string \<Rightarrow> ('c \<times> error option) go"
    and drop_db :: "'c \<Rightarrow> string \<Rightarrow> bool \<Rightarrow> ('c \<times> error option) go"
    and close :: "'c \<Rightarrow> ('c \<times> error option) go" +
  fixes create_user :: "'c \<Rightarrow> string \<Rightarrow> string \<Rightarrow> ('c \<times> error option) go"
    and drop_user :: "'c \<Rightarrow> UserSpec \<Rightarrow> ('c \<times> error option) go"
    and update_privs :: "'c \<Rightarrow> string \<Rightarrow> string \<Rightarrow> DbPriv list \<Rightarrow> ('c \<times> bool \<times> error option) go"
  assumes create_user_creates: "emits (\<lambda>ev. quiet ev \<or> exec_of ''CREATE USER '' ev) (create_user c u pw)"
    and drop_user_drops: "emits (\<lambda>ev. quiet ev \<or> drop_user_exec ev) (drop_user c us)"
    and update_privs_only: "emits (\<lambda>ev. quiet ev \<or> priv_exec ev) (update_privs c u sp dps)"
begin

lemma emits_create_user: "(\<And>ev. quiet ev \<Longrightarrow> P ev) \<Longrightarrow> (\<And>ev. exec_of ''CREATE USER '' ev \<Longrightarrow> P ev) \<Longrightarrow> emits P (create_user c u pw)"
  by (rule emits_mono [OF create_user_creates]) auto

lemma emits_drop_user: "(\<And>ev. quiet ev \<Longrightarrow> P ev) \<Longrightarrow> (\<And>ev. drop_user_exec ev \<Longrightarrow> P ev) \<Longrightarrow> emits P (drop_user c us)"
  by (rule emits_mono [OF drop_user_drops]) auto

lemma emits_update_privs: "(\<And>ev. quiet ev \<Longrightarrow> P ev) \<Longrightarrow> (\<And>ev. priv_exec ev \<Longrightarrow> P ev) \<Longrightarrow> emits P (update_privs c u sp dps)"
  by (rule emits_mono [OF update_privs_only]) auto

end

lemma priv_event_cases: "priv_event ev \<Longrightarrow> quiet ev \<or> priv_exec ev"
  by (cases ev) (auto simp: priv_exec_def)

lemma mysql_priv_event_cases: "mysql_priv_event ev \<Longrightarrow> quiet ev \<or> priv_exec ev"
  by (cases ev) (auto simp: priv_exec_def priv_stmt_def)

lemma emits_drop_user_options:
  assumes q: "\<And>ev. quiet ev \<Longrightarrow> P ev" and d: "\<And>ev. drop_user_exec ev \<Longrightarrow> P ev"
  shows "emits P (drop_user_options E conn us opts p)"
proof -
  have x: "P (SqlExec c q args)" if "prefix ''DROP OWNED BY '' q \<or> prefix ''REASSIGN OWNED BY '' q" for c q args
    using that by (auto intro!: d simp: drop_user_exec_def exec_of_def)
  have rev: "emits P (RevokeAllDbPrivs E conn u dps (pg_getter E) st)" for u dps st
    by (rule emits_mono [OF emits_RevokeAllDbPrivs])
       (auto intro!: emits_pg_getter priv_event_open dest!: priv_event_cases intro: q d simp: drop_user_exec_def)
  have own: "emits P (drop_owned E u dbs p)" for u dbs p
    unfolding drop_owned_def
    by (intro emits_intro emits_on_pg emits_keep) (auto simp: q open_quiet intro!: emits_intro x)
  have dbs: "emits P (GetDatabasesUserHasAccessTo E conn u)" for u
    unfolding GetDatabasesUserHasAccessTo_def by (auto intro!: emits_intro q)
  show ?thesis
    unfolding drop_user_options_def Let_def
    by (intro emits_intro emits_and_then emits_keep own dbs rev) (auto intro!: x)
qed

interpretation pg_users: user_server "GetDbs_pg E" "GetUsers_pg E" "CreateDb_pg E" "DropDb_pg E" "Close_pg E"
  "CreateUser_pg E" "DropUser_pg E" "UpdateUserPrivs_pg E" for E
proof
  fix c u pw us sp dps
  show "emits (\<lambda>ev. quiet ev \<or> exec_of ''CREATE USER '' ev) (CreateUser_pg E c u pw)"
    unfolding CreateUser_pg_def by (rule emits_on_pg) (auto simp: exec_of_def open_quiet intro!: emits_intro)
  show "emits (\<lambda>ev. quiet ev \<or> drop_user_exec ev) (DropUser_pg E c us)"
    unfolding DropUser_pg_def
    by (rule emits_on_pg) (auto simp: open_quiet drop_user_exec_def exec_of_def intro!: emits_intro emits_and_then emits_drop_user_options)
  show "emits (\<lambda>ev. quiet ev \<or> priv_exec ev) (UpdateUserPrivs_pg E c u sp dps)"
    by (rule emits_mono [OF emits_UpdateUserPrivs_pg]) (rule priv_event_cases)
qed

interpretation mysql_users: user_server "GetDbs_mysql E" "GetUsers_mysql E" "CreateDb_mysql E" "DropDb_mysql E" "Close_mysql E"
  "CreateUser_mysql E" "DropUser_mysql E" "UpdateUserPrivs_my E" for E
proof
  fix c u pw us sp dps
  show "emits (\<lambda>ev. quiet ev \<or> exec_of ''CREATE USER '' ev) (CreateUser_mysql E c u pw)"
    unfolding CreateUser_mysql_def by (rule emits_on_mysql) (auto simp: exec_of_def open_quiet intro!: emits_intro)
  show "emits (\<lambda>ev. quiet ev \<or> drop_user_exec ev) (DropUser_mysql E c us)"
    unfolding DropUser_mysql_def
    by (intro emits_intro emits_on_mysql) (auto simp: open_quiet drop_user_exec_def exec_of_def intro!: emits_intro)
  show "emits (\<lambda>ev. quiet ev \<or> priv_exec ev) (UpdateUserPrivs_my E c u sp dps)"
    by (rule emits_mono [OF emits_UpdateUserPrivs_my]) (auto dest: mysql_priv_event_cases open_quiet)
qed

interpretation any_user: user_server "conn_GetDbs E" "conn_GetUsers E" "conn_CreateDb E" "conn_DropDb E" "conn_Close E"
  "conn_CreateUser E" "conn_DropUser E" "conn_UpdateUserPrivs E" for E
  by unfold_locales
    (auto simp: conn_CreateUser_def conn_DropUser_def conn_UpdateUserPrivs_def intro!: emits_dispatch
      pg_users.create_user_creates pg_users.drop_user_drops pg_users.update_privs_only
      mysql_users.create_user_creates mysql_users.drop_user_drops mysql_users.update_privs_only)

end
