(* ===== verification/Reco.thy ===== *)
theory Reco
  imports DbServers
begin

section \<open>Package controllers: the shared reconciliation loop\<close>

text \<open>
  \<^verbatim>\<open>controllers/reconcilable.go\<close>, with \<^verbatim>\<open>GetDbServer\<close> of \<^verbatim>\<open>dbserver_controller.go\<close> and
  \<^verbatim>\<open>GetUserCredentials\<close> of \<^verbatim>\<open>user_controller.go\<close>, which it calls.

  The interface \<^verbatim>\<open>Reconcilable\<close> is a record of operations on the state of a controller
  object.  \<^verbatim>\<open>GetCR\<close> returns a pointer into that state, so the record also has the store
  through that pointer, \<open>PutCR\<close>.  Of the embedded \<^verbatim>\<open>K8sClient\<close> only the name of the
  resource, \<^verbatim>\<open>NsNm\<close>, matters to the logic; the client is the environment.  A panic ends
  the process: what deferred calls do then is not modelled.
\<close>

subsection \<open>The API server\<close>

definition GetBackupTarget :: "env \<Rightarrow> NamespacedName \<Rightarrow> string \<Rightarrow> (error + BackupTarget) go" where
  "GetBackupTarget E nsnm backupTarget =
     (let nsName = \<lparr>nn_Namespace = nn_Namespace nsnm, nn_Name = backupTarget\<rparr> in
      call (K8sGet K_BackupTarget nsName) (\<lambda>h. get_BackupTarget_cr E h nsName))"

definition GetRestoreTarget :: "env \<Rightarrow> NamespacedName \<Rightarrow> string \<Rightarrow> (error + RestoreTarget) go" where
  "GetRestoreTarget E nsnm restoreTarget =
     (let nsName = \<lparr>nn_Namespace = nn_Namespace nsnm, nn_Name = restoreTarget\<rparr> in
      call (K8sGet K_RestoreTarget nsName) (\<lambda>h. get_RestoreTarget_cr E h nsName))"

definition GetDb :: "env \<Rightarrow> NamespacedName \<Rightarrow> string \<Rightarrow> (error + Db) go" where
  "GetDb E nsnm dbName =
     (let nsName = \<lparr>nn_Namespace = nn_Namespace nsnm, nn_Name = dbName\<rparr> in
      call (K8sGet K_Db nsName) (\<lambda>h. get_Db_cr E h nsName))"

definition GetS3Storage :: "env \<Rightarrow> NamespacedName \<Rightarrow> string \<Rightarrow> (error + S3Storage) go" where
  "GetS3Storage E nsnm storageLocation =
     (let nsName = \<lparr>nn_Namespace = nn_Namespace nsnm, nn_Name = storageLocation\<rparr> in
      call (K8sGet K_S3Storage nsName) (\<lambda>h. get_S3Storage_cr E h nsName))"

definition not_found :: error where
  "not_found = StatusError ''NotFound'' ''''"

text \<open>The loop of \<^verbatim>\<open>GetDbServer\<close>: \<open>dbServers\<close> are the servers with that name seen so far.\<close>

fun pick_server :: "string \<Rightarrow> string \<Rightarrow> DbServer list \<Rightarrow> DbServer list \<Rightarrow> error + DbServer" where
  "pick_server dbServerName localNamespace [] dbServers =
     (case dbServers of
        [] \<Rightarrow> Inl not_found
      | [dbServer] \<Rightarrow> Inr dbServer
      | _ \<Rightarrow> Inl (Err (''got '' @ Itoa (int (length dbServers)) @ '' results, unable to pick'')))"
| "pick_server dbServerName localNamespace (dbServer # items) dbServers =
     (if m_Name (srv_meta dbServer) = dbServerName then
        (if m_Namespace (srv_meta dbServer) = localNamespace then Inr dbServer
         else pick_server dbServerName localNamespace items (dbServers @ [dbServer]))
      else pick_server dbServerName localNamespace items dbServers)"

definition GetDbServer :: "env \<Rightarrow> string \<Rightarrow> string \<Rightarrow> (error + DbServer) go" where
  "GetDbServer E dbServerName localNamespace =
     try_io (call (K8sList K_DbServer) (get_DbServers E)) (\<lambda>err. ret (Inl err)) (\<lambda>items.
       ret (pick_server dbServerName localNamespace items []))"

definition TriggerDbServerReconcile :: "DbServer option \<Rightarrow> unit go" where
  "TriggerDbServerReconcile dbServer = emit (TriggerDbServer dbServer)"

subsection \<open>Credentials\<close>

definition missing_key :: "string \<Rightarrow> string \<Rightarrow> string \<Rightarrow> error" where
  "missing_key key ns secretName =
     Err (''key '' @ quote1 key @ '' not found in secret '' @ ns @ ''.'' @ secretName)"

text \<open>One key of the table of certificate keys: an empty key name is skipped.\<close>

definition secret_key :: "string gomap \<Rightarrow> string \<Rightarrow> string \<Rightarrow> string \<Rightarrow> error + string option" where
  "secret_key data key ns secretName =
     (if key = '''' then Inr None
      else case map_of data key of None \<Rightarrow> Inl (missing_key key ns secretName) | Some v \<Rightarrow> Inr (Some v))"

definition fill_creds :: "Credentials \<Rightarrow> string gomap \<Rightarrow> string \<Rightarrow> string \<Rightarrow> string \<Rightarrow> string \<Rightarrow> string \<Rightarrow> string \<Rightarrow> error + Credentials" where
  "fill_creds creds data passwordKey caCertKey tlsKeyKey tlsCrtKey ns secretName =
     (let creds = creds\<lparr>cr_Password := map_of data (Nvl passwordKey ''password'')\<rparr> in
      case secret_key data caCertKey ns secretName of Inl err \<Rightarrow> Inl err
      | Inr ca \<Rightarrow>
        (case secret_key data tlsKeyKey ns secretName of Inl err \<Rightarrow> Inl err
         | Inr key \<Rightarrow>
           (case secret_key data tlsCrtKey ns secretName of Inl err \<Rightarrow> Inl err
            | Inr crt \<Rightarrow> Inr (creds\<lparr>cr_CaCert := ca, cr_TlsKey := key, cr_TlsCrt := crt\<rparr>))))"

definition GetDbServerSecrets :: "env \<Rightarrow> DbServer \<Rightarrow> (error + Secret \<times> Credentials) go" where
  "GetDbServerSecrets E dbServer =
     (let secretName = \<lparr>nn_Namespace = m_Namespace (srv_meta dbServer), nn_Name = srv_SecretName (srv_Spec dbServer)\<rparr>;
          creds = \<lparr>cr_UserName = srv_UserName (srv_Spec dbServer), cr_Password = None, cr_CaCert = None, cr_TlsCrt = None,
                   cr_TlsKey = None, cr_SourceSecret = Some secretName\<rparr>
      in try_io (GetSecret E secretName)
           (\<lambda>err. ret (Inl (Err (''failed to get secret: '' @ srv_SecretName (srv_Spec dbServer) @ '' '' @ error_msg err))))
           (\<lambda>secret. ret (Inr (secret, creds))))"

definition GetCredentials :: "env \<Rightarrow> DbServer \<Rightarrow> (error + Credentials) go" where
  "GetCredentials E dbServer =
     (let spec = srv_Spec dbServer in
      try_io (GetDbServerSecrets E dbServer) (\<lambda>err. ret (Inl err)) (\<lambda>(secret, creds).
        ret (fill_creds creds (sec_Data secret) (srv_PasswordKey spec) (srv_CaCertKey spec) (srv_TlsKeyKey spec) (srv_TlsCrtKey spec)
          (m_Namespace (srv_meta dbServer)) (srv_SecretName spec))))"

definition empty_secret_name :: error where
  "empty_secret_name = Err ''SecretName is not allowed to be empty if one of these is set: password_key, ca_cert_key, tls_cert_key, tls_key_key''"

text \<open>The result \<open>Inr None\<close> is the nil pointer of a user without a Secret.\<close>

definition GetUserCredentials :: "env \<Rightarrow> User \<Rightarrow> (error + Credentials option) go" where
  "GetUserCredentials E dbUser =
     (let spec = usr_Spec dbUser; ns = m_Namespace (usr_meta dbUser) in
      if usr_SecretName spec = '''' then
        (if usr_PasswordKey spec \<noteq> '''' \<or> usr_TlsCrtKey spec \<noteq> '''' \<or> usr_TlsKeyKey spec \<noteq> '''' \<or> usr_CaCertKey spec \<noteq> ''''
         then ret (Inl empty_secret_name) else ret (Inr None))
      else
        try_io (GetSecret E \<lparr>nn_Namespace = ns, nn_Name = usr_SecretName spec\<rparr>)
          (\<lambda>err. ret (Inl (Err (''failed to get secret: '' @ usr_SecretName spec))))
          (\<lambda>secret.
             let creds = \<lparr>cr_UserName = usr_UserName spec, cr_Password = None, cr_CaCert = None, cr_TlsCrt = None,
                          cr_TlsKey = None, cr_SourceSecret = None\<rparr>
             in ret (case fill_creds creds (sec_Data secret) (usr_PasswordKey spec) (usr_CaCertKey spec) (usr_TlsKeyKey spec)
                       (usr_TlsCrtKey spec) ns (usr_SecretName spec) of
                  Inl err \<Rightarrow> Inl err | Inr creds \<Rightarrow> Inr (Some creds))))"

definition GetCredentialsForUser :: "env \<Rightarrow> string \<Rightarrow> string \<Rightarrow> (error + Credentials option) go" where
  "GetCredentialsForUser E namespace userName =
     (let userNsm = \<lparr>nn_Namespace = namespace, nn_Name = userName\<rparr> in
      try_io (call (K8sGet K_User userNsm) (\<lambda>h. get_User_cr E h userNsm)) (\<lambda>err. ret (Inl err)) (\<lambda>user. GetUserCredentials E user))"

definition GetConnectInfo :: "env \<Rightarrow> DbServer \<Rightarrow> string option \<Rightarrow> (error + DbServerConnectInfo) go" where
  "GetConnectInfo E dbServer databaseName =
     try_io (GetCredentials E dbServer) (\<lambda>err. ret (Inl err)) (\<lambda>credentials.
       ret (Inr \<lparr>ci_Host = srv_Address (srv_Spec dbServer), ci_Port = srv_Port (srv_Spec dbServer), ci_Credentials = credentials,
                 ci_Database = (case databaseName of None \<Rightarrow> '''' | Some d \<Rightarrow> d),
                 ci_Options = srv_Options (srv_Spec dbServer)\<rparr>))"

definition GetDbConnection_reco :: "env \<Rightarrow> NamespacedName \<Rightarrow> DbServer \<Rightarrow> string list \<Rightarrow> string option \<Rightarrow> (error + DbServerConnection) go" where
  "GetDbConnection_reco E nsnm dbServer grantorNames databaseName =
     try_io (GetConnectInfo E dbServer databaseName) (\<lambda>err. ret (Inl err)) (\<lambda>connectInfo.
       try_io (for_io grantorNames (\<lambda>userName userCredentials.
                 try_io (GetCredentialsForUser E (nn_Namespace nsnm) userName) (\<lambda>err. ret (Inl err))
                   (\<lambda>credentials. ret (Inr (AList.update userName credentials userCredentials)))) [])
         (\<lambda>err. ret (Inl err))
         (\<lambda>userCredentials. ret (GetServerConnection (srv_ServerType (srv_Spec dbServer)) connectInfo userCredentials)))"

definition GetDbServerFromDbName :: "env \<Rightarrow> NamespacedName \<Rightarrow> string \<Rightarrow> (error + Db \<times> DbServer) go" where
  "GetDbServerFromDbName E nsnm dbName =
     try_io (GetDb E nsnm dbName) (\<lambda>err. ret (Inl err)) (\<lambda>db.
       try_io (GetDbServer E (db_Server (db_Spec db)) (nn_Namespace nsnm)) (\<lambda>err. ret (Inl err)) (\<lambda>dbServer.
         ret (Inr (db, dbServer))))"

definition GetServerActionsFromDbName :: "env \<Rightarrow> NamespacedName \<Rightarrow> string \<Rightarrow> (error + DbActions) go" where
  "GetServerActionsFromDbName E nsnm dbName =
     try_io (GetDbServerFromDbName E nsnm dbName) (\<lambda>err. ret (Inl err)) (\<lambda>(db, dbServer).
       ret (GetServerActions dbServer db (srv_Options (srv_Spec dbServer))))"

subsection \<open>Jobs and scripts\<close>

definition controlled :: "string gomap" where
  "controlled = [(''controlledBy'', ''DbOperator'')]"

definition pod_spec :: "Container list \<Rightarrow> Container \<Rightarrow> string \<Rightarrow> PodSpec" where
  "pod_spec initContainers container serviceAccount =
     \<lparr>pod_InitContainers = initContainers, pod_Containers = [container], pod_RestartPolicy = ''Never'',
      pod_ServiceAccountName = serviceAccount, pod_Volumes = GetVolumes\<rparr>"

text \<open>The zero time, the first of January of the year 1, in nanoseconds since 1970.\<close>

definition zero_time :: int where
  "zero_time = -62135596800000000000"

definition new_meta :: "string \<Rightarrow> string \<Rightarrow> string gomap \<Rightarrow> ObjectMeta" where
  "new_meta name namespace labels =
     \<lparr>m_Name = name, m_Namespace = namespace, m_CreationTimestamp = zero_time, m_DeletionTimestamp = None,
      m_Finalizers = [], m_Labels = labels\<rparr>"

definition BuildJob :: "NamespacedName \<Rightarrow> Container list \<Rightarrow> Container \<Rightarrow> string \<Rightarrow> string \<Rightarrow> Job" where
  "BuildJob nsnm initContainers container jobName serviceAccount =
     \<lparr>job_meta = new_meta jobName (nn_Namespace nsnm) controlled, job_Template = pod_spec initContainers container serviceAccount\<rparr>"

definition BuildCronJob :: "NamespacedName \<Rightarrow> Container list \<Rightarrow> Container \<Rightarrow> string \<Rightarrow> string \<Rightarrow> bool \<Rightarrow> string \<Rightarrow> CronJob" where
  "BuildCronJob nsnm initContainers container jobName schedule suspend serviceAccount =
     \<lparr>cj_meta = new_meta jobName (nn_Namespace nsnm) controlled, cj_Template = pod_spec initContainers container serviceAccount,
      cj_Schedule = schedule, cj_Suspend = suspend\<rparr>"

text \<open>
  Two Go maps are equal when they have the same entries.  The error of the deletion is not
  looked at, and an error of the creation is only logged.
\<close>

definition EnsureScripts :: "env \<Rightarrow> NamespacedName \<Rightarrow> error option go" where
  "EnsureScripts E nsnm =
     (let nsName = \<lparr>nn_Namespace = nn_Namespace nsnm, nn_Name = SCRIPTS_CONFIGMAP\<rparr>;
          fresh = \<lparr>cm_meta = new_meta SCRIPTS_CONFIGMAP (nn_Namespace nsnm) [], cm_Data = SCRIPTS_MAP\<rparr>;
          create = bind_io (call (K8sCreate (O_ConfigMap fresh)) (\<lambda>h. k8s_create E h (O_ConfigMap fresh))) (\<lambda>_. ret None)
      in bind_io (call (K8sGet K_ConfigMap nsName) (\<lambda>h. get_ConfigMap E h nsName)) (\<lambda>r. case r of
           Inl err \<Rightarrow> if IsCannotFindError err then create else ret (Some err)
         | Inr cm \<Rightarrow>
             if set (cm_Data cm) = set SCRIPTS_MAP then ret None
             else bind_io (call (K8sDelete K_ConfigMap nsName) (\<lambda>h. k8s_delete E h K_ConfigMap nsName)) (\<lambda>_. create)))"

text \<open>The list options ask for the namespace and the label of the operator.\<close>

definition ours :: "NamespacedName \<Rightarrow> ObjectMeta \<Rightarrow> bool" where
  "ours nsnm m = (m_Namespace m = nn_Namespace nsnm \<and> map_of (m_Labels m) ''controlledBy'' = Some ''DbOperator'')"

definition GetJobMap :: "env \<Rightarrow> NamespacedName \<Rightarrow> (error + Job gomap) go" where
  "GetJobMap E nsnm =
     try_io (call (K8sList K_Job) (list_Jobs E)) (\<lambda>err. ret (Inl err)) (\<lambda>items.
       ret (Inr (fold (\<lambda>job m. AList.update (m_Name (job_meta job)) job m) (filter (\<lambda>j. ours nsnm (job_meta j)) items) [])))"

definition GetCronJobMap :: "env \<Rightarrow> NamespacedName \<Rightarrow> (error + CronJob gomap) go" where
  "GetCronJobMap E nsnm =
     try_io (call (K8sList K_CronJob) (list_CronJobs E)) (\<lambda>err. ret (Inl err)) (\<lambda>items.
       ret (Inr (fold (\<lambda>job m. AList.update (m_Name (cj_meta job)) job m) (filter (\<lambda>j. ours nsnm (cj_meta j)) items) [])))"

subsection \<open>The loop\<close>

type_synonym 's step = "'s \<Rightarrow> ('s \<times> Result \<times> error option) go"

record 's Reconcilable =
  rc_CreateObj :: "'s step"
  rc_RemoveObj :: "'s step"
  rc_LoadCR :: "'s step"
  rc_LoadObj :: "'s \<Rightarrow> ('s \<times> (error + bool)) go"
  rc_EnsureCorrect :: "'s step"
  rc_GetCR :: "'s \<Rightarrow> k8s_obj"
  rc_PutCR :: "k8s_obj \<Rightarrow> 's \<Rightarrow> 's"
  rc_CleanupConn :: "'s \<Rightarrow> 's go"

definition DB_OPERATOR_FINALIZER :: string where
  "DB_OPERATOR_FINALIZER = ''db-operator.kubemaster.com/finalizer''"

definition ContainsFinalizer :: "k8s_obj \<Rightarrow> bool" where
  "ContainsFinalizer cr \<longleftrightarrow> List.member (m_Finalizers (obj_meta cr)) DB_OPERATOR_FINALIZER"

definition set_finalizers :: "string list \<Rightarrow> k8s_obj \<Rightarrow> k8s_obj" where
  "set_finalizers fs cr = obj_set_meta ((obj_meta cr)\<lparr>m_Finalizers := fs\<rparr>) cr"

definition AddFinalizerToCr :: "k8s_obj \<Rightarrow> k8s_obj \<times> bool" where
  "AddFinalizerToCr cr =
     (if \<not> ContainsFinalizer cr then (set_finalizers (m_Finalizers (obj_meta cr) @ [DB_OPERATOR_FINALIZER]) cr, True)
      else (cr, False))"

text \<open>
  \<^verbatim>\<open>Client.Update\<close> sends the object and, when it succeeds, overwrites it with the server's
  answer: the result has what the pointer points to afterwards.
\<close>

definition Update_cr :: "env \<Rightarrow> k8s_obj \<Rightarrow> (k8s_obj \<times> error option) go" where
  "Update_cr E cr =
     bind_io (call (K8sUpdate cr) (\<lambda>h. k8s_update E h cr)) (\<lambda>r. case r of
       Inl err \<Rightarrow> ret (cr, Some err)
     | Inr cr' \<Rightarrow> ret (cr', None))"

definition EnsureFinalizer :: "env \<Rightarrow> k8s_obj \<Rightarrow> (k8s_obj \<times> Result \<times> error option) go" where
  "EnsureFinalizer E cr =
     (let (cr, changed) = AddFinalizerToCr cr in
      if changed then bind_io (Update_cr E cr) (\<lambda>(cr, e). ret (cr, no_result, e))
      else ret (cr, no_result, None))"

definition RemoveFinalizer :: "env \<Rightarrow> k8s_obj \<Rightarrow> (k8s_obj \<times> error option) go" where
  "RemoveFinalizer E cr =
     Update_cr E (set_finalizers (filter (\<lambda>f. f \<noteq> DB_OPERATOR_FINALIZER) (m_Finalizers (obj_meta cr))) cr)"

text \<open>A call with the pointer that \<^verbatim>\<open>GetCR\<close> returned.\<close>

definition on_cr :: "'s Reconcilable \<Rightarrow> (k8s_obj \<Rightarrow> (k8s_obj \<times> 'a) go) \<Rightarrow> 's \<Rightarrow> ('s \<times> 'a) go" where
  "on_cr rcl m s = bind_io (m (rc_GetCR rcl s)) (\<lambda>(cr, x). ret (rc_PutCR rcl cr s, x))"

definition LogAndBackoffCreation :: "env \<Rightarrow> k8s_obj \<Rightarrow> (Result \<times> error option) go" where
  "LogAndBackoffCreation E ob = bind_io (GradualBackoffRetry E (m_CreationTimestamp (obj_meta ob))) (\<lambda>res. ret (res, None))"

text \<open>The deletion timestamp is a pointer.\<close>

definition deletion_backoff :: "env \<Rightarrow> k8s_obj \<Rightarrow> Result go" where
  "deletion_backoff E ob =
     (case m_DeletionTimestamp (obj_meta ob) of
        None \<Rightarrow> panic ''nil pointer dereference''
      | Some t \<Rightarrow> GradualBackoffRetry E t)"

definition LogAndBackoffDeletion :: "env \<Rightarrow> k8s_obj \<Rightarrow> (Result \<times> error option) go" where
  "LogAndBackoffDeletion E ob = bind_io (deletion_backoff E ob) (\<lambda>res. ret (res, None))"

definition markedToBeDeleted :: "k8s_obj \<Rightarrow> bool" where
  "markedToBeDeleted cr \<longleftrightarrow> m_DeletionTimestamp (obj_meta cr) \<noteq> None"

text \<open>
  The middle part of \<^verbatim>\<open>Reconcile\<close>: what is done once it is known whether the object exists
  on the server.
\<close>

definition reconcile_obj :: "env \<Rightarrow> 's Reconcilable \<Rightarrow> bool \<Rightarrow> bool \<Rightarrow> 's \<Rightarrow> ('s \<times> Result \<times> error option) go" where
  "reconcile_obj E rcl exists marked s =
     (if exists then
        (if marked then
           (if ContainsFinalizer (rc_GetCR rcl s) then
              bind_io (rc_RemoveObj rcl s) (\<lambda>(s, res, err).
                if err = None \<and> \<not> Requeue res
                then bind_io (on_cr rcl (RemoveFinalizer E) s) (\<lambda>(s, err). ret (s, res, err))
                else ret (s, res, err))
            else ret (s, no_result, None))
         else
           bind_io (rc_EnsureCorrect rcl s) (\<lambda>(s, res, err).
             if err = None \<and> \<not> Requeue res
             then bind_io (on_cr rcl (EnsureFinalizer E) s) (\<lambda>(s, res, err).
                    if err \<noteq> None then ret (s, RetryAfter 3, None) else ret (s, res, err))
             else ret (s, res, err)))
      else
        (if marked then bind_io (on_cr rcl (RemoveFinalizer E) s) (\<lambda>(s, err). ret (s, no_result, err))
         else
           bind_io (rc_CreateObj rcl s) (\<lambda>(s, res, err).
             if err = None \<and> \<not> Requeue res then on_cr rcl (EnsureFinalizer E) s else ret (s, res, err))))"

text \<open>The last part: an error that is not handled yet becomes a back-off.\<close>

definition handle_error :: "env \<Rightarrow> 's Reconcilable \<Rightarrow> bool \<Rightarrow> 's \<times> Result \<times> error option \<Rightarrow> ('s \<times> Result) go" where
  "handle_error E rcl marked out =
     (case out of (s, res, err) \<Rightarrow>
        (case err of
           Some e \<Rightarrow>
             if \<not> IsHandledErr e then
               bind_io (if marked then deletion_backoff E (rc_GetCR rcl s)
                        else GradualBackoffRetry E (m_CreationTimestamp (obj_meta (rc_GetCR rcl s)))) (\<lambda>res. ret (s, res))
             else ret (s, res)
         | None \<Rightarrow> ret (s, res)))"

definition reconcile_loaded :: "env \<Rightarrow> 's Reconcilable \<Rightarrow> 's \<Rightarrow> ('s \<times> Result) go" where
  "reconcile_loaded E rcl s =
     (let marked = markedToBeDeleted (rc_GetCR rcl s) in
      bind_io (rc_LoadObj rcl s) (\<lambda>(s, r). case r of
        Inl err \<Rightarrow>
          if CannotFindError err \<and> marked then bind_io (on_cr rcl (RemoveFinalizer E) s) (\<lambda>(s, _). ret (s, no_result))
          else bind_io (GradualBackoffRetry E (m_CreationTimestamp (obj_meta (rc_GetCR rcl s)))) (\<lambda>res. ret (s, res))
      | Inr exists \<Rightarrow> bind_io (reconcile_obj E rcl exists marked s) (handle_error E rcl marked)))"

text \<open>\<^verbatim>\<open>Reconcile\<close> never returns an error to the controller runtime, so only the result is kept.\<close>

definition Reconcile :: "env \<Rightarrow> 's Reconcilable \<Rightarrow> 's \<Rightarrow> Result go" where
  "Reconcile E rcl s =
     bind_io (rc_LoadCR rcl s) (\<lambda>(s, res, err).
       if err \<noteq> None \<or> Requeue res then ret res
       else bind_io (reconcile_loaded E rcl s) (\<lambda>(s, res).
              bind_io (rc_CleanupConn rcl s) (\<lambda>_. ret res)))"

subsection \<open>Finding the server\<close>

definition named :: "string \<Rightarrow> DbServer \<Rightarrow> bool" where
  "named n srv \<longleftrightarrow> m_Name (srv_meta srv) = n"

definition local_to :: "string \<Rightarrow> DbServer \<Rightarrow> bool" where
  "local_to ns srv \<longleftrightarrow> m_Namespace (srv_meta srv) = ns"

definition choose_server :: "string \<Rightarrow> string \<Rightarrow> DbServer list \<Rightarrow> error + DbServer" where
  "choose_server n ns items =
     (let same = filter (named n) items in
      case filter (local_to ns) same of
        srv # _ \<Rightarrow> Inr srv
      | [] \<Rightarrow>
          if same = [] then Inl not_found
          else if length same = 1 then Inr (hd same)
          else Inl (Err (''got '' @ Itoa (int (length same)) @ '' results, unable to pick'')))"

lemma pick_server_eq:
  "list_all (\<lambda>s. named n s \<and> \<not> local_to ns s) acc \<Longrightarrow>
     pick_server n ns items acc = choose_server n ns (acc @ items)"
proof (induction items arbitrary: acc)
  case Nil
  then have "filter (named n) acc = acc" "filter (local_to ns) acc = []"
    by (auto simp: filter_empty_conv list_all_iff intro!: filter_True)
  then have "choose_server n ns acc =
      (if acc = [] then Inl not_found else if length acc = 1 then Inr (hd acc)
       else Inl (Err (''got '' @ Itoa (int (length acc)) @ '' results, unable to pick'')))"
    unfolding choose_server_def Let_def by simp
  then show ?case by (auto split: list.split)
next
  case (Cons srv items)
  have keep: "filter (local_to ns) (filter (named n) acc) = []"
    using Cons.prems by (auto simp: filter_empty_conv list_all_iff)
  show ?case
  proof (cases "named n srv")
    case True
    then show ?thesis
      using Cons.IH [of "acc @ [srv]"] Cons.prems keep
      by (auto simp: choose_server_def Let_def named_def local_to_def simp del: filter_filter)
  next
    case False
    have "choose_server n ns (acc @ srv # items) = choose_server n ns (acc @ items)"
      using False by (simp add: choose_server_def)
    with False show ?thesis using Cons.IH [of acc] Cons.prems by (simp add: named_def)
  qed
qed

lemma run_GetDbServer [run]:
  "GetDbServer E n ns h =
     (Return (case get_DbServers E h of Inl err \<Rightarrow> Inl err | Inr items \<Rightarrow> choose_server n ns items), h @ [K8sList K_DbServer])"
  by (auto simp: GetDbServer_def run pick_server_eq split: sum.split)

lemma emits_GetDbServer [emits_intro]: "P (K8sList K_DbServer) \<Longrightarrow> emits P (GetDbServer E n ns)"
  unfolding GetDbServer_def by (intro emits_intro)

text \<open>A server is looked up by name: among the servers with that name the first one of the
  namespace of the caller is taken; failing that the only one of any namespace; no server with
  the name is the error \<^verbatim>\<open>NotFound\<close>, and several in other namespaces are an error that is
  not \<^verbatim>\<open>NotFound\<close>.  Listing the servers is the only call made.\<close>

theorem GetDbServer_spec:
  assumes "get_DbServers E h = Inr items"
  shows "\<exists>r. GetDbServer E n ns h = (Return r, h @ [K8sList K_DbServer]) \<and>
    (\<forall>srv. r = Inr srv \<longrightarrow> srv \<in> set items \<and> m_Name (srv_meta srv) = n) \<and>
    ((\<exists>srv\<in>set items. m_Name (srv_meta srv) = n \<and> m_Namespace (srv_meta srv) = ns) \<longrightarrow>
       (\<exists>srv. r = Inr srv \<and> m_Namespace (srv_meta srv) = ns)) \<and>
    (r = Inl not_found \<longleftrightarrow> (\<forall>srv\<in>set items. m_Name (srv_meta srv) \<noteq> n)) \<and>
    ((\<exists>err. r = Inl err \<and> \<not> IsCannotFindError err) \<longleftrightarrow>
       (\<forall>srv\<in>set items. m_Name (srv_meta srv) = n \<longrightarrow> m_Namespace (srv_meta srv) \<noteq> ns) \<and>
       2 \<le> length (filter (\<lambda>srv. m_Name (srv_meta srv) = n) items))"
proof -
  define same where "same = filter (\<lambda>srv. m_Name (srv_meta srv) = n) items"
  define here where "here = filter (\<lambda>srv. m_Namespace (srv_meta srv) = ns) same"
  have ch: "choose_server n ns items =
    (case here of srv # _ \<Rightarrow> Inr srv
     | [] \<Rightarrow> if same = [] then Inl not_found else if length same = 1 then Inr (hd same)
            else Inl (Err (''got '' @ Itoa (int (length same)) @ '' results, unable to pick'')))"
    unfolding choose_server_def Let_def named_def [abs_def] local_to_def [abs_def] same_def here_def ..
  have in_same: "srv \<in> set items \<and> m_Name (srv_meta srv) = n \<longleftrightarrow> srv \<in> set same" for srv
    by (auto simp: same_def)
  have in_here: "srv \<in> set same \<and> m_Namespace (srv_meta srv) = ns \<longleftrightarrow> srv \<in> set here" for srv
    by (auto simp: here_def)
  have none: "(\<forall>srv\<in>set items. m_Name (srv_meta srv) \<noteq> n) \<longleftrightarrow> same = []"
    by (auto simp: same_def filter_empty_conv)
  have nohere: "(\<forall>srv\<in>set items. m_Name (srv_meta srv) = n \<longrightarrow> m_Namespace (srv_meta srv) \<noteq> ns) \<longleftrightarrow> here = []"
    by (auto simp: same_def here_def filter_empty_conv)
  have here_same: "here = [] \<or> same \<noteq> []" by (auto simp: here_def)
  have len: "same \<noteq> [] \<Longrightarrow> length same \<noteq> 1 \<Longrightarrow> 2 \<le> length same" by (cases same; cases "tl same") auto
  show ?thesis
    unfolding run_GetDbServer assms sum.case ch none nohere same_def [symmetric]
    using here_same in_same in_here len
    by (cases here) (auto simp: not_found_def IsCannotFindError_def dest: hd_in_set intro: exI)
qed

definition demo_server :: "string \<Rightarrow> DbServer" where
  "demo_server ns =
     \<lparr>srv_meta = new_meta ''srv'' ns [],
      srv_Spec = \<lparr>srv_Address = ''h'', srv_Port = 5432, srv_UserName = ''root'', srv_SecretName = ''s'', srv_PasswordKey = '''',
        srv_CaCertKey = '''', srv_TlsCrtKey = '''', srv_TlsKeyKey = '''', srv_Version = ''15'', srv_ServerType = ''postgres'', srv_Options = []\<rparr>,
      srv_Status = \<lparr>srv_ConnectionAvailable = False, srv_Databases = None, srv_Users = None, srv_Message = ''''\<rparr>\<rparr>"

theorem GetDbServer_spec_witness:
  "\<exists>r. GetDbServer (null_env\<lparr>get_DbServers := \<lambda>_. Inr [demo_server ''a'', demo_server ''b'']\<rparr>) ''srv'' ''b'' [] =
     (Return r, [K8sList K_DbServer]) \<and> (\<exists>srv. r = Inr srv \<and> m_Namespace (srv_meta srv) = ''b'')"
  using GetDbServer_spec [of "null_env\<lparr>get_DbServers := \<lambda>_. Inr [demo_server ''a'', demo_server ''b'']\<rparr>" "[]"
      "[demo_server ''a'', demo_server ''b'']" "''srv''" "''b''"]
  by (auto simp: demo_server_def new_meta_def)

subsection \<open>Reading credentials\<close>

lemma secret_key_Inr: "secret_key data key ns sn = Inr v \<longleftrightarrow> (if key = '''' then v = None else v \<noteq> None \<and> map_of data key = v)"
  by (auto simp: secret_key_def split: option.splits)

text \<open>When the credentials of a server are read, the password is the entry of the Secret under
  the configured key, \<^verbatim>\<open>password\<close> by default, and may be missing; each certificate key
  that is configured must be in the Secret, and its entry is used; the credentials remember
  the Secret they come from.  Only that Secret, in the namespace of the server, is read.\<close>

theorem GetCredentials_reads_secret:
  assumes "GetCredentials E srv h = (Return (Inr creds), h')"
  shows "\<exists>secret. get_Secret E h \<lparr>nn_Namespace = m_Namespace (srv_meta srv), nn_Name = srv_SecretName (srv_Spec srv)\<rparr> = Inr secret \<and>
     h' = h @ [K8sGet K_Secret \<lparr>nn_Namespace = m_Namespace (srv_meta srv), nn_Name = srv_SecretName (srv_Spec srv)\<rparr>] \<and>
     cr_UserName creds = srv_UserName (srv_Spec srv) \<and>
     cr_SourceSecret creds = Some \<lparr>nn_Namespace = m_Namespace (srv_meta srv), nn_Name = srv_SecretName (srv_Spec srv)\<rparr> \<and>
     cr_Password creds = map_of (sec_Data secret)
       (if srv_PasswordKey (srv_Spec srv) = '''' then ''password'' else srv_PasswordKey (srv_Spec srv)) \<and>
     (\<forall>(key, v) \<in> {(srv_CaCertKey (srv_Spec srv), cr_CaCert creds), (srv_TlsKeyKey (srv_Spec srv), cr_TlsKey creds),
          (srv_TlsCrtKey (srv_Spec srv), cr_TlsCrt creds)}.
        if key = '''' then v = None else v \<noteq> None \<and> map_of (sec_Data secret) key = v)"
  using assms
  by (simp add: GetCredentials_def GetDbServerSecrets_def fill_creds_def run Let_def secret_key_Inr Nvl_def
      split: sum.splits if_splits) (auto simp: secret_key_Inr)

lemma demo_credentials:
  "GetCredentials (secret_env ''x'') ((demo_server ''ns'')\<lparr>srv_Spec := (srv_Spec (demo_server ''ns''))\<lparr>srv_CaCertKey := ''k''\<rparr>\<rparr>) [] =
     (Return (Inr \<lparr>cr_UserName = ''root'', cr_Password = None, cr_CaCert = Some ''x'', cr_TlsCrt = None, cr_TlsKey = None,
        cr_SourceSecret = Some \<lparr>nn_Namespace = ''ns'', nn_Name = ''s''\<rparr>\<rparr>),
      [K8sGet K_Secret \<lparr>nn_Namespace = ''ns'', nn_Name = ''s''\<rparr>])"
  by (simp add: GetCredentials_def GetDbServerSecrets_def fill_creds_def run Let_def secret_key_def Nvl_def demo_server_def new_meta_def secret_env_def)

theorem GetCredentials_reads_secret_witness:
  "\<exists>secret. get_Secret (secret_env ''x'') [] \<lparr>nn_Namespace = ''ns'', nn_Name = ''s''\<rparr> = Inr secret \<and> map_of (sec_Data secret) ''k'' = Some ''x''"
  using GetCredentials_reads_secret [OF demo_credentials] by (auto simp: demo_server_def new_meta_def)

subsection \<open>What the loop promises\<close>

text \<open>
  The contract of a controller object: its operations send no update of a resource that would
  release it unless it is marked for deletion, and \<^verbatim>\<open>RemoveObj\<close> sends none at all; none of them
  takes the mark of deletion away, and a store through \<^verbatim>\<open>GetCR\<close> is read back.
\<close>

fun is_update :: "event \<Rightarrow> bool" where
  "is_update (K8sUpdate _) = True"
| "is_update _ = False"

definition protects :: "event \<Rightarrow> bool" where
  "protects ev \<longleftrightarrow> (\<forall>ob. ev = K8sUpdate ob \<longrightarrow> ContainsFinalizer ob \<or> markedToBeDeleted ob)"

lemma no_update_protects: "\<not> is_update ev \<Longrightarrow> protects ev"
  by (cases ev) (auto simp: protects_def)

lemma emits_protects: "emits (\<lambda>ev. \<not> is_update ev) m \<Longrightarrow> emits protects m"
  by (erule emits_mono) (rule no_update_protects)

lemma obj_meta_set_finalizers [simp]: "obj_meta (set_finalizers fs cr) = (obj_meta cr)\<lparr>m_Finalizers := fs\<rparr>"
  by (simp add: set_finalizers_def)

lemma marked_set_finalizers [simp]: "markedToBeDeleted (set_finalizers fs cr) \<longleftrightarrow> markedToBeDeleted cr"
  by (simp add: markedToBeDeleted_def)

lemma ContainsFinalizer_set [simp]: "ContainsFinalizer (set_finalizers fs cr) \<longleftrightarrow> DB_OPERATOR_FINALIZER \<in> set fs"
  by (simp add: ContainsFinalizer_def)

lemma emits_Update_cr [emits_intro]: "P (K8sUpdate cr) \<Longrightarrow> emits P (Update_cr E cr)"
  unfolding Update_cr_def by (intro emits_intro)

lemma emits_on_cr [emits_intro]: "emits P (m (rc_GetCR rcl s)) \<Longrightarrow> emits P (on_cr rcl m s)"
  unfolding on_cr_def by (intro emits_intro)

lemma emits_EnsureFinalizer: "emits protects (EnsureFinalizer E cr)"
  by (auto simp: EnsureFinalizer_def AddFinalizerToCr_def protects_def intro!: emits_intro)

lemma emits_RemoveFinalizer: "markedToBeDeleted cr \<Longrightarrow> emits protects (RemoveFinalizer E cr)"
  by (auto simp: RemoveFinalizer_def protects_def intro!: emits_intro)

lemma emits_handle_error [emits_intro]: "emits P (handle_error E rcl marked out)"
  by (auto simp: handle_error_def deletion_backoff_def intro!: emits_intro)

locale reconcilable =
  fixes rcl :: "'s Reconcilable"
  assumes load_cr_protects: "emits protects (rc_LoadCR rcl s)"
    and load_obj_protects: "emits protects (rc_LoadObj rcl s)"
    and create_protects: "emits protects (rc_CreateObj rcl s)"
    and remove_no_update: "emits (\<lambda>ev. \<not> is_update ev) (rc_RemoveObj rcl s)"
    and ensure_protects: "emits protects (rc_EnsureCorrect rcl s)"
    and cleanup_protects: "emits protects (rc_CleanupConn rcl s)"
    and load_obj_marked: "rc_LoadObj rcl s h = (Return (s', r), h') \<Longrightarrow> markedToBeDeleted (rc_GetCR rcl s) \<Longrightarrow> markedToBeDeleted (rc_GetCR rcl s')"
    and remove_marked: "rc_RemoveObj rcl s h = (Return (s', res, err), h') \<Longrightarrow> markedToBeDeleted (rc_GetCR rcl s) \<Longrightarrow> markedToBeDeleted (rc_GetCR rcl s')"
    and put_get: "rc_GetCR rcl (rc_PutCR rcl (set_finalizers fs (rc_GetCR rcl s)) s) = set_finalizers fs (rc_GetCR rcl s)"
begin

lemma reconcile_obj_protects:
  assumes "marked \<Longrightarrow> markedToBeDeleted (rc_GetCR rcl s)"
  shows "emits protects (reconcile_obj E rcl exists marked s)"
proof -
  have rm: "emits protects (bind_io (rc_RemoveObj rcl s) (\<lambda>(s, res, err).
      if err = None \<and> \<not> Requeue res then bind_io (on_cr rcl (RemoveFinalizer E) s) (\<lambda>(s, err). ret (s, res, err)) else ret (s, res, err)))"
    if marked
    using assms that
    by (auto intro!: emits_bind_run [OF emits_protects [OF remove_no_update]] emits_intro emits_RemoveFinalizer dest: remove_marked)
  show ?thesis
    using assms
    by (auto simp: reconcile_obj_def intro!: emits_intro rm emits_RemoveFinalizer emits_EnsureFinalizer
        ensure_protects create_protects)
qed

lemma reconcile_loaded_protects: "emits protects (reconcile_loaded E rcl s)"
  unfolding reconcile_loaded_def Let_def
  by (rule emits_bind_run [OF load_obj_protects])
    (auto intro!: emits_intro reconcile_obj_protects emits_RemoveFinalizer dest: load_obj_marked)

lemma Reconcile_protects: "emits protects (Reconcile E rcl s)"
  unfolding Reconcile_def
  by (intro emits_intro load_cr_protects reconcile_loaded_protects cleanup_protects)

lemma release_after_removal:
  assumes eq: "reconcile_obj E rcl True True s h = (r, h @ es)"
    and upd: "K8sUpdate ob \<in> set es"
  shows "\<exists>s' res h'. rc_RemoveObj rcl s h = (Return (s', res, None), h') \<and> \<not> Requeue res"
proof (cases "ContainsFinalizer (rc_GetCR rcl s)")
  case False
  with eq upd show ?thesis by (auto simp: reconcile_obj_def run)
next
  case True
  obtain q h1 where q: "rc_RemoveObj rcl s h = (q, h1)" by fastforce
  obtain es1 where es1: "h1 = h @ es1" "list_all (\<lambda>ev. \<not> is_update ev) es1"
    using remove_no_update q by (rule emitsD)
  have noupd: False if "es = es1"
    using es1(2) upd that by (auto simp: list_all_iff)
  show ?thesis
  proof (cases q)
    case (Return x)
    obtain s' res err where x: "x = (s', res, err)" by (cases x) auto
    show ?thesis
    proof (cases "err = None \<and> \<not> Requeue res")
      case True
      then show ?thesis using q Return x by auto
    next
      case False
      then show ?thesis using eq True q Return x es1 noupd by (auto simp: reconcile_obj_def run_bind run_ret)
    qed
  next
    case (Panic m)
    then show ?thesis using eq True q es1 noupd by (auto simp: reconcile_obj_def run_bind)
  qed
qed

lemma removal_marked:
  assumes "markedToBeDeleted (rc_GetCR rcl s)" "on_cr rcl (RemoveFinalizer E) s h = (Return (s', Some e), h')"
  shows "markedToBeDeleted (rc_GetCR rcl s')"
  using assms by (auto simp: on_cr_def RemoveFinalizer_def Update_cr_def put_get run split: sum.splits)

lemma reconcile_obj_marked:
  assumes "marked \<Longrightarrow> markedToBeDeleted (rc_GetCR rcl s)" "reconcile_obj E rcl exists marked s h = (Return (s', res, Some e), h')" marked
  shows "markedToBeDeleted (rc_GetCR rcl s')"
  using assms
  by (auto simp: reconcile_obj_def run split: if_splits prod.splits outcome.splits dest: remove_marked removal_marked)

lemma unhandled_backs_off:
  assumes load: "rc_LoadObj rcl s h = (Return (s1, Inr exists), h1)"
    and obj: "reconcile_obj E rcl exists (markedToBeDeleted (rc_GetCR rcl s)) s1 h1 = (Return (s2, res, Some e), h2)"
    and e: "\<not> IsHandledErr e"
  shows "\<exists>t. reconcile_loaded E rcl s h = (Return (s2, backoff_result E t h2), h2)"
proof -
  have "markedToBeDeleted (rc_GetCR rcl s) \<Longrightarrow> \<exists>t. m_DeletionTimestamp (obj_meta (rc_GetCR rcl s2)) = Some t"
    using reconcile_obj_marked [OF _ obj] load_obj_marked [OF load] by (auto simp: markedToBeDeleted_def)
  then show ?thesis
    using load obj e
    by (auto simp: reconcile_loaded_def handle_error_def deletion_backoff_def Let_def run) (rule exI, rule refl)
qed

end

subsection \<open>What reading sends\<close>

lemma emits_GetCredentials: "(\<And>n. P (K8sGet K_Secret n)) \<Longrightarrow> emits P (GetCredentials E srv)"
  unfolding GetCredentials_def GetDbServerSecrets_def Let_def by (intro emits_intro)

lemma emits_GetUserCredentials: "(\<And>n. P (K8sGet K_Secret n)) \<Longrightarrow> emits P (GetUserCredentials E u)"
  unfolding GetUserCredentials_def Let_def by (intro emits_intro)

lemma emits_GetDbConnection_reco: "(\<And>k n. P (K8sGet k n)) \<Longrightarrow> emits P (GetDbConnection_reco E nsnm srv grantors d)"
  unfolding GetDbConnection_reco_def GetConnectInfo_def GetCredentialsForUser_def Let_def
  by (intro emits_intro emits_GetCredentials emits_GetUserCredentials)

subsection \<open>What a whole reconciliation sends\<close>

text \<open>
  A predicate on events holds of the whole loop if it holds of the operations in the states
  they are called in: \<open>I b s\<close> is known after loading, \<open>b\<close> telling whether the resource was
  marked for deletion then.
\<close>

lemma emits_RemoveFinalizer_any: "(\<And>ob. P (K8sUpdate ob)) \<Longrightarrow> emits P (RemoveFinalizer E cr)"
  unfolding RemoveFinalizer_def by (intro emits_intro)

lemma emits_EnsureFinalizer_any: "(\<And>ob. P (K8sUpdate ob)) \<Longrightarrow> emits P (EnsureFinalizer E cr)"
  unfolding EnsureFinalizer_def by (auto intro!: emits_intro)

lemma emits_reconcile_branch:
  assumes "b \<Longrightarrow> exists \<Longrightarrow> emits P (rc_RemoveObj rcl s)" "\<not> b \<Longrightarrow> \<not> exists \<Longrightarrow> emits P (rc_CreateObj rcl s)"
    and "\<not> b \<Longrightarrow> exists \<Longrightarrow> emits P (rc_EnsureCorrect rcl s)" "\<And>ob. P (K8sUpdate ob)"
  shows "emits P (reconcile_obj E rcl exists b s)"
  unfolding reconcile_obj_def
  by (intro emits_intro emits_RemoveFinalizer_any emits_EnsureFinalizer_any assms)

lemma emits_Reconcile_branch:
  assumes cr: "emits P (rc_LoadCR rcl s0)"
    and loaded: "\<And>h s res h'. rc_LoadCR rcl s0 h = (Return (s, res, None), h') \<Longrightarrow> \<not> Requeue res \<Longrightarrow> I (markedToBeDeleted (rc_GetCR rcl s)) s"
    and obj: "\<And>b s. I b s \<Longrightarrow> emits P (rc_LoadObj rcl s)"
    and kept: "\<And>b s h s' x h'. I b s \<Longrightarrow> rc_LoadObj rcl s h = (Return (s', Inr x), h') \<Longrightarrow> J b x s'"
    and remove: "\<And>s. J True True s \<Longrightarrow> emits P (rc_RemoveObj rcl s)"
    and create: "\<And>s. J False False s \<Longrightarrow> emits P (rc_CreateObj rcl s)"
    and ensure: "\<And>s. J False True s \<Longrightarrow> emits P (rc_EnsureCorrect rcl s)"
    and update: "\<And>ob. P (K8sUpdate ob)"
    and clean: "\<And>s. emits P (rc_CleanupConn rcl s)"
  shows "emits P (Reconcile E rcl s0)"
proof -
  have "emits P (reconcile_loaded E rcl s)" if I: "I (markedToBeDeleted (rc_GetCR rcl s)) s" for s
    unfolding reconcile_loaded_def Let_def
    by (rule emits_bind_run [OF obj [OF I]])
      (auto intro!: emits_intro emits_reconcile_branch emits_RemoveFinalizer_any update remove create ensure
        dest!: kept [OF I] split: sum.split)
  then show ?thesis
    unfolding Reconcile_def
    by (intro emits_bind_run [OF cr]) (auto intro!: emits_intro clean dest!: loaded)
qed

lemma emits_Reconcile:
  assumes cr: "emits P (rc_LoadCR rcl s0)"
    and loaded: "\<And>h s res h'. rc_LoadCR rcl s0 h = (Return (s, res, None), h') \<Longrightarrow> \<not> Requeue res \<Longrightarrow> I (markedToBeDeleted (rc_GetCR rcl s)) s"
    and obj: "\<And>b s. I b s \<Longrightarrow> emits P (rc_LoadObj rcl s)"
    and kept: "\<And>b s h s' x h'. I b s \<Longrightarrow> rc_LoadObj rcl s h = (Return (s', x), h') \<Longrightarrow> I b s'"
    and remove: "\<And>s. I True s \<Longrightarrow> emits P (rc_RemoveObj rcl s)"
    and create: "\<And>s. I False s \<Longrightarrow> emits P (rc_CreateObj rcl s)"
    and ensure: "\<And>s. I False s \<Longrightarrow> emits P (rc_EnsureCorrect rcl s)"
    and update: "\<And>ob. P (K8sUpdate ob)"
    and clean: "\<And>s. emits P (rc_CleanupConn rcl s)"
  shows "emits P (Reconcile E rcl s0)"
  by (rule emits_Reconcile_branch [where I = I and J = "\<lambda>b _ s. I b s"]) (fact assms | erule kept, assumption)+

end
