(* ===== verification/DbController.thy ===== *)
theory DbController
  imports Reco
begin

section \<open>The controller of databases\<close>

text \<open>
  \<^verbatim>\<open>controllers/db_controller.go\<close>.  The record \<open>DbReco\<close> is the controller object: the name it
  was asked to reconcile, the resource, the databases of the server and the connection,
  \<^const>\<open>None\<close> while it is nil.
\<close>

record DbReco =
  dr_NsNm :: NamespacedName
  dr_db :: Db
  dr_dbs :: "DbSideDb gomap"
  dr_conn :: "DbServerConnection option"

text \<open>\<^verbatim>\<open>GetCR\<close> is a pointer to the resource: it is read and written through.\<close>

definition GetCR_db :: "DbReco \<Rightarrow> k8s_obj" where
  "GetCR_db r = O_Db (dr_db r)"

definition PutCR_db :: "k8s_obj \<Rightarrow> DbReco \<Rightarrow> DbReco" where
  "PutCR_db ob r = (case ob of O_Db db \<Rightarrow> r\<lparr>dr_db := db\<rparr> | _ \<Rightarrow> r)"

definition LoadCR_db :: "env \<Rightarrow> DbReco \<Rightarrow> (DbReco \<times> Result \<times> error option) go" where
  "LoadCR_db E r =
     bind_io (call (K8sGet K_Db (dr_NsNm r)) (\<lambda>h. get_Db_cr E h (dr_NsNm r))) (\<lambda>x. case x of
       Inl err \<Rightarrow> bind_io (LogAndBackoffCreation E (GetCR_db r)) (\<lambda>(res, e). ret (r, res, e))
     | Inr db \<Rightarrow> ret (r\<lparr>dr_db := db\<rparr>, no_result, None))"

definition LoadObj_db :: "env \<Rightarrow> DbReco \<Rightarrow> (DbReco \<times> (error + bool)) go" where
  "LoadObj_db E r =
     try_io (GetDbServer E (db_Server (db_Spec (dr_db r))) (nn_Namespace (dr_NsNm r)))
       (\<lambda>err. if \<not> CannotFindError err then ret (r, Inl err) else ret (r, Inr False))
       (\<lambda>dbServer.
          try_io (GetDbConnection_reco E (dr_NsNm r) dbServer [] None) (\<lambda>err. ret (r, Inl err)) (\<lambda>conn.
            bind_io (conn_GetDbs E conn) (\<lambda>(conn, x).
              let r = r\<lparr>dr_conn := Some conn\<rparr> in
              case x of
                Inl err \<Rightarrow> ret (r, Inl err)
              | Inr dbs \<Rightarrow> ret (r\<lparr>dr_dbs := dbs\<rparr>, Inr (map_of dbs (db_DbName (db_Spec (dr_db r))) \<noteq> None)))))"

definition NotifyChanges_db :: "env \<Rightarrow> DbReco \<Rightarrow> unit go" where
  "NotifyChanges_db E r =
     try_io (GetDbServer E (db_Server (db_Spec (dr_db r))) (m_Namespace (db_meta (dr_db r)))) (\<lambda>err. ret ()) (\<lambda>dbServer.
       TriggerDbServerReconcile (Some dbServer))"

text \<open>A failing statement after the creation is logged and not run again.\<close>

definition CreateObj_db :: "env \<Rightarrow> DbReco \<Rightarrow> (DbReco \<times> Result \<times> error option) go" where
  "CreateObj_db E r =
     (let spec = db_Spec (dr_db r) in
      case dr_conn r of
        None \<Rightarrow> bind_io (LogAndBackoffCreation E (GetCR_db r)) (\<lambda>(res, e). ret (r, res, e))
      | Some conn \<Rightarrow>
          bind_io (conn_CreateDb E conn (db_DbName spec)) (\<lambda>(conn, err).
            let r = r\<lparr>dr_conn := Some conn\<rparr> in
            if err \<noteq> None then
              bind_io (GradualBackoffRetry E (m_CreationTimestamp (db_meta (dr_db r)))) (\<lambda>res. ret (r, res, None))
            else
              bind_io (NotifyChanges_db E r) (\<lambda>_.
                if db_AfterCreateSQL spec \<noteq> '''' then
                  bind_io (conn_Execute E conn (db_AfterCreateSQL spec) None) (\<lambda>(conn, err).
                    ret (r\<lparr>dr_conn := Some conn\<rparr>, no_result, None))
                else ret (r, no_result, None))))"

definition RemoveObj_db :: "env \<Rightarrow> DbReco \<Rightarrow> (DbReco \<times> Result \<times> error option) go" where
  "RemoveObj_db E r =
     (let spec = db_Spec (dr_db r) in
      if db_DropOnDeletion spec then
        (case dr_conn r of
           None \<Rightarrow> panic ''nil pointer dereference''
         | Some conn \<Rightarrow>
             bind_io (conn_DropDb E conn (db_DbName spec) (db_CascadeOnDrop spec)) (\<lambda>(conn, err).
               let r = r\<lparr>dr_conn := Some conn\<rparr> in
               if err \<noteq> None then bind_io (LogAndBackoffDeletion E (GetCR_db r)) (\<lambda>(res, e). ret (r, res, e))
               else bind_io (NotifyChanges_db E r) (\<lambda>_. ret (r, no_result, None))))
      else bind_io (NotifyChanges_db E r) (\<lambda>_. ret (r, no_result, None)))"

definition EnsureCorrect_db :: "DbReco \<Rightarrow> (DbReco \<times> Result \<times> error option) go" where
  "EnsureCorrect_db r = ret (r, no_result, None)"

definition CleanupConn_db :: "env \<Rightarrow> DbReco \<Rightarrow> DbReco go" where
  "CleanupConn_db E r =
     (case dr_conn r of
        None \<Rightarrow> ret r
      | Some conn \<Rightarrow> bind_io (conn_Close E conn) (\<lambda>(conn, _). ret (r\<lparr>dr_conn := Some conn\<rparr>)))"

definition db_rcl :: "env \<Rightarrow> DbReco Reconcilable" where
  "db_rcl E =
     \<lparr>rc_CreateObj = CreateObj_db E, rc_RemoveObj = RemoveObj_db E, rc_LoadCR = LoadCR_db E, rc_LoadObj = LoadObj_db E,
      rc_EnsureCorrect = EnsureCorrect_db, rc_GetCR = GetCR_db, rc_PutCR = PutCR_db, rc_CleanupConn = CleanupConn_db E\<rparr>"

text \<open>The zero value of a resource, as \<^verbatim>\<open>DbReco\<close> starts with.\<close>

definition zero_db :: Db where
  "zero_db =
     \<lparr>db_meta = new_meta '''' '''' [],
      db_Spec = \<lparr>db_Server = '''', db_DbName = '''', db_DropOnDeletion = False, db_CascadeOnDrop = False, db_AfterCreateSQL = ''''\<rparr>\<rparr>"

definition Reconcile_db :: "env \<Rightarrow> NamespacedName \<Rightarrow> Result go" where
  "Reconcile_db E req = Reconcile E (db_rcl E) \<lparr>dr_NsNm = req, dr_db = zero_db, dr_dbs = [], dr_conn = None\<rparr>"

subsection \<open>The contract of the loop\<close>

lemma db_rcl_sel [simp]:
  "rc_CreateObj (db_rcl E) = CreateObj_db E" "rc_RemoveObj (db_rcl E) = RemoveObj_db E" "rc_LoadCR (db_rcl E) = LoadCR_db E"
  "rc_LoadObj (db_rcl E) = LoadObj_db E" "rc_EnsureCorrect (db_rcl E) = EnsureCorrect_db" "rc_GetCR (db_rcl E) = GetCR_db"
  "rc_PutCR (db_rcl E) = PutCR_db" "rc_CleanupConn (db_rcl E) = CleanupConn_db E"
  by (simp_all add: db_rcl_def)

lemma emits_NotifyChanges_db:
  "P (K8sList K_DbServer) \<Longrightarrow> (\<And>srv. P (TriggerDbServer (Some srv))) \<Longrightarrow> emits P (NotifyChanges_db E r)"
  unfolding NotifyChanges_db_def TriggerDbServerReconcile_def by (intro emits_intro)

lemma emits_LoadCR_db: "P (K8sGet K_Db (dr_NsNm r)) \<Longrightarrow> emits P (LoadCR_db E r)"
  unfolding LoadCR_db_def LogAndBackoffCreation_def by (intro emits_intro)

lemma emits_LoadObj_db: "(\<And>ev. quiet ev \<Longrightarrow> P ev) \<Longrightarrow> emits P (LoadObj_db E r)"
  unfolding LoadObj_db_def Let_def
  by (intro emits_intro emits_GetDbConnection_reco any_server.emits_get_dbs) auto

lemma emits_CreateObj_db:
  assumes "\<And>ev. quiet ev \<Longrightarrow> P ev" "\<And>srv. P (TriggerDbServer (Some srv))"
    and "\<And>ev. exec_of ''CREATE DATABASE '' ev \<Longrightarrow> P ev" "\<And>c. P (SqlExec c (db_AfterCreateSQL (db_Spec (dr_db r))) [])"
  shows "emits P (CreateObj_db E r)"
  unfolding CreateObj_db_def LogAndBackoffCreation_def Let_def
  by (intro emits_intro emits_NotifyChanges_db any_server.emits_create_db emits_conn_Execute assms) (auto intro: assms)

lemma emits_RemoveObj_db:
  assumes "\<And>ev. quiet ev \<Longrightarrow> P ev" "\<And>srv. P (TriggerDbServer (Some srv))"
    and "\<And>ev. db_DropOnDeletion (db_Spec (dr_db r)) \<Longrightarrow> exec_of ''DROP DATABASE '' ev \<Longrightarrow> P ev"
  shows "emits P (RemoveObj_db E r)"
  unfolding RemoveObj_db_def LogAndBackoffDeletion_def deletion_backoff_def Let_def
  by (intro emits_intro emits_NotifyChanges_db any_server.emits_drop_db assms) (auto intro: assms)

lemma emits_CleanupConn_db: "(\<And>ev. is_close ev \<Longrightarrow> P ev) \<Longrightarrow> emits P (CleanupConn_db E r)"
  unfolding CleanupConn_db_def by (intro emits_intro any_server.emits_close)

lemma LoadObj_db_keeps: "LoadObj_db E r h = (Return (r', x), h') \<Longrightarrow> dr_db r' = dr_db r"
  by (auto simp: LoadObj_db_def run Let_def split: sum.splits prod.splits outcome.splits if_splits)

lemma RemoveObj_db_keeps: "RemoveObj_db E r h = (Return (r', x), h') \<Longrightarrow> dr_db r' = dr_db r"
  by (auto simp: RemoveObj_db_def LogAndBackoffDeletion_def run Let_def split: sum.splits prod.splits outcome.splits if_splits option.splits)

lemma quiet_no_update: "quiet ev \<Longrightarrow> \<not> is_update ev"
  by (cases ev) auto

lemma exec_no_update: "exec_of pre ev \<Longrightarrow> \<not> is_update ev"
  by (auto simp: exec_of_def)

lemma close_no_update: "is_close ev \<Longrightarrow> \<not> is_update ev"
  by (cases ev) auto

interpretation db_ctl: reconcilable "db_rcl E" for E
proof
  fix s h s' r h' res err fs
  show "emits protects (rc_LoadCR (db_rcl E) s)" by (auto simp: protects_def intro!: emits_LoadCR_db)
  show "emits protects (rc_LoadObj (db_rcl E) s)" by (rule emits_protects) (auto simp: quiet_no_update intro!: emits_LoadObj_db)
  show "emits protects (rc_CreateObj (db_rcl E) s)" by (rule emits_protects) (auto simp: quiet_no_update exec_no_update intro!: emits_CreateObj_db)
  show "emits (\<lambda>ev. \<not> is_update ev) (rc_RemoveObj (db_rcl E) s)" by (auto simp: quiet_no_update exec_no_update intro!: emits_RemoveObj_db)
  show "emits protects (rc_EnsureCorrect (db_rcl E) s)" by (rule emits_protects) (auto simp: EnsureCorrect_db_def intro!: emits_intro)
  show "emits protects (rc_CleanupConn (db_rcl E) s)" by (rule emits_protects) (auto simp: close_no_update intro!: emits_CleanupConn_db)
  show "rc_LoadObj (db_rcl E) s h = (Return (s', r), h') \<Longrightarrow> markedToBeDeleted (rc_GetCR (db_rcl E) s) \<Longrightarrow> markedToBeDeleted (rc_GetCR (db_rcl E) s')"
    by (auto simp: GetCR_db_def dest: LoadObj_db_keeps)
  show "rc_RemoveObj (db_rcl E) s h = (Return (s', res, err), h') \<Longrightarrow> markedToBeDeleted (rc_GetCR (db_rcl E) s) \<Longrightarrow> markedToBeDeleted (rc_GetCR (db_rcl E) s')"
    by (auto simp: GetCR_db_def dest: RemoveObj_db_keeps)
  show "rc_GetCR (db_rcl E) (rc_PutCR (db_rcl E) (set_finalizers fs (rc_GetCR (db_rcl E) s)) s) = set_finalizers fs (rc_GetCR (db_rcl E) s)"
    by (simp add: GetCR_db_def PutCR_db_def set_finalizers_def)
qed

subsection \<open>What a reconciliation of a database does\<close>

text \<open>No resource of a database loses the operator's finalizer before it is marked for deletion:
  whatever the API server and the SQL server answer, every update that a reconciliation
  sends has the finalizer or carries a deletion timestamp.\<close>

lemma Reconcile_db_protects: "emits protects (Reconcile_db E req)"
  unfolding Reconcile_db_def by (rule db_ctl.Reconcile_protects)

text \<open>C6: the finalizer of a database that exists and is to be dropped is removed only after
  \<^verbatim>\<open>DropDb\<close> succeeded: if any update is sent in the deletion branch, the drop returned no
  error.\<close>

theorem Reconcile_db_release_after_drop:
  assumes "reconcile_obj E (db_rcl E) True True r h = (out, h @ es)" "K8sUpdate ob \<in> set es"
    and drop: "db_DropOnDeletion (db_Spec (dr_db r))"
  shows "\<exists>conn conn' h'. dr_conn r = Some conn \<and>
    conn_DropDb E conn (db_DbName (db_Spec (dr_db r))) (db_CascadeOnDrop (db_Spec (dr_db r))) h = (Return (conn', None), h')"
proof -
  obtain r' res h' where "RemoveObj_db E r h = (Return (r', res, None), h')" "\<not> Requeue res"
    using db_ctl.release_after_removal [OF assms(1,2)] by auto
  with drop show ?thesis
    by (auto simp: RemoveObj_db_def LogAndBackoffDeletion_def deletion_backoff_def run Let_def
        split: option.splits prod.splits outcome.splits if_splits)
qed

definition demo_db :: "int option \<Rightarrow> Db" where
  "demo_db deleted =
     \<lparr>db_meta = (new_meta ''db'' ''ns'' [])\<lparr>m_DeletionTimestamp := deleted, m_Finalizers := [DB_OPERATOR_FINALIZER]\<rparr>,
      db_Spec = \<lparr>db_Server = ''srv'', db_DbName = ''app'', db_DropOnDeletion = True, db_CascadeOnDrop = False, db_AfterCreateSQL = ''''\<rparr>\<rparr>"

definition demo_dr :: DbReco where
  "demo_dr = \<lparr>dr_NsNm = \<lparr>nn_Namespace = ''ns'', nn_Name = ''db''\<rparr>, dr_db = demo_db (Some 0), dr_dbs = [], dr_conn = Some (Pg demo_pg)\<rparr>"

lemma demo_drop:
  "\<exists>conn g. conn_DropDb open_env (Pg demo_pg) ''app'' False [] = (Return (conn, None), g)"
  by (simp add: conn_DropDb_def dispatch_def DropDb_pg_def on_demo_conn run keep_def)

lemma demo_release:
  "\<exists>out es ob. reconcile_obj open_env (db_rcl open_env) True True demo_dr [] = (out, [] @ es) \<and> K8sUpdate ob \<in> set es"
proof -
  obtain conn g where "conn_DropDb open_env (Pg demo_pg) ''app'' False [] = (Return (conn, None), g)" using demo_drop by blast
  moreover have "get_DbServers open_env g = Inl down" by (simp add: open_env_def null_env_def)
  ultimately show ?thesis
    by (auto simp: reconcile_obj_def RemoveObj_db_def NotifyChanges_db_def on_cr_def RemoveFinalizer_def Update_cr_def GetCR_db_def demo_dr_def demo_db_def
        ContainsFinalizer_def Let_def run split: sum.split)
qed

theorem Reconcile_db_release_after_drop_witness:
  "\<exists>conn conn' h'. dr_conn demo_dr = Some conn \<and> conn_DropDb open_env conn ''app'' False [] = (Return (conn', None), h')"
proof -
  obtain out es ob where "reconcile_obj open_env (db_rcl open_env) True True demo_dr [] = (out, [] @ es)" "K8sUpdate ob \<in> set es"
    using demo_release by blast
  from Reconcile_db_release_after_drop [OF this] show ?thesis by (simp add: demo_dr_def demo_db_def)
qed

definition db_may_run :: "Db \<Rightarrow> event \<Rightarrow> bool" where
  "db_may_run db ev \<longleftrightarrow>
     (\<forall>c q args. ev = SqlExec c q args \<longrightarrow>
        (if markedToBeDeleted (O_Db db) then db_DropOnDeletion (db_Spec db) \<and> prefix ''DROP DATABASE '' q
         else prefix ''CREATE DATABASE '' q \<or> q = db_AfterCreateSQL (db_Spec db)))"

lemma quiet_db_may_run: "quiet ev \<Longrightarrow> db_may_run db ev"
  by (cases ev) (auto simp: db_may_run_def)

lemma close_db_may_run: "is_close ev \<Longrightarrow> db_may_run db ev"
  by (cases ev) (auto simp: db_may_run_def)

text \<open>C7: the statements that the reconciliation of a database runs on the server: for a resource
  that is not marked for deletion only \<^verbatim>\<open>CREATE DATABASE\<close> and the statement
  \<^verbatim>\<open>AfterCreateSQL\<close> of its spec; for one that is marked only \<^verbatim>\<open>DROP DATABASE\<close>, and only
  if its spec has \<^verbatim>\<open>DropOnDeletion\<close>.\<close>

theorem Reconcile_db_statements:
  assumes cr: "\<And>h db'. get_Db_cr E h req = Inr db' \<Longrightarrow> db' = db"
  shows "emits (db_may_run db) (Reconcile_db E req)"
  unfolding Reconcile_db_def
proof (rule emits_Reconcile [where I = "\<lambda>b r. dr_db r = db \<and> b = markedToBeDeleted (O_Db db)"], goal_cases)
  case 1
  show ?case by (auto simp: db_may_run_def intro!: emits_LoadCR_db)
next
  case (2 h s res h')
  then show ?case
    by (auto simp: LoadCR_db_def LogAndBackoffCreation_def GetCR_db_def run dest: cr split: sum.splits)
next
  case (3 b s)
  show ?case by (auto simp: quiet_db_may_run intro!: emits_LoadObj_db)
next
  case (4 b s h s' x h')
  then show ?case by (auto dest: LoadObj_db_keeps)
next
  case (5 s)
  then show ?case by (auto simp: quiet_db_may_run exec_of_def intro!: emits_RemoveObj_db) (auto simp: db_may_run_def)
next
  case (6 s)
  then show ?case by (auto simp: quiet_db_may_run exec_of_def intro!: emits_CreateObj_db) (auto simp: db_may_run_def)
next
  case (7 s)
  show ?case by (simp add: EnsureCorrect_db_def emits_ret)
next
  case (8 ob)
  show ?case by (simp add: db_may_run_def)
next
  case (9 s)
  show ?case by (auto simp: close_db_may_run intro!: emits_CleanupConn_db)
qed

theorem Reconcile_db_statements_witness:
  "emits (db_may_run (demo_db None)) (Reconcile_db (open_env\<lparr>get_Db_cr := \<lambda>_ _. Inr (demo_db None)\<rparr>) \<lparr>nn_Namespace = ''ns'', nn_Name = ''db''\<rparr>)"
  by (rule Reconcile_db_statements) simp

text \<open>A resource that no longer exists is not forgotten: the error is turned into a back-off
  from the zero time, so the request is queued again every five minutes for ever.\<close>

theorem Reconcile_db_gone_is_requeued:
  assumes "get_Db_cr E h req = Inl err" "0 \<le> time_now E (h @ [K8sGet K_Db req])"
  shows "Reconcile_db E req h = (Return \<lparr>Requeue = True, RequeueAfter = 300000000000\<rparr>, h @ [K8sGet K_Db req])"
  using assms
  by (simp add: Reconcile_db_def Reconcile_def LoadCR_db_def LogAndBackoffCreation_def GetCR_db_def zero_db_def new_meta_def zero_time_def
      backoff_result_def run)

theorem Reconcile_db_gone_is_requeued_witness:
  "Reconcile_db (null_env\<lparr>get_Db_cr := \<lambda>_ _. Inl not_found\<rparr>) \<lparr>nn_Namespace = ''ns'', nn_Name = ''db''\<rparr> [] =
     (Return \<lparr>Requeue = True, RequeueAfter = 300000000000\<rparr>, [] @ [K8sGet K_Db \<lparr>nn_Namespace = ''ns'', nn_Name = ''db''\<rparr>])"
  by (rule Reconcile_db_gone_is_requeued) (simp_all add: null_env_def)

end
