(* ===== verification/DbLifecycle.thy ===== *)
theory DbLifecycle
  imports DbController
begin

section \<open>The life cycle of a database\<close>

text \<open>
  An abstract specification of what the controller of databases promises, and the proof that
  \<^verbatim>\<open>Reconcile\<close> of \<^verbatim>\<open>controllers/db_controller.go\<close> implements it on a PostgreSQL server that
  answers.  The \<open>world\<close> is the stored resource and whether the database is on the server; the events of
  a run change it.  An environment is \<open>healthy\<close> from some history on if its answers
  are those of the world as the later events left it.
\<close>

record world =
  w_db :: Db
  w_present :: bool

definition create_stmt :: "libs \<Rightarrow> string \<Rightarrow> string" where
  "create_stmt L n = ''CREATE DATABASE '' @ pq_QuoteIdentifier L n @ '';''"

definition drop_stmt :: "libs \<Rightarrow> string \<Rightarrow> string" where
  "drop_stmt L n = ''DROP DATABASE '' @ pq_QuoteIdentifier L n @ '' ;''"

fun apply_event :: "libs \<Rightarrow> string \<Rightarrow> event \<Rightarrow> world \<Rightarrow> world" where
  "apply_event L n (K8sUpdate (O_Db d)) w = w\<lparr>w_db := d\<rparr>"
| "apply_event L n (SqlExec c q args) w =
     (if q = create_stmt L n then w\<lparr>w_present := True\<rparr> else if q = drop_stmt L n then w\<lparr>w_present := False\<rparr> else w)"
| "apply_event L n ev w = w"

definition world_after :: "libs \<Rightarrow> string \<Rightarrow> hist \<Rightarrow> world \<Rightarrow> world" where
  "world_after L n es w = fold (apply_event L n) es w"

lemma world_after_simps [simp]:
  "world_after L n [] w = w" "world_after L n (ev # es) w = world_after L n es (apply_event L n ev w)"
  "world_after L n (es @ fs) w = world_after L n fs (world_after L n es w)"
  by (simp_all add: world_after_def)

lemma stmts_differ [simp]: "create_stmt L n \<noteq> drop_stmt L n" "drop_stmt L n \<noteq> create_stmt L n"
  by (simp_all add: create_stmt_def drop_stmt_def)

definition datname_query :: string where
  "datname_query = ''SELECT d.datname FROM pg_catalog.pg_database d WHERE d.datistemplate = false ORDER BY d.datname;''"

text \<open>The answers of an environment at one history, in one world.\<close>

definition answers :: "env \<Rightarrow> NamespacedName \<Rightarrow> DbServer \<Rightarrow> string \<Rightarrow> hist \<Rightarrow> world \<Rightarrow> bool" where
  "answers E req srv n h w \<longleftrightarrow>
     get_Db_cr E h req = Inr (w_db w) \<and>
     (\<forall>ob. k8s_update E h ob = Inr ob) \<and>
     (\<exists>items. get_DbServers E h = Inr items \<and> filter (named (m_Name (srv_meta srv))) items = [srv]) \<and>
     (\<forall>s. \<exists>secret. get_Secret E h s = Inr secret) \<and>
     (\<forall>d s. \<exists>c. sql_open E h d s = Inr c) \<and>
     (\<forall>c. \<exists>cols names. sql_query E h c datname_query [] = Inr \<lparr>row_cols = cols, row_data = map (\<lambda>d. [GStr d]) names\<rparr> \<and>
        (n \<in> set names \<longleftrightarrow> w_present w)) \<and>
     (\<forall>c. sql_exec E h c (create_stmt (lib E) n) [] = None \<and> sql_exec E h c (drop_stmt (lib E) n) [] = None)"

definition healthy :: "env \<Rightarrow> NamespacedName \<Rightarrow> DbServer \<Rightarrow> string \<Rightarrow> hist \<Rightarrow> world \<Rightarrow> bool" where
  "healthy E req srv n h w \<longleftrightarrow> (\<forall>es. answers E req srv n (h @ es) (world_after (lib E) n es w))"

lemma healthy_later: "healthy E req srv n h w \<Longrightarrow> healthy E req srv n (h @ es) (world_after (lib E) n es w)"
  unfolding healthy_def by (metis append_assoc world_after_simps(3))

lemma healthy_now: "healthy E req srv n h w \<Longrightarrow> answers E req srv n h w"
  unfolding healthy_def by (metis append_Nil2 world_after_simps(1))

text \<open>A PostgreSQL server with a password and no certificates.\<close>

definition plain_server :: "DbServer \<Rightarrow> bool" where
  "plain_server srv \<longleftrightarrow>
     srv_ServerType (srv_Spec srv) = ''postgres'' \<and> srv_CaCertKey (srv_Spec srv) = '''' \<and> srv_TlsKeyKey (srv_Spec srv) = '''' \<and>
     srv_TlsCrtKey (srv_Spec srv) = ''''"

definition usable :: "PostgresConnection \<Rightarrow> bool" where
  "usable p \<longleftrightarrow> pc_Flavor p = ''postgres'' \<and> plain_creds (ci_Credentials (cs_ServerConnInfo (pc_store p)))"

subsection \<open>The operations in a healthy world\<close>

text \<open>The server is the only one of its name, in whatever namespace.\<close>

lemma choose_only: "filter (named n) items = [srv] \<Longrightarrow> choose_server n ns items = Inr srv"
  by (simp add: choose_server_def del: filter_filter)

lemma GetDbServer_healthy:
  "healthy E req srv n h w \<Longrightarrow> GetDbServer E (m_Name (srv_meta srv)) ns h = (Return (Inr srv), h @ [K8sList K_DbServer])"
  by (drule healthy_now) (auto simp: run answers_def choose_only)

lemma NotifyChanges_healthy:
  assumes "healthy E req srv n h w" "db_Server (db_Spec (dr_db r)) = m_Name (srv_meta srv)"
  shows "NotifyChanges_db E r h = (Return (), h @ [K8sList K_DbServer, TriggerDbServer (Some srv)])"
  unfolding NotifyChanges_db_def TriggerDbServerReconcile_def assms(2)
  by (simp add: run_try run_emit GetDbServer_healthy [OF assms(1)])

lemma GetDbConnection_reco_healthy:
  assumes "healthy E req srv n h w" "plain_server srv"
  shows "\<exists>p s. GetDbConnection_reco E nsnm srv [] d h = (Return (Inr (Pg p)), h @ [K8sGet K_Secret s]) \<and> usable p"
proof -
  have "ToLower ''postgres'' = ''postgres''" by code_simp
  moreover obtain f where "\<And>s. get_Secret E h s = Inr (f s)" using healthy_now [OF assms(1)] unfolding answers_def by metis
  ultimately show ?thesis
    using assms(2)
    by (auto simp: GetDbConnection_reco_def GetConnectInfo_def GetCredentials_def GetDbServerSecrets_def fill_creds_def secret_key_def
        GetServerConnection_def NewPostgresConnection_def plain_server_def usable_def plain_creds_def Let_def run)
qed

lemma GetDbConnection_healthy:
  assumes "healthy E req srv n h w" "plain_creds (ci_Credentials (cs_ServerConnInfo st))"
  shows "\<exists>st' c es. GetDbConnection (PostgresConnect E) st None None h = (Return (st', Inr c), h @ es) \<and>
    cs_ServerConnInfo st' = cs_ServerConnInfo st \<and> world_after (lib E) n es w = w"
proof -
  obtain f where "\<And>d s. sql_open E h d s = Inr (f d s)" using healthy_now [OF assms(1)] unfolding answers_def by metis
  then show ?thesis
    using assms(2)
    by (auto simp: GetDbConnection_def store_creds_def PostgresConnect_def connect_string_def getConnectionString_def plain_creds_def Let_def run
        split: option.split)
qed

lemma on_conn_healthy:
  assumes "healthy E req srv n h w" "usable p"
  shows "\<exists>p' c es. on_conn (PostgresConnect E) p None None fail k h = k p' c (h @ es) \<and> usable p' \<and>
    world_after (lib E) n es w = w \<and> healthy E req srv n (h @ es) w"
proof -
  obtain st c es where st: "GetDbConnection (PostgresConnect E) (pc_store p) None None h = (Return (st, Inr c), h @ es)"
      "cs_ServerConnInfo st = cs_ServerConnInfo (pc_store p)" "world_after (lib E) n es w = w"
    using GetDbConnection_healthy [OF assms(1)] assms(2) unfolding usable_def by metis
  then have "on_conn (PostgresConnect E) p None None fail k h = k (p\<lparr>pc_store := st\<rparr>) c (h @ es)" by (simp add: on_conn_run)
  moreover have "usable (p\<lparr>pc_store := st\<rparr>)" using assms(2) st(2) by (simp add: usable_def)
  ultimately show ?thesis using st(3) healthy_later [OF assms(1), of es] by metis
qed

lemma map_of_names: "map_of (fold (\<lambda>d m. AList.update d (f d) m) names m) x = None \<longleftrightarrow> x \<notin> set names \<and> map_of m x = None"
  by (induction names arbitrary: m) (auto simp: update_conv')

lemma GetDbs_healthy:
  assumes "healthy E req srv n h w" "usable p"
  shows "\<exists>p' m es. GetDbs_pg E p h = (Return (p', Inr m), h @ es) \<and> usable p' \<and> (map_of m n \<noteq> None \<longleftrightarrow> w_present w) \<and>
    world_after (lib E) n es w = w"
proof -
  define k where "k = (\<lambda>(p :: SqlConnection) conn. keep p (try_io (Query E conn datname_query []) (\<lambda>err. ret (Inl err))
         (\<lambda>rows. ret (case string_col (lib E) (Err ''unable to load PostgresDb'') (row_data rows) of
             Inl err \<Rightarrow> Inl err
           | Inr names \<Rightarrow> Inr (fold (\<lambda>d m. AList.update d \<lparr>sd_DatbaseName = d\<rparr> m) names [])))))"
  have def: "GetDbs_pg E p = on_conn (PostgresConnect E) p None None Inl k"
    unfolding GetDbs_pg_def k_def datname_query_def ..
  obtain p' c es where on: "GetDbs_pg E p h = k p' c (h @ es)" and p': "usable p'" "world_after (lib E) n es w = w" "healthy E req srv n (h @ es) w"
    unfolding def using on_conn_healthy [OF assms] by blast
  obtain cols names where "sql_query E (h @ es) c datname_query [] = Inr \<lparr>row_cols = cols, row_data = map (\<lambda>d. [GStr d]) names\<rparr>"
      "n \<in> set names \<longleftrightarrow> w_present w"
    using healthy_now [OF p'(3)] unfolding answers_def by metis
  then show ?thesis
    using p' by (auto simp: on k_def keep_def run string_col_names map_of_names simp flip: not_None_eq)
qed

lemma CreateDb_healthy:
  assumes "healthy E req srv n h w" "usable p"
  shows "\<exists>p' es. CreateDb_pg E p n h = (Return (p', None), h @ es) \<and> usable p' \<and> world_after (lib E) n es w = w\<lparr>w_present := True\<rparr>"
proof -
  define k where "k = (\<lambda>(p :: SqlConnection) conn. keep p (Exec E conn (create_stmt (lib E) n) []))"
  have def: "CreateDb_pg E p n = on_conn (PostgresConnect E) p None None Some k"
    unfolding CreateDb_pg_def Execute_pg_def k_def create_stmt_def ..
  obtain p' c es where on: "CreateDb_pg E p n h = k p' c (h @ es)" and p': "usable p'" "world_after (lib E) n es w = w" "healthy E req srv n (h @ es) w"
    unfolding def using on_conn_healthy [OF assms] by blast
  have "sql_exec E (h @ es) c (create_stmt (lib E) n) [] = None" using healthy_now [OF p'(3)] by (simp add: answers_def)
  with on p' show ?thesis by (intro exI [of _ p'] exI [of _ "es @ [SqlExec c (create_stmt (lib E) n) []]"]) (simp add: k_def keep_def run)
qed

lemma DropDb_healthy:
  assumes "healthy E req srv n h w" "usable p"
  shows "\<exists>p' es. DropDb_pg E p n False h = (Return (p', None), h @ es) \<and> usable p' \<and> world_after (lib E) n es w = w\<lparr>w_present := False\<rparr>"
proof -
  define k where "k = (\<lambda>(p :: SqlConnection) conn. keep p (Exec E conn (drop_stmt (lib E) n) []))"
  have def: "DropDb_pg E p n False = on_conn (PostgresConnect E) p None None Some k"
    by (simp add: DropDb_pg_def k_def drop_stmt_def)
  obtain p' c es where on: "DropDb_pg E p n False h = k p' c (h @ es)" and p': "usable p'" "world_after (lib E) n es w = w" "healthy E req srv n (h @ es) w"
    unfolding def using on_conn_healthy [OF assms] by blast
  have "sql_exec E (h @ es) c (drop_stmt (lib E) n) [] = None" using healthy_now [OF p'(3)] by (simp add: answers_def)
  with on p' show ?thesis by (intro exI [of _ p'] exI [of _ "es @ [SqlExec c (drop_stmt (lib E) n) []]"]) (simp add: k_def keep_def run)
qed

text \<open>Whatever else runs, and whether or not it fails, leaves the database where it is.\<close>

lemma Execute_healthy:
  assumes "healthy E req srv n h w" "usable p" "w_present w" "\<not> prefix ''DROP DATABASE '' q"
  shows "\<exists>p' e es. Execute_pg E p q None h = (Return (p', e), h @ es) \<and> usable p' \<and> world_after (lib E) n es w = w"
proof -
  obtain p' c es where on: "Execute_pg E p q None h = keep p' (Exec E c q []) (h @ es)" and p': "usable p'" "world_after (lib E) n es w = w"
    unfolding Execute_pg_def using on_conn_healthy [OF assms(1,2)] by blast
  have "q \<noteq> drop_stmt (lib E) n" using assms(4) by (auto simp: drop_stmt_def)
  moreover have "w\<lparr>w_present := True\<rparr> = w" using assms(3) by (cases w) simp
  ultimately have "world_after (lib E) n (es @ [SqlExec c q []]) w = w" using p'(2) by simp
  with on p'(1) show ?thesis
    by (intro exI [of _ p'] exI [of _ "sql_exec E (h @ es) c q []"] exI [of _ "es @ [SqlExec c q []]"]) (simp add: keep_def run)
qed

definition conn_ready :: "DbReco \<Rightarrow> bool" where
  "conn_ready r \<longleftrightarrow> (\<exists>p. dr_conn r = Some (Pg p) \<and> usable p)"

text \<open>
  The resource asks for the database \<open>n\<close> of the server, without \<^verbatim>\<open>CascadeOnDrop\<close>, which PostgreSQL refuses; what it runs after the
  creation, if anything, drops no database.  That a \<open>healthy\<close> environment lists the database afterwards says the same of whatever
  else the SQL may do.
\<close>

definition asks_for :: "DbServer \<Rightarrow> string \<Rightarrow> Db \<Rightarrow> bool" where
  "asks_for srv n db \<longleftrightarrow>
     db_Server (db_Spec db) = m_Name (srv_meta srv) \<and> db_DbName (db_Spec db) = n \<and> \<not> prefix ''DROP DATABASE '' (db_AfterCreateSQL (db_Spec db)) \<and>
     \<not> db_CascadeOnDrop (db_Spec db)"

lemma LoadObj_healthy:
  assumes h: "healthy E req srv n h w" and srv: "plain_server srv" and db: "asks_for srv n (dr_db r)"
  shows "\<exists>r' es. LoadObj_db E r h = (Return (r', Inr (w_present w)), h @ es) \<and> dr_db r' = dr_db r \<and> conn_ready r' \<and>
    world_after (lib E) n es w = w"
proof -
  let ?h1 = "h @ [K8sList K_DbServer]"
  have h1: "healthy E req srv n ?h1 w" using healthy_later [OF h, of "[K8sList K_DbServer]"] by simp
  obtain p s where c: "GetDbConnection_reco E (dr_NsNm r) srv [] None ?h1 = (Return (Inr (Pg p)), ?h1 @ [K8sGet K_Secret s])" "usable p"
    using GetDbConnection_reco_healthy [OF h1 srv] by blast
  have h2: "healthy E req srv n (?h1 @ [K8sGet K_Secret s]) w" using healthy_later [OF h1, of "[K8sGet K_Secret s]"] by simp
  obtain p' m es where d: "GetDbs_pg E p (?h1 @ [K8sGet K_Secret s]) = (Return (p', Inr m), (?h1 @ [K8sGet K_Secret s]) @ es)" "usable p'"
      "map_of m n \<noteq> None \<longleftrightarrow> w_present w" "world_after (lib E) n es w = w"
    using GetDbs_healthy [OF h2 c(2)] by blast
  have "LoadObj_db E r h = (Return (r\<lparr>dr_conn := Some (Pg p'), dr_dbs := m\<rparr>, Inr (w_present w)), (?h1 @ [K8sGet K_Secret s]) @ es)"
    using db c d(1,3) GetDbServer_healthy [OF h]
    by (simp add: LoadObj_db_def asks_for_def conn_GetDbs_def dispatch_def run_try run_bind run_ret Let_def)
  with d show ?thesis
    by (intro exI [of _ "r\<lparr>dr_conn := Some (Pg p'), dr_dbs := m\<rparr>"] exI [of _ "[K8sList K_DbServer, K8sGet K_Secret s] @ es"]) (simp add: conn_ready_def)
qed

lemma CreateObj_healthy:
  assumes h: "healthy E req srv n h w" and db: "asks_for srv n (dr_db r)" and r: "conn_ready r"
  shows "\<exists>r' es. CreateObj_db E r h = (Return (r', no_result, None), h @ es) \<and> dr_db r' = dr_db r \<and> conn_ready r' \<and>
    world_after (lib E) n es w = w\<lparr>w_present := True\<rparr>"
proof -
  let ?sql = "db_AfterCreateSQL (db_Spec (dr_db r))" and ?notes = "[K8sList K_DbServer, TriggerDbServer (Some srv)]"
  obtain p where p: "dr_conn r = Some (Pg p)" "usable p" using r by (auto simp: conn_ready_def)
  obtain p' es where c: "CreateDb_pg E p n h = (Return (p', None), h @ es)" "usable p'" "world_after (lib E) n es w = w\<lparr>w_present := True\<rparr>"
    using CreateDb_healthy [OF h p(2)] by blast
  let ?r = "r\<lparr>dr_conn := Some (Pg p')\<rparr>" and ?w = "w\<lparr>w_present := True\<rparr>"
  have h1: "healthy E req srv n ((h @ es) @ ?notes) ?w" using healthy_later [OF h, of "es @ ?notes"] c(3) by simp
  have told: "NotifyChanges_db E ?r (h @ es) = (Return (), (h @ es) @ ?notes)"
    using db by (intro NotifyChanges_healthy [OF healthy_later [OF h]]) (simp add: asks_for_def)
  show ?thesis
  proof (cases "?sql = ''''")
    case True
    then have "CreateObj_db E r h = (Return (?r, no_result, None), (h @ es) @ ?notes)"
      using db p c(1) told by (simp add: CreateObj_db_def asks_for_def conn_CreateDb_def dispatch_def run_bind run_ret Let_def)
    with c show ?thesis by (intro exI [of _ ?r] exI [of _ "es @ ?notes"]) (simp add: conn_ready_def)
  next
    case False
    have "\<not> prefix ''DROP DATABASE '' ?sql" using db by (simp add: asks_for_def)
    with Execute_healthy [OF h1 c(2)] obtain p2 e es2 where x: "Execute_pg E p' ?sql None ((h @ es) @ ?notes) = (Return (p2, e), ((h @ es) @ ?notes) @ es2)"
        "usable p2" "world_after (lib E) n es2 ?w = ?w" by fastforce
    have "CreateObj_db E r h = (Return (r\<lparr>dr_conn := Some (Pg p2)\<rparr>, no_result, None), ((h @ es) @ ?notes) @ es2)"
      using db p c(1) told x(1) False
      by (simp add: CreateObj_db_def asks_for_def conn_CreateDb_def conn_Execute_def dispatch_def run_bind run_ret Let_def del: append_assoc)
    with c(3) x(2,3) show ?thesis
      by (intro exI [of _ "r\<lparr>dr_conn := Some (Pg p2)\<rparr>"] exI [of _ "es @ ?notes @ es2"]) (simp add: conn_ready_def)
  qed
qed

lemma RemoveObj_healthy:
  assumes h: "healthy E req srv n h w" and db: "asks_for srv n (dr_db r)" and r: "conn_ready r"
  shows "\<exists>r' es. RemoveObj_db E r h = (Return (r', no_result, None), h @ es) \<and> dr_db r' = dr_db r \<and> conn_ready r' \<and>
    world_after (lib E) n es w = (if db_DropOnDeletion (db_Spec (dr_db r)) then w\<lparr>w_present := False\<rparr> else w)"
proof (cases "db_DropOnDeletion (db_Spec (dr_db r))")
  case True
  obtain p where p: "dr_conn r = Some (Pg p)" "usable p" using r by (auto simp: conn_ready_def)
  obtain p' es where c: "DropDb_pg E p n False h = (Return (p', None), h @ es)" "usable p'" "world_after (lib E) n es w = w\<lparr>w_present := False\<rparr>"
    using DropDb_healthy [OF h p(2)] by blast
  let ?r = "r\<lparr>dr_conn := Some (Pg p')\<rparr>"
  have "NotifyChanges_db E ?r (h @ es) = (Return (), (h @ es) @ [K8sList K_DbServer, TriggerDbServer (Some srv)])"
    using db by (intro NotifyChanges_healthy [OF healthy_later [OF h]]) (simp add: asks_for_def)
  then have "RemoveObj_db E r h = (Return (?r, no_result, None), (h @ es) @ [K8sList K_DbServer, TriggerDbServer (Some srv)])"
    using db p c(1) True by (simp add: RemoveObj_db_def asks_for_def conn_DropDb_def dispatch_def run_bind run_ret Let_def)
  with c True show ?thesis
    by (intro exI [of _ ?r] exI [of _ "es @ [K8sList K_DbServer, TriggerDbServer (Some srv)]"]) (simp add: conn_ready_def)
next
  case False
  have "NotifyChanges_db E r h = (Return (), h @ [K8sList K_DbServer, TriggerDbServer (Some srv)])"
    using db by (intro NotifyChanges_healthy [OF h]) (simp add: asks_for_def)
  then have "RemoveObj_db E r h = (Return (r, no_result, None), h @ [K8sList K_DbServer, TriggerDbServer (Some srv)])"
    using False by (simp add: RemoveObj_db_def run_bind run_ret)
  with r False show ?thesis
    by (intro exI [of _ r] exI [of _ "[K8sList K_DbServer, TriggerDbServer (Some srv)]"]) simp
qed

lemma for_io_returns:
  "(\<And>x s h. \<exists>r h'. body x s h = (Return r, h')) \<Longrightarrow> \<exists>r h'. for_io xs body s h = (Return r, h')"
proof (induction xs arbitrary: s h)
  case Nil
  show ?case by (simp add: run)
next
  case (Cons x xs)
  obtain r h' where r: "body x s h = (Return r, h')" using Cons.prems by blast
  show ?case
  proof (cases r)
    case (Inl v)
    with r show ?thesis by (simp add: run)
  next
    case (Inr s')
    have "\<exists>r h''. for_io xs body s' h' = (Return r, h'')" by (rule Cons.IH) (rule Cons.prems)
    with r Inr show ?thesis by (simp add: run)
  qed
qed

lemma Close_store_returns: "\<exists>st' e h'. Close_store E st h = (Return (st', e), h')"
proof -
  define body where "body = (\<lambda>(_ :: ConnectionKey, conn) (_ :: unit). check_io (Close_conn E conn) (\<lambda>err. ret (Inl (st, Some err))) (ret (Inr ())))"
  obtain r h' where "for_io (shuffle (map_shuffle E h) (open_conns st)) body () h = (Return r, h')"
    using for_io_returns [of body "shuffle (map_shuffle E h) (open_conns st)" "()" h] by (fastforce simp: body_def run split: prod.split option.split)
  then show ?thesis unfolding Close_store_def body_def [symmetric] by (cases r) (auto simp: run)
qed

lemma close_world: "list_all is_close es \<Longrightarrow> world_after L n es w = w"
proof (induction es arbitrary: w)
  case (Cons ev es)
  then show ?case by (cases ev) auto
qed simp

lemma CleanupConn_healthy:
  assumes "conn_ready r"
  shows "\<exists>r' es. CleanupConn_db E r h = (Return r', h @ es) \<and> world_after (lib E) n es w = w"
proof -
  obtain p where p: "dr_conn r = Some (Pg p)" using assms by (auto simp: conn_ready_def)
  obtain st' e h' where c: "Close_store E (pc_store p) h = (Return (st', e), h')" using Close_store_returns by blast
  then obtain es where "h' = h @ es" "list_all is_close es" using emits_Close_store emitsD by metis
  with p c show ?thesis
    by (auto simp: CleanupConn_db_def conn_Close_def dispatch_def Close_pg_def run_bind run_ret close_world)
qed

subsection \<open>The specification\<close>

record lifecycle =
  lc_marked :: bool
  lc_protected :: bool
  lc_present :: bool

text \<open>No finalizer but the operator's is added.\<close>

definition adds_own :: "Db \<Rightarrow> Db \<Rightarrow> bool" where
  "adds_own db db' \<longleftrightarrow> set (m_Finalizers (db_meta db')) \<subseteq> insert DB_OPERATOR_FINALIZER (set (m_Finalizers (db_meta db)))"

lemma adds_own_refl [simp]: "adds_own db db"
  by (auto simp: adds_own_def)

text \<open>
  What one reconciliation is to do, where \<open>dropped\<close> tells whether the database goes with its resource.
\<close>

definition managed_step :: "bool \<Rightarrow> lifecycle \<Rightarrow> lifecycle" where
  "managed_step dropped s =
     (if \<not> lc_marked s then s\<lparr>lc_protected := True, lc_present := True\<rparr>
      else if \<not> lc_present s then s\<lparr>lc_protected := False\<rparr>
      else if lc_protected s then s\<lparr>lc_protected := False, lc_present := \<not> dropped\<rparr>
      else s)"

definition abs_world :: "world \<Rightarrow> lifecycle" where
  "abs_world w =
     \<lparr>lc_marked = markedToBeDeleted (O_Db (w_db w)), lc_protected = ContainsFinalizer (O_Db (w_db w)), lc_present = w_present w\<rparr>"

lemma on_cr_update:
  assumes "healthy E req srv n h w"
  shows "Update_cr E (O_Db db) h = (Return (O_Db db, None), h @ [K8sUpdate (O_Db db)])"
  using healthy_now [OF assms] by (simp add: Update_cr_def answers_def run)

lemma EnsureFinalizer_healthy:
  assumes h: "healthy E req srv n h w" and r: "dr_db r = w_db w"
  shows "\<exists>r' es db. on_cr (db_rcl E) (EnsureFinalizer E) r h = (Return (r', no_result, None), h @ es) \<and> dr_conn r' = dr_conn r \<and>
    world_after (lib E) n es w = w\<lparr>w_db := db\<rparr> \<and> db_Spec db = db_Spec (w_db w) \<and>
    markedToBeDeleted (O_Db db) = markedToBeDeleted (O_Db (w_db w)) \<and> ContainsFinalizer (O_Db db) \<and> adds_own (w_db w) db"
proof (cases "ContainsFinalizer (O_Db (w_db w))")
  case True
  then have "on_cr (db_rcl E) (EnsureFinalizer E) r h = (Return (r, no_result, None), h @ [])"
    using r by (simp add: on_cr_def EnsureFinalizer_def AddFinalizerToCr_def GetCR_db_def PutCR_db_def run)
  with True show ?thesis by (intro exI [of _ r] exI [of _ "[]"] exI [of _ "w_db w"]) simp
next
  case False
  define db where "db = (w_db w)\<lparr>db_meta := (db_meta (w_db w))\<lparr>m_Finalizers := m_Finalizers (db_meta (w_db w)) @ [DB_OPERATOR_FINALIZER]\<rparr>\<rparr>"
  have "on_cr (db_rcl E) (EnsureFinalizer E) r h = (Return (r\<lparr>dr_db := db\<rparr>, no_result, None), h @ [K8sUpdate (O_Db db)])"
    using r False on_cr_update [OF h, of db]
    by (simp add: on_cr_def EnsureFinalizer_def AddFinalizerToCr_def set_finalizers_def GetCR_db_def PutCR_db_def db_def run)
  then show ?thesis
    by (intro exI [of _ "r\<lparr>dr_db := db\<rparr>"] exI [of _ "[K8sUpdate (O_Db db)]"] exI [of _ db])
      (simp add: db_def markedToBeDeleted_def ContainsFinalizer_def adds_own_def)
qed

lemma RemoveFinalizer_healthy:
  assumes h: "healthy E req srv n h w" and r: "dr_db r = w_db w"
  shows "\<exists>r' es db. on_cr (db_rcl E) (RemoveFinalizer E) r h = (Return (r', None), h @ es) \<and> dr_conn r' = dr_conn r \<and>
    world_after (lib E) n es w = w\<lparr>w_db := db\<rparr> \<and> db_Spec db = db_Spec (w_db w) \<and>
    markedToBeDeleted (O_Db db) = markedToBeDeleted (O_Db (w_db w)) \<and> \<not> ContainsFinalizer (O_Db db) \<and> adds_own (w_db w) db"
proof -
  define db where "db = (w_db w)\<lparr>db_meta := (db_meta (w_db w))\<lparr>m_Finalizers := filter (\<lambda>f. f \<noteq> DB_OPERATOR_FINALIZER) (m_Finalizers (db_meta (w_db w)))\<rparr>\<rparr>"
  have "on_cr (db_rcl E) (RemoveFinalizer E) r h = (Return (r\<lparr>dr_db := db\<rparr>, None), h @ [K8sUpdate (O_Db db)])"
    using r on_cr_update [OF h, of db]
    by (simp add: on_cr_def RemoveFinalizer_def set_finalizers_def GetCR_db_def PutCR_db_def db_def run)
  then show ?thesis
    by (intro exI [of _ "r\<lparr>dr_db := db\<rparr>"] exI [of _ "[K8sUpdate (O_Db db)]"] exI [of _ db])
      (auto simp: db_def markedToBeDeleted_def ContainsFinalizer_def adds_own_def)
qed

text \<open>The middle part of the loop carries out one step of the specification.\<close>

definition carries_out :: "env \<Rightarrow> string \<Rightarrow> world \<Rightarrow> hist \<Rightarrow> ((DbReco \<times> Result \<times> error option) outcome \<times> hist) \<Rightarrow> bool" where
  "carries_out E n w h out \<longleftrightarrow>
     (\<exists>r' es. out = (Return (r', no_result, None), h @ es) \<and> conn_ready r' \<and>
        abs_world (world_after (lib E) n es w) = managed_step (db_DropOnDeletion (db_Spec (w_db w))) (abs_world w) \<and>
        db_Spec (w_db (world_after (lib E) n es w)) = db_Spec (w_db w) \<and> adds_own (w_db w) (w_db (world_after (lib E) n es w)))"

lemma unmarked_healthy:
  assumes h: "healthy E req srv n h w" and db: "asks_for srv n (w_db w)" and r: "dr_db r = w_db w" "conn_ready r"
    and unmarked: "\<not> markedToBeDeleted (O_Db (w_db w))"
  shows "carries_out E n w h (reconcile_obj E (db_rcl E) (w_present w) False r h)"
proof -
  obtain r1 es1 where c: "(if w_present w then EnsureCorrect_db r else CreateObj_db E r) h = (Return (r1, no_result, None), h @ es1)"
      "dr_db r1 = w_db w" "conn_ready r1" "world_after (lib E) n es1 w = w\<lparr>w_present := True\<rparr>"
  proof (cases "w_present w")
    case True
    have "w = w\<lparr>w_present := True\<rparr>" using True by (cases w) simp
    with True r show ?thesis by (intro that [of r "[]"]) (simp_all add: EnsureCorrect_db_def run_ret)
  next
    case False
    with CreateObj_healthy [OF h, of r] db r show ?thesis by (auto intro: that)
  qed
  have h1: "healthy E req srv n (h @ es1) (w\<lparr>w_present := True\<rparr>)" using healthy_later [OF h, of es1] c(4) by simp
  obtain r2 es2 db2 where f: "on_cr (db_rcl E) (EnsureFinalizer E) r1 (h @ es1) = (Return (r2, no_result, None), (h @ es1) @ es2)"
      "dr_conn r2 = dr_conn r1" "world_after (lib E) n es2 (w\<lparr>w_present := True\<rparr>) = (w\<lparr>w_present := True\<rparr>)\<lparr>w_db := db2\<rparr>" "db_Spec db2 = db_Spec (w_db w)"
      "markedToBeDeleted (O_Db db2) = markedToBeDeleted (O_Db (w_db w))" "ContainsFinalizer (O_Db db2)" "adds_own (w_db w) db2"
    using EnsureFinalizer_healthy [OF h1, of r1] c(2) by (simp del: append_assoc) blast
  have "reconcile_obj E (db_rcl E) (w_present w) False r h = (Return (r2, no_result, None), h @ es1 @ es2)"
    using c(1) f(1) by (cases "w_present w") (simp_all add: reconcile_obj_def run_bind run_ret)
  moreover have "conn_ready r2" using c(3) f(2) by (simp add: conn_ready_def)
  ultimately show ?thesis
    unfolding carries_out_def using c(4) f(3-7) unmarked
    by (intro exI [of _ r2] exI [of _ "es1 @ es2"]) (simp add: abs_world_def managed_step_def)
qed

lemma marked_healthy:
  assumes h: "healthy E req srv n h w" and db: "asks_for srv n (w_db w)" and r: "dr_db r = w_db w" "conn_ready r"
    and marked: "markedToBeDeleted (O_Db (w_db w))"
  shows "carries_out E n w h (reconcile_obj E (db_rcl E) (w_present w) True r h)"
proof (cases "w_present w \<and> \<not> ContainsFinalizer (O_Db (w_db w))")
  case True
  then have "reconcile_obj E (db_rcl E) (w_present w) True r h = (Return (r, no_result, None), h @ [])"
    using r by (simp add: reconcile_obj_def GetCR_db_def run)
  then show ?thesis
    unfolding carries_out_def using True r marked
    by (intro exI [of _ r] exI [of _ "[]"]) (simp add: abs_world_def managed_step_def)
next
  case other: False
  define w1 where "w1 = (if w_present w \<and> db_DropOnDeletion (db_Spec (w_db w)) then w\<lparr>w_present := False\<rparr> else w)"
  have w1: "w_db w1 = w_db w" by (simp add: w1_def)
  obtain r1 es1 where c: "(if w_present w then RemoveObj_db E r else ret (r, no_result, None)) h = (Return (r1, no_result, None), h @ es1)"
      "dr_db r1 = w_db w" "conn_ready r1" "world_after (lib E) n es1 w = w1"
  proof (cases "w_present w")
    case True
    with RemoveObj_healthy [OF h, of r] db r show ?thesis by (auto simp: w1_def intro: that)
  next
    case False
    with r show ?thesis by (intro that [of r "[]"]) (simp_all add: w1_def run_ret)
  qed
  have h1: "healthy E req srv n (h @ es1) w1" using healthy_later [OF h, of es1] c(4) by simp
  obtain r2 es2 db2 where f: "on_cr (db_rcl E) (RemoveFinalizer E) r1 (h @ es1) = (Return (r2, None), (h @ es1) @ es2)"
      "dr_conn r2 = dr_conn r1" "world_after (lib E) n es2 w1 = w1\<lparr>w_db := db2\<rparr>" "db_Spec db2 = db_Spec (w_db w)"
      "markedToBeDeleted (O_Db db2) = markedToBeDeleted (O_Db (w_db w))" "\<not> ContainsFinalizer (O_Db db2)" "adds_own (w_db w) db2"
    using RemoveFinalizer_healthy [OF h1, of r1] c(2) w1 by (simp del: append_assoc) blast
  have "reconcile_obj E (db_rcl E) (w_present w) True r h = (Return (r2, no_result, None), h @ es1 @ es2)"
    using c(1) f(1) other r by (cases "w_present w") (simp_all add: reconcile_obj_def GetCR_db_def run_bind run_ret)
  moreover have "conn_ready r2" using c(3) f(2) by (simp add: conn_ready_def)
  ultimately show ?thesis
    unfolding carries_out_def using c(4) f(3-7) marked other
    by (intro exI [of _ r2] exI [of _ "es1 @ es2"]) (auto simp: abs_world_def managed_step_def w1_def)
qed

lemma Reconcile_db_healthy:
  assumes h: "healthy E req srv n h w" and srv: "plain_server srv" and db: "asks_for srv n (w_db w)"
  shows "\<exists>es. Reconcile_db E req h = (Return no_result, h @ es) \<and>
    abs_world (world_after (lib E) n es w) = managed_step (db_DropOnDeletion (db_Spec (w_db w))) (abs_world w) \<and>
    db_Spec (w_db (world_after (lib E) n es w)) = db_Spec (w_db w) \<and> adds_own (w_db w) (w_db (world_after (lib E) n es w))"
proof -
  let ?r0 = "\<lparr>dr_NsNm = req, dr_db = zero_db, dr_dbs = [], dr_conn = None\<rparr>"
  let ?r1 = "?r0\<lparr>dr_db := w_db w\<rparr>" and ?h1 = "h @ [K8sGet K_Db req]" and ?m = "markedToBeDeleted (O_Db (w_db w))"
  have cr: "LoadCR_db E ?r0 h = (Return (?r1, no_result, None), ?h1)"
    using healthy_now [OF h] by (simp add: LoadCR_db_def answers_def run)
  have h1: "healthy E req srv n ?h1 w" using healthy_later [OF h, of "[K8sGet K_Db req]"] by simp
  obtain r2 es2 where obj: "LoadObj_db E ?r1 ?h1 = (Return (r2, Inr (w_present w)), ?h1 @ es2)" "dr_db r2 = w_db w" "conn_ready r2"
      "world_after (lib E) n es2 w = w"
    using LoadObj_healthy [OF h1 srv, of ?r1] db by auto
  have h2: "healthy E req srv n (?h1 @ es2) w" using healthy_later [OF h1, of es2] obj(4) by simp
  have "carries_out E n w (?h1 @ es2) (reconcile_obj E (db_rcl E) (w_present w) ?m r2 (?h1 @ es2))"
    using unmarked_healthy [OF h2 db obj(2,3)] marked_healthy [OF h2 db obj(2,3)] by (cases ?m) simp_all
  then obtain r3 es3 where mid: "reconcile_obj E (db_rcl E) (w_present w) ?m r2 (?h1 @ es2) = (Return (r3, no_result, None), (?h1 @ es2) @ es3)"
      "conn_ready r3" and finished: "abs_world (world_after (lib E) n es3 w) = managed_step (db_DropOnDeletion (db_Spec (w_db w))) (abs_world w)"
      "db_Spec (w_db (world_after (lib E) n es3 w)) = db_Spec (w_db w)" "adds_own (w_db w) (w_db (world_after (lib E) n es3 w))"
    unfolding carries_out_def by blast
  obtain r4 es4 where clean: "CleanupConn_db E r3 ((?h1 @ es2) @ es3) = (Return r4, ((?h1 @ es2) @ es3) @ es4)"
      "world_after (lib E) n es4 (world_after (lib E) n es3 w) = world_after (lib E) n es3 w"
    using CleanupConn_healthy [OF mid(2)] by blast
  have "Reconcile_db E req h = (Return no_result, (((?h1 @ es2) @ es3) @ es4))"
    using cr obj(1) mid(1) clean(1)
    by (simp add: Reconcile_db_def Reconcile_def reconcile_loaded_def handle_error_def GetCR_db_def run_bind run_ret Let_def del: append_assoc)
  with clean(2) finished obj(4) show ?thesis
    by (intro exI [of _ "[K8sGet K_Db req] @ es2 @ es3 @ es4"]) simp
qed

text \<open>C4: on a PostgreSQL server that answers, uses a password and no certificates, the reconciliation of a database
  implements its specification, while the server's resource is the only one of its name, for a resource without \<^verbatim>\<open>CascadeOnDrop\<close> whose \<^verbatim>\<open>AfterCreateSQL\<close>, if it has any, drops no
  database: the run ends, without asking to be queued again, and the resource and the database are afterwards as
  one step of the specification says.  A resource that is not marked for deletion is
  protected by the finalizer and its database exists; one that is marked is released, and its database is
  gone if the spec has \<^verbatim>\<open>DropOnDeletion\<close>.  The spec of the resource is left as it is.\<close>

theorem Reconcile_db_refines:
  assumes "healthy E req srv n h w" "plain_server srv" "asks_for srv n (w_db w)"
  shows "\<exists>es. Reconcile_db E req h = (Return no_result, h @ es) \<and>
    abs_world (world_after (lib E) n es w) = managed_step (db_DropOnDeletion (db_Spec (w_db w))) (abs_world w) \<and>
    db_Spec (w_db (world_after (lib E) n es w)) = db_Spec (w_db w)"
  using Reconcile_db_healthy [OF assms] by blast

text \<open>A second run changes nothing.\<close>

lemma managed_step_idem: "managed_step d (managed_step d s) = managed_step d s"
  by (simp add: managed_step_def)

text \<open>An environment that keeps its world in the history.\<close>

definition stored_env :: "world \<Rightarrow> env" where
  "stored_env w0 =
     null_env\<lparr>get_Db_cr := \<lambda>h _. Inr (w_db (world_after ref_libs ''app'' h w0)), k8s_update := \<lambda>_ ob. Inr ob,
       get_DbServers := \<lambda>_. Inr [demo_server ''ns''], get_Secret := \<lambda>_ _. Inr \<lparr>sec_meta = new_meta ''s'' ''ns'' [], sec_Data = []\<rparr>,
       sql_open := \<lambda>_ _ _. Inr 5,
       sql_query := \<lambda>h _ _ _. Inr \<lparr>row_cols = Inr [''datname''],
         row_data = map (\<lambda>d. [GStr d]) (if w_present (world_after ref_libs ''app'' h w0) then [''app''] else [])\<rparr>,
       sql_exec := \<lambda>_ _ _ _. None\<rparr>"

lemma stored_healthy: "healthy (stored_env w) req (demo_server ''ns'') ''app'' [] w"
  by (auto simp: healthy_def answers_def stored_env_def named_def intro!: exI [of _ "[''app'']"])

definition demo_world :: world where
  "demo_world = \<lparr>w_db = (demo_db None)\<lparr>db_meta := new_meta ''db'' ''ns'' []\<rparr>, w_present = False\<rparr>"

lemma demo_world_plain: "plain_server (demo_server ''ns'')" "asks_for (demo_server ''ns'') ''app'' (w_db demo_world)"
  by (simp_all add: plain_server_def asks_for_def demo_server_def demo_world_def demo_db_def new_meta_def)

theorem Reconcile_db_refines_witness:
  "\<exists>es. Reconcile_db (stored_env demo_world) \<lparr>nn_Namespace = ''ns'', nn_Name = ''db''\<rparr> [] = (Return no_result, [] @ es) \<and>
     abs_world (world_after ref_libs ''app'' es demo_world) = \<lparr>lc_marked = False, lc_protected = True, lc_present = True\<rparr>"
proof -
  have "lib (stored_env demo_world) = ref_libs" by (simp add: stored_env_def)
  moreover have "abs_world demo_world = \<lparr>lc_marked = False, lc_protected = False, lc_present = False\<rparr>"
    by (simp add: abs_world_def demo_world_def demo_db_def new_meta_def markedToBeDeleted_def ContainsFinalizer_def)
  ultimately show ?thesis
    using Reconcile_db_refines [OF stored_healthy demo_world_plain, of "\<lparr>nn_Namespace = ''ns'', nn_Name = ''db''\<rparr>"]
    by (auto simp: managed_step_def)
qed

subsection \<open>The life of a resource\<close>

text \<open>
  The states a resource and its database go through when the operator works on a server that
  answers: the resource is created, reconciled any number of times, marked for deletion by
  somebody, and taken away by the API server once it is marked and has no finalizer left.  The first
  component tells whether the resource is still there.
\<close>

inductive life :: "NamespacedName \<Rightarrow> DbServer \<Rightarrow> string \<Rightarrow> bool \<Rightarrow> world \<Rightarrow> bool" for req srv n where
  start: "asks_for srv n db \<Longrightarrow> life req srv n True \<lparr>w_db = db, w_present = False\<rparr>"
| reconcile: "life req srv n True w \<Longrightarrow> healthy E req srv n h w \<Longrightarrow> Reconcile_db E req h = (out, h @ es) \<Longrightarrow>
    life req srv n True (world_after (lib E) n es w)"
| mark: "life req srv n True w \<Longrightarrow>
    life req srv n True (w\<lparr>w_db := (w_db w)\<lparr>db_meta := (db_meta (w_db w))\<lparr>m_DeletionTimestamp := Some t\<rparr>\<rparr>\<rparr>)"
| gone: "life req srv n True w \<Longrightarrow> markedToBeDeleted (O_Db (w_db w)) \<Longrightarrow> m_Finalizers (db_meta (w_db w)) = [] \<Longrightarrow> life req srv n False w"

inductive_cases life_goneE: "life req srv n False w"

lemma life_invariant:
  assumes "life req srv n b w" "plain_server srv"
  shows "asks_for srv n (w_db w) \<and>
    (w_present w \<longrightarrow> db_DropOnDeletion (db_Spec (w_db w)) \<longrightarrow> ContainsFinalizer (O_Db (w_db w)))"
  using assms
proof (induction rule: life.induct)
  case (start db)
  then show ?case by simp
next
  case (reconcile w E h out es)
  obtain fs where fs: "Reconcile_db E req h = (Return no_result, h @ fs)"
      "abs_world (world_after (lib E) n fs w) = managed_step (db_DropOnDeletion (db_Spec (w_db w))) (abs_world w)"
      "db_Spec (w_db (world_after (lib E) n fs w)) = db_Spec (w_db w)"
    using Reconcile_db_healthy [OF reconcile.hyps(2) reconcile.prems] reconcile.IH reconcile.prems by blast
  then have "fs = es" using reconcile.hyps(3) by simp
  with fs reconcile.IH reconcile.prems show ?case
    by (auto simp: asks_for_def abs_world_def managed_step_def split: if_splits)
next
  case (mark w t)
  then show ?case by (auto simp: asks_for_def ContainsFinalizer_def)
next
  case (gone w)
  then show ?case by simp
qed

text \<open>C5: no database is left behind by complete reconciliations on a PostgreSQL server that answers: when a resource
  with \<^verbatim>\<open>DropOnDeletion\<close> has been taken away, between whichever runs it was marked and however often it was
  reconciled, its database is not on the server.  Each reconciliation runs to its end, while the API server and the
  database server answer and the resource of the server is there, the only one of its name; the resource has no \<^verbatim>\<open>CascadeOnDrop\<close>, and its
  \<^verbatim>\<open>AfterCreateSQL\<close> drops no database.  What happens when calls fail or runs are cut short is the
  subject of \<open>Guarding\<close>.\<close>

theorem no_database_left_behind:
  assumes "life req srv n False w" "plain_server srv" "db_DropOnDeletion (db_Spec (w_db w))"
  shows "\<not> w_present w"
  using assms(1)
proof (rule life_goneE)
  assume w: "life req srv n True w" "m_Finalizers (db_meta (w_db w)) = []"
  have "w_present w \<longrightarrow> ContainsFinalizer (O_Db (w_db w))" using life_invariant [OF w(1) assms(2)] assms(3) by blast
  with w(2) show "\<not> w_present w" by (simp add: ContainsFinalizer_def)
qed

text \<open>A whole life: created and reconciled, marked, reconciled again, gone.\<close>

definition marked_world :: "world \<Rightarrow> world" where
  "marked_world w = w\<lparr>w_db := (w_db w)\<lparr>db_meta := (db_meta (w_db w))\<lparr>m_DeletionTimestamp := Some 0\<rparr>\<rparr>\<rparr>"

lemma stored_run:
  assumes "asks_for (demo_server ''ns'') ''app'' (w_db w)"
  obtains es where "Reconcile_db (stored_env w) req [] = (Return no_result, [] @ es)"
    "abs_world (world_after ref_libs ''app'' es w) = managed_step (db_DropOnDeletion (db_Spec (w_db w))) (abs_world w)"
    "db_Spec (w_db (world_after ref_libs ''app'' es w)) = db_Spec (w_db w)" "adds_own (w_db w) (w_db (world_after ref_libs ''app'' es w))"
proof -
  have "lib (stored_env w) = ref_libs" by (simp add: stored_env_def)
  with Reconcile_db_healthy [OF stored_healthy demo_world_plain(1) assms, of req] that show ?thesis by auto
qed

theorem no_database_left_behind_witness:
  "\<exists>w1 w2. life \<lparr>nn_Namespace = ''ns'', nn_Name = ''db''\<rparr> (demo_server ''ns'') ''app'' True w1 \<and> w_present w1 \<and>
    life \<lparr>nn_Namespace = ''ns'', nn_Name = ''db''\<rparr> (demo_server ''ns'') ''app'' False w2 \<and> \<not> w_present w2"
proof -
  let ?req = "\<lparr>nn_Namespace = ''ns'', nn_Name = ''db''\<rparr>" and ?srv = "demo_server ''ns''"
  have lib: "lib (stored_env w) = ref_libs" for w by (simp add: stored_env_def)
  have start: "life ?req ?srv ''app'' True demo_world"
    using life.start [OF demo_world_plain(2), of ?req] by (simp add: demo_world_def)
  obtain es1 where run1: "Reconcile_db (stored_env demo_world) ?req [] = (Return no_result, [] @ es1)"
    and abs1: "abs_world (world_after ref_libs ''app'' es1 demo_world) = managed_step (db_DropOnDeletion (db_Spec (w_db demo_world))) (abs_world demo_world)"
    and spec1: "db_Spec (w_db (world_after ref_libs ''app'' es1 demo_world)) = db_Spec (w_db demo_world)"
    and own1: "adds_own (w_db demo_world) (w_db (world_after ref_libs ''app'' es1 demo_world))"
    by (rule stored_run [OF demo_world_plain(2)])
  define w1 where "w1 = world_after ref_libs ''app'' es1 demo_world"
  have life1: "life ?req ?srv ''app'' True w1"
    using life.reconcile [OF start stored_healthy run1] by (simp add: lib w1_def)
  have w1: "w_present w1" "set (m_Finalizers (db_meta (w_db w1))) \<subseteq> {DB_OPERATOR_FINALIZER}" "db_DropOnDeletion (db_Spec (w_db w1))"
    using abs1 own1 spec1
    by (auto simp: w1_def abs_world_def managed_step_def adds_own_def demo_world_def demo_db_def new_meta_def markedToBeDeleted_def)
  have asks: "asks_for ?srv ''app'' (w_db (marked_world w1))"
    using spec1 demo_world_plain(2) by (simp add: w1_def marked_world_def asks_for_def)
  obtain es2 where run2: "Reconcile_db (stored_env (marked_world w1)) ?req [] = (Return no_result, [] @ es2)"
    and abs2: "abs_world (world_after ref_libs ''app'' es2 (marked_world w1)) =
      managed_step (db_DropOnDeletion (db_Spec (w_db (marked_world w1)))) (abs_world (marked_world w1))"
    and spec2: "db_Spec (w_db (world_after ref_libs ''app'' es2 (marked_world w1))) = db_Spec (w_db (marked_world w1))"
    and own2: "adds_own (w_db (marked_world w1)) (w_db (world_after ref_libs ''app'' es2 (marked_world w1)))"
    by (rule stored_run [OF asks])
  define w2 where "w2 = world_after ref_libs ''app'' es2 (marked_world w1)"
  have "life ?req ?srv ''app'' True (marked_world w1)" unfolding marked_world_def by (rule life.mark [OF life1])
  from life.reconcile [OF this stored_healthy run2] have life2: "life ?req ?srv ''app'' True w2" by (simp add: lib w2_def)
  have w2: "\<not> ContainsFinalizer (O_Db (w_db w2))" "markedToBeDeleted (O_Db (w_db w2))"
    using abs2 abs1 w1(1)
    by (auto simp: w2_def w1_def abs_world_def managed_step_def marked_world_def demo_world_def new_meta_def markedToBeDeleted_def ContainsFinalizer_def
        split: if_splits)
  have "set (m_Finalizers (db_meta (w_db w2))) \<subseteq> {DB_OPERATOR_FINALIZER}"
    using own2 w1(2) by (auto simp: w2_def adds_own_def marked_world_def)
  then have "m_Finalizers (db_meta (w_db w2)) = []" using w2(1) by (cases "m_Finalizers (db_meta (w_db w2))") (auto simp: ContainsFinalizer_def)
  from life.gone [OF life2 w2(2) this] have gone: "life ?req ?srv ''app'' False w2" .
  have "db_DropOnDeletion (db_Spec (w_db w2))" using spec2 w1(3) by (simp add: w2_def marked_world_def)
  from no_database_left_behind [OF gone demo_world_plain(1) this] life1 w1(1) gone show ?thesis by blast
qed

end
