(* ===== verification/UserController.thy ===== *)
theory UserController
  imports DbController
begin

section \<open>The controller of users\<close>

text \<open>
  \<^verbatim>\<open>controllers/user_controller.go\<close> (\<^verbatim>\<open>GetUserCredentials\<close> is in theory Reco).  The
  commented-out part of \<^verbatim>\<open>EnsureCorrect\<close> is not code.
\<close>

record UserReco =
  ur_NsNm :: NamespacedName
  ur_user :: User
  ur_users :: "DbSideUser gomap"
  ur_conn :: "DbServerConnection option"

fun GetGrantorNamesFromDbPrivs :: "DbPriv list \<Rightarrow> string list" where
  "GetGrantorNamesFromDbPrivs [] = []"
| "GetGrantorNamesFromDbPrivs (priv # privs) =
     (case Grantor priv of None \<Rightarrow> GetGrantorNamesFromDbPrivs privs | Some g \<Rightarrow> g # GetGrantorNamesFromDbPrivs privs)"

definition GetCR_user :: "UserReco \<Rightarrow> k8s_obj" where
  "GetCR_user r = O_User (ur_user r)"

definition PutCR_user :: "k8s_obj \<Rightarrow> UserReco \<Rightarrow> UserReco" where
  "PutCR_user ob r = (case ob of O_User user \<Rightarrow> r\<lparr>ur_user := user\<rparr> | _ \<Rightarrow> r)"

definition LoadObj_user :: "env \<Rightarrow> UserReco \<Rightarrow> (UserReco \<times> (error + bool)) go" where
  "LoadObj_user E r =
     (let spec = usr_Spec (ur_user r) in
      try_io (GetDbServer E (usr_DbServerName spec) (nn_Namespace (ur_NsNm r))) (\<lambda>err. ret (r, Inl err)) (\<lambda>dbServer.
        try_io (GetDbConnection_reco E (ur_NsNm r) dbServer (GetGrantorNamesFromDbPrivs (usr_DbPrivs spec)) None) (\<lambda>err. ret (r, Inl err)) (\<lambda>conn.
          bind_io (conn_GetUsers E conn) (\<lambda>(conn, x).
            let r = r\<lparr>ur_conn := Some conn\<rparr> in
            case x of
              Inl err \<Rightarrow> ret (r, Inl err)
            | Inr users \<Rightarrow> ret (r\<lparr>ur_users := users\<rparr>, Inr (map_of users (usr_UserName spec) \<noteq> None))))))"

definition password_key :: "UserSpec \<Rightarrow> string" where
  "password_key spec = (if usr_PasswordKey spec \<noteq> '''' then usr_PasswordKey spec else ''password'')"

definition generateSecret :: "env \<Rightarrow> UserReco \<Rightarrow> error option go" where
  "generateSecret E r =
     (let spec = usr_Spec (ur_user r);
          secretName = \<lparr>nn_Namespace = m_Namespace (usr_meta (ur_user r)), nn_Name = usr_SecretName spec\<rparr>
      in bind_io (GetSecret E secretName) (\<lambda>x. case x of
           Inr _ \<Rightarrow> ret None
         | Inl _ \<Rightarrow>
             try_io (call GeneratePassword (gen_password E)) (\<lambda>err. ret (Some err)) (\<lambda>generatedPassword.
               let secret = O_Secret \<lparr>sec_meta = new_meta (usr_SecretName spec) (m_Namespace (usr_meta (ur_user r))) [],
                                      sec_Data = [(password_key spec, generatedPassword)]\<rparr>
               in call (K8sCreate secret) (\<lambda>h. k8s_create E h secret))))"

text \<open>There is no return after the error is logged: the trigger is sent with a nil server then.\<close>

definition NotifyChanges_user :: "env \<Rightarrow> UserReco \<Rightarrow> unit go" where
  "NotifyChanges_user E r =
     bind_io (GetDbServer E (usr_DbServerName (usr_Spec (ur_user r))) (m_Namespace (usr_meta (ur_user r)))) (\<lambda>x.
       TriggerDbServerReconcile (case x of Inl _ \<Rightarrow> None | Inr dbServer \<Rightarrow> Some dbServer))"

definition EnsureCorrect_user :: "env \<Rightarrow> UserReco \<Rightarrow> (UserReco \<times> Result \<times> error option) go" where
  "EnsureCorrect_user E r =
     (let spec = usr_Spec (ur_user r) in
      case ur_conn r of
        None \<Rightarrow> panic ''nil pointer dereference''
      | Some conn \<Rightarrow>
          bind_io (conn_UpdateUserPrivs E conn (usr_UserName spec) (usr_ServerPrivs spec) (usr_DbPrivs spec)) (\<lambda>(conn, changes, err).
            let r = r\<lparr>ur_conn := Some conn\<rparr> in
            if err \<noteq> None then bind_io (LogAndBackoffCreation E (GetCR_user r)) (\<lambda>(res, e). ret (r, res, e))
            else bind_io (if changes then NotifyChanges_user E r else ret ()) (\<lambda>_. ret (r, no_result, None))))"

text \<open>\<^verbatim>\<open>*creds.Password\<close> goes through two pointers.\<close>

definition CreateObj_user :: "env \<Rightarrow> UserReco \<Rightarrow> (UserReco \<times> Result \<times> error option) go" where
  "CreateObj_user E r =
     (let spec = usr_Spec (ur_user r) in
      check_io (if usr_GenerateSecret spec then generateSecret E r else ret None)
        (\<lambda>err. bind_io (GradualBackoffRetry E (m_CreationTimestamp (usr_meta (ur_user r)))) (\<lambda>res. ret (r, res, Some err)))
        (try_io (GetUserCredentials E (ur_user r))
          (\<lambda>err. bind_io (LogAndBackoffCreation E (GetCR_user r)) (\<lambda>(res, e). ret (r, res, e)))
          (\<lambda>creds.
             case (ur_conn r, Option.bind creds cr_Password) of
               (Some conn, Some password) \<Rightarrow>
                 bind_io (conn_CreateUser E conn (usr_UserName spec) password) (\<lambda>(conn, err).
                   let r = r\<lparr>ur_conn := Some conn\<rparr> in
                   if err \<noteq> None then bind_io (LogAndBackoffCreation E (GetCR_user r)) (\<lambda>(res, e). ret (r, res, e))
                   else bind_io (NotifyChanges_user E r) (\<lambda>_.
                          bind_io (EnsureCorrect_user E r) (\<lambda>(r, res, err).
                            if err \<noteq> None then bind_io (LogAndBackoffCreation E (GetCR_user r)) (\<lambda>(res, e). ret (r, res, e))
                            else ret (r, res, None))))
             | _ \<Rightarrow> panic ''nil pointer dereference'')))"

definition RemoveObj_user :: "env \<Rightarrow> UserReco \<Rightarrow> (UserReco \<times> Result \<times> error option) go" where
  "RemoveObj_user E r =
     (let spec = usr_Spec (ur_user r) in
      if usr_DropOnDeletion spec then
        (case ur_conn r of
           None \<Rightarrow> panic ''nil pointer dereference''
         | Some conn \<Rightarrow>
             bind_io (conn_DropUser E conn spec) (\<lambda>(conn, err).
               let r = r\<lparr>ur_conn := Some conn\<rparr> in
               if err \<noteq> None then bind_io (LogAndBackoffDeletion E (GetCR_user r)) (\<lambda>(res, e). ret (r, res, e))
               else bind_io (NotifyChanges_user E r) (\<lambda>_. ret (r, no_result, None))))
      else bind_io (NotifyChanges_user E r) (\<lambda>_. ret (r, no_result, None)))"

definition LoadCR_user :: "env \<Rightarrow> UserReco \<Rightarrow> (UserReco \<times> Result \<times> error option) go" where
  "LoadCR_user E r =
     bind_io (call (K8sGet K_User (ur_NsNm r)) (\<lambda>h. get_User_cr E h (ur_NsNm r))) (\<lambda>x. case x of
       Inl err \<Rightarrow> ret (r, no_result, Some err)
     | Inr user \<Rightarrow> ret (r\<lparr>ur_user := user\<rparr>, no_result, None))"

definition CleanupConn_user :: "env \<Rightarrow> UserReco \<Rightarrow> UserReco go" where
  "CleanupConn_user E r =
     (case ur_conn r of
        None \<Rightarrow> ret r
      | Some conn \<Rightarrow> bind_io (conn_Close E conn) (\<lambda>(conn, _). ret (r\<lparr>ur_conn := Some conn\<rparr>)))"

definition user_rcl :: "env \<Rightarrow> UserReco Reconcilable" where
  "user_rcl E =
     \<lparr>rc_CreateObj = CreateObj_user E, rc_RemoveObj = RemoveObj_user E, rc_LoadCR = LoadCR_user E, rc_LoadObj = LoadObj_user E,
      rc_EnsureCorrect = EnsureCorrect_user E, rc_GetCR = GetCR_user, rc_PutCR = PutCR_user, rc_CleanupConn = CleanupConn_user E\<rparr>"

definition zero_user :: User where
  "zero_user =
     \<lparr>usr_meta = new_meta '''' '''' [],
      usr_Spec = \<lparr>usr_UserName = '''', usr_SecretName = '''', usr_GenerateSecret = False, usr_PasswordKey = '''', usr_CaCertKey = '''',
        usr_TlsCrtKey = '''', usr_TlsKeyKey = '''', usr_DbServerName = '''', usr_DbPrivs = [], usr_ServerPrivs = '''',
        usr_DropOnDeletion = False, usr_DropUserOptions = None\<rparr>\<rparr>"

definition Reconcile_user :: "env \<Rightarrow> NamespacedName \<Rightarrow> Result go" where
  "Reconcile_user E req = Reconcile E (user_rcl E) \<lparr>ur_NsNm = req, ur_user = zero_user, ur_users = [], ur_conn = None\<rparr>"

subsection \<open>The contract of the loop\<close>

lemma user_rcl_sel [simp]:
  "rc_CreateObj (user_rcl E) = CreateObj_user E" "rc_RemoveObj (user_rcl E) = RemoveObj_user E" "rc_LoadCR (user_rcl E) = LoadCR_user E"
  "rc_LoadObj (user_rcl E) = LoadObj_user E" "rc_EnsureCorrect (user_rcl E) = EnsureCorrect_user E" "rc_GetCR (user_rcl E) = GetCR_user"
  "rc_PutCR (user_rcl E) = PutCR_user" "rc_CleanupConn (user_rcl E) = CleanupConn_user E"
  by (simp_all add: user_rcl_def)

lemma emits_NotifyChanges_user: "P (K8sList K_DbServer) \<Longrightarrow> (\<And>x. P (TriggerDbServer x)) \<Longrightarrow> emits P (NotifyChanges_user E r)"
  unfolding NotifyChanges_user_def TriggerDbServerReconcile_def by (intro emits_intro)

lemma emits_LoadCR_user: "P (K8sGet K_User (ur_NsNm r)) \<Longrightarrow> emits P (LoadCR_user E r)"
  unfolding LoadCR_user_def by (intro emits_intro)

lemma emits_LoadObj_user: "(\<And>ev. quiet ev \<Longrightarrow> P ev) \<Longrightarrow> emits P (LoadObj_user E r)"
  unfolding LoadObj_user_def Let_def
  by (intro emits_intro emits_GetDbConnection_reco any_server.emits_get_users) auto

lemma emits_EnsureCorrect_user:
  assumes "\<And>ev. quiet ev \<Longrightarrow> P ev" "\<And>x. P (TriggerDbServer x)" "\<And>ev. priv_exec ev \<Longrightarrow> P ev"
  shows "emits P (EnsureCorrect_user E r)"
  unfolding EnsureCorrect_user_def LogAndBackoffCreation_def Let_def
  by (intro emits_intro emits_NotifyChanges_user any_user.emits_update_privs assms) (auto intro: assms)

lemma emits_generateSecret:
  "(\<And>n. P (K8sGet K_Secret n)) \<Longrightarrow> P GeneratePassword \<Longrightarrow> (\<And>ob. P (K8sCreate ob)) \<Longrightarrow> emits P (generateSecret E r)"
  unfolding generateSecret_def Let_def by (intro emits_intro)

lemma emits_CreateObj_user:
  assumes "\<And>ev. quiet ev \<Longrightarrow> P ev" "\<And>x. P (TriggerDbServer x)" "\<And>ev. priv_exec ev \<Longrightarrow> P ev"
    "\<And>ev. exec_of ''CREATE USER '' ev \<Longrightarrow> P ev" "P GeneratePassword" "\<And>ob. P (K8sCreate ob)"
  shows "emits P (CreateObj_user E r)"
proof -
  have ensure: "emits P (EnsureCorrect_user E r)" for r by (rule emits_EnsureCorrect_user) (auto intro: assms(1-3))
  have notify: "emits P (NotifyChanges_user E r)" for r by (rule emits_NotifyChanges_user) (auto intro: assms(1,2))
  have gen: "emits P (generateSecret E r)" by (rule emits_generateSecret) (auto intro: assms(1,5,6))
  have creds: "emits P (GetUserCredentials E u)" for u by (rule emits_GetUserCredentials) (auto intro: assms(1))
  have create: "emits P (conn_CreateUser E c u pw)" for c u pw by (rule any_user.emits_create_user) (auto intro: assms(1,4))
  show ?thesis
    unfolding CreateObj_user_def LogAndBackoffCreation_def Let_def
    by (intro emits_intro ensure notify gen creds create)
qed

lemma emits_RemoveObj_user:
  assumes "\<And>ev. quiet ev \<Longrightarrow> P ev" "\<And>x. P (TriggerDbServer x)"
    and "\<And>ev. usr_DropOnDeletion (usr_Spec (ur_user r)) \<Longrightarrow> drop_user_exec ev \<Longrightarrow> P ev"
  shows "emits P (RemoveObj_user E r)"
  unfolding RemoveObj_user_def LogAndBackoffDeletion_def deletion_backoff_def Let_def
  by (intro emits_intro emits_NotifyChanges_user any_user.emits_drop_user assms) (auto intro: assms)

lemma emits_CleanupConn_user: "(\<And>ev. is_close ev \<Longrightarrow> P ev) \<Longrightarrow> emits P (CleanupConn_user E r)"
  unfolding CleanupConn_user_def by (intro emits_intro any_server.emits_close)

lemma LoadObj_user_keeps: "LoadObj_user E r h = (Return (r', x), h') \<Longrightarrow> ur_user r' = ur_user r"
  by (auto simp: LoadObj_user_def run Let_def split: sum.splits prod.splits outcome.splits if_splits)

lemma RemoveObj_user_keeps: "RemoveObj_user E r h = (Return (r', x), h') \<Longrightarrow> ur_user r' = ur_user r"
  by (auto simp: RemoveObj_user_def LogAndBackoffDeletion_def run Let_def split: sum.splits prod.splits outcome.splits if_splits option.splits)

lemma priv_no_update: "priv_exec ev \<Longrightarrow> \<not> is_update ev" "drop_user_exec ev \<Longrightarrow> \<not> is_update ev"
  by (auto simp: priv_exec_def drop_user_exec_def exec_no_update)

interpretation user_ctl: reconcilable "user_rcl E" for E
proof
  fix s h s' r h' res err fs
  show "emits protects (rc_LoadCR (user_rcl E) s)" by (auto simp: protects_def intro!: emits_LoadCR_user)
  show "emits protects (rc_LoadObj (user_rcl E) s)" by (rule emits_protects) (auto simp: quiet_no_update intro!: emits_LoadObj_user)
  show "emits protects (rc_CreateObj (user_rcl E) s)"
    by (rule emits_protects) (auto simp: quiet_no_update exec_no_update priv_no_update intro!: emits_CreateObj_user)
  show "emits (\<lambda>ev. \<not> is_update ev) (rc_RemoveObj (user_rcl E) s)"
    by (auto simp: quiet_no_update priv_no_update intro!: emits_RemoveObj_user)
  show "emits protects (rc_EnsureCorrect (user_rcl E) s)"
    by (rule emits_protects) (auto simp: quiet_no_update priv_no_update intro!: emits_EnsureCorrect_user)
  show "emits protects (rc_CleanupConn (user_rcl E) s)" by (rule emits_protects) (auto simp: close_no_update intro!: emits_CleanupConn_user)
  show "rc_LoadObj (user_rcl E) s h = (Return (s', r), h') \<Longrightarrow> markedToBeDeleted (rc_GetCR (user_rcl E) s) \<Longrightarrow> markedToBeDeleted (rc_GetCR (user_rcl E) s')"
    by (auto simp: GetCR_user_def dest: LoadObj_user_keeps)
  show "rc_RemoveObj (user_rcl E) s h = (Return (s', res, err), h') \<Longrightarrow> markedToBeDeleted (rc_GetCR (user_rcl E) s) \<Longrightarrow> markedToBeDeleted (rc_GetCR (user_rcl E) s')"
    by (auto simp: GetCR_user_def dest: RemoveObj_user_keeps)
  show "rc_GetCR (user_rcl E) (rc_PutCR (user_rcl E) (set_finalizers fs (rc_GetCR (user_rcl E) s)) s) = set_finalizers fs (rc_GetCR (user_rcl E) s)"
    by (simp add: GetCR_user_def PutCR_user_def set_finalizers_def)
qed

subsection \<open>What a reconciliation of a user does\<close>

text \<open>No resource of a user loses the operator's finalizer before it is marked for deletion:
  every update that a reconciliation sends has the finalizer or carries a deletion
  timestamp, whatever the API server and the SQL server answer.\<close>

lemma Reconcile_user_protects: "emits protects (Reconcile_user E req)"
  unfolding Reconcile_user_def by (rule user_ctl.Reconcile_protects)

text \<open>The finalizer of a user that exists and is to be dropped is removed only after
  \<^verbatim>\<open>DropUser\<close> succeeded.\<close>

theorem Reconcile_user_release_after_drop:
  assumes "reconcile_obj E (user_rcl E) True True r h = (out, h @ es)" "K8sUpdate ob \<in> set es"
    and drop: "usr_DropOnDeletion (usr_Spec (ur_user r))"
  shows "\<exists>conn conn' h'. ur_conn r = Some conn \<and> conn_DropUser E conn (usr_Spec (ur_user r)) h = (Return (conn', None), h')"
proof -
  obtain r' res h' where "RemoveObj_user E r h = (Return (r', res, None), h')" "\<not> Requeue res"
    using user_ctl.release_after_removal [OF assms(1,2)] by auto
  with drop show ?thesis
    by (auto simp: RemoveObj_user_def LogAndBackoffDeletion_def deletion_backoff_def run Let_def
        split: option.splits prod.splits outcome.splits if_splits)
qed

definition demo_user :: "int option \<Rightarrow> User" where
  "demo_user deleted =
     \<lparr>usr_meta = (new_meta ''u'' ''ns'' [])\<lparr>m_DeletionTimestamp := deleted, m_Finalizers := [DB_OPERATOR_FINALIZER]\<rparr>, usr_Spec = demo_user_spec\<rparr>"

definition demo_ur :: "int option \<Rightarrow> UserReco" where
  "demo_ur deleted =
     \<lparr>ur_NsNm = \<lparr>nn_Namespace = ''ns'', nn_Name = ''u''\<rparr>, ur_user = demo_user deleted, ur_users = [], ur_conn = Some (Pg demo_pg)\<rparr>"

lemma demo_drop_user: "\<exists>conn g. conn_DropUser open_env (Pg demo_pg) demo_user_spec [] = (Return (conn, None), g)"
  by (simp add: conn_DropUser_def dispatch_def DropUser_pg_def on_demo_conn and_then_def demo_user_spec_def run)

lemma demo_release_user:
  "\<exists>out es ob. reconcile_obj open_env (user_rcl open_env) True True (demo_ur (Some 0)) [] = (out, [] @ es) \<and> K8sUpdate ob \<in> set es"
proof -
  obtain conn g where "conn_DropUser open_env (Pg demo_pg) demo_user_spec [] = (Return (conn, None), g)" using demo_drop_user by blast
  moreover have "get_DbServers open_env g = Inl down" by (simp add: open_env_def null_env_def)
  moreover have "usr_DropOnDeletion demo_user_spec" by (simp add: demo_user_spec_def)
  ultimately show ?thesis
    by (auto simp: reconcile_obj_def RemoveObj_user_def NotifyChanges_user_def TriggerDbServerReconcile_def on_cr_def RemoveFinalizer_def Update_cr_def
        GetCR_user_def demo_ur_def demo_user_def ContainsFinalizer_def Let_def run split: sum.split)
qed

theorem Reconcile_user_release_after_drop_witness:
  "\<exists>conn conn' h'. ur_conn (demo_ur (Some 0)) = Some conn \<and> conn_DropUser open_env conn demo_user_spec [] = (Return (conn', None), h')"
proof -
  obtain out es ob where "reconcile_obj open_env (user_rcl open_env) True True (demo_ur (Some 0)) [] = (out, [] @ es)" "K8sUpdate ob \<in> set es"
    using demo_release_user by blast
  from Reconcile_user_release_after_drop [OF this] show ?thesis by (simp add: demo_ur_def demo_user_def demo_user_spec_def)
qed

definition user_may_run :: "User \<Rightarrow> event \<Rightarrow> bool" where
  "user_may_run user ev \<longleftrightarrow>
     (\<forall>c q args. ev = SqlExec c q args \<longrightarrow>
        (if markedToBeDeleted (O_User user) then
           usr_DropOnDeletion (usr_Spec user) \<and>
             (prefix ''DROP USER '' q \<or> prefix ''DROP OWNED BY '' q \<or> prefix ''REASSIGN OWNED BY '' q \<or> priv_stmt q)
         else prefix ''CREATE USER '' q \<or> priv_stmt q))"

lemma no_exec_user_may_run: "quiet ev \<Longrightarrow> user_may_run user ev" "is_close ev \<Longrightarrow> user_may_run user ev"
  by (cases ev; auto simp: user_may_run_def)+

text \<open>C8: the statements that the reconciliation of a user runs on the server: while the resource is
  not marked for deletion only \<^verbatim>\<open>CREATE USER\<close> and statements on privileges; once it is
  marked, and only if its spec has \<^verbatim>\<open>DropOnDeletion\<close>, the statements that drop the user,
  drop or hand over what it owns, or revoke privileges.\<close>

theorem Reconcile_user_statements:
  assumes cr: "\<And>h user'. get_User_cr E h req = Inr user' \<Longrightarrow> user' = user"
  shows "emits (user_may_run user) (Reconcile_user E req)"
  unfolding Reconcile_user_def
proof (rule emits_Reconcile [where I = "\<lambda>b r. ur_user r = user \<and> b = markedToBeDeleted (O_User user)"], goal_cases)
  case 1
  show ?case by (auto simp: user_may_run_def intro!: emits_LoadCR_user)
next
  case (2 h s res h')
  then show ?case by (auto simp: LoadCR_user_def GetCR_user_def run dest: cr split: sum.splits)
next
  case (3 b s)
  show ?case by (auto simp: no_exec_user_may_run intro!: emits_LoadObj_user)
next
  case (4 b s h s' x h')
  then show ?case by (auto dest: LoadObj_user_keeps)
next
  case (5 s)
  then show ?case
    by (auto simp: no_exec_user_may_run exec_of_def drop_user_exec_def priv_exec_def intro!: emits_RemoveObj_user) (auto simp: user_may_run_def)
next
  case (6 s)
  then show ?case
    by (auto simp: no_exec_user_may_run exec_of_def priv_exec_def intro!: emits_CreateObj_user) (auto simp: user_may_run_def)
next
  case (7 s)
  then show ?case
    by (auto simp: no_exec_user_may_run priv_exec_def intro!: emits_EnsureCorrect_user) (auto simp: user_may_run_def)
next
  case (8 ob)
  show ?case by (simp add: user_may_run_def)
next
  case (9 s)
  show ?case by (auto simp: no_exec_user_may_run intro!: emits_CleanupConn_user)
qed

theorem Reconcile_user_statements_witness:
  "emits (user_may_run (demo_user None)) (Reconcile_user (open_env\<lparr>get_User_cr := \<lambda>_ _. Inr (demo_user None)\<rparr>) \<lparr>nn_Namespace = ''ns'', nn_Name = ''u''\<rparr>)"
  by (rule Reconcile_user_statements) simp

subsection \<open>Generated passwords\<close>

text \<open>C33: a Secret is generated only when the Secret of the user could not be read, it is stored
  under the name the user resource gives, and the credentials that are read from it
  afterwards hold the generated password.\<close>

theorem generateSecret_read_back:
  fixes r
  assumes gen: "generateSecret E r h = (Return None, h @ es)" and ob: "K8sCreate (O_Secret secret) \<in> set es"
    and name: "usr_SecretName (usr_Spec (ur_user r)) \<noteq> ''''"
    and keys: "usr_CaCertKey (usr_Spec (ur_user r)) = ''''" "usr_TlsKeyKey (usr_Spec (ur_user r)) = ''''" "usr_TlsCrtKey (usr_Spec (ur_user r)) = ''''"
    and stored: "get_Secret E' h2 \<lparr>nn_Namespace = m_Namespace (usr_meta (ur_user r)), nn_Name = usr_SecretName (usr_Spec (ur_user r))\<rparr> = Inr secret"
  shows "\<exists>err pw h1 creds h3.
     get_Secret E h \<lparr>nn_Namespace = m_Namespace (usr_meta (ur_user r)), nn_Name = usr_SecretName (usr_Spec (ur_user r))\<rparr> = Inl err \<and>
     m_Name (sec_meta secret) = usr_SecretName (usr_Spec (ur_user r)) \<and> m_Namespace (sec_meta secret) = m_Namespace (usr_meta (ur_user r)) \<and>
     gen_password E h1 = Inr pw \<and>
     GetUserCredentials E' (ur_user r) h2 = (Return (Inr (Some creds)), h3) \<and>
     cr_Password creds = Some pw \<and> cr_UserName creds = usr_UserName (usr_Spec (ur_user r))"
proof -
  let ?n = "\<lparr>nn_Namespace = m_Namespace (usr_meta (ur_user r)), nn_Name = usr_SecretName (usr_Spec (ur_user r))\<rparr>"
  obtain err pw h1 where *: "get_Secret E h ?n = Inl err" "gen_password E h1 = Inr pw"
      "secret = \<lparr>sec_meta = new_meta (usr_SecretName (usr_Spec (ur_user r))) (m_Namespace (usr_meta (ur_user r))) [],
                 sec_Data = [(password_key (usr_Spec (ur_user r)), pw)]\<rparr>"
    using gen ob by (auto simp: generateSecret_def Let_def run split: sum.splits)
  have "\<exists>creds h3. GetUserCredentials E' (ur_user r) h2 = (Return (Inr (Some creds)), h3) \<and>
      cr_Password creds = Some pw \<and> cr_UserName creds = usr_UserName (usr_Spec (ur_user r))"
    using name keys stored *(3)
    by (simp add: GetUserCredentials_def Let_def run fill_creds_def secret_key_def Nvl_def password_key_def)
  with * show ?thesis by (auto simp: new_meta_def)
qed

definition gen_env :: env where
  "gen_env = null_env\<lparr>gen_password := \<lambda>_. Inr ''pw'', k8s_create := \<lambda>_ _. None\<rparr>"

definition demo_secret :: Secret where
  "demo_secret = \<lparr>sec_meta = new_meta ''s'' ''ns'' [], sec_Data = [(''password'', ''pw'')]\<rparr>"

lemma demo_generate:
  "generateSecret gen_env (demo_ur None) [] =
     (Return None, [] @ [K8sGet K_Secret \<lparr>nn_Namespace = ''ns'', nn_Name = ''s''\<rparr>, GeneratePassword, K8sCreate (O_Secret demo_secret)])"
  by (simp add: generateSecret_def Let_def run gen_env_def null_env_def demo_ur_def demo_user_def demo_user_spec_def demo_secret_def
      password_key_def new_meta_def)

theorem generateSecret_read_back_witness:
  "\<exists>creds h3. GetUserCredentials (null_env\<lparr>get_Secret := \<lambda>_ _. Inr demo_secret\<rparr>) (demo_user None) [] = (Return (Inr (Some creds)), h3) \<and>
     cr_Password creds = Some ''pw''"
proof -
  have "\<exists>err pw h1 creds h3.
     get_Secret gen_env [] \<lparr>nn_Namespace = m_Namespace (usr_meta (ur_user (demo_ur None))), nn_Name = usr_SecretName (usr_Spec (ur_user (demo_ur None)))\<rparr> = Inl err \<and>
     m_Name (sec_meta demo_secret) = usr_SecretName (usr_Spec (ur_user (demo_ur None))) \<and>
     m_Namespace (sec_meta demo_secret) = m_Namespace (usr_meta (ur_user (demo_ur None))) \<and>
     gen_password gen_env h1 = Inr pw \<and>
     GetUserCredentials (null_env\<lparr>get_Secret := \<lambda>_ _. Inr demo_secret\<rparr>) (ur_user (demo_ur None)) [] = (Return (Inr (Some creds)), h3) \<and>
     cr_Password creds = Some pw \<and> cr_UserName creds = usr_UserName (usr_Spec (ur_user (demo_ur None)))"
    by (rule generateSecret_read_back [OF demo_generate]) (simp_all add: demo_ur_def demo_user_def demo_user_spec_def)
  then show ?thesis by (auto simp: demo_ur_def gen_env_def)
qed

text \<open>When the Secret of a new user cannot be generated, no user is created and the request is
  queued again after between one second and five minutes.\<close>

theorem Reconcile_user_secret_failure:
  assumes load: "LoadObj_user E r h = (Return (r1, Inr False), h1)" and new: "\<not> markedToBeDeleted (O_User (ur_user r))"
    and gen: "usr_GenerateSecret (usr_Spec (ur_user r))" "generateSecret E r1 h1 = (Return (Some e), h2)" and e: "\<not> IsHandledErr e"
  shows "\<exists>after. reconcile_loaded E (user_rcl E) r h = (Return (r1, \<lparr>Requeue = True, RequeueAfter = after\<rparr>), h2) \<and>
    1000000000 \<le> after \<and> after \<le> 300000000000"
proof -
  have "\<exists>res. reconcile_obj E (user_rcl E) False (markedToBeDeleted (rc_GetCR (user_rcl E) r)) r1 h1 = (Return (r1, res, Some e), h2)"
    using new gen LoadObj_user_keeps [OF load] by (simp add: reconcile_obj_def GetCR_user_def CreateObj_user_def run)
  then obtain res where "reconcile_obj E (user_rcl E) False (markedToBeDeleted (rc_GetCR (user_rcl E) r)) r1 h1 = (Return (r1, res, Some e), h2)"
    by blast
  with load e obtain t where "reconcile_loaded E (user_rcl E) r h = (Return (r1, backoff_result E t h2), h2)"
    using user_ctl.unhandled_backs_off by (metis user_rcl_sel(4))
  then show ?thesis by (auto simp: backoff_result_def)
qed

definition users_env :: env where
  "users_env = null_env\<lparr>get_DbServers := \<lambda>_. Inr [demo_server ''ns''], get_Secret := \<lambda>h n. if h = [K8sList K_DbServer] then Inr demo_secret else Inl down,
     sql_open := \<lambda>_ _ _. Inr 5, sql_query := \<lambda>_ _ _ _. Inr \<lparr>row_cols = Inr [], row_data = []\<rparr>\<rparr>"

definition new_ur :: UserReco where
  "new_ur = (demo_ur None)\<lparr>ur_user := (demo_user None)\<lparr>usr_Spec := demo_user_spec\<lparr>usr_GenerateSecret := True\<rparr>\<rparr>, ur_conn := None\<rparr>"

lemma demo_load_user: "\<exists>r1 h1. LoadObj_user users_env new_ur [] = (Return (r1, Inr False), h1) \<and> ur_user r1 = ur_user new_ur \<and> h1 \<noteq> [K8sList K_DbServer]"
  by (simp add: LoadObj_user_def new_ur_def demo_ur_def demo_user_def demo_user_spec_def run users_env_def null_env_def choose_server_def named_def local_to_def
      demo_server_def new_meta_def GetDbConnection_reco_def GetConnectInfo_def GetCredentials_def GetDbServerSecrets_def fill_creds_def secret_key_def
      demo_secret_def Nvl_def GetServerConnection_def ToLower_def lower_char_def conn_GetUsers_def dispatch_def GetUsers_pg_def on_conn_run NewPostgresConnection_def
      GetDbConnection_def open_conns_def store_creds_def PostgresConnect_def connect_string_def getConnectionString_def keep_def Let_def)

theorem Reconcile_user_secret_failure_witness:
  "\<exists>r1 h2 after. reconcile_loaded users_env (user_rcl users_env) new_ur [] = (Return (r1, \<lparr>Requeue = True, RequeueAfter = after\<rparr>), h2) \<and> after \<le> 300000000000"
proof -
  obtain r1 h1 where load: "LoadObj_user users_env new_ur [] = (Return (r1, Inr False), h1)" "ur_user r1 = ur_user new_ur" "h1 \<noteq> [K8sList K_DbServer]"
    using demo_load_user by blast
  have gen: "\<exists>h2. generateSecret users_env r1 h1 = (Return (Some down), h2)"
    using load(2,3) by (simp add: generateSecret_def users_env_def null_env_def run Let_def)
  then obtain h2 where "generateSecret users_env r1 h1 = (Return (Some down), h2)" by blast
  from Reconcile_user_secret_failure [OF load(1) _ _ this] show ?thesis
    by (auto simp: new_ur_def demo_user_def markedToBeDeleted_def new_meta_def IsHandledErr_def)
qed

subsection \<open>Flaws\<close>

text \<open>Creating a user whose resource names no Secret dereferences a nil pointer.\<close>

theorem CreateObj_user_without_secret_panics:
  assumes "usr_GenerateSecret (usr_Spec (ur_user r)) = False" "usr_SecretName (usr_Spec (ur_user r)) = ''''" "usr_PasswordKey (usr_Spec (ur_user r)) = ''''"
    "usr_TlsCrtKey (usr_Spec (ur_user r)) = ''''" "usr_TlsKeyKey (usr_Spec (ur_user r)) = ''''" "usr_CaCertKey (usr_Spec (ur_user r)) = ''''"
  shows "CreateObj_user E r h = (Panic ''nil pointer dereference'', h)"
  using assms by (simp add: CreateObj_user_def GetUserCredentials_def Let_def run split: option.split)

theorem CreateObj_user_without_secret_panics_witness:
  "CreateObj_user null_env ((demo_ur None)\<lparr>ur_user := (demo_user None)\<lparr>usr_Spec := demo_user_spec\<lparr>usr_SecretName := ''''\<rparr>\<rparr>\<rparr>) [] =
     (Panic ''nil pointer dereference'', [])"
  by (rule CreateObj_user_without_secret_panics) (simp_all add: demo_user_spec_def)

text \<open>When the server of a user cannot be found, the controller of servers is still triggered,
  with a nil server.\<close>

theorem NotifyChanges_user_triggers_nil:
  assumes "get_DbServers E h = Inl err"
  shows "NotifyChanges_user E r h = (Return (), h @ [K8sList K_DbServer, TriggerDbServer None])"
  using assms by (simp add: NotifyChanges_user_def TriggerDbServerReconcile_def run)

theorem NotifyChanges_user_triggers_nil_witness:
  "NotifyChanges_user null_env (demo_ur None) [] = (Return (), [] @ [K8sList K_DbServer, TriggerDbServer None])"
  by (rule NotifyChanges_user_triggers_nil) (simp add: null_env_def)

end
