(* ===== verification/UserDrift.thy ===== *)
theory UserDrift
  imports UserPrivs DbLifecycle UserController
begin

section \<open>A reconciliation of a user, from the request to the privileges\<close>

text \<open>
  The composition of the loop of \<^verbatim>\<open>controllers/reconcilable.go\<close>, the controller of users, the connection store and the
  privileges of \<^verbatim>\<open>dbservers/postgres\<close>: on a server and an API server that answer, reconciling a protected resource whose
  role exists corrects whatever has drifted, and the next reconciliation only reads.
\<close>

subsection \<open>The API server and the server\<close>

definition idle :: "event \<Rightarrow> bool" where
  "idle ev \<longleftrightarrow> is_close ev \<or> (\<exists>srv. ev = TriggerDbServer srv)"





definition calm :: "event \<Rightarrow> bool" where
  "calm ev \<longleftrightarrow> is_read ev \<or> idle ev"


lemma reads_calm: "list_all is_read es \<Longrightarrow> list_all calm es"
  by (auto simp: list_all_iff calm_def)


subsection \<open>The operations\<close>









subsection \<open>The loop\<close>






subsection \<open>The server with two databases\<close>








end
