(* ===== verification/DbServerController.thy ===== *)
theory DbServerController
  imports Reco
begin

section \<open>The controller of servers\<close>

text \<open>
  \<^verbatim>\<open>controllers/dbserver_controller.go\<close> (\<^verbatim>\<open>GetDbServer\<close> and \<^verbatim>\<open>TriggerDbServerReconcile\<close> are in
  theory Reco).  The resource is a pointer that updates overwrite, so \<^verbatim>\<open>SetStatus\<close> also
  returns what it points to afterwards.
\<close>

definition server_of :: "DbServer \<Rightarrow> k8s_obj \<Rightarrow> DbServer" where
  "server_of dbServer ob = (case ob of O_DbServer x \<Rightarrow> x | _ \<Rightarrow> dbServer)"

definition new_status :: "string list \<Rightarrow> string list \<Rightarrow> bool \<Rightarrow> string \<Rightarrow> DbServerStatus" where
  "new_status databaseNames userNames connectionAvailable statusMessage =
     \<lparr>srv_ConnectionAvailable = connectionAvailable, srv_Databases = Some (sort_Strings databaseNames),
      srv_Users = Some (sort_Strings userNames), srv_Message = statusMessage\<rparr>"

definition SetStatus :: "env \<Rightarrow> DbServer \<Rightarrow> string list \<Rightarrow> string list \<Rightarrow> bool \<Rightarrow> string \<Rightarrow> (DbServer \<times> error option) go" where
  "SetStatus E dbServer databaseNames userNames connectionAvailable statusMessage =
     (let (ob, changed) = AddFinalizerToCr (O_DbServer dbServer);
          dbServer = server_of dbServer ob;
          newStatus = new_status databaseNames userNames connectionAvailable statusMessage;
          updated = dbServer\<lparr>srv_Status := newStatus\<rparr>
      in if changed then
           bind_io (Update_cr E (O_DbServer updated)) (\<lambda>(ob, e). ret (server_of updated ob, e))
         else if srv_Status dbServer \<noteq> newStatus then
           bind_io (call (K8sStatusUpdate (O_DbServer updated)) (\<lambda>h. k8s_status_update E h (O_DbServer updated))) (\<lambda>x. case x of
             Inl err \<Rightarrow> ret (updated, Some (Err (''failed patching status '' @ error_msg err)))
           | Inr ob \<Rightarrow> ret (server_of updated ob, None))
         else ret (dbServer, None))"

text \<open>What is done with the connection, before the deferred \<^verbatim>\<open>Close\<close>.\<close>

definition serve :: "env \<Rightarrow> DbServer \<Rightarrow> DbServerConnection \<Rightarrow> (DbServerConnection \<times> Result) go" where
  "serve E dbServer conn =
     bind_io (conn_GetDbs E conn) (\<lambda>(conn, x). case x of
       Inl err \<Rightarrow>
         bind_io (SetStatus E dbServer [] [] False (''Failed reading databases: '' @ error_msg err)) (\<lambda>_. ret (conn, RetryAfter 3))
     | Inr databases \<Rightarrow>
         bind_io (range_map E (map fst databases)) (\<lambda>databaseNames.
           bind_io (conn_GetUsers E conn) (\<lambda>(conn, y). case y of
             Inl err \<Rightarrow>
               bind_io (SetStatus E dbServer databaseNames [] False (''Failed reading users: '' @ error_msg err)) (\<lambda>(_, e).
                 ret (conn, if e \<noteq> None then RetryAfter 3 else no_result))
           | Inr users \<Rightarrow>
               bind_io (range_map E (map fst users)) (\<lambda>userNames.
                 bind_io (SetStatus E dbServer databaseNames userNames True
                     ''successfully connected to database and retrieved users and databases'') (\<lambda>(_, e).
                   ret (conn, if e \<noteq> None then RetryAfter 3 else no_result))))))"

text \<open>The message of a failed connection is built after the status was set with an empty one.\<close>

definition Reconcile_dbserver :: "env \<Rightarrow> NamespacedName \<Rightarrow> Result go" where
  "Reconcile_dbserver E req =
     try_io (call (K8sGet K_DbServer req) (\<lambda>h. get_DbServer_cr E h req)) (\<lambda>err. ret no_result) (\<lambda>dbServer.
       if markedToBeDeleted (O_DbServer dbServer) then
         bind_io (RemoveFinalizer E (O_DbServer dbServer)) (\<lambda>(_, e). ret (if e \<noteq> None then RetryAfter 3 else no_result))
       else
         try_io (GetDbConnection_reco E req dbServer [] None)
           (\<lambda>err. bind_io (SetStatus E dbServer [] [] False '''') (\<lambda>(dbServer, _).
              GradualBackoffRetry E (m_CreationTimestamp (srv_meta dbServer))))
           (\<lambda>conn. bind_io (serve E dbServer conn) (\<lambda>(conn, res).
              bind_io (conn_Close E conn) (\<lambda>_. ret res))))"

subsection \<open>What a reconciliation of a server does\<close>

lemma server_of_finalizers [simp]: "server_of srv (set_finalizers fs (O_DbServer srv)) = srv\<lparr>srv_meta := (srv_meta srv)\<lparr>m_Finalizers := fs\<rparr>\<rparr>"
  by (simp add: server_of_def set_finalizers_def)

lemma ContainsFinalizer_server: "ContainsFinalizer (O_DbServer srv) \<longleftrightarrow> DB_OPERATOR_FINALIZER \<in> set (m_Finalizers (srv_meta srv))"
  by (simp add: ContainsFinalizer_def)

lemma SetStatus_run:
  "SetStatus E srv dbs us avail msg h =
     (let st = new_status dbs us avail msg in
      if \<not> ContainsFinalizer (O_DbServer srv) then
        (let up = srv\<lparr>srv_meta := (srv_meta srv)\<lparr>m_Finalizers := m_Finalizers (srv_meta srv) @ [DB_OPERATOR_FINALIZER]\<rparr>, srv_Status := st\<rparr> in
         case k8s_update E h (O_DbServer up) of
           Inl err \<Rightarrow> (Return (up, Some err), h @ [K8sUpdate (O_DbServer up)])
         | Inr ob \<Rightarrow> (Return (server_of up ob, None), h @ [K8sUpdate (O_DbServer up)]))
      else if srv_Status srv \<noteq> st then
        (let up = srv\<lparr>srv_Status := st\<rparr> in
         case k8s_status_update E h (O_DbServer up) of
           Inl err \<Rightarrow> (Return (up, Some (Err (''failed patching status '' @ error_msg err))), h @ [K8sStatusUpdate (O_DbServer up)])
         | Inr ob \<Rightarrow> (Return (server_of up ob, None), h @ [K8sStatusUpdate (O_DbServer up)]))
      else (Return (srv, None), h))"
  by (auto simp: SetStatus_def AddFinalizerToCr_def Update_cr_def server_of_def set_finalizers_def Let_def run split: sum.split)

lemma emits_SetStatus:
  "(\<And>srv. ContainsFinalizer (O_DbServer srv) \<Longrightarrow> P (K8sUpdate (O_DbServer srv))) \<Longrightarrow> (\<And>ob. P (K8sStatusUpdate ob)) \<Longrightarrow>
     emits P (SetStatus E srv dbs us avail msg)"
  by (auto simp: SetStatus_def AddFinalizerToCr_def ContainsFinalizer_server Let_def intro!: emits_intro)

lemma emits_serve:
  assumes "\<And>ev. quiet ev \<Longrightarrow> P ev" "\<And>srv. ContainsFinalizer (O_DbServer srv) \<Longrightarrow> P (K8sUpdate (O_DbServer srv))" "\<And>ob. P (K8sStatusUpdate ob)"
  shows "emits P (serve E srv conn)"
  unfolding serve_def
  by (intro emits_intro any_server.emits_get_dbs any_server.emits_get_users emits_SetStatus assms)

fun server_event :: "event \<Rightarrow> bool" where
  "server_event (SqlExec _ _ _) = False"
| "server_event (K8sUpdate ob) = protects (K8sUpdate ob)"
| "server_event (K8sStatusUpdate _) = True"
| "server_event (SqlClose _) = True"
| "server_event ev = quiet ev"

lemma quiet_server_event: "quiet ev \<Longrightarrow> server_event ev"
  by (cases ev) auto

lemma close_server_event: "is_close ev \<Longrightarrow> server_event ev"
  by (cases ev) auto

lemma emits_dbserver_rest:
  "emits server_event (if markedToBeDeleted (O_DbServer dbServer) then
         bind_io (RemoveFinalizer E (O_DbServer dbServer)) (\<lambda>(_, e). ret (if e \<noteq> None then RetryAfter 3 else no_result))
       else
         try_io (GetDbConnection_reco E req dbServer [] None)
           (\<lambda>err. bind_io (SetStatus E dbServer [] [] False '''') (\<lambda>(dbServer, _).
              GradualBackoffRetry E (m_CreationTimestamp (srv_meta dbServer))))
           (\<lambda>conn. bind_io (serve E dbServer conn) (\<lambda>(conn, res).
              bind_io (conn_Close E conn) (\<lambda>_. ret res))))"
proof -
  have "emits server_event (RemoveFinalizer E (O_DbServer dbServer))" if "markedToBeDeleted (O_DbServer dbServer)"
    using that by (auto simp: RemoveFinalizer_def protects_def intro!: emits_intro)
  moreover have "emits server_event (SetStatus E srv dbs us avail msg)" for srv dbs us avail msg
    by (rule emits_SetStatus) (auto simp: protects_def)
  moreover have "emits server_event (serve E srv conn)" for srv conn
    by (rule emits_serve) (auto simp: protects_def quiet_server_event)
  moreover have "emits server_event (GetDbConnection_reco E req srv [] None)" for srv
    by (rule emits_GetDbConnection_reco) simp
  moreover have "emits server_event (conn_Close E c)" for c
    by (rule any_server.emits_close) (rule close_server_event)
  ultimately show ?thesis by (intro emits_intro) simp_all
qed

lemma Reconcile_dbserver_events: "emits server_event (Reconcile_dbserver E req)"
  unfolding Reconcile_dbserver_def by (intro emits_try emits_dbserver_rest emits_intro) simp_all

lemma server_event_protects: "server_event ev \<Longrightarrow> protects ev"
  by (cases ev) (auto simp: protects_def)

lemma Reconcile_dbserver_protects: "emits protects (Reconcile_dbserver E req)"
  by (rule emits_mono [OF Reconcile_dbserver_events server_event_protects])

text \<open>C34: reconciling a server runs no statement on it: it only queries, closes its connections and
  writes the status of its resource, and the operator's finalizer is taken only from a
  resource that is marked for deletion.\<close>

theorem Reconcile_dbserver_only_reads: "emits server_event (Reconcile_dbserver E req)"
  by (rule Reconcile_dbserver_events)

text \<open>C35: the status of a server converges: the first call of \<^verbatim>\<open>SetStatus\<close> may have to add the
  finalizer by an update, which leaves the stored status alone, and the second writes the
  status; from then on setting it to the same databases and users, in whatever order the
  Go maps yield them, sends nothing.\<close>

theorem SetStatus_converges:
  assumes update: "\<And>h srv. \<exists>st. k8s_update E h (O_DbServer srv) = Inr (O_DbServer (srv\<lparr>srv_Status := st\<rparr>))"
    and status: "\<And>h srv. k8s_status_update E h (O_DbServer srv) = Inr (O_DbServer srv)"
    and same: "mset dbs' = mset dbs" "mset us' = mset us"
  shows "\<exists>srv1 h1 srv2 h2.
    SetStatus E srv dbs us avail msg h = (Return (srv1, None), h1) \<and>
    SetStatus E srv1 dbs us avail msg h1 = (Return (srv2, None), h2) \<and>
    SetStatus E srv2 dbs' us' avail msg h2 = (Return (srv2, None), h2) \<and>
    ContainsFinalizer (O_DbServer srv2) \<and>
    srv_Databases (srv_Status srv2) = Some (sort_Strings dbs) \<and> srv_Users (srv_Status srv2) = Some (sort_Strings us)"
proof -
  have "sort_Strings dbs' = sort_Strings dbs" "sort_Strings us' = sort_Strings us"
    unfolding sort_Strings_def using same by (auto intro!: properties_for_sort)
  then have st: "new_status dbs' us' avail msg = new_status dbs us avail msg" by (simp add: new_status_def)
  have first: "\<exists>srv1 h1. SetStatus E srv dbs us avail msg h = (Return (srv1, None), h1) \<and> ContainsFinalizer (O_DbServer srv1)" for srv h
    using update [of h "srv\<lparr>srv_meta := (srv_meta srv)\<lparr>m_Finalizers := m_Finalizers (srv_meta srv) @ [DB_OPERATOR_FINALIZER]\<rparr>,
        srv_Status := new_status dbs us avail msg\<rparr>"]
    by (auto simp: SetStatus_run status ContainsFinalizer_server server_of_def Let_def)
  have second: "\<exists>srv2 h2. SetStatus E srv1 dbs us avail msg h = (Return (srv2, None), h2) \<and> ContainsFinalizer (O_DbServer srv2) \<and>
      srv_Status srv2 = new_status dbs us avail msg" if "ContainsFinalizer (O_DbServer srv1)" for srv1 h
    using that by (auto simp: SetStatus_run status ContainsFinalizer_server server_of_def Let_def)
  have third: "SetStatus E srv2 dbs' us' avail msg h = (Return (srv2, None), h)"
    if "ContainsFinalizer (O_DbServer srv2)" "srv_Status srv2 = new_status dbs us avail msg" for srv2 h
    using that by (simp add: SetStatus_run st)
  show ?thesis using first [of srv h] second third by (fastforce simp: new_status_def)
qed

definition storing_env :: env where
  "storing_env = null_env\<lparr>k8s_update := \<lambda>_ ob. case ob of O_DbServer srv \<Rightarrow> Inr (O_DbServer (srv\<lparr>srv_Status := srv_Status (demo_server ''ns'')\<rparr>)) | _ \<Rightarrow> Inl down,
     k8s_status_update := \<lambda>_ ob. Inr ob\<rparr>"

theorem SetStatus_converges_witness:
  "\<exists>srv1 h1 srv2 h2.
    SetStatus storing_env (demo_server ''ns'') [''b'', ''a''] [''u''] True ''ok'' [] = (Return (srv1, None), h1) \<and>
    SetStatus storing_env srv1 [''b'', ''a''] [''u''] True ''ok'' h1 = (Return (srv2, None), h2) \<and>
    SetStatus storing_env srv2 [''a'', ''b''] [''u''] True ''ok'' h2 = (Return (srv2, None), h2)"
  using SetStatus_converges [of storing_env "[''a'', ''b'']" "[''b'', ''a'']" "[''u'']" "[''u'']" "demo_server ''ns''" True "''ok''" "[]"]
  by (auto simp: storing_env_def)

text \<open>When the connection of a server cannot be built, the status that is written has an empty
  message: the text that names the error is put together only afterwards.\<close>

theorem Reconcile_dbserver_failure_has_no_message:
  assumes cr: "get_DbServer_cr E h req = Inr srv" "\<not> markedToBeDeleted (O_DbServer srv)"
    and conn: "GetDbConnection_reco E req srv [] None (h @ [K8sGet K_DbServer req]) = (Return (Inl err), h1)"
    and run: "Reconcile_dbserver E req h = (out, h1 @ es)"
    and ev: "K8sUpdate (O_DbServer srv') \<in> set es \<or> K8sStatusUpdate (O_DbServer srv') \<in> set es"
  shows "srv_Message (srv_Status srv') = '''' \<and> \<not> srv_ConnectionAvailable (srv_Status srv')"
proof -
  have "snd (SetStatus E srv [] [] False '''' h1) = h1 @ es"
    using cr conn run by (auto simp: Reconcile_dbserver_def run_try run_call run_bind run_backoff split: prod.splits outcome.splits)
  then show ?thesis
    using ev
    by (auto simp: SetStatus_def AddFinalizerToCr_def Update_cr_def new_status_def Let_def run_bind run_call run_ret split: if_splits sum.splits)
qed

definition lone_env :: env where
  "lone_env = null_env\<lparr>get_DbServer_cr := \<lambda>_ _. Inr (demo_server ''ns'')\<rparr>"

definition lone_req :: NamespacedName where
  "lone_req = \<lparr>nn_Namespace = ''ns'', nn_Name = ''srv''\<rparr>"

definition lone_written :: DbServer where
  "lone_written = (demo_server ''ns'')\<lparr>srv_meta := (srv_meta (demo_server ''ns''))\<lparr>m_Finalizers := [DB_OPERATOR_FINALIZER]\<rparr>,
     srv_Status := new_status [] [] False ''''\<rparr>"

lemma lone_conn:
  "\<exists>err. GetDbConnection_reco lone_env lone_req (demo_server ''ns'') [] None ([] @ [K8sGet K_DbServer lone_req]) =
     (Return (Inl err), [K8sGet K_DbServer lone_req, K8sGet K_Secret \<lparr>nn_Namespace = ''ns'', nn_Name = ''s''\<rparr>])"
  by (simp add: GetDbConnection_reco_def GetConnectInfo_def GetCredentials_def GetDbServerSecrets_def lone_env_def null_env_def demo_server_def new_meta_def Let_def run)

lemma lone_run:
  "\<exists>out. Reconcile_dbserver lone_env lone_req [] =
     (out, [K8sGet K_DbServer lone_req, K8sGet K_Secret \<lparr>nn_Namespace = ''ns'', nn_Name = ''s''\<rparr>] @ [K8sUpdate (O_DbServer lone_written)])"
  by (simp add: Reconcile_dbserver_def GetDbConnection_reco_def GetConnectInfo_def GetCredentials_def GetDbServerSecrets_def lone_env_def null_env_def lone_written_def
      demo_server_def new_meta_def SetStatus_def AddFinalizerToCr_def ContainsFinalizer_def Update_cr_def server_of_def set_finalizers_def markedToBeDeleted_def Let_def run)

theorem Reconcile_dbserver_failure_has_no_message_witness:
  "srv_Message (srv_Status lone_written) = '''' \<and> \<not> srv_ConnectionAvailable (srv_Status lone_written)"
proof -
  obtain err where c: "GetDbConnection_reco lone_env lone_req (demo_server ''ns'') [] None ([] @ [K8sGet K_DbServer lone_req]) =
     (Return (Inl err), [K8sGet K_DbServer lone_req, K8sGet K_Secret \<lparr>nn_Namespace = ''ns'', nn_Name = ''s''\<rparr>])"
    using lone_conn by blast
  obtain out where "Reconcile_dbserver lone_env lone_req [] =
     (out, [K8sGet K_DbServer lone_req, K8sGet K_Secret \<lparr>nn_Namespace = ''ns'', nn_Name = ''s''\<rparr>] @ [K8sUpdate (O_DbServer lone_written)])"
    using lone_run by blast
  from Reconcile_dbserver_failure_has_no_message [OF _ _ c this] show ?thesis
    by (simp add: lone_env_def markedToBeDeleted_def demo_server_def new_meta_def)
qed

end
