(* ===== verification/SchemaController.thy ===== *)
theory SchemaController
  imports Reco
begin

section \<open>The controller of schemas\<close>

text \<open>
  \<^verbatim>\<open>controllers/schema_controller.go\<close>.  Both the finalizer that \<^verbatim>\<open>LoadCR\<close> removes and the
  status that \<^verbatim>\<open>SetStatus\<close> writes go through a pointer to the resource held by the
  controller object.
\<close>

record SchemaReco =
  sr_NsNm :: NamespacedName
  sr_db :: Db
  sr_schema :: Schema
  sr_schemas :: "DbSideSchema gomap"
  sr_conn :: "DbServerConnection option"

definition GetCR_schema :: "SchemaReco \<Rightarrow> k8s_obj" where
  "GetCR_schema r = O_Schema (sr_schema r)"

definition PutCR_schema :: "k8s_obj \<Rightarrow> SchemaReco \<Rightarrow> SchemaReco" where
  "PutCR_schema ob r = (case ob of O_Schema schema \<Rightarrow> r\<lparr>sr_schema := schema\<rparr> | _ \<Rightarrow> r)"

definition LoadCR_schema :: "env \<Rightarrow> SchemaReco \<Rightarrow> (SchemaReco \<times> Result \<times> error option) go" where
  "LoadCR_schema E r =
     try_io (call (K8sGet K_Schema (sr_NsNm r)) (\<lambda>h. get_Schema_cr E h (sr_NsNm r))) (\<lambda>err. ret (r, no_result, Some err)) (\<lambda>schema.
       let r = r\<lparr>sr_schema := schema\<rparr>;
           dbNsm = \<lparr>nn_Namespace = nn_Namespace (sr_NsNm r), nn_Name = sch_DbName (sch_Spec schema)\<rparr>;
           backoff = (\<lambda>r. bind_io (GradualBackoffRetry E (m_CreationTimestamp (sch_meta (sr_schema r)))) (\<lambda>res. ret (r, res, None)))
       in try_io (call (K8sGet K_Db dbNsm) (\<lambda>h. get_Db_cr E h dbNsm))
            (\<lambda>err.
               if markedToBeDeleted (O_Schema schema) then
                 bind_io (RemoveFinalizer E (O_Schema schema)) (\<lambda>(ob, err).
                   let r = PutCR_schema ob r in if err \<noteq> None then backoff r else ret (r, no_result, None))
               else backoff r)
            (\<lambda>db. ret (r\<lparr>sr_db := db\<rparr>, no_result, None)))"

definition SetStatus_schema :: "env \<Rightarrow> SchemaReco \<Rightarrow> bool \<Rightarrow> (SchemaReco \<times> error option) go" where
  "SetStatus_schema E r created =
     (let schema = sr_schema r; newStatus = \<lparr>sch_Created = created\<rparr>; updated = schema\<lparr>sch_Status := newStatus\<rparr> in
      if sch_Status schema \<noteq> newStatus then
        bind_io (call (K8sStatusUpdate (O_Schema updated)) (\<lambda>h. k8s_status_update E h (O_Schema updated))) (\<lambda>x. case x of
          Inl err \<Rightarrow> ret (r\<lparr>sr_schema := updated\<rparr>, Some (Err (''failed patching status '' @ error_msg err)))
        | Inr ob \<Rightarrow> ret (PutCR_schema ob (r\<lparr>sr_schema := updated\<rparr>), None))
      else ret (r, None))"

definition set_created :: "env \<Rightarrow> SchemaReco \<Rightarrow> SchemaReco go" where
  "set_created E r =
     (if \<not> sch_Created (sch_Status (sr_schema r)) then bind_io (SetStatus_schema E r True) (\<lambda>(r, _). ret r) else ret r)"

definition LoadObj_schema :: "env \<Rightarrow> SchemaReco \<Rightarrow> (SchemaReco \<times> (error + bool)) go" where
  "LoadObj_schema E r =
     (let spec = sch_Spec (sr_schema r) in
      try_io (GetDbServer E (sch_Server spec) (nn_Namespace (sr_NsNm r)))
        (\<lambda>err. if \<not> CannotFindError err then ret (r, Inl err) else ret (r, Inr False))
        (\<lambda>dbServer.
           let creators = (case sch_Creator spec of None \<Rightarrow> [] | Some c \<Rightarrow> [c]) in
           try_io (GetDbConnection_reco E (sr_NsNm r) dbServer creators (Some (sch_DbName spec))) (\<lambda>err. ret (r, Inl err)) (\<lambda>conn.
             bind_io (conn_GetSchemas E conn (sch_Creator spec)) (\<lambda>(conn, x).
               let r = r\<lparr>sr_conn := Some conn\<rparr> in
               case x of
                 Inl err \<Rightarrow> ret (r, Inl err)
               | Inr schemas \<Rightarrow>
                   let r = r\<lparr>sr_schemas := schemas\<rparr> in
                   if map_of schemas (sch_Name spec) \<noteq> None
                   then bind_io (set_created E r) (\<lambda>r. ret (r, Inr True))
                   else ret (r, Inr False)))))"

definition CreateObj_schema :: "env \<Rightarrow> SchemaReco \<Rightarrow> (SchemaReco \<times> Result \<times> error option) go" where
  "CreateObj_schema E r =
     (let spec = sch_Spec (sr_schema r) in
      case sr_conn r of
        None \<Rightarrow> bind_io (GradualBackoffRetry E (m_CreationTimestamp (sch_meta (sr_schema r)))) (\<lambda>res. ret (r, res, None))
      | Some conn \<Rightarrow>
          bind_io (conn_CreateSchema E conn (sch_Name spec) (sch_Creator spec)) (\<lambda>(conn, err).
            let r = r\<lparr>sr_conn := Some conn\<rparr> in
            if err \<noteq> None then bind_io (LogAndBackoffCreation E (GetCR_schema r)) (\<lambda>(res, e). ret (r, res, e))
            else bind_io (set_created E r) (\<lambda>r. ret (r, no_result, None))))"

text \<open>The name that is dropped is that of the resource, not that of the spec.\<close>

definition RemoveObj_schema :: "env \<Rightarrow> SchemaReco \<Rightarrow> (SchemaReco \<times> Result \<times> error option) go" where
  "RemoveObj_schema E r =
     (let schema = sr_schema r; spec = sch_Spec schema in
      if sch_DropOnDeletion spec then
        (case sr_conn r of
           None \<Rightarrow> panic ''nil pointer dereference''
         | Some conn \<Rightarrow>
             bind_io (conn_DropSchema E conn (m_Name (sch_meta schema)) (sch_Creator spec) (sch_CascadeOnDrop spec)) (\<lambda>(conn, err).
               let r = r\<lparr>sr_conn := Some conn\<rparr> in
               if err \<noteq> None then bind_io (LogAndBackoffCreation E (GetCR_schema r)) (\<lambda>(res, e). ret (r, res, e))
               else ret (r, no_result, None)))
      else ret (r, no_result, None))"

definition EnsureCorrect_schema :: "SchemaReco \<Rightarrow> (SchemaReco \<times> Result \<times> error option) go" where
  "EnsureCorrect_schema r = ret (r, no_result, None)"

definition CleanupConn_schema :: "env \<Rightarrow> SchemaReco \<Rightarrow> SchemaReco go" where
  "CleanupConn_schema E r =
     (case sr_conn r of
        None \<Rightarrow> ret r
      | Some conn \<Rightarrow> bind_io (conn_Close E conn) (\<lambda>(conn, _). ret (r\<lparr>sr_conn := Some conn\<rparr>)))"

definition schema_rcl :: "env \<Rightarrow> SchemaReco Reconcilable" where
  "schema_rcl E =
     \<lparr>rc_CreateObj = CreateObj_schema E, rc_RemoveObj = RemoveObj_schema E, rc_LoadCR = LoadCR_schema E, rc_LoadObj = LoadObj_schema E,
      rc_EnsureCorrect = EnsureCorrect_schema, rc_GetCR = GetCR_schema, rc_PutCR = PutCR_schema, rc_CleanupConn = CleanupConn_schema E\<rparr>"

definition zero_schema :: Schema where
  "zero_schema =
     \<lparr>sch_meta = new_meta '''' '''' [],
      sch_Spec = \<lparr>sch_Server = '''', sch_DbName = '''', sch_Name = '''', sch_DropOnDeletion = False, sch_CascadeOnDrop = False, sch_Creator = None\<rparr>,
      sch_Status = \<lparr>sch_Created = False\<rparr>\<rparr>"

definition no_db :: Db where
  "no_db =
     \<lparr>db_meta = new_meta '''' '''' [],
      db_Spec = \<lparr>db_Server = '''', db_DbName = '''', db_DropOnDeletion = False, db_CascadeOnDrop = False, db_AfterCreateSQL = ''''\<rparr>\<rparr>"

definition Reconcile_schema :: "env \<Rightarrow> NamespacedName \<Rightarrow> Result go" where
  "Reconcile_schema E req =
     Reconcile E (schema_rcl E) \<lparr>sr_NsNm = req, sr_db = no_db, sr_schema = zero_schema, sr_schemas = [], sr_conn = None\<rparr>"

subsection \<open>What the operations send\<close>

lemma schema_rcl_sel [simp]:
  "rc_CreateObj (schema_rcl E) = CreateObj_schema E" "rc_RemoveObj (schema_rcl E) = RemoveObj_schema E" "rc_LoadCR (schema_rcl E) = LoadCR_schema E"
  "rc_LoadObj (schema_rcl E) = LoadObj_schema E" "rc_EnsureCorrect (schema_rcl E) = EnsureCorrect_schema" "rc_GetCR (schema_rcl E) = GetCR_schema"
  "rc_PutCR (schema_rcl E) = PutCR_schema" "rc_CleanupConn (schema_rcl E) = CleanupConn_schema E"
  by (simp_all add: schema_rcl_def)

lemma emits_conn_GetSchemas: "(\<And>ev. quiet ev \<Longrightarrow> P ev) \<Longrightarrow> emits P (conn_GetSchemas E conn u)"
  unfolding conn_GetSchemas_def GetSchemas_pg_def GetSchemas_mysql_def GetSchemas_def
  by (intro emits_dispatch emits_on_pg emits_keep emits_intro) (auto simp: open_quiet)

lemma emits_conn_CreateSchema:
  "(\<And>ev. quiet ev \<Longrightarrow> P ev) \<Longrightarrow> (\<And>ev. exec_of ''CREATE SCHEMA '' ev \<Longrightarrow> P ev) \<Longrightarrow> emits P (conn_CreateSchema E conn n c)"
  unfolding conn_CreateSchema_def CreateSchema_pg_def CreateSchema_mysql_def Execute_pg_def
  by (intro emits_dispatch emits_on_pg emits_keep emits_intro) (auto simp: open_quiet exec_of_def)

definition drops_schema :: "env \<Rightarrow> string \<Rightarrow> event \<Rightarrow> bool" where
  "drops_schema E n ev \<longleftrightarrow> exec_of (''DROP SCHEMA '' @ pq_QuoteIdentifier (lib E) n) ev"

lemma drops_schema_exec: "drops_schema E n ev \<Longrightarrow> exec_of ''DROP SCHEMA '' ev"
  unfolding drops_schema_def exec_of_def by (metis append_prefixD)

lemma emits_conn_DropSchema:
  "(\<And>ev. quiet ev \<Longrightarrow> P ev) \<Longrightarrow> (\<And>ev. drops_schema E n ev \<Longrightarrow> P ev) \<Longrightarrow> emits P (conn_DropSchema E conn n u b)"
  unfolding conn_DropSchema_def DropSchema_pg_def DropSchema_mysql_def Let_def
  by (intro emits_dispatch emits_on_pg emits_keep emits_intro) (auto simp: open_quiet drops_schema_def exec_of_def)

lemma emits_set_created: "(\<And>ob. P (K8sStatusUpdate ob)) \<Longrightarrow> emits P (set_created E r)"
  unfolding set_created_def SetStatus_schema_def Let_def by (intro emits_intro)

lemma emits_LoadObj_schema: "(\<And>ev. quiet ev \<Longrightarrow> P ev) \<Longrightarrow> (\<And>ob. P (K8sStatusUpdate ob)) \<Longrightarrow> emits P (LoadObj_schema E r)"
  unfolding LoadObj_schema_def Let_def
  by (intro emits_intro emits_GetDbConnection_reco emits_conn_GetSchemas emits_set_created) auto

lemma emits_CreateObj_schema:
  "(\<And>ev. quiet ev \<Longrightarrow> P ev) \<Longrightarrow> (\<And>ob. P (K8sStatusUpdate ob)) \<Longrightarrow> (\<And>ev. exec_of ''CREATE SCHEMA '' ev \<Longrightarrow> P ev) \<Longrightarrow> emits P (CreateObj_schema E r)"
  unfolding CreateObj_schema_def LogAndBackoffCreation_def Let_def
  by (intro emits_intro emits_conn_CreateSchema emits_set_created) auto

lemma emits_RemoveObj_schema:
  "(\<And>ev. quiet ev \<Longrightarrow> P ev) \<Longrightarrow>
   (\<And>ev. sch_DropOnDeletion (sch_Spec (sr_schema r)) \<Longrightarrow> drops_schema E (m_Name (sch_meta (sr_schema r))) ev \<Longrightarrow> P ev) \<Longrightarrow>
     emits P (RemoveObj_schema E r)"
  unfolding RemoveObj_schema_def LogAndBackoffCreation_def Let_def
  by (intro emits_intro emits_conn_DropSchema) auto

lemma emits_CleanupConn_schema: "(\<And>ev. is_close ev \<Longrightarrow> P ev) \<Longrightarrow> emits P (CleanupConn_schema E r)"
  unfolding CleanupConn_schema_def by (intro emits_intro any_server.emits_close)

lemma emits_LoadCR_schema:
  assumes "\<And>k n. P (K8sGet k n)" "\<And>s fs. markedToBeDeleted (O_Schema s) \<Longrightarrow> P (K8sUpdate (set_finalizers fs (O_Schema s)))"
  shows "emits P (LoadCR_schema E r)"
  unfolding LoadCR_schema_def RemoveFinalizer_def Let_def by (intro emits_intro assms)

subsection \<open>An API server that answers updates faithfully\<close>

text \<open>
  The answer to an update of a schema or of its status is the stored resource: it has the
  spec that was sent and the deletion timestamp is not taken away.
\<close>

definition keeps_schema :: "env \<Rightarrow> bool" where
  "keeps_schema E \<longleftrightarrow>
     (\<forall>h s ob. k8s_update E h (O_Schema s) = Inr ob \<or> k8s_status_update E h (O_Schema s) = Inr ob \<longrightarrow>
        (\<exists>s'. ob = O_Schema s' \<and> sch_Spec s' = sch_Spec s \<and> m_DeletionTimestamp (sch_meta s') = m_DeletionTimestamp (sch_meta s)))"

definition same_schema :: "SchemaReco \<Rightarrow> SchemaReco \<Rightarrow> bool" where
  "same_schema r r' \<longleftrightarrow>
     sch_Spec (sr_schema r') = sch_Spec (sr_schema r) \<and>
     m_DeletionTimestamp (sch_meta (sr_schema r')) = m_DeletionTimestamp (sch_meta (sr_schema r))"

lemma set_created_same:
  assumes "keeps_schema E" "set_created E r h = (Return r', h')"
  shows "same_schema r r'"
proof -
  have "\<exists>s'. ob = O_Schema s' \<and> sch_Spec s' = sch_Spec s \<and> m_DeletionTimestamp (sch_meta s') = m_DeletionTimestamp (sch_meta s)"
    if "k8s_status_update E h (O_Schema s) = Inr ob" for h s ob
    using assms(1) that by (auto simp: keeps_schema_def)
  from this [of _ "sr_schema r\<lparr>sch_Status := \<lparr>sch_Created = True\<rparr>\<rparr>"] assms(2) show ?thesis
    by (fastforce simp: set_created_def SetStatus_schema_def PutCR_schema_def same_schema_def Let_def run split: if_splits sum.splits)
qed

lemma LoadObj_schema_same:
  assumes "keeps_schema E" "LoadObj_schema E r h = (Return (r', x), h')"
  shows "same_schema r r'"
  using assms(2) set_created_same [OF assms(1)]
  by (auto simp: LoadObj_schema_def Let_def run split: sum.splits prod.splits outcome.splits if_splits)
     (fastforce simp: same_schema_def)+

lemma RemoveObj_schema_keeps: "RemoveObj_schema E r h = (Return (r', x), h') \<Longrightarrow> sr_schema r' = sr_schema r"
  by (auto simp: RemoveObj_schema_def LogAndBackoffCreation_def run Let_def split: prod.splits outcome.splits if_splits option.splits)

lemma quiet_not_update: "quiet ev \<Longrightarrow> \<not> is_update ev" "is_close ev \<Longrightarrow> \<not> is_update ev" "exec_of pre ev \<Longrightarrow> \<not> is_update ev"
  by (cases ev; auto simp: exec_of_def)+

lemma schema_reconcilable:
  assumes E: "keeps_schema E"
  shows "reconcilable (schema_rcl E)"
proof
  fix s h s' r h' res err fs
  show "emits protects (rc_LoadCR (schema_rcl E) s)" by (auto simp: protects_def intro!: emits_LoadCR_schema)
  show "emits protects (rc_LoadObj (schema_rcl E) s)" by (rule emits_protects) (auto simp: quiet_not_update intro!: emits_LoadObj_schema)
  show "emits protects (rc_CreateObj (schema_rcl E) s)" by (rule emits_protects) (auto simp: quiet_not_update intro!: emits_CreateObj_schema)
  show "emits (\<lambda>ev. \<not> is_update ev) (rc_RemoveObj (schema_rcl E) s)"
    by (auto simp: quiet_not_update drops_schema_def intro!: emits_RemoveObj_schema)
  show "emits protects (rc_EnsureCorrect (schema_rcl E) s)" by (rule emits_protects) (simp add: EnsureCorrect_schema_def emits_ret)
  show "emits protects (rc_CleanupConn (schema_rcl E) s)" by (rule emits_protects) (auto simp: quiet_not_update intro!: emits_CleanupConn_schema)
  show "rc_LoadObj (schema_rcl E) s h = (Return (s', r), h') \<Longrightarrow> markedToBeDeleted (rc_GetCR (schema_rcl E) s) \<Longrightarrow> markedToBeDeleted (rc_GetCR (schema_rcl E) s')"
    by (auto simp: GetCR_schema_def markedToBeDeleted_def same_schema_def dest!: LoadObj_schema_same [OF E])
  show "rc_RemoveObj (schema_rcl E) s h = (Return (s', res, err), h') \<Longrightarrow> markedToBeDeleted (rc_GetCR (schema_rcl E) s) \<Longrightarrow> markedToBeDeleted (rc_GetCR (schema_rcl E) s')"
    by (auto simp: GetCR_schema_def dest: RemoveObj_schema_keeps)
  show "rc_GetCR (schema_rcl E) (rc_PutCR (schema_rcl E) (set_finalizers fs (rc_GetCR (schema_rcl E) s)) s) = set_finalizers fs (rc_GetCR (schema_rcl E) s)"
    by (simp add: GetCR_schema_def PutCR_schema_def set_finalizers_def)
qed

lemma LoadCR_schema_same:
  assumes E: "keeps_schema E" and cr: "\<And>h schema'. get_Schema_cr E h (sr_NsNm r) = Inr schema' \<Longrightarrow> schema' = schema"
    and run: "LoadCR_schema E r h = (Return (r', res, None), h')"
  shows "sch_Spec (sr_schema r') = sch_Spec schema \<and> m_DeletionTimestamp (sch_meta (sr_schema r')) = m_DeletionTimestamp (sch_meta schema)"
proof -
  obtain schema' where s: "get_Schema_cr E h (sr_NsNm r) = Inr schema'"
    using run by (auto simp: LoadCR_schema_def run_try run_call run_ret Let_def split: sum.splits)
  with cr have eq: "schema' = schema" by blast
  have keep: "\<exists>s'. ob = O_Schema s' \<and> sch_Spec s' = sch_Spec s \<and> m_DeletionTimestamp (sch_meta s') = m_DeletionTimestamp (sch_meta s)"
    if "k8s_update E h (O_Schema s) = Inr ob" for h s ob
    using E that by (auto simp: keeps_schema_def)
  let ?fs = "filter (\<lambda>f. f \<noteq> DB_OPERATOR_FINALIZER) (m_Finalizers (sch_meta schema))"
  have "RemoveFinalizer E (O_Schema schema) g = (Return (ob, e), g') \<Longrightarrow>
      (\<exists>s'. ob = O_Schema s' \<and> sch_Spec s' = sch_Spec schema \<and> m_DeletionTimestamp (sch_meta s') = m_DeletionTimestamp (sch_meta schema))" for g ob e g'
    using keep [of _ "schema\<lparr>sch_meta := sch_meta schema\<lparr>m_Finalizers := ?fs\<rparr>\<rparr>" ob]
    by (auto simp: RemoveFinalizer_def Update_cr_def set_finalizers_def run_bind run_call run_ret split: sum.splits)
  then show ?thesis
    using run s eq
    by (auto simp: LoadCR_schema_def PutCR_schema_def run_try run_call run_ret run_bind run_backoff Let_def
        split: sum.splits if_splits prod.splits outcome.splits) fastforce+
qed

definition schema_may_run :: "Schema \<Rightarrow> event \<Rightarrow> bool" where
  "schema_may_run schema ev \<longleftrightarrow>
     (\<forall>c q args. ev = SqlExec c q args \<longrightarrow>
        (if markedToBeDeleted (O_Schema schema) then sch_DropOnDeletion (sch_Spec schema) \<and> prefix ''DROP SCHEMA '' q
         else prefix ''CREATE SCHEMA '' q))"

lemma no_exec_schema_may_run: "quiet ev \<Longrightarrow> schema_may_run schema ev" "is_close ev \<Longrightarrow> schema_may_run schema ev"
  by (cases ev; auto simp: schema_may_run_def)+

lemma Reconcile_schema_protects: "keeps_schema E \<Longrightarrow> emits protects (Reconcile_schema E req)"
  unfolding Reconcile_schema_def by (rule reconcilable.Reconcile_protects [OF schema_reconcilable])

text \<open>C10: reconciling a schema, the operator runs only \<^verbatim>\<open>CREATE SCHEMA\<close> while the resource is not
  marked for deletion and only \<^verbatim>\<open>DROP SCHEMA\<close> afterwards, and that only if the spec has
  \<^verbatim>\<open>DropOnDeletion\<close>; and every update it sends has the operator's finalizer or is of a
  resource marked for deletion.\<close>

theorem Reconcile_schema_statements:
  assumes E: "keeps_schema E" and cr: "\<And>h schema'. get_Schema_cr E h req = Inr schema' \<Longrightarrow> schema' = schema"
  shows "emits (schema_may_run schema) (Reconcile_schema E req) \<and> emits protects (Reconcile_schema E req)"
proof
  show "emits protects (Reconcile_schema E req)" by (rule Reconcile_schema_protects [OF E])
  show "emits (schema_may_run schema) (Reconcile_schema E req)"
    unfolding Reconcile_schema_def
  proof (rule emits_Reconcile [where I = "\<lambda>b r. sch_Spec (sr_schema r) = sch_Spec schema \<and> b = markedToBeDeleted (O_Schema schema)"], goal_cases)
    case 1
    show ?case by (auto simp: schema_may_run_def intro!: emits_LoadCR_schema)
  next
    case (2 h s res h')
    then show ?case
      using LoadCR_schema_same [OF E, of "\<lparr>sr_NsNm = req, sr_db = no_db, sr_schema = zero_schema, sr_schemas = [], sr_conn = None\<rparr>" schema] cr
      by (auto simp: GetCR_schema_def markedToBeDeleted_def)
  next
    case (3 b s)
    show ?case by (auto simp: no_exec_schema_may_run intro!: emits_LoadObj_schema) (auto simp: schema_may_run_def)
  next
    case (4 b s h s' x h')
    then show ?case by (auto simp: same_schema_def dest!: LoadObj_schema_same [OF E])
  next
    case (5 s)
    then show ?case
      by (auto simp: no_exec_schema_may_run exec_of_def intro!: emits_RemoveObj_schema dest!: drops_schema_exec) (auto simp: schema_may_run_def)
  next
    case (6 s)
    then show ?case
      by (auto simp: no_exec_schema_may_run exec_of_def intro!: emits_CreateObj_schema) (auto simp: schema_may_run_def)
  next
    case (7 s)
    show ?case by (simp add: EnsureCorrect_schema_def emits_ret)
  next
    case (8 ob)
    show ?case by (simp add: schema_may_run_def)
  next
    case (9 s)
    show ?case by (auto simp: no_exec_schema_may_run intro!: emits_CleanupConn_schema)
  qed
qed

definition demo_schema :: "int option \<Rightarrow> Schema" where
  "demo_schema deleted =
     \<lparr>sch_meta = (new_meta ''resource'' ''ns'' [])\<lparr>m_DeletionTimestamp := deleted, m_Finalizers := [DB_OPERATOR_FINALIZER]\<rparr>,
      sch_Spec = \<lparr>sch_Server = ''srv'', sch_DbName = ''app'', sch_Name = ''sales'', sch_DropOnDeletion = True, sch_CascadeOnDrop = False, sch_Creator = None\<rparr>,
      sch_Status = \<lparr>sch_Created = True\<rparr>\<rparr>"

theorem Reconcile_schema_statements_witness:
  "emits (schema_may_run (demo_schema None)) (Reconcile_schema (null_env\<lparr>get_Schema_cr := \<lambda>_ _. Inr (demo_schema None), k8s_status_update := \<lambda>_ ob. Inr ob,
     k8s_update := \<lambda>_ ob. Inr ob\<rparr>) \<lparr>nn_Namespace = ''ns'', nn_Name = ''resource''\<rparr>)"
  by (rule conjunct1 [OF Reconcile_schema_statements]) (simp_all add: keeps_schema_def)

text \<open>Removing a schema runs no statement but one that drops the schema with the name of the
  Kubernetes resource, whatever name the spec gives: a schema whose resource is named
  differently stays on the server.\<close>

theorem RemoveObj_schema_drops_resource_name:
  assumes "RemoveObj_schema E r h = (out, h @ es)" "SqlExec c q args \<in> set es"
  shows "prefix (''DROP SCHEMA '' @ pq_QuoteIdentifier (lib E) (m_Name (sch_meta (sr_schema r)))) q"
proof -
  have "emits (\<lambda>ev. quiet ev \<or> drops_schema E (m_Name (sch_meta (sr_schema r))) ev) (RemoveObj_schema E r)"
    by (rule emits_RemoveObj_schema) auto
  then obtain es' where "h @ es = h @ es'" "list_all (\<lambda>ev. quiet ev \<or> drops_schema E (m_Name (sch_meta (sr_schema r))) ev) es'"
    using assms(1) by (rule emitsD)
  with assms(2) show ?thesis by (auto simp: list_all_iff drops_schema_def exec_of_def)
qed

definition demo_sr :: SchemaReco where
  "demo_sr = \<lparr>sr_NsNm = \<lparr>nn_Namespace = ''ns'', nn_Name = ''resource''\<rparr>, sr_db = no_db, sr_schema = demo_schema (Some 0), sr_schemas = [], sr_conn = Some (Pg demo_pg)\<rparr>"

lemma demo_drop_schema:
  "\<exists>out q. RemoveObj_schema open_env demo_sr [] = (out, [] @ [SqlOpen ''postgres'' demo_conn_str, SqlExec 5 q []])"
  by (simp add: RemoveObj_schema_def demo_sr_def demo_schema_def new_meta_def conn_DropSchema_def dispatch_def DropSchema_pg_def Contains_def on_demo_conn run keep_def)

theorem RemoveObj_schema_drops_resource_name_witness:
  "\<exists>out q. RemoveObj_schema open_env demo_sr [] = (out, [] @ [SqlOpen ''postgres'' demo_conn_str, SqlExec 5 q []]) \<and>
     prefix (''DROP SCHEMA '' @ pq_QuoteIdentifier (lib open_env) ''resource'') q \<and> sch_Name (sch_Spec (sr_schema demo_sr)) = ''sales''"
proof -
  obtain out q where x: "RemoveObj_schema open_env demo_sr [] = (out, [] @ [SqlOpen ''postgres'' demo_conn_str, SqlExec 5 q []])"
    using demo_drop_schema by blast
  from RemoveObj_schema_drops_resource_name [OF x, of 5 q "[]"] have "prefix (''DROP SCHEMA '' @ pq_QuoteIdentifier (lib open_env) ''resource'') q"
    by (simp add: demo_sr_def demo_schema_def new_meta_def)
  with x show ?thesis by (auto simp: demo_sr_def demo_schema_def)
qed

end
