(* ===== verification/Lazy.thy ===== *)
theory Lazy
  imports Reco
begin

section \<open>Lazy helpers and storage\<close>

text \<open>
  \<^verbatim>\<open>controllers/storage_info.go\<close> and the files \<^verbatim>\<open>controllers/lazy_*.go\<close>, with
  \<^verbatim>\<open>GetStorageActions\<close> of \<^verbatim>\<open>reconcilable.go\<close>.  A helper fetches what it is asked for
  once and keeps it; each method takes the helper and returns it changed.  The name of the
  resource that is reconciled stands for the \<^verbatim>\<open>K8sClient\<close> a helper holds.  A helper that
  another one points to is owned by it alone, so it is a field of its owner.
\<close>

subsection \<open>Storage\<close>

text \<open>\<^verbatim>\<open>S3StorageInfo\<close> is the only implementation of the interface.\<close>

datatype StorageActions = S3StorageInfo S3Storage

definition GetBucketStorageInfo :: "NamespacedName \<Rightarrow> StorageActions \<Rightarrow> BucketStorageInfo" where
  "GetBucketStorageInfo nsnm s =
     (case s of S3StorageInfo s3 \<Rightarrow>
        let spec = s3_Spec s3;
            keyed = s3_AccesKeyId spec \<noteq> ''''
        in \<lparr>bi_StorageTypeName = ''s3'', bi_BucketName = s3_BucketName spec, bi_Prefix = s3_Prefix spec, bi_Region = s3_Region spec,
            bi_KeyName = (if keyed then s3_AccesKeyId spec else ''''),
            bi_K8sSecret = (if keyed then s3_AccessKeyK8sSecret spec else ''''),
            bi_K8sSecretKey = (if keyed then Nvl (s3_AccessKeyK8sSecretKey spec) ''SECRET_ACCESS_KEY'' else ''''),
            bi_AssumeRoleName = '''', bi_Endpoint = s3_Endpoint spec, bi_Namespace = nn_Namespace nsnm\<rparr>)"

definition plain_env :: "string \<Rightarrow> string \<Rightarrow> EnvVar" where
  "plain_env n v = \<lparr>ev_Name = n, ev_Value = Value v\<rparr>"

definition BuildContainer_s3 :: "StorageActions \<Rightarrow> string \<Rightarrow> string option \<Rightarrow> Container" where
  "BuildContainer_s3 s script fixedFileName =
     (case s of S3StorageInfo s3 \<Rightarrow>
        let spec = s3_Spec s3;
            envVars =
              [plain_env ''S3_BUCKET_NAME'' (s3_BucketName spec), plain_env ''S3_PREFIX'' (s3_Prefix spec),
               plain_env ''AWS_DEFAULT_REGION'' (s3_Region spec)] @
              (if s3_AccesKeyId spec \<noteq> '''' then
                 [plain_env ''AWS_ACCESS_KEY_ID'' (s3_AccesKeyId spec),
                  \<lparr>ev_Name = ''AWS_SECRET_ACCESS_KEY'',
                   ev_Value = SecretKeyRef (s3_AccessKeyK8sSecret spec) (Nvl (s3_AccessKeyK8sSecretKey spec) ''SECRET_ACCESS_KEY'')\<rparr>]
               else []) @
              (if s3_RoleArn spec \<noteq> '''' then [plain_env ''AWS_ROLE_ARN'' (s3_RoleArn spec)] else []) @
              (case fixedFileName of None \<Rightarrow> [] | Some f \<Rightarrow> [plain_env ''S3_FILE_NAME'' f]) @
              (if s3_Endpoint spec \<noteq> '''' then [plain_env ''S3_ENDPOINT'' (s3_Endpoint spec)] else [])
        in \<lparr>co_Name = ''s3-upload'', co_Image = ''amazon/aws-cli'', co_Env = envVars, co_Command = [script_path script],
            co_VolumeMounts = VOLUME_MOUNTS\<rparr>)"

definition BuildUploadContainer :: "StorageActions \<Rightarrow> string option \<Rightarrow> Container" where
  "BuildUploadContainer s fixedFileName = BuildContainer_s3 s UPLOAD_S3 fixedFileName"

definition BuildDownloadContainer :: "StorageActions \<Rightarrow> string option \<Rightarrow> Container" where
  "BuildDownloadContainer s fixedFileName = BuildContainer_s3 s DOWNLOAD_S3 fixedFileName"

definition unknown_storage :: "string \<Rightarrow> error" where
  "unknown_storage storageType = Err (''unknown storage type '' @ storageType)"

definition GetStorageActions_reco :: "env \<Rightarrow> NamespacedName \<Rightarrow> string \<Rightarrow> string \<Rightarrow> (error + StorageActions) go" where
  "GetStorageActions_reco E nsnm storageType storageLocation =
     (if ToLower storageType = ''s3'' then
        try_io (GetS3Storage E nsnm storageLocation) (\<lambda>err. ret (Inl err)) (\<lambda>s3. ret (Inr (S3StorageInfo s3)))
      else ret (Inl (unknown_storage storageType)))"

record LazyStorageActionsHelper =
  lsa_StorageType :: string
  lsa_StorageLocation :: string
  lsa_storageActions :: "StorageActions option"
  lsa_storageActionsLoaded :: bool

definition NewLazyStorageActionsHelper :: "string \<Rightarrow> string \<Rightarrow> LazyStorageActionsHelper" where
  "NewLazyStorageActionsHelper storageType storageLocation =
     \<lparr>lsa_StorageType = storageType, lsa_StorageLocation = storageLocation, lsa_storageActions = None, lsa_storageActionsLoaded = False\<rparr>"

text \<open>The actions are \<open>None\<close>, the nil interface, only before they are loaded.\<close>

definition GetStorageActions_lazy :: "env \<Rightarrow> NamespacedName \<Rightarrow> LazyStorageActionsHelper \<Rightarrow> (LazyStorageActionsHelper \<times> (error + StorageActions option)) go" where
  "GetStorageActions_lazy E nsnm h =
     (if \<not> lsa_storageActionsLoaded h then
        (if ToLower (lsa_StorageType h) = ''s3'' then
           (let nsName = \<lparr>nn_Namespace = nn_Namespace nsnm, nn_Name = lsa_StorageLocation h\<rparr> in
            try_io (call (K8sGet K_S3Storage nsName) (\<lambda>g. get_S3Storage_cr E g nsName)) (\<lambda>err. ret (h, Inl err)) (\<lambda>s3Storage.
              let actions = Some (S3StorageInfo s3Storage) in
              ret (h\<lparr>lsa_storageActions := actions, lsa_storageActionsLoaded := True\<rparr>, Inr actions)))
         else ret (h, Inl (unknown_storage (lsa_StorageType h))))
      else ret (h, Inr (lsa_storageActions h)))"

subsection \<open>Users\<close>

record LazyUserHelper =
  luh_UserName :: string
  luh_user :: "User option"
  luh_credentials :: "Credentials option"

definition NewLazyUserHelper :: "string \<Rightarrow> LazyUserHelper" where
  "NewLazyUserHelper userName = \<lparr>luh_UserName = userName, luh_user = None, luh_credentials = None\<rparr>"

definition GetCredentials_user :: "env \<Rightarrow> NamespacedName \<Rightarrow> LazyUserHelper \<Rightarrow> (LazyUserHelper \<times> (error + Credentials option)) go" where
  "GetCredentials_user E nsnm h =
     (case luh_credentials h of
        Some c \<Rightarrow> ret (h, Inr (Some c))
      | None \<Rightarrow>
          (let nsm = \<lparr>nn_Namespace = nn_Namespace nsnm, nn_Name = luh_UserName h\<rparr> in
           try_io (call (K8sGet K_User nsm) (\<lambda>g. get_User_cr E g nsm)) (\<lambda>err. ret (h, Inl err)) (\<lambda>user.
             try_io (GetUserCredentials E user) (\<lambda>err. ret (h, Inl err)) (\<lambda>credentials.
               ret (h\<lparr>luh_user := Some user, luh_credentials := credentials\<rparr>, Inr credentials)))))"

subsection \<open>Servers\<close>

text \<open>The map of users is nil until something makes one; nothing does.\<close>

record LazyDbServerHelper =
  lsh_DbServerName :: string
  lsh_DbServer :: "DbServer option"
  lsh_dbServerCredentials :: "Credentials option"
  lsh_userCredentials :: "LazyUserHelper gomap option"

definition NewLazyDbServerHelper :: "string \<Rightarrow> LazyDbServerHelper" where
  "NewLazyDbServerHelper dbServerName =
     \<lparr>lsh_DbServerName = dbServerName, lsh_DbServer = None, lsh_dbServerCredentials = None, lsh_userCredentials = None\<rparr>"

text \<open>
  A new helper is stored in the map but the inner variable shadows the outer one, so nil is
  returned for it; and a store into a nil map panics.
\<close>

definition GetUser :: "LazyDbServerHelper \<Rightarrow> string \<Rightarrow> (LazyDbServerHelper \<times> LazyUserHelper option) go" where
  "GetUser h userName =
     (case lsh_userCredentials h of
        None \<Rightarrow> panic ''assignment to entry in nil map''
      | Some m \<Rightarrow>
          (case map_of m userName of
             Some u \<Rightarrow> ret (h, Some u)
           | None \<Rightarrow> ret (h\<lparr>lsh_userCredentials := Some (AList.update userName (NewLazyUserHelper userName) m)\<rparr>, None)))"

definition GetDbServer_lazy :: "env \<Rightarrow> NamespacedName \<Rightarrow> LazyDbServerHelper \<Rightarrow> (LazyDbServerHelper \<times> (error + DbServer)) go" where
  "GetDbServer_lazy E nsnm h =
     (case lsh_DbServer h of
        Some s \<Rightarrow> ret (h, Inr s)
      | None \<Rightarrow>
          try_io (GetDbServer E (lsh_DbServerName h) (nn_Namespace nsnm)) (\<lambda>err. ret (h, Inl err)) (\<lambda>dbServer.
            ret (h\<lparr>lsh_DbServer := Some dbServer\<rparr>, Inr dbServer)))"

text \<open>The Secret is read and its entries are taken as in \<^verbatim>\<open>Reco.GetCredentials\<close>.\<close>

definition GetCredentials_server :: "env \<Rightarrow> NamespacedName \<Rightarrow> LazyDbServerHelper \<Rightarrow> (LazyDbServerHelper \<times> (error + Credentials)) go" where
  "GetCredentials_server E nsnm h =
     (case lsh_dbServerCredentials h of
        Some c \<Rightarrow> ret (h, Inr c)
      | None \<Rightarrow>
          bind_io (GetDbServer_lazy E nsnm h) (\<lambda>(h, r). case r of
            Inl err \<Rightarrow> ret (h, Inl err)
          | Inr dbServer \<Rightarrow>
              let spec = srv_Spec dbServer;
                  secretName = \<lparr>nn_Namespace = m_Namespace (srv_meta dbServer), nn_Name = srv_SecretName spec\<rparr>;
                  credentials = \<lparr>cr_UserName = srv_UserName spec, cr_Password = None, cr_CaCert = None, cr_TlsCrt = None,
                                 cr_TlsKey = None, cr_SourceSecret = Some secretName\<rparr>
              in try_io (GetSecret E secretName)
                   (\<lambda>err. ret (h, Inl (Err (''failed to get secret: '' @ srv_SecretName spec @ '' '' @ error_msg err))))
                   (\<lambda>secret.
                      case fill_creds credentials (sec_Data secret) (srv_PasswordKey spec) (srv_CaCertKey spec) (srv_TlsKeyKey spec)
                             (srv_TlsCrtKey spec) (m_Namespace (srv_meta dbServer)) (srv_SecretName spec) of
                        Inl err \<Rightarrow> ret (h, Inl err)
                      | Inr c \<Rightarrow> ret (h\<lparr>lsh_dbServerCredentials := Some c\<rparr>, Inr c))))"

definition GetConnectInfo_lazy :: "env \<Rightarrow> NamespacedName \<Rightarrow> LazyDbServerHelper \<Rightarrow> string option \<Rightarrow> (LazyDbServerHelper \<times> (error + DbServerConnectInfo)) go" where
  "GetConnectInfo_lazy E nsnm h databaseName =
     bind_io (GetDbServer_lazy E nsnm h) (\<lambda>(h, r). case r of
       Inl err \<Rightarrow> ret (h, Inl err)
     | Inr dbServer \<Rightarrow>
         bind_io (GetCredentials_server E nsnm h) (\<lambda>(h, r). case r of
           Inl err \<Rightarrow> ret (h, Inl err)
         | Inr credentials \<Rightarrow>
             ret (h, Inr \<lparr>ci_Host = srv_Address (srv_Spec dbServer), ci_Port = srv_Port (srv_Spec dbServer), ci_Credentials = credentials,
                          ci_Database = (case databaseName of None \<Rightarrow> '''' | Some d \<Rightarrow> d), ci_Options = srv_Options (srv_Spec dbServer)\<rparr>)))"

subsection \<open>Databases\<close>

record LazyDbHelper =
  ldh_DbName :: string
  ldh_Db :: "Db option"
  ldh_lazyDbServerHelper :: "LazyDbServerHelper option"
  ldh_conn :: "DbServerConnection option"
  ldh_connLoaded :: bool
  ldh_grantorNames :: "string list"

definition NewLazyDbHelper :: "string \<Rightarrow> string list \<Rightarrow> LazyDbHelper" where
  "NewLazyDbHelper DbName grantorNames =
     \<lparr>ldh_DbName = DbName, ldh_Db = None, ldh_lazyDbServerHelper = None, ldh_conn = None, ldh_connLoaded = False,
      ldh_grantorNames = grantorNames\<rparr>"

definition GetDb_lazy :: "env \<Rightarrow> NamespacedName \<Rightarrow> LazyDbHelper \<Rightarrow> (LazyDbHelper \<times> (error + Db)) go" where
  "GetDb_lazy E nsnm h =
     (case ldh_Db h of
        Some db \<Rightarrow> ret (h, Inr db)
      | None \<Rightarrow>
          (let nsName = \<lparr>nn_Namespace = nn_Namespace nsnm, nn_Name = ldh_DbName h\<rparr> in
           try_io (call (K8sGet K_Db nsName) (\<lambda>g. get_Db_cr E g nsName)) (\<lambda>err. ret (h, Inl err)) (\<lambda>db.
             ret (h\<lparr>ldh_Db := Some db\<rparr>, Inr db))))"

text \<open>A call on the helper of the server, written back into its owner.\<close>

definition on_server :: "LazyDbHelper \<Rightarrow> LazyDbServerHelper \<Rightarrow> (LazyDbServerHelper \<Rightarrow> (LazyDbServerHelper \<times> 'a) go) \<Rightarrow> (LazyDbHelper \<times> 'a) go" where
  "on_server h s m = bind_io (m s) (\<lambda>(s, x). ret (h\<lparr>ldh_lazyDbServerHelper := Some s\<rparr>, x))"

definition GetDbServer_db :: "env \<Rightarrow> NamespacedName \<Rightarrow> LazyDbHelper \<Rightarrow> (LazyDbHelper \<times> (error + DbServer)) go" where
  "GetDbServer_db E nsnm h =
     (case ldh_lazyDbServerHelper h of
        Some s \<Rightarrow> on_server h s (GetDbServer_lazy E nsnm)
      | None \<Rightarrow>
          bind_io (GetDb_lazy E nsnm h) (\<lambda>(h, r). case r of
            Inl err \<Rightarrow> ret (h, Inl err)
          | Inr db \<Rightarrow> on_server h (NewLazyDbServerHelper (db_Server (db_Spec db))) (GetDbServer_lazy E nsnm)))"

text \<open>One round of the loop over the grantors; the helper of a user is written back into the map.\<close>

definition grantor_credentials :: "env \<Rightarrow> NamespacedName \<Rightarrow> string \<Rightarrow> LazyDbServerHelper \<times> Credentials option gomap
    \<Rightarrow> ((LazyDbServerHelper \<times> error) + (LazyDbServerHelper \<times> Credentials option gomap)) go" where
  "grantor_credentials E nsnm userName st =
     (case st of (s, userCredentials) \<Rightarrow>
        bind_io (GetUser s userName) (\<lambda>(s, u). case u of
          None \<Rightarrow> panic ''nil pointer dereference''
        | Some u \<Rightarrow>
            bind_io (GetCredentials_user E nsnm u) (\<lambda>(u, r).
              let s = s\<lparr>lsh_userCredentials := map_option (AList.update userName u) (lsh_userCredentials s)\<rparr> in
              ret (case r of
                Inl err \<Rightarrow> Inl (s, err)
              | Inr credentials \<Rightarrow> Inr (s, AList.update userName credentials userCredentials)))))"

text \<open>
  The connection is returned but not stored, and \<^verbatim>\<open>connLoaded\<close> stays as it is.  The database
  that is named is \<^verbatim>\<open>DbName\<close> of the helper, the name of the resource.
\<close>

definition GetDbConnection_lazy :: "env \<Rightarrow> NamespacedName \<Rightarrow> LazyDbHelper \<Rightarrow> (LazyDbHelper \<times> (error + DbServerConnection option)) go" where
  "GetDbConnection_lazy E nsnm h =
     (if \<not> ldh_connLoaded h then
        bind_io (GetDbServer_db E nsnm h) (\<lambda>(h, r). case r of
          Inl err \<Rightarrow> ret (h, Inl err)
        | Inr dbServer \<Rightarrow>
            (case ldh_lazyDbServerHelper h of
               None \<Rightarrow> ret (h, Inl (Err ''expected lazyDbServerHelper to be loaded %!w(<nil>)''))
             | Some s \<Rightarrow>
                 bind_io (GetConnectInfo_lazy E nsnm s (Some (ldh_DbName h))) (\<lambda>(s, r).
                   let h = h\<lparr>ldh_lazyDbServerHelper := Some s\<rparr> in
                   case r of
                     Inl err \<Rightarrow> ret (h, Inl err)
                   | Inr connectInfo \<Rightarrow>
                       bind_io (for_io (ldh_grantorNames h) (grantor_credentials E nsnm) (s, [])) (\<lambda>r. case r of
                         Inl (s, err) \<Rightarrow> ret (h\<lparr>ldh_lazyDbServerHelper := Some s\<rparr>, Inl err)
                       | Inr (s, userCredentials) \<Rightarrow>
                           ret (h\<lparr>ldh_lazyDbServerHelper := Some s\<rparr>,
                                map_sum id Some (GetServerConnection (srv_ServerType (srv_Spec dbServer)) connectInfo userCredentials))))))
      else ret (h, Inr (ldh_conn h)))"

text \<open>The type assertion panics for a connection of the other type and for a nil one.\<close>

definition GetPgConnection_db :: "env \<Rightarrow> NamespacedName \<Rightarrow> LazyDbHelper \<Rightarrow> (LazyDbHelper \<times> (error + SqlConnection)) go" where
  "GetPgConnection_db E nsnm h =
     bind_io (GetDbConnection_lazy E nsnm h) (\<lambda>(h, r). case r of
       Inl err \<Rightarrow> ret (h, Inl err)
     | Inr (Some (Pg p)) \<Rightarrow> ret (h, Inr p)
     | Inr _ \<Rightarrow> panic ''interface conversion'')"

definition CleanupConn_lazy :: "env \<Rightarrow> LazyDbHelper \<Rightarrow> LazyDbHelper go" where
  "CleanupConn_lazy E h =
     (if ldh_connLoaded h then
        (case ldh_conn h of
           None \<Rightarrow> panic ''nil pointer dereference''
         | Some conn \<Rightarrow> bind_io (conn_Close E conn) (\<lambda>(conn, _). ret (h\<lparr>ldh_conn := Some conn\<rparr>)))
      else ret h)"

subsection \<open>Targets\<close>

text \<open>
  \<^verbatim>\<open>LazyBackupTargetHelper\<close> and \<^verbatim>\<open>LazyRestoreTargetHelper\<close> embed the same base; its two function
  fields are closures over the helper that embeds it, so the operations of the base take
  them as arguments that act on the helper.
\<close>

record 't LazyTargetHelper =
  lth_TargetName :: string
  lth_Target :: "'t option"
  lth_lazyDbHelper :: "LazyDbHelper option"
  lth_lazyStorageActionsHelper :: "LazyStorageActionsHelper option"

type_synonym 't type_and_location = "'t LazyTargetHelper \<Rightarrow> ('t LazyTargetHelper \<times> (error + string \<times> string)) go"
type_synonym 't db_builder = "'t LazyTargetHelper \<Rightarrow> ('t LazyTargetHelper \<times> (error + LazyDbHelper)) go"

definition NewLazyTargetHelper :: "string \<Rightarrow> 't LazyTargetHelper" where
  "NewLazyTargetHelper targetName =
     \<lparr>lth_TargetName = targetName, lth_Target = None, lth_lazyDbHelper = None, lth_lazyStorageActionsHelper = None\<rparr>"

definition GetBackupTarget_lazy :: "env \<Rightarrow> NamespacedName \<Rightarrow> BackupTarget LazyTargetHelper \<Rightarrow> (BackupTarget LazyTargetHelper \<times> (error + BackupTarget)) go" where
  "GetBackupTarget_lazy E nsnm h =
     (case lth_Target h of
        Some t \<Rightarrow> ret (h, Inr t)
      | None \<Rightarrow>
          (let nsName = \<lparr>nn_Namespace = nn_Namespace nsnm, nn_Name = lth_TargetName h\<rparr> in
           try_io (call (K8sGet K_BackupTarget nsName) (\<lambda>g. get_BackupTarget_cr E g nsName)) (\<lambda>err. ret (h, Inl err)) (\<lambda>t.
             ret (h\<lparr>lth_Target := Some t\<rparr>, Inr t))))"

definition GetRestoreTarget_lazy :: "env \<Rightarrow> NamespacedName \<Rightarrow> RestoreTarget LazyTargetHelper \<Rightarrow> (RestoreTarget LazyTargetHelper \<times> (error + RestoreTarget)) go" where
  "GetRestoreTarget_lazy E nsnm h =
     (case lth_Target h of
        Some t \<Rightarrow> ret (h, Inr t)
      | None \<Rightarrow>
          (let nsName = \<lparr>nn_Namespace = nn_Namespace nsnm, nn_Name = lth_TargetName h\<rparr> in
           try_io (call (K8sGet K_RestoreTarget nsName) (\<lambda>g. get_RestoreTarget_cr E g nsName)) (\<lambda>err. ret (h, Inl err)) (\<lambda>t.
             ret (h\<lparr>lth_Target := Some t\<rparr>, Inr t))))"

definition from_target :: "('t LazyTargetHelper \<Rightarrow> ('t LazyTargetHelper \<times> (error + 't)) go) \<Rightarrow> ('t \<Rightarrow> 'a) \<Rightarrow> 't LazyTargetHelper
    \<Rightarrow> ('t LazyTargetHelper \<times> (error + 'a)) go" where
  "from_target get f h = bind_io (get h) (\<lambda>(h, r). ret (h, map_sum id f r))"

definition backup_type_and_location :: "env \<Rightarrow> NamespacedName \<Rightarrow> BackupTarget type_and_location" where
  "backup_type_and_location E nsnm =
     from_target (GetBackupTarget_lazy E nsnm) (\<lambda>t. (bt_StorageType (bt_Spec t), bt_StorageLocation (bt_Spec t)))"

definition backup_db_helper :: "env \<Rightarrow> NamespacedName \<Rightarrow> BackupTarget db_builder" where
  "backup_db_helper E nsnm = from_target (GetBackupTarget_lazy E nsnm) (\<lambda>t. NewLazyDbHelper (bt_DbName (bt_Spec t)) [])"

definition GetDbName_backup :: "env \<Rightarrow> NamespacedName \<Rightarrow> BackupTarget LazyTargetHelper \<Rightarrow> (BackupTarget LazyTargetHelper \<times> (error + string)) go" where
  "GetDbName_backup E nsnm = from_target (GetBackupTarget_lazy E nsnm) (\<lambda>t. bt_DbName (bt_Spec t))"

definition restore_type_and_location :: "env \<Rightarrow> NamespacedName \<Rightarrow> RestoreTarget type_and_location" where
  "restore_type_and_location E nsnm =
     from_target (GetRestoreTarget_lazy E nsnm) (\<lambda>t. (rt_StorageType (rt_Spec t), rt_StorageLocation (rt_Spec t)))"

definition restore_db_helper :: "env \<Rightarrow> NamespacedName \<Rightarrow> RestoreTarget db_builder" where
  "restore_db_helper E nsnm = from_target (GetRestoreTarget_lazy E nsnm) (\<lambda>t. NewLazyDbHelper (rt_DbName (rt_Spec t)) [])"

definition GetDbName_restore :: "env \<Rightarrow> NamespacedName \<Rightarrow> RestoreTarget LazyTargetHelper \<Rightarrow> (RestoreTarget LazyTargetHelper \<times> (error + string)) go" where
  "GetDbName_restore E nsnm = from_target (GetRestoreTarget_lazy E nsnm) (\<lambda>t. rt_DbName (rt_Spec t))"

definition GetStorageActions_target :: "env \<Rightarrow> NamespacedName \<Rightarrow> 't type_and_location \<Rightarrow> 't LazyTargetHelper
    \<Rightarrow> ('t LazyTargetHelper \<times> (error + StorageActions option)) go" where
  "GetStorageActions_target E nsnm GetStorageTypeAndLocation h =
     (let ask_storage = (\<lambda>h a. bind_io (GetStorageActions_lazy E nsnm a) (\<lambda>(a, r). ret (h\<lparr>lth_lazyStorageActionsHelper := Some a\<rparr>, r))) in
      case lth_lazyStorageActionsHelper h of
        Some a \<Rightarrow> ask_storage h a
      | None \<Rightarrow>
          bind_io (GetStorageTypeAndLocation h) (\<lambda>(h, r). case r of
            Inl err \<Rightarrow> ret (h, Inl err)
          | Inr (storageType, storageLocation) \<Rightarrow> ask_storage h (NewLazyStorageActionsHelper storageType storageLocation)))"

definition GetLazyDbHelper :: "'t db_builder \<Rightarrow> 't LazyTargetHelper \<Rightarrow> ('t LazyTargetHelper \<times> (error + LazyDbHelper)) go" where
  "GetLazyDbHelper BuildLazyDbHelper h =
     (case lth_lazyDbHelper h of
        Some d \<Rightarrow> ret (h, Inr d)
      | None \<Rightarrow>
          bind_io (BuildLazyDbHelper h) (\<lambda>(h, r). case r of
            Inl err \<Rightarrow> ret (h, Inl err)
          | Inr d \<Rightarrow> ret (h\<lparr>lth_lazyDbHelper := Some d\<rparr>, Inr d)))"

definition GetPgConnection_target :: "env \<Rightarrow> NamespacedName \<Rightarrow> 't db_builder \<Rightarrow> 't LazyTargetHelper
    \<Rightarrow> ('t LazyTargetHelper \<times> (error + SqlConnection)) go" where
  "GetPgConnection_target E nsnm build h =
     bind_io (GetLazyDbHelper build h) (\<lambda>(h, r). case r of
       Inl err \<Rightarrow> ret (h, Inl err)
     | Inr d \<Rightarrow> bind_io (GetPgConnection_db E nsnm d) (\<lambda>(d, r). ret (h\<lparr>lth_lazyDbHelper := Some d\<rparr>, r)))"

text \<open>A method call on a nil interface panics.\<close>

definition GetBucketStorageInfo_target :: "env \<Rightarrow> NamespacedName \<Rightarrow> 't type_and_location \<Rightarrow> 't LazyTargetHelper
    \<Rightarrow> ('t LazyTargetHelper \<times> (error + BucketStorageInfo)) go" where
  "GetBucketStorageInfo_target E nsnm tal h =
     bind_io (GetStorageActions_target E nsnm tal h) (\<lambda>(h, r). case r of
       Inl err \<Rightarrow> ret (h, Inl err)
     | Inr None \<Rightarrow> panic ''nil pointer dereference''
     | Inr (Some a) \<Rightarrow> ret (h, Inr (GetBucketStorageInfo nsnm a)))"

definition CleanupConn_target :: "env \<Rightarrow> 't LazyTargetHelper \<Rightarrow> 't LazyTargetHelper go" where
  "CleanupConn_target E h =
     (case lth_lazyDbHelper h of
        None \<Rightarrow> ret h
      | Some d \<Rightarrow> bind_io (CleanupConn_lazy E d) (\<lambda>d. ret (h\<lparr>lth_lazyDbHelper := Some d\<rparr>)))"

definition GetServerActions_target :: "env \<Rightarrow> NamespacedName \<Rightarrow> 't db_builder \<Rightarrow> 't LazyTargetHelper
    \<Rightarrow> ('t LazyTargetHelper \<times> (error + DbActions)) go" where
  "GetServerActions_target E nsnm build h =
     bind_io (GetLazyDbHelper build h) (\<lambda>(h, r). case r of
       Inl err \<Rightarrow> ret (h, Inl err)
     | Inr d \<Rightarrow>
         bind_io (GetDb_lazy E nsnm d) (\<lambda>(d, r).
           let h = h\<lparr>lth_lazyDbHelper := Some d\<rparr> in
           case r of
             Inl err \<Rightarrow> ret (h, Inl err)
           | Inr db \<Rightarrow>
               bind_io (GetDbServer_db E nsnm d) (\<lambda>(d, r).
                 let h = h\<lparr>lth_lazyDbHelper := Some d\<rparr> in
                 case r of
                   Inl err \<Rightarrow> ret (h, Inl err)
                 | Inr dbServer \<Rightarrow> ret (h, GetServerActions dbServer db (srv_Options (srv_Spec dbServer))))))"

definition GetStorageInfoAndActions :: "env \<Rightarrow> NamespacedName \<Rightarrow> 't type_and_location \<Rightarrow> 't db_builder \<Rightarrow> 't LazyTargetHelper
    \<Rightarrow> ('t LazyTargetHelper \<times> (error + StorageActions option \<times> DbActions)) go" where
  "GetStorageInfoAndActions E nsnm tal build h =
     bind_io (GetStorageActions_target E nsnm tal h) (\<lambda>(h, r). case r of
       Inl err \<Rightarrow> ret (h, Inl err)
     | Inr storageActions \<Rightarrow>
         bind_io (GetServerActions_target E nsnm build h) (\<lambda>(h, r). case r of
           Inl err \<Rightarrow> ret (h, Inl err)
         | Inr serverActions \<Rightarrow> ret (h, Inr (storageActions, serverActions))))"

subsection \<open>What the helpers send\<close>

fun k8s_read :: "event \<Rightarrow> bool" where
  "k8s_read (K8sGet _ _) = True"
| "k8s_read (K8sList _) = True"
| "k8s_read _ = False"

named_theorems lazy_defs "definitions of the lazy helpers"

lemmas [lazy_defs] = GetStorageActions_lazy_def GetCredentials_user_def GetUser_def GetDbServer_lazy_def GetCredentials_server_def
  GetConnectInfo_lazy_def GetDb_lazy_def on_server_def GetDbServer_db_def grantor_credentials_def GetDbConnection_lazy_def
  GetPgConnection_db_def GetBackupTarget_lazy_def GetRestoreTarget_lazy_def from_target_def backup_type_and_location_def
  backup_db_helper_def GetDbName_backup_def restore_type_and_location_def restore_db_helper_def GetDbName_restore_def
  GetStorageActions_target_def GetLazyDbHelper_def GetPgConnection_target_def GetBucketStorageInfo_target_def
  GetServerActions_target_def GetStorageInfoAndActions_def

lemma emits_GetUser [emits_intro]: "emits P (GetUser h u)"
  unfolding GetUser_def by (intro emits_intro)

lemma emits_server_lazy [emits_intro]:
  "P (K8sList K_DbServer) \<Longrightarrow> emits P (GetDbServer_lazy E nsnm s)"
  unfolding GetDbServer_lazy_def by (intro emits_intro)

lemma emits_db_lazy:
  assumes "\<And>k n. P (K8sGet k n)"
  shows "emits P (GetDb_lazy E nsnm d)" "emits P (GetCredentials_user E nsnm u)"
    "emits P (GetBackupTarget_lazy E nsnm b)" "emits P (GetRestoreTarget_lazy E nsnm r)" "emits P (GetStorageActions_lazy E nsnm a)"
  unfolding lazy_defs Let_def by (intro emits_intro emits_GetUserCredentials assms)+

lemma emits_from_target [emits_intro]: "emits P (get h) \<Longrightarrow> emits P (from_target get f h)"
  unfolding from_target_def by (intro emits_intro)

lemma emits_lazy_conn:
  assumes get: "\<And>k n. P (K8sGet k n)" and list: "P (K8sList K_DbServer)"
  shows "emits P (GetDbServer_db E nsnm d)" "emits P (GetCredentials_server E nsnm s)" "emits P (GetConnectInfo_lazy E nsnm s n)"
    "emits P (grantor_credentials E nsnm u st)" "emits P (GetDbConnection_lazy E nsnm d)" "emits P (GetPgConnection_db E nsnm d)"
proof -
  show db: "emits P (GetDbServer_db E nsnm d)" for d
    unfolding GetDbServer_db_def on_server_def by (intro emits_intro emits_db_lazy get list)
  show creds: "emits P (GetCredentials_server E nsnm s)" for s
    unfolding GetCredentials_server_def Let_def by (intro emits_intro get list)
  show info: "emits P (GetConnectInfo_lazy E nsnm s n)" for s n
    unfolding GetConnectInfo_lazy_def by (intro emits_intro creds list)
  show grant: "emits P (grantor_credentials E nsnm u st)" for u st
    unfolding grantor_credentials_def Let_def by (intro emits_intro emits_db_lazy get)
  show conn: "emits P (GetDbConnection_lazy E nsnm d)" for d
    unfolding GetDbConnection_lazy_def Let_def by (intro emits_intro db info grant)
  show "emits P (GetPgConnection_db E nsnm d)"
    unfolding GetPgConnection_db_def
    by (rule emits_bind [OF conn]) (auto intro!: emits_intro split: sum.split option.split DbServerConnection.split)
qed

lemma emits_targets:
  assumes get: "\<And>k n. P (K8sGet k n)" and list: "P (K8sList K_DbServer)"
    and tal: "\<And>h. emits P (tal h)" and build: "\<And>h. emits P (build h)"
  shows "emits P (GetPgConnection_target E nsnm build h)" "emits P (GetBucketStorageInfo_target E nsnm tal h)"
    "emits P (GetStorageInfoAndActions E nsnm tal build h)"
proof -
  have helper: "emits P (GetLazyDbHelper build h)" for h
    unfolding GetLazyDbHelper_def by (intro emits_intro build)
  have storage: "emits P (GetStorageActions_target E nsnm tal h)" for h
    unfolding GetStorageActions_target_def Let_def by (intro emits_intro tal emits_db_lazy get)
  have actions: "emits P (GetServerActions_target E nsnm build h)" for h
    unfolding GetServerActions_target_def Let_def by (intro emits_intro helper emits_db_lazy emits_lazy_conn get list)
  show "emits P (GetPgConnection_target E nsnm build h)"
    unfolding GetPgConnection_target_def by (intro emits_intro helper emits_lazy_conn get list)
  show "emits P (GetBucketStorageInfo_target E nsnm tal h)"
    unfolding GetBucketStorageInfo_target_def by (intro emits_intro storage)
  show "emits P (GetStorageInfoAndActions E nsnm tal build h)"
    unfolding GetStorageInfoAndActions_def by (intro emits_intro storage actions)
qed

lemma emits_closures:
  assumes get: "\<And>k n. P (K8sGet k n)"
  shows "emits P (backup_type_and_location E nsnm b)" "emits P (backup_db_helper E nsnm b)" "emits P (GetDbName_backup E nsnm b)"
    "emits P (restore_type_and_location E nsnm r)" "emits P (restore_db_helper E nsnm r)" "emits P (GetDbName_restore E nsnm r)"
  unfolding backup_type_and_location_def backup_db_helper_def GetDbName_backup_def
    restore_type_and_location_def restore_db_helper_def GetDbName_restore_def
  by (intro emits_from_target emits_db_lazy get)+

lemma emits_CleanupConn_target: "(\<And>ev. is_close ev \<Longrightarrow> P ev) \<Longrightarrow> emits P (CleanupConn_target E h)"
  unfolding CleanupConn_target_def CleanupConn_lazy_def by (intro emits_intro any_server.emits_close)

subsection \<open>Lazy is as good as eager\<close>

text \<open>The result without the changed helper.\<close>

definition drop_helper :: "('h \<times> 'a) go \<Rightarrow> 'a go" where
  "drop_helper m = bind_io m (\<lambda>(h, r). ret r)"

lemma run_drop_helper [run]:
  "drop_helper m h = (case m h of (Return (x, r), h') \<Rightarrow> (Return r, h') | (Panic s, h') \<Rightarrow> (Panic s, h'))"
  by (auto simp: drop_helper_def run split: prod.split outcome.split)

text \<open>Building a connection through a new lazy helper reads the same resources in the same order
  and gives the same connection, or the same error, as looking up the Db and its server and
  connecting eagerly.\<close>

theorem GetDbConnection_lazy_eager:
  "drop_helper (GetDbConnection_lazy E nsnm (NewLazyDbHelper n [])) =
     try_io (GetDbServerFromDbName E nsnm n) (\<lambda>err. ret (Inl err)) (\<lambda>(db, srv).
       bind_io (GetDbConnection_reco E nsnm srv [] (Some n)) (\<lambda>r. ret (map_sum id Some r)))"
  by (rule ext)
    (auto simp: run GetDbServerFromDbName_def GetDb_def GetDbConnection_lazy_def NewLazyDbHelper_def NewLazyDbServerHelper_def
      GetDbServer_db_def GetDb_lazy_def on_server_def GetDbServer_lazy_def GetConnectInfo_lazy_def GetCredentials_server_def
      GetDbConnection_reco_def GetConnectInfo_def GetCredentials_def GetDbServerSecrets_def Let_def split: sum.split)

text \<open>C22: the storage and the server actions of a backup target are those of the eager lookups, in the
  order target, storage, Db, server, each resource read once.\<close>

theorem GetStorageInfoAndActions_eager:
  "drop_helper (GetStorageInfoAndActions E nsnm (backup_type_and_location E nsnm) (backup_db_helper E nsnm) (NewLazyTargetHelper n)) =
     try_io (GetBackupTarget E nsnm n) (\<lambda>err. ret (Inl err)) (\<lambda>t.
       try_io (GetStorageActions_reco E nsnm (bt_StorageType (bt_Spec t)) (bt_StorageLocation (bt_Spec t))) (\<lambda>err. ret (Inl err)) (\<lambda>a.
         bind_io (GetServerActionsFromDbName E nsnm (bt_DbName (bt_Spec t))) (\<lambda>r. ret (map_sum id (\<lambda>s. (Some a, s)) r))))"
  by (rule ext)
    (auto simp: run GetStorageInfoAndActions_def GetStorageActions_target_def backup_type_and_location_def from_target_def
      GetBackupTarget_lazy_def NewLazyTargetHelper_def NewLazyStorageActionsHelper_def GetStorageActions_lazy_def
      GetServerActions_target_def GetLazyDbHelper_def backup_db_helper_def NewLazyDbHelper_def GetDb_lazy_def GetDbServer_db_def
      NewLazyDbServerHelper_def on_server_def GetDbServer_lazy_def
      GetBackupTarget_def GetStorageActions_reco_def GetS3Storage_def GetServerActionsFromDbName_def GetDbServerFromDbName_def GetDb_def Let_def
      split: sum.split)

subsection \<open>Nothing is read twice\<close>

lemma GetDbServer_lazy_again:
  "GetDbServer_lazy E nsnm s h = (Return (s', Inr srv), h') \<Longrightarrow> GetDbServer_lazy E nsnm s' g = (Return (s', Inr srv), g)"
  by (auto simp: GetDbServer_lazy_def run split: option.splits sum.splits)

lemma GetDb_lazy_again:
  "GetDb_lazy E nsnm d h = (Return (d', Inr db), h') \<Longrightarrow> GetDb_lazy E nsnm d' g = (Return (d', Inr db), g)"
  by (auto simp: GetDb_lazy_def Let_def run split: option.splits sum.splits)

lemma GetDb_lazy_stores: "GetDb_lazy E nsnm d h = (Return (d', Inr db), h') \<Longrightarrow> ldh_Db d' = Some db"
  by (auto simp: GetDb_lazy_def Let_def run split: option.splits sum.splits)

lemma GetDbServer_db_keeps_db:
  "ldh_Db d = Some db \<Longrightarrow> GetDbServer_db E nsnm d h = (Return (d', r), h') \<Longrightarrow> ldh_Db d' = Some db"
  by (auto simp: GetDbServer_db_def on_server_def GetDb_lazy_def run split: option.splits sum.splits prod.splits outcome.splits)

lemma on_server_again:
  "on_server d s (GetDbServer_lazy E nsnm) h = (Return (d', Inr srv), h') \<Longrightarrow> GetDbServer_db E nsnm d' g = (Return (d', Inr srv), g)"
proof -
  assume "on_server d s (GetDbServer_lazy E nsnm) h = (Return (d', Inr srv), h')"
  then obtain s' where s': "GetDbServer_lazy E nsnm s h = (Return (s', Inr srv), h')" "d' = d\<lparr>ldh_lazyDbServerHelper := Some s'\<rparr>"
    by (auto simp: on_server_def run split: prod.splits outcome.splits)
  from GetDbServer_lazy_again [OF s'(1), of g] s'(2) show ?thesis
    by (simp add: GetDbServer_db_def on_server_def run)
qed

lemma GetDbServer_db_again:
  "GetDbServer_db E nsnm d h = (Return (d', Inr srv), h') \<Longrightarrow> GetDbServer_db E nsnm d' g = (Return (d', Inr srv), g)"
  by (subst (asm) GetDbServer_db_def)
    (auto simp: run split: option.splits sum.splits prod.splits outcome.splits dest: on_server_again)

lemma GetStorageActions_lazy_again:
  "GetStorageActions_lazy E nsnm a h = (Return (a', Inr x), h') \<Longrightarrow> GetStorageActions_lazy E nsnm a' g = (Return (a', Inr x), g)"
  by (auto simp: GetStorageActions_lazy_def Let_def run split: if_splits sum.splits)

lemma GetStorageActions_target_stores:
  "GetStorageActions_target E nsnm tal t h = (Return (t', Inr x), h') \<Longrightarrow>
     \<exists>a. lth_lazyStorageActionsHelper t' = Some a \<and> (\<forall>g. GetStorageActions_lazy E nsnm a g = (Return (a, Inr x), g))"
  by (auto simp: GetStorageActions_target_def Let_def run split: option.splits sum.splits prod.splits outcome.splits
      dest: GetStorageActions_lazy_again)

lemma GetServerActions_target_stores:
  assumes eq: "GetServerActions_target E nsnm build t h = (Return (t', Inr x), h')"
    and build: "\<And>t. yields (\<lambda>(t', r). lth_lazyStorageActionsHelper t' = lth_lazyStorageActionsHelper t) (build t)"
  shows "lth_lazyStorageActionsHelper t' = lth_lazyStorageActionsHelper t \<and>
    (\<exists>d db srv. lth_lazyDbHelper t' = Some d \<and> ldh_Db d = Some db \<and> (\<forall>g. GetDbServer_db E nsnm d g = (Return (d, Inr srv), g)) \<and>
       GetServerActions srv db (srv_Options (srv_Spec srv)) = Inr x)"
proof -
  obtain t1 d h1 d1 db h2 d2 srv
    where r1: "GetLazyDbHelper build t h = (Return (t1, Inr d), h1)"
      and r2: "GetDb_lazy E nsnm d h1 = (Return (d1, Inr db), h2)"
      and r3: "GetDbServer_db E nsnm d1 h2 = (Return (d2, Inr srv), h')"
      and t': "t' = t1\<lparr>lth_lazyDbHelper := Some d2\<rparr>" "GetServerActions srv db (srv_Options (srv_Spec srv)) = Inr x"
    using eq by (auto simp: GetServerActions_target_def Let_def run split: sum.splits prod.splits outcome.splits)
  have "lth_lazyStorageActionsHelper t1 = lth_lazyStorageActionsHelper t"
    using r1 yieldsD [OF build [of t]]
    by (fastforce simp: GetLazyDbHelper_def run split: option.splits sum.splits prod.splits outcome.splits)
  moreover have "ldh_Db d2 = Some db" by (rule GetDbServer_db_keeps_db [OF GetDb_lazy_stores [OF r2] r3])
  ultimately show ?thesis using t' GetDbServer_db_again [OF r3] by auto
qed

lemma db_helper_keeps:
  "yields (\<lambda>(t', r). lth_lazyStorageActionsHelper t' = lth_lazyStorageActionsHelper t) (backup_db_helper E nsnm t)"
  by (rule yieldsI)
    (auto simp: backup_db_helper_def from_target_def GetBackupTarget_lazy_def Let_def run split: option.splits sum.splits prod.splits outcome.splits)

text \<open>Once a target helper has handed out its storage and server actions, asking it again makes no
  call at all and gives the same answer.\<close>

theorem GetStorageInfoAndActions_cached:
  assumes "GetStorageInfoAndActions E nsnm (backup_type_and_location E nsnm) (backup_db_helper E nsnm) t h = (Return (t', Inr x), h')"
  shows "GetStorageInfoAndActions E nsnm (backup_type_and_location E nsnm) (backup_db_helper E nsnm) t' g = (Return (t', Inr x), g)"
proof -
  obtain t1 a s h1 where st: "GetStorageActions_target E nsnm (backup_type_and_location E nsnm) t h = (Return (t1, Inr a), h1)"
      and sv: "GetServerActions_target E nsnm (backup_db_helper E nsnm) t1 h1 = (Return (t', Inr s), h')" and x: "x = (a, s)"
    using assms by (auto simp: GetStorageInfoAndActions_def run split: sum.splits prod.splits outcome.splits)
  obtain b where b: "lth_lazyStorageActionsHelper t1 = Some b" "\<And>g. GetStorageActions_lazy E nsnm b g = (Return (b, Inr a), g)"
    using GetStorageActions_target_stores [OF st] by blast
  obtain d db srv where d: "lth_lazyStorageActionsHelper t' = Some b" "lth_lazyDbHelper t' = Some d" "ldh_Db d = Some db"
      "\<And>g. GetDbServer_db E nsnm d g = (Return (d, Inr srv), g)" "GetServerActions srv db (srv_Options (srv_Spec srv)) = Inr s"
    using GetServerActions_target_stores [OF sv db_helper_keeps] b(1) by auto
  show ?thesis
    using b(2) d x
    by (auto simp: GetStorageInfoAndActions_def GetStorageActions_target_def GetServerActions_target_def GetLazyDbHelper_def
        GetDb_lazy_def Let_def run)
qed

definition demo_s3 :: S3Storage where
  "demo_s3 =
     \<lparr>s3_meta = new_meta ''loc'' ''ns'' [],
      s3_Spec = \<lparr>s3_BucketName = ''b'', s3_Region = ''r'', s3_RoleArn = '''', s3_AccessKeyK8sSecret = '''', s3_AccessKeyK8sSecretKey = '''',
        s3_Prefix = '''', s3_AccesKeyId = '''', s3_Endpoint = ''''\<rparr>\<rparr>"

definition demo_source :: Db where
  "demo_source =
     \<lparr>db_meta = new_meta ''db'' ''ns'' [],
      db_Spec = \<lparr>db_Server = ''srv'', db_DbName = ''app'', db_DropOnDeletion = False, db_CascadeOnDrop = False, db_AfterCreateSQL = ''''\<rparr>\<rparr>"

definition demo_target :: BackupTarget where
  "demo_target = \<lparr>bt_meta = new_meta ''t'' ''ns'' [], bt_Spec = \<lparr>bt_DbName = ''db'', bt_StorageLocation = ''loc'', bt_StorageType = ''S3''\<rparr>\<rparr>"

definition backup_env :: env where
  "backup_env = null_env\<lparr>get_BackupTarget_cr := \<lambda>_ _. Inr demo_target, get_S3Storage_cr := \<lambda>_ _. Inr demo_s3, get_Db_cr := \<lambda>_ _. Inr demo_source,
     get_DbServers := \<lambda>_. Inr [demo_server ''ns''], get_Secret := \<lambda>_ _. Inr \<lparr>sec_meta = new_meta ''s'' ''ns'' [], sec_Data = [(''password'', ''pw'')]\<rparr>,
     get_ConfigMap := \<lambda>_ n. Inr \<lparr>cm_meta = new_meta SCRIPTS_CONFIGMAP ''ns'' [], cm_Data = SCRIPTS_MAP\<rparr>\<rparr>"

abbreviation demo_nsnm :: NamespacedName where
  "demo_nsnm \<equiv> \<lparr>nn_Namespace = ''ns'', nn_Name = ''nightly''\<rparr>"

lemma choose_demo_server: "choose_server ''srv'' ''ns'' [demo_server ''ns''] = Inr (demo_server ''ns'')"
  by (simp add: choose_server_def named_def local_to_def demo_server_def new_meta_def)

lemma demo_storage:
  "\<exists>t'. GetStorageInfoAndActions backup_env demo_nsnm (backup_type_and_location backup_env demo_nsnm) (backup_db_helper backup_env demo_nsnm)
      (NewLazyTargetHelper ''t'') h =
    (Return (t', Inr (Some (S3StorageInfo demo_s3), PostgresActions (demo_server ''ns'') demo_source [])),
     h @ [K8sGet K_BackupTarget \<lparr>nn_Namespace = ''ns'', nn_Name = ''t''\<rparr>, K8sGet K_S3Storage \<lparr>nn_Namespace = ''ns'', nn_Name = ''loc''\<rparr>,
          K8sGet K_Db \<lparr>nn_Namespace = ''ns'', nn_Name = ''db''\<rparr>, K8sList K_DbServer])"
proof -
  have lower: "ToLower ''S3'' = ''s3''" "ToLower ''postgres'' = ''postgres''" by code_simp+
  have "srv_ServerType (srv_Spec (demo_server ''ns'')) = ''postgres''" "srv_Options (srv_Spec (demo_server ''ns'')) = []"
    by (simp_all add: demo_server_def)
  then show ?thesis
    by (simp add: GetStorageInfoAndActions_def GetStorageActions_target_def backup_type_and_location_def from_target_def
        GetBackupTarget_lazy_def NewLazyTargetHelper_def NewLazyStorageActionsHelper_def GetStorageActions_lazy_def
        GetServerActions_target_def GetLazyDbHelper_def backup_db_helper_def NewLazyDbHelper_def GetDb_lazy_def GetDbServer_db_def
        NewLazyDbServerHelper_def on_server_def GetDbServer_lazy_def GetServerActions_def Let_def run backup_env_def demo_target_def
        demo_source_def choose_demo_server lower)
qed

theorem GetStorageInfoAndActions_cached_witness:
  "\<exists>t' x. GetStorageInfoAndActions backup_env demo_nsnm (backup_type_and_location backup_env demo_nsnm) (backup_db_helper backup_env demo_nsnm) t' [] =
     (Return (t', Inr x), [])"
proof -
  obtain t' where "GetStorageInfoAndActions backup_env demo_nsnm (backup_type_and_location backup_env demo_nsnm) (backup_db_helper backup_env demo_nsnm)
      (NewLazyTargetHelper ''t'') [] =
    (Return (t', Inr (Some (S3StorageInfo demo_s3), PostgresActions (demo_server ''ns'') demo_source [])),
     [] @ [K8sGet K_BackupTarget \<lparr>nn_Namespace = ''ns'', nn_Name = ''t''\<rparr>, K8sGet K_S3Storage \<lparr>nn_Namespace = ''ns'', nn_Name = ''loc''\<rparr>,
          K8sGet K_Db \<lparr>nn_Namespace = ''ns'', nn_Name = ''db''\<rparr>, K8sList K_DbServer])"
    using demo_storage by blast
  from GetStorageInfoAndActions_cached [OF this] show ?thesis by blast
qed

subsection \<open>Flaws\<close>

lemma yields_GetDb_lazy: "ldh_connLoaded d = b \<Longrightarrow> yields (\<lambda>(d', r). ldh_connLoaded d' = b) (GetDb_lazy E nsnm d)"
  unfolding GetDb_lazy_def Let_def by (intro yields_intro) auto

lemma yields_GetDbServer_db: "ldh_connLoaded d = b \<Longrightarrow> yields (\<lambda>(d', r). ldh_connLoaded d' = b) (GetDbServer_db E nsnm d)"
  unfolding GetDbServer_db_def on_server_def
  by (intro yields_intro yields_bind [OF yields_GetDb_lazy]) auto

lemma yields_GetDbConnection_lazy: "ldh_connLoaded d = b \<Longrightarrow> yields (\<lambda>(d', r). ldh_connLoaded d' = b) (GetDbConnection_lazy E nsnm d)"
  unfolding GetDbConnection_lazy_def Let_def
  by (intro yields_if yields_bind [OF yields_GetDbServer_db] yields_ret) (auto intro!: yields_intro)

lemma yields_GetPgConnection_db: "ldh_connLoaded d = b \<Longrightarrow> yields (\<lambda>(d', r). ldh_connLoaded d' = b) (GetPgConnection_db E nsnm d)"
  unfolding GetPgConnection_db_def
  by (rule yields_bind [OF yields_GetDbConnection_lazy])
    (auto intro!: yields_intro split: sum.split option.split DbServerConnection.split)

text \<open>The connection that a target helper hands out is never closed by its clean-up: after a
  successful \<^verbatim>\<open>GetPgConnection\<close> on a new helper, \<^verbatim>\<open>CleanupConn\<close> does nothing, because
  \<^verbatim>\<open>connLoaded\<close> is never set.\<close>

theorem GetPgConnection_never_closed:
  assumes "GetPgConnection_target E nsnm (backup_db_helper E nsnm) (NewLazyTargetHelper n) h = (Return (t, Inr p), h')"
  shows "CleanupConn_target E t g = (Return t, g)"
proof -
  have "yields (\<lambda>(t', r). pred_option (\<lambda>d. \<not> ldh_connLoaded d) (lth_lazyDbHelper t'))
      (GetPgConnection_target E nsnm (backup_db_helper E nsnm) (NewLazyTargetHelper n))"
    unfolding GetPgConnection_target_def GetLazyDbHelper_def backup_db_helper_def from_target_def GetBackupTarget_lazy_def NewLazyTargetHelper_def
      NewLazyDbHelper_def Let_def
    by (rule yields_bind [where R = "\<lambda>(t', r). pred_option (\<lambda>d. \<not> ldh_connLoaded d) (lth_lazyDbHelper t') \<and> (\<forall>d. r = Inr d \<longrightarrow> \<not> ldh_connLoaded d)"])
      (auto simp: yields_def run split: sum.splits prod.splits outcome.splits dest!: yieldsD [OF yields_GetPgConnection_db [OF refl]])
  from yieldsD [OF this assms] show ?thesis
    by (auto simp: CleanupConn_target_def CleanupConn_lazy_def run split: option.split)
qed

text \<open>A lazy helper with a grantor panics as soon as the server and its credentials are known.\<close>

lemma lazy_grantor_panics:
  assumes "ldh_lazyDbServerHelper d = Some s" "lsh_userCredentials s = None" "lsh_DbServer s = Some srv" "lsh_dbServerCredentials s = Some c"
    "\<not> ldh_connLoaded d" "ldh_grantorNames d = g # gs"
  shows "GetDbConnection_lazy E nsnm d h = (Panic ''assignment to entry in nil map'', h)"
  using assms
  by (simp add: GetDbConnection_lazy_def GetDbServer_db_def on_server_def GetDbServer_lazy_def GetConnectInfo_lazy_def GetCredentials_server_def
      grantor_credentials_def GetUser_def Let_def run)

end
