(* ===== verification/JobControllers.thy ===== *)
theory JobControllers
  imports Lazy
begin

section \<open>The controllers of backup, restore and copy jobs\<close>

text \<open>
  \<^verbatim>\<open>controllers/backupjob_controller.go\<close>, \<^verbatim>\<open>restorejob_controller.go\<close> and
  \<^verbatim>\<open>dbcopyjob_controller.go\<close>.  The three controller objects have the same fields, so they are
  instances of one record: the resource, the map of jobs and, where there is one, the lazy
  helper of the target.  What is said to the log is left out; so the test whether a job
  exists already, which only decides what is logged, is left out too.
\<close>

record ('cr, 'job, 'h) JobReco =
  jr_NsNm :: NamespacedName
  jr_cr :: 'cr
  jr_jobs :: "'job gomap"
  jr_helper :: "'h option"

type_synonym BackupJobReco = "(BackupJob, Job, BackupTarget LazyTargetHelper) JobReco"
type_synonym RestoreJobReco = "(RestoreJob, Job, RestoreTarget LazyTargetHelper) JobReco"
type_synonym DbCopyJobReco = "(DbCopyJob, Job, unit) JobReco"

subsection \<open>Steps that the controllers share\<close>

text \<open>
  The lookup of \<^verbatim>\<open>LoadObj\<close>: \<open>wrap\<close> is what is done to an error that is handed on, and
  \<open>note\<close> what follows the lookup.
\<close>

definition load_jobs :: "(error + 'job gomap) go \<Rightarrow> (error \<Rightarrow> error) \<Rightarrow> (('cr, 'job, 'h) JobReco \<Rightarrow> bool \<Rightarrow> ('cr, 'job, 'h) JobReco go)
    \<Rightarrow> string \<Rightarrow> ('cr, 'job, 'h) JobReco \<Rightarrow> (('cr, 'job, 'h) JobReco \<times> (error + bool)) go" where
  "load_jobs get_map wrap note name r =
     try_io get_map
       (\<lambda>err. if \<not> CannotFindError err then ret (r, Inl (wrap err)) else ret (r, Inr False))
       (\<lambda>jobs.
          let r = r\<lparr>jr_jobs := jobs\<rparr>; exists = (map_of jobs name \<noteq> None)
          in bind_io (note r exists) (\<lambda>r. ret (r, Inr exists)))"

definition no_note :: "'r \<Rightarrow> bool \<Rightarrow> 'r go" where
  "no_note r exists = ret r"

definition backoff_creation :: "env \<Rightarrow> k8s_obj \<Rightarrow> 'r \<Rightarrow> ('r \<times> Result \<times> error option) go" where
  "backoff_creation E ob r = bind_io (LogAndBackoffCreation E ob) (\<lambda>(res, e). ret (r, res, e))"

definition backoff_deletion :: "env \<Rightarrow> k8s_obj \<Rightarrow> 'r \<Rightarrow> ('r \<times> Result \<times> error option) go" where
  "backoff_deletion E ob r = bind_io (LogAndBackoffDeletion E ob) (\<lambda>(res, e). ret (r, res, e))"

text \<open>
  \<^verbatim>\<open>GetStorageInfoAndActions\<close> on the helper of the controller object; the helper is a pointer
  and the storage an interface value, and a nil one panics.
\<close>

definition storage_and_actions :: "env \<Rightarrow> 't type_and_location \<Rightarrow> 't db_builder \<Rightarrow> ('cr, 'job, 't LazyTargetHelper) JobReco
    \<Rightarrow> (('cr, 'job, 't LazyTargetHelper) JobReco \<Rightarrow> 'a go)
    \<Rightarrow> (('cr, 'job, 't LazyTargetHelper) JobReco \<Rightarrow> StorageActions \<Rightarrow> DbActions \<Rightarrow> 'a go) \<Rightarrow> 'a go" where
  "storage_and_actions E tal build r fail k =
     (case jr_helper r of
        None \<Rightarrow> panic ''nil pointer dereference''
      | Some t \<Rightarrow>
          bind_io (GetStorageInfoAndActions E (jr_NsNm r) tal build t) (\<lambda>(t, x).
            let r = r\<lparr>jr_helper := Some t\<rparr> in
            case x of
              Inl err \<Rightarrow> fail r
            | Inr (storage, actions) \<Rightarrow>
                (case storage of
                   None \<Rightarrow> panic ''nil pointer dereference''
                 | Some storageInfo \<Rightarrow> k r storageInfo actions)))"

text \<open>An error of the creation is only logged.\<close>

definition create_logged :: "env \<Rightarrow> k8s_obj \<Rightarrow> unit go" where
  "create_logged E ob = bind_io (call (K8sCreate ob) (\<lambda>h. k8s_create E h ob)) (\<lambda>_. ret ())"

definition own_name :: "NamespacedName \<Rightarrow> k8s_obj \<Rightarrow> NamespacedName" where
  "own_name nsnm ob = \<lparr>nn_Namespace = nn_Namespace nsnm, nn_Name = m_Name (obj_meta ob)\<rparr>"

definition delete_or_back_off :: "env \<Rightarrow> kind \<Rightarrow> k8s_obj \<Rightarrow> ('cr, 'job, 'h) JobReco \<Rightarrow> (('cr, 'job, 'h) JobReco \<times> Result \<times> error option) go" where
  "delete_or_back_off E k ob r =
     (let n = own_name (jr_NsNm r) ob in
      bind_io (call (K8sDelete k n) (\<lambda>h. k8s_delete E h k n)) (\<lambda>err.
        if err \<noteq> None then backoff_deletion E ob r else ret (r, no_result, None)))"

definition cleanup_helper :: "env \<Rightarrow> ('cr, 'job, 't LazyTargetHelper) JobReco \<Rightarrow> ('cr, 'job, 't LazyTargetHelper) JobReco go" where
  "cleanup_helper E r =
     (case jr_helper r of
        None \<Rightarrow> ret r
      | Some t \<Rightarrow> bind_io (CleanupConn_target E t) (\<lambda>t. ret (r\<lparr>jr_helper := Some t\<rparr>)))"

subsection \<open>Backup jobs\<close>

definition GetCR_backupjob :: "BackupJobReco \<Rightarrow> k8s_obj" where
  "GetCR_backupjob r = O_BackupJob (jr_cr r)"

definition PutCR_backupjob :: "k8s_obj \<Rightarrow> BackupJobReco \<Rightarrow> BackupJobReco" where
  "PutCR_backupjob ob r = (case ob of O_BackupJob x \<Rightarrow> r\<lparr>jr_cr := x\<rparr> | _ \<Rightarrow> r)"

definition LoadObj_backupjob :: "env \<Rightarrow> BackupJobReco \<Rightarrow> (BackupJobReco \<times> (error + bool)) go" where
  "LoadObj_backupjob E r = load_jobs (GetJobMap E (jr_NsNm r)) NewAlreadyHandledError no_note (m_Name (bj_meta (jr_cr r))) r"

definition CreateObj_backupjob :: "env \<Rightarrow> BackupJobReco \<Rightarrow> (BackupJobReco \<times> Result \<times> error option) go" where
  "CreateObj_backupjob E r =
     (let nsnm = jr_NsNm r; spec = bj_Spec (jr_cr r); backoff = backoff_creation E (GetCR_backupjob r) in
      bind_io (EnsureScripts E nsnm) (\<lambda>err.
        if err \<noteq> None then backoff r
        else storage_and_actions E (backup_type_and_location E nsnm) (backup_db_helper E nsnm) r backoff
          (\<lambda>r storageInfo actions.
             let backupContainer = BuildBackupContainer actions;
                 uploadContainer = BuildUploadContainer storageInfo (bj_FixedFileName spec);
                 job = BuildJob nsnm [backupContainer] uploadContainer (m_Name (bj_meta (jr_cr r))) (bj_ServiceAccount spec)
             in bind_io (create_logged E (O_Job job)) (\<lambda>_. ret (r, no_result, None)))))"

definition RemoveObj_backupjob :: "env \<Rightarrow> BackupJobReco \<Rightarrow> (BackupJobReco \<times> Result \<times> error option) go" where
  "RemoveObj_backupjob E r = delete_or_back_off E K_Job (GetCR_backupjob r) r"

definition LoadCR_backupjob :: "env \<Rightarrow> BackupJobReco \<Rightarrow> (BackupJobReco \<times> Result \<times> error option) go" where
  "LoadCR_backupjob E r =
     try_io (call (K8sGet K_BackupJob (jr_NsNm r)) (\<lambda>h. get_BackupJob_cr E h (jr_NsNm r))) (\<lambda>err. ret (r, no_result, Some err)) (\<lambda>job.
       ret (r\<lparr>jr_cr := job, jr_helper := Some (NewLazyTargetHelper (bj_BackupTarget (bj_Spec job)))\<rparr>, no_result, None))"

definition EnsureCorrect_backupjob :: "BackupJobReco \<Rightarrow> (BackupJobReco \<times> Result \<times> error option) go" where
  "EnsureCorrect_backupjob r = ret (r, no_result, None)"

definition CleanupConn_backupjob :: "env \<Rightarrow> BackupJobReco \<Rightarrow> BackupJobReco go" where
  "CleanupConn_backupjob E r = cleanup_helper E r"

definition backupjob_rcl :: "env \<Rightarrow> BackupJobReco Reconcilable" where
  "backupjob_rcl E =
     \<lparr>rc_CreateObj = CreateObj_backupjob E, rc_RemoveObj = RemoveObj_backupjob E, rc_LoadCR = LoadCR_backupjob E,
      rc_LoadObj = LoadObj_backupjob E, rc_EnsureCorrect = EnsureCorrect_backupjob, rc_GetCR = GetCR_backupjob,
      rc_PutCR = PutCR_backupjob, rc_CleanupConn = CleanupConn_backupjob E\<rparr>"

definition zero_meta :: ObjectMeta where
  "zero_meta = new_meta '''' '''' []"

definition start_reco :: "NamespacedName \<Rightarrow> 'cr \<Rightarrow> ('cr, 'job, 'h) JobReco" where
  "start_reco req zero = \<lparr>jr_NsNm = req, jr_cr = zero, jr_jobs = [], jr_helper = None\<rparr>"

definition zero_backupjob :: BackupJob where
  "zero_backupjob = \<lparr>bj_meta = zero_meta, bj_Spec = \<lparr>bj_BackupTarget = '''', bj_FixedFileName = None, bj_ServiceAccount = ''''\<rparr>\<rparr>"

definition Reconcile_backupjob :: "env \<Rightarrow> NamespacedName \<Rightarrow> Result go" where
  "Reconcile_backupjob E req = Reconcile E (backupjob_rcl E) (start_reco req zero_backupjob)"

subsection \<open>Restore jobs\<close>

definition GetCR_restorejob :: "RestoreJobReco \<Rightarrow> k8s_obj" where
  "GetCR_restorejob r = O_RestoreJob (jr_cr r)"

definition PutCR_restorejob :: "k8s_obj \<Rightarrow> RestoreJobReco \<Rightarrow> RestoreJobReco" where
  "PutCR_restorejob ob r = (case ob of O_RestoreJob x \<Rightarrow> r\<lparr>jr_cr := x\<rparr> | _ \<Rightarrow> r)"

definition LoadObj_restorejob :: "env \<Rightarrow> RestoreJobReco \<Rightarrow> (RestoreJobReco \<times> (error + bool)) go" where
  "LoadObj_restorejob E r = load_jobs (GetJobMap E (jr_NsNm r)) id no_note (m_Name (rj_meta (jr_cr r))) r"

text \<open>An error of the scripts is returned as it is.\<close>

definition CreateObj_restorejob :: "env \<Rightarrow> RestoreJobReco \<Rightarrow> (RestoreJobReco \<times> Result \<times> error option) go" where
  "CreateObj_restorejob E r =
     (let nsnm = jr_NsNm r; spec = rj_Spec (jr_cr r) in
      bind_io (EnsureScripts E nsnm) (\<lambda>err.
        if err \<noteq> None then ret (r, no_result, err)
        else storage_and_actions E (restore_type_and_location E nsnm) (restore_db_helper E nsnm) r (backoff_creation E (GetCR_restorejob r))
          (\<lambda>r storageInfo actions.
             let restoreContainer = BuildRestoreContainer actions;
                 downloadContainer = BuildDownloadContainer storageInfo (rj_FixedFileName spec);
                 job = BuildJob nsnm [downloadContainer] restoreContainer (m_Name (rj_meta (jr_cr r))) (rj_ServiceAccount spec)
             in bind_io (create_logged E (O_Job job)) (\<lambda>_. ret (r, no_result, None)))))"

definition RemoveObj_restorejob :: "env \<Rightarrow> RestoreJobReco \<Rightarrow> (RestoreJobReco \<times> Result \<times> error option) go" where
  "RemoveObj_restorejob E r = delete_or_back_off E K_Job (GetCR_restorejob r) r"

definition LoadCR_restorejob :: "env \<Rightarrow> RestoreJobReco \<Rightarrow> (RestoreJobReco \<times> Result \<times> error option) go" where
  "LoadCR_restorejob E r =
     try_io (call (K8sGet K_RestoreJob (jr_NsNm r)) (\<lambda>h. get_RestoreJob_cr E h (jr_NsNm r))) (\<lambda>err. ret (r, no_result, Some err)) (\<lambda>job.
       ret (r\<lparr>jr_cr := job, jr_helper := Some (NewLazyTargetHelper (rj_RestoreTarget (rj_Spec job)))\<rparr>, no_result, None))"

definition EnsureCorrect_restorejob :: "RestoreJobReco \<Rightarrow> (RestoreJobReco \<times> Result \<times> error option) go" where
  "EnsureCorrect_restorejob r = ret (r, no_result, None)"

definition CleanupConn_restorejob :: "RestoreJobReco \<Rightarrow> RestoreJobReco go" where
  "CleanupConn_restorejob r = ret r"

definition restorejob_rcl :: "env \<Rightarrow> RestoreJobReco Reconcilable" where
  "restorejob_rcl E =
     \<lparr>rc_CreateObj = CreateObj_restorejob E, rc_RemoveObj = RemoveObj_restorejob E, rc_LoadCR = LoadCR_restorejob E,
      rc_LoadObj = LoadObj_restorejob E, rc_EnsureCorrect = EnsureCorrect_restorejob, rc_GetCR = GetCR_restorejob,
      rc_PutCR = PutCR_restorejob, rc_CleanupConn = CleanupConn_restorejob\<rparr>"

definition zero_restorejob :: RestoreJob where
  "zero_restorejob = \<lparr>rj_meta = zero_meta, rj_Spec = \<lparr>rj_RestoreTarget = '''', rj_FixedFileName = None, rj_ServiceAccount = ''''\<rparr>\<rparr>"

definition Reconcile_restorejob :: "env \<Rightarrow> NamespacedName \<Rightarrow> Result go" where
  "Reconcile_restorejob E req = Reconcile E (restorejob_rcl E) (start_reco req zero_restorejob)"

subsection \<open>Copy jobs\<close>

definition GetCR_copyjob :: "DbCopyJobReco \<Rightarrow> k8s_obj" where
  "GetCR_copyjob r = O_DbCopyJob (jr_cr r)"

definition PutCR_copyjob :: "k8s_obj \<Rightarrow> DbCopyJobReco \<Rightarrow> DbCopyJobReco" where
  "PutCR_copyjob ob r = (case ob of O_DbCopyJob x \<Rightarrow> r\<lparr>jr_cr := x\<rparr> | _ \<Rightarrow> r)"

definition LoadObj_copyjob :: "env \<Rightarrow> DbCopyJobReco \<Rightarrow> (DbCopyJobReco \<times> (error + bool)) go" where
  "LoadObj_copyjob E r = load_jobs (GetJobMap E (jr_NsNm r)) id no_note (m_Name (dcj_meta (jr_cr r))) r"

definition CreateObj_copyjob :: "env \<Rightarrow> DbCopyJobReco \<Rightarrow> (DbCopyJobReco \<times> Result \<times> error option) go" where
  "CreateObj_copyjob E r =
     (let nsnm = jr_NsNm r; spec = dcj_Spec (jr_cr r); backoff = backoff_creation E (GetCR_copyjob r) in
      bind_io (EnsureScripts E nsnm) (\<lambda>err.
        if err \<noteq> None then backoff r
        else try_io (GetServerActionsFromDbName E nsnm (dcj_FromDbName spec)) (\<lambda>_. backoff r) (\<lambda>fromDbServerActions.
          try_io (GetServerActionsFromDbName E nsnm (dcj_ToDbName spec)) (\<lambda>_. backoff r) (\<lambda>toDbServerActions.
            let backupContainer = BuildBackupContainer fromDbServerActions;
                restoreContainer = BuildRestoreContainer toDbServerActions;
                job = BuildJob nsnm [backupContainer] restoreContainer (m_Name (dcj_meta (jr_cr r))) (dcj_ServiceAccount spec)
            in bind_io (create_logged E (O_Job job)) (\<lambda>_. ret (r, no_result, None))))))"

definition RemoveObj_copyjob :: "env \<Rightarrow> DbCopyJobReco \<Rightarrow> (DbCopyJobReco \<times> Result \<times> error option) go" where
  "RemoveObj_copyjob E r = delete_or_back_off E K_Job (GetCR_copyjob r) r"

definition LoadCR_copyjob :: "env \<Rightarrow> DbCopyJobReco \<Rightarrow> (DbCopyJobReco \<times> Result \<times> error option) go" where
  "LoadCR_copyjob E r =
     try_io (call (K8sGet K_DbCopyJob (jr_NsNm r)) (\<lambda>h. get_DbCopyJob_cr E h (jr_NsNm r))) (\<lambda>err. ret (r, no_result, Some err)) (\<lambda>job.
       ret (r\<lparr>jr_cr := job\<rparr>, no_result, None))"

definition EnsureCorrect_copyjob :: "DbCopyJobReco \<Rightarrow> (DbCopyJobReco \<times> Result \<times> error option) go" where
  "EnsureCorrect_copyjob r = ret (r, no_result, None)"

definition CleanupConn_copyjob :: "DbCopyJobReco \<Rightarrow> DbCopyJobReco go" where
  "CleanupConn_copyjob r = ret r"

definition copyjob_rcl :: "env \<Rightarrow> DbCopyJobReco Reconcilable" where
  "copyjob_rcl E =
     \<lparr>rc_CreateObj = CreateObj_copyjob E, rc_RemoveObj = RemoveObj_copyjob E, rc_LoadCR = LoadCR_copyjob E,
      rc_LoadObj = LoadObj_copyjob E, rc_EnsureCorrect = EnsureCorrect_copyjob, rc_GetCR = GetCR_copyjob,
      rc_PutCR = PutCR_copyjob, rc_CleanupConn = CleanupConn_copyjob\<rparr>"

definition zero_copyjob :: DbCopyJob where
  "zero_copyjob = \<lparr>dcj_meta = zero_meta, dcj_Spec = \<lparr>dcj_FromDbName = '''', dcj_ToDbName = '''', dcj_ServiceAccount = ''''\<rparr>\<rparr>"

definition Reconcile_copyjob :: "env \<Rightarrow> NamespacedName \<Rightarrow> Result go" where
  "Reconcile_copyjob E req = Reconcile E (copyjob_rcl E) (start_reco req zero_copyjob)"

subsection \<open>The contract of a job controller\<close>

text \<open>
  What a controller for objects of kind \<open>k\<close> may do for the resource \<open>n\<close>, where \<open>marked\<close> tells
  whether the resource is marked for deletion: read, write a status if there is one, create the one object with the name
  of the resource or, when marked, delete it, and renew the scripts of its namespace.  Updates of the
  resource itself, which only the loop sends, are not among them.
\<close>

fun job_may :: "kind \<Rightarrow> bool \<Rightarrow> NamespacedName \<Rightarrow> event \<Rightarrow> bool" where
  "job_may k marked n (K8sCreate (O_Job j)) \<longleftrightarrow>
     k = K_Job \<and> \<not> marked \<and> m_Namespace (job_meta j) = nn_Namespace n \<and> m_Name (job_meta j) = nn_Name n"
| "job_may k marked n (K8sCreate (O_CronJob j)) \<longleftrightarrow>
     k = K_CronJob \<and> \<not> marked \<and> m_Namespace (cj_meta j) = nn_Namespace n \<and> m_Name (cj_meta j) = nn_Name n"
| "job_may k marked n (K8sCreate (O_ConfigMap c)) \<longleftrightarrow>
     \<not> marked \<and> m_Namespace (cm_meta c) = nn_Namespace n \<and> m_Name (cm_meta c) = SCRIPTS_CONFIGMAP \<and> cm_Data c = SCRIPTS_MAP"
| "job_may k marked n (K8sDelete k' m) \<longleftrightarrow>
     (if k' = K_ConfigMap then \<not> marked \<and> m = \<lparr>nn_Namespace = nn_Namespace n, nn_Name = SCRIPTS_CONFIGMAP\<rparr>
      else k' = k \<and> marked \<and> m = n)"
| "job_may k marked n (K8sGet _ _) \<longleftrightarrow> True"
| "job_may k marked n (K8sList _) \<longleftrightarrow> True"
| "job_may k marked n (K8sStatusUpdate _) \<longleftrightarrow> k = K_CronJob"
| "job_may k marked n (SqlClose _) \<longleftrightarrow> True"
| "job_may k marked n _ \<longleftrightarrow> False"

definition mine :: "('cr, 'job, 'h) JobReco Reconcilable \<Rightarrow> ('cr, 'job, 'h) JobReco \<Rightarrow> NamespacedName" where
  "mine rcl s = own_name (jr_NsNm s) (rc_GetCR rcl s)"

definition same_resource :: "('cr, 'job, 'h) JobReco Reconcilable \<Rightarrow> ('cr, 'job, 'h) JobReco \<Rightarrow> ('cr, 'job, 'h) JobReco \<Rightarrow> bool" where
  "same_resource rcl s s' \<longleftrightarrow> mine rcl s' = mine rcl s \<and> markedToBeDeleted (rc_GetCR rcl s') = markedToBeDeleted (rc_GetCR rcl s)"

lemma job_may_no_update: "job_may k b n ev \<Longrightarrow> \<not> is_update ev"
  by (cases ev) auto

fun is_create :: "event \<Rightarrow> bool" where
  "is_create (K8sCreate _) = True"
| "is_create _ = False"

lemma marked_no_create: "job_may k True n ev \<Longrightarrow> \<not> is_create ev"
  by (rule job_may.cases [of "(k, True, n, ev)"]) auto

lemma close_job_may: "is_close ev \<Longrightarrow> job_may k b n ev"
  by (cases ev) auto

locale job_controller =
  fixes rcl :: "('cr, 'job, 'h) JobReco Reconcilable" and k :: kind
  assumes load_cr_reads: "emits k8s_read (rc_LoadCR rcl s)"
    and load_obj_may: "emits (job_may k b (mine rcl s)) (rc_LoadObj rcl s)"
    and create_may: "emits (job_may k False (mine rcl s)) (rc_CreateObj rcl s)"
    and remove_may: "emits (job_may k True (mine rcl s)) (rc_RemoveObj rcl s)"
    and ensure_may: "emits (job_may k b (mine rcl s)) (rc_EnsureCorrect rcl s)"
    and cleanup_closes: "emits is_close (rc_CleanupConn rcl s)"
    and load_obj_same: "rc_LoadObj rcl s h = (Return (s', r), h') \<Longrightarrow> same_resource rcl s s'"
    and remove_same: "rc_RemoveObj rcl s h = (Return (s', res, err), h') \<Longrightarrow> same_resource rcl s s'"
    and store_finalizers: "rc_GetCR rcl (rc_PutCR rcl (set_finalizers fs (rc_GetCR rcl s)) s) = set_finalizers fs (rc_GetCR rcl s)"
begin

lemma reads_protect: "k8s_read ev \<Longrightarrow> protects ev"
  by (cases ev) (auto simp: protects_def)

lemma closes_no_update: "is_close ev \<Longrightarrow> \<not> is_update ev"
  by (cases ev) auto

end

text \<open>Every job controller keeps the contract of the loop.\<close>

sublocale job_controller \<subseteq> reconcilable rcl
proof
  fix s h s' r h' res err fs
  show "emits protects (rc_LoadCR rcl s)" by (rule emits_mono [OF load_cr_reads reads_protect])
  show "emits protects (rc_LoadObj rcl s)" by (rule emits_protects, rule emits_mono [OF load_obj_may job_may_no_update])
  show "emits protects (rc_CreateObj rcl s)" by (rule emits_protects, rule emits_mono [OF create_may job_may_no_update])
  show "emits (\<lambda>ev. \<not> is_update ev) (rc_RemoveObj rcl s)" by (rule emits_mono [OF remove_may job_may_no_update])
  show "emits protects (rc_EnsureCorrect rcl s)" by (rule emits_protects, rule emits_mono [OF ensure_may job_may_no_update])
  show "emits protects (rc_CleanupConn rcl s)" by (rule emits_protects, rule emits_mono [OF cleanup_closes closes_no_update])
  show "rc_LoadObj rcl s h = (Return (s', r), h') \<Longrightarrow> markedToBeDeleted (rc_GetCR rcl s) \<Longrightarrow> markedToBeDeleted (rc_GetCR rcl s')"
    by (auto simp: same_resource_def dest: load_obj_same)
  show "rc_RemoveObj rcl s h = (Return (s', res, err), h') \<Longrightarrow> markedToBeDeleted (rc_GetCR rcl s) \<Longrightarrow> markedToBeDeleted (rc_GetCR rcl s')"
    by (auto simp: same_resource_def dest: remove_same)
  show "rc_GetCR rcl (rc_PutCR rcl (set_finalizers fs (rc_GetCR rcl s)) s) = set_finalizers fs (rc_GetCR rcl s)"
    by (rule store_finalizers)
qed

context job_controller
begin

lemma job_protects: "emits protects (Reconcile E rcl s)"
  by (rule Reconcile_protects)

lemma Reconcile_may:
  assumes loaded: "\<And>h s res h'. rc_LoadCR rcl s0 h = (Return (s, res, None), h') \<Longrightarrow> \<not> Requeue res \<Longrightarrow>
      mine rcl s = n \<and> markedToBeDeleted (rc_GetCR rcl s) = marked"
  shows "emits (\<lambda>ev. job_may k marked n ev \<or> is_update ev) (Reconcile E rcl s0)"
proof (rule emits_Reconcile [where I = "\<lambda>b s. mine rcl s = n \<and> b = marked"], goal_cases)
  case 1
  have "k8s_read ev \<Longrightarrow> job_may k marked n ev \<or> is_update ev" for ev by (cases ev) auto
  then show ?case by (rule emits_mono [OF load_cr_reads])
next
  case (2 h s res h')
  then show ?case using loaded by auto
next
  case (3 b s)
  then show ?case by (auto intro: emits_mono [OF load_obj_may])
next
  case (4 b s h s' x h')
  then show ?case by (auto simp: same_resource_def dest: load_obj_same)
next
  case (5 s)
  then show ?case by (auto intro: emits_mono [OF remove_may])
next
  case (6 s)
  then show ?case by (auto intro: emits_mono [OF create_may])
next
  case (7 s)
  then show ?case by (auto intro: emits_mono [OF ensure_may])
next
  case (8 ob)
  show ?case by simp
next
  case (9 s)
  show ?case by (auto intro: emits_mono [OF cleanup_closes] close_job_may)
qed

lemma Reconcile_creates:
  assumes create: "\<And>s. emits (\<lambda>ev. is_create ev \<longrightarrow> Q ev) (rc_CreateObj rcl s)"
  shows "emits (\<lambda>ev. is_create ev \<longrightarrow> Q ev) (Reconcile E rcl s0)"
proof (rule emits_Reconcile [where I = "\<lambda>_ _. True"], goal_cases)
  case 1
  have "k8s_read ev \<Longrightarrow> is_create ev \<longrightarrow> Q ev" for ev by (cases ev) auto
  then show ?case by (rule emits_mono [OF load_cr_reads])
next
  case (3 b s)
  show ?case by (rule emits_mono [OF load_obj_may [of True]]) (simp add: marked_no_create)
next
  case (5 s)
  show ?case by (rule emits_mono [OF remove_may]) (simp add: marked_no_create)
next
  case (6 s)
  show ?case by (rule create)
next
  case (7 s)
  show ?case by (rule emits_mono [OF ensure_may [of True]]) (simp add: marked_no_create)
next
  case (9 s)
  have "is_close ev \<Longrightarrow> is_create ev \<longrightarrow> Q ev" for ev by (cases ev) auto
  then show ?case by (rule emits_mono [OF cleanup_closes])
qed simp_all

end

subsection \<open>Writes to the resource\<close>

fun kind_of :: "k8s_obj \<Rightarrow> kind" where
  "kind_of (O_DbServer x) = K_DbServer"
| "kind_of (O_Db x) = K_Db"
| "kind_of (O_Schema x) = K_Schema"
| "kind_of (O_User x) = K_User"
| "kind_of (O_Secret x) = K_Secret"
| "kind_of (O_ConfigMap x) = K_ConfigMap"
| "kind_of (O_Job x) = K_Job"
| "kind_of (O_CronJob x) = K_CronJob"
| "kind_of (O_BackupJob x) = K_BackupJob"
| "kind_of (O_BackupCronJob x) = K_BackupCronJob"
| "kind_of (O_RestoreJob x) = K_RestoreJob"
| "kind_of (O_RestoreCronJob x) = K_RestoreCronJob"
| "kind_of (O_DbCopyJob x) = K_DbCopyJob"
| "kind_of (O_DbCopyCronJob x) = K_DbCopyCronJob"
| "kind_of (O_CockroachDBBackupJob x) = K_CockroachDBBackupJob"
| "kind_of (O_CockroachDBBackupCronJob x) = K_CockroachDBBackupCronJob"

text \<open>The API server knows an object by its kind, its namespace and its name.\<close>

definition same_object :: "k8s_obj \<Rightarrow> k8s_obj \<Rightarrow> bool" where
  "same_object a b \<longleftrightarrow>
     kind_of b = kind_of a \<and> m_Namespace (obj_meta b) = m_Namespace (obj_meta a) \<and> m_Name (obj_meta b) = m_Name (obj_meta a)"

fun writes_own :: "k8s_obj \<Rightarrow> event \<Rightarrow> bool" where
  "writes_own cr (K8sUpdate ob) \<longleftrightarrow> same_object cr ob"
| "writes_own cr (K8sStatusUpdate ob) \<longleftrightarrow> same_object cr ob"
| "writes_own cr _ \<longleftrightarrow> True"

text \<open>
  What a reconciliation of the resource \<open>cr\<close> may do: write the resource itself, and what \<open>job_may\<close> allows.
\<close>

definition touches_own :: "kind \<Rightarrow> k8s_obj \<Rightarrow> NamespacedName \<Rightarrow> event \<Rightarrow> bool" where
  "touches_own k cr req ev \<longleftrightarrow>
     (job_may k (markedToBeDeleted cr) (own_name req cr) ev \<or> is_update ev) \<and> writes_own cr ev"

lemma same_object_refl [simp]: "same_object a a"
  by (simp add: same_object_def)

lemma kind_of_set_meta [simp]: "kind_of (obj_set_meta m ob) = kind_of ob"
  by (cases ob) simp_all

lemma same_object_finalizers [simp]: "same_object cr (set_finalizers fs ob) \<longleftrightarrow> same_object cr ob"
  by (simp add: same_object_def set_finalizers_def)

lemma emits_both: "emits P m \<Longrightarrow> emits Q m \<Longrightarrow> emits (\<lambda>ev. P ev \<and> Q ev) m"
  by (auto simp: emits_def list_all_iff) (metis same_append_eq)

lemma emits_bind_yields: "emits P m \<Longrightarrow> yields R m \<Longrightarrow> (\<And>x. R x \<Longrightarrow> emits P (k x)) \<Longrightarrow> emits P (bind_io m k)"
  by (rule emits_bind_run) (auto dest: yieldsD)

lemma own_updates:
  "same_object cr (rc_GetCR rcl s) \<Longrightarrow> emits (writes_own cr) (on_cr rcl (EnsureFinalizer E) s)"
  "same_object cr (rc_GetCR rcl s) \<Longrightarrow> emits (writes_own cr) (on_cr rcl (RemoveFinalizer E) s)"
  unfolding on_cr_def EnsureFinalizer_def AddFinalizerToCr_def RemoveFinalizer_def Update_cr_def Let_def
  by (auto intro!: emits_intro split: if_splits)

lemma reads_own: "k8s_read ev \<Longrightarrow> writes_own cr ev" "is_close ev \<Longrightarrow> writes_own cr ev"
  by (cases ev; simp)+

text \<open>What an operation has to do so that the loop writes nothing but the resource.\<close>

definition stays_own :: "k8s_obj \<Rightarrow> 's Reconcilable \<Rightarrow> ('s \<Rightarrow> ('s \<times> 'a) go) \<Rightarrow> bool" where
  "stays_own cr rcl f \<longleftrightarrow>
     (\<forall>s. same_object cr (rc_GetCR rcl s) \<longrightarrow> emits (writes_own cr) (f s) \<and> yields (\<lambda>(s', x). same_object cr (rc_GetCR rcl s')) (f s))"

lemma stays_ownI:
  "(\<And>s. same_object cr (rc_GetCR rcl s) \<Longrightarrow> emits (writes_own cr) (f s)) \<Longrightarrow>
   (\<And>s. same_object cr (rc_GetCR rcl s) \<Longrightarrow> yields (\<lambda>(s', x). same_object cr (rc_GetCR rcl s')) (f s)) \<Longrightarrow> stays_own cr rcl f"
  by (simp add: stays_own_def)

lemma own_bind:
  assumes "stays_own cr rcl f" "same_object cr (rc_GetCR rcl s)"
    and "\<And>s' x. same_object cr (rc_GetCR rcl s') \<Longrightarrow> emits (writes_own cr) (k (s', x))"
  shows "emits (writes_own cr) (bind_io (f s) k)"
  using assms by (intro emits_bind_yields [where R = "\<lambda>(s', x). same_object cr (rc_GetCR rcl s')"]) (auto simp: stays_own_def)

lemma own_update_bind:
  assumes "same_object cr (rc_GetCR rcl s)"
  shows "(\<And>x. emits (writes_own cr) (k x)) \<Longrightarrow> emits (writes_own cr) (bind_io (on_cr rcl (RemoveFinalizer E) s) k)"
    and "(\<And>x. emits (writes_own cr) (k' x)) \<Longrightarrow> emits (writes_own cr) (bind_io (on_cr rcl (EnsureFinalizer E) s) k')"
  using assms by (auto intro!: emits_bind own_updates)

lemma emits_Reconcile_own:
  assumes cr: "emits k8s_read (rc_LoadCR rcl s0)"
    and loaded: "\<And>h s res h'. rc_LoadCR rcl s0 h = (Return (s, res, None), h') \<Longrightarrow> \<not> Requeue res \<Longrightarrow> same_object cr (rc_GetCR rcl s)"
    and obj: "stays_own cr rcl (rc_LoadObj rcl)" and create: "stays_own cr rcl (rc_CreateObj rcl)"
    and remove: "stays_own cr rcl (rc_RemoveObj rcl)" and ensure: "stays_own cr rcl (rc_EnsureCorrect rcl)"
    and clean: "\<And>s. emits is_close (rc_CleanupConn rcl s)"
  shows "emits (writes_own cr) (Reconcile E rcl s0)"
proof -
  note quiet = emits_if emits_ret emits_case_prod own_update_bind own_updates(1)
  have obj_emits: "emits (writes_own cr) (reconcile_obj E rcl exists marked s)" if "same_object cr (rc_GetCR rcl s)" for exists marked s
    unfolding reconcile_obj_def using that
    by (intro emits_if) (auto intro!: quiet own_bind [OF create] own_bind [OF remove] own_bind [OF ensure])
  have handle: "emits (writes_own cr) (handle_error E rcl marked out)" for marked out
    unfolding handle_error_def deletion_backoff_def by (auto intro!: emits_intro split: prod.splits option.splits)
  have "emits (writes_own cr) (reconcile_loaded E rcl s)" if "same_object cr (rc_GetCR rcl s)" for s
    unfolding reconcile_loaded_def Let_def
    by (rule own_bind [OF obj that])
      (auto split: sum.split intro!: quiet emits_bind [OF obj_emits] handle emits_bind [OF emits_backoff])
  then show ?thesis
    unfolding Reconcile_def
    by (intro emits_bind_run [OF emits_mono [OF cr reads_own(1)]])
      (auto intro!: emits_intro emits_mono [OF clean reads_own(2)] dest!: loaded)
qed

context job_controller
begin

lemma Reconcile_touches_own:
  assumes loaded: "\<And>h s res h'. rc_LoadCR rcl s0 h = (Return (s, res, None), h') \<Longrightarrow> \<not> Requeue res \<Longrightarrow> jr_NsNm s = req \<and> rc_GetCR rcl s = cr"
    and "stays_own cr rcl (rc_LoadObj rcl)" "stays_own cr rcl (rc_CreateObj rcl)" "stays_own cr rcl (rc_RemoveObj rcl)"
      "stays_own cr rcl (rc_EnsureCorrect rcl)"
  shows "emits (touches_own k cr req) (Reconcile E rcl s0)"
  unfolding touches_own_def [abs_def]
  by (intro emits_both Reconcile_may emits_Reconcile_own load_cr_reads cleanup_closes assms) (auto simp: mine_def dest!: loaded)

end

text \<open>A controller of jobs writes no status, so its operations write nothing; and they keep the resource as it was read.\<close>

lemma job_writes_none: "job_may K_Job b n ev \<Longrightarrow> writes_own cr ev"
  by (cases ev) auto

lemma stays_own_same:
  assumes "\<And>r r'. jr_cr r' = jr_cr r \<Longrightarrow> rc_GetCR rcl r' = rc_GetCR rcl r"
    and "\<And>r. emits (writes_own cr) (f r)" "\<And>r. yields (\<lambda>(r', x). jr_cr r' = jr_cr r) (f r)"
  shows "stays_own cr rcl f"
  by (rule stays_ownI) (auto intro: assms(2) yields_mono [OF assms(3)] dest!: assms(1))

lemma yields_storage_and_actions:
  "(\<And>t. yields Q (fail (r\<lparr>jr_helper := Some t\<rparr>))) \<Longrightarrow> (\<And>t st a. yields Q (k (r\<lparr>jr_helper := Some t\<rparr>) st a)) \<Longrightarrow>
     yields Q (storage_and_actions E tal build r fail k)"
  unfolding storage_and_actions_def Let_def by (intro yields_intro; simp)

subsection \<open>What the shared steps send\<close>

lemma read_job_may: "k8s_read ev \<Longrightarrow> job_may k b n ev"
  by (cases ev) auto

lemma emits_load_jobs:
  "emits P get_map \<Longrightarrow> (\<And>r b. emits P (note r b)) \<Longrightarrow> emits P (load_jobs get_map wrap note name r)"
  unfolding load_jobs_def Let_def by (intro emits_intro)

lemma emits_no_note [emits_intro]: "emits P (no_note r b)"
  by (simp add: no_note_def emits_ret)

lemma emits_backoffs [emits_intro]: "emits P (backoff_creation E ob r)" "emits P (backoff_deletion E ob r)"
  unfolding backoff_creation_def backoff_deletion_def LogAndBackoffCreation_def LogAndBackoffDeletion_def deletion_backoff_def
  by (intro emits_intro)+

lemma emits_maps [emits_intro]:
  "P (K8sList K_Job) \<Longrightarrow> emits P (GetJobMap E n)" "P (K8sList K_CronJob) \<Longrightarrow> emits P (GetCronJobMap E n)"
  unfolding GetJobMap_def GetCronJobMap_def by (intro emits_intro; assumption)+

lemma emits_create_logged [emits_intro]: "P (K8sCreate ob) \<Longrightarrow> emits P (create_logged E ob)"
  unfolding create_logged_def by (intro emits_intro)

lemma emits_storage_and_actions:
  assumes "\<And>k n. P (K8sGet k n)" "P (K8sList K_DbServer)" "\<And>h. emits P (tal h)" "\<And>h. emits P (build h)"
    and fail: "\<And>t. emits P (fail (r\<lparr>jr_helper := Some t\<rparr>))" and k: "\<And>t s a. emits P (k (r\<lparr>jr_helper := Some t\<rparr>) s a)"
  shows "emits P (storage_and_actions E tal build r fail k)"
proof -
  have "emits P (GetStorageInfoAndActions E (jr_NsNm r) tal build t)" for t
    by (rule emits_targets) (fact assms)+
  then show ?thesis
    unfolding storage_and_actions_def Let_def by (intro emits_intro fail k)
qed

lemma emits_GetServerActionsFromDbName:
  "(\<And>k n. P (K8sGet k n)) \<Longrightarrow> P (K8sList K_DbServer) \<Longrightarrow> emits P (GetServerActionsFromDbName E nsnm d)"
  unfolding GetServerActionsFromDbName_def GetDbServerFromDbName_def GetDb_def Let_def by (intro emits_intro)

lemma emits_EnsureScripts:
  "emits (job_may k False \<lparr>nn_Namespace = nn_Namespace nsnm, nn_Name = n\<rparr>) (EnsureScripts E nsnm)"
  unfolding EnsureScripts_def Let_def by (intro emits_intro) (simp_all add: new_meta_def)

lemma emits_delete_or_back_off:
  "k \<noteq> K_ConfigMap \<Longrightarrow> emits (job_may k True (own_name (jr_NsNm r) ob)) (delete_or_back_off E k ob r)"
  unfolding delete_or_back_off_def Let_def by (intro emits_intro) simp

lemma emits_cleanup_helper: "emits is_close (cleanup_helper E r)"
  unfolding cleanup_helper_def by (intro emits_intro emits_CleanupConn_target)

lemma load_jobs_same:
  assumes "Q r" "\<And>jobs b. yields Q (note (r\<lparr>jr_jobs := jobs\<rparr>) b)"
  shows "yields (\<lambda>(r', x). Q r') (load_jobs get_map wrap note name r)"
  unfolding load_jobs_def Let_def by (intro yields_intro yields_bind [OF assms(2)]) (simp_all add: assms(1))

lemma yields_no_note: "Q r \<Longrightarrow> yields Q (no_note r b)"
  by (simp add: no_note_def yields_ret)

lemma yields_backoffs:
  "Q r \<Longrightarrow> yields (\<lambda>(r', x). Q r') (backoff_creation E ob r)" "Q r \<Longrightarrow> yields (\<lambda>(r', x). Q r') (backoff_deletion E ob r)"
  unfolding backoff_creation_def backoff_deletion_def by (intro yields_intro; simp)+

lemma delete_same: "yields (\<lambda>(r', x). r' = r) (delete_or_back_off E k ob r)"
  unfolding delete_or_back_off_def backoff_deletion_def Let_def by (intro yields_intro) simp_all

subsection \<open>The three controllers keep the contract\<close>

lemma backupjob_rcl_sel [simp]:
  "rc_CreateObj (backupjob_rcl E) = CreateObj_backupjob E" "rc_RemoveObj (backupjob_rcl E) = RemoveObj_backupjob E"
  "rc_LoadCR (backupjob_rcl E) = LoadCR_backupjob E" "rc_LoadObj (backupjob_rcl E) = LoadObj_backupjob E"
  "rc_EnsureCorrect (backupjob_rcl E) = EnsureCorrect_backupjob" "rc_GetCR (backupjob_rcl E) = GetCR_backupjob"
  "rc_PutCR (backupjob_rcl E) = PutCR_backupjob" "rc_CleanupConn (backupjob_rcl E) = CleanupConn_backupjob E"
  by (simp_all add: backupjob_rcl_def)

lemma mine_backupjob: "mine (backupjob_rcl E) s = \<lparr>nn_Namespace = nn_Namespace (jr_NsNm s), nn_Name = m_Name (bj_meta (jr_cr s))\<rparr>"
  by (simp add: mine_def own_name_def GetCR_backupjob_def)

interpretation backup_ctl: job_controller "backupjob_rcl E" K_Job for E
proof
  fix s h s' r h' res err fs b
  show "emits k8s_read (rc_LoadCR (backupjob_rcl E) s)"
    unfolding backupjob_rcl_sel LoadCR_backupjob_def by (intro emits_intro) simp
  show "emits (job_may K_Job b (mine (backupjob_rcl E) s)) (rc_LoadObj (backupjob_rcl E) s)"
    unfolding backupjob_rcl_sel LoadObj_backupjob_def by (intro emits_load_jobs emits_intro) simp
  show "emits (job_may K_Job False (mine (backupjob_rcl E) s)) (rc_CreateObj (backupjob_rcl E) s)"
    unfolding backupjob_rcl_sel CreateObj_backupjob_def mine_backupjob Let_def
    by (intro emits_intro emits_EnsureScripts emits_storage_and_actions emits_closures) (simp_all add: BuildJob_def new_meta_def)
  show "emits (job_may K_Job True (mine (backupjob_rcl E) s)) (rc_RemoveObj (backupjob_rcl E) s)"
    unfolding mine_def backupjob_rcl_sel RemoveObj_backupjob_def by (rule emits_delete_or_back_off) simp
  show "emits (job_may K_Job b (mine (backupjob_rcl E) s)) (rc_EnsureCorrect (backupjob_rcl E) s)"
    by (simp add: EnsureCorrect_backupjob_def emits_ret)
  show "emits is_close (rc_CleanupConn (backupjob_rcl E) s)"
    by (simp add: CleanupConn_backupjob_def emits_cleanup_helper)
  have "yields (\<lambda>(s', x). same_resource (backupjob_rcl E) s s') (LoadObj_backupjob E s)"
    unfolding LoadObj_backupjob_def
    by (intro load_jobs_same yields_no_note) (simp_all add: same_resource_def mine_backupjob GetCR_backupjob_def)
  then show "rc_LoadObj (backupjob_rcl E) s h = (Return (s', r), h') \<Longrightarrow> same_resource (backupjob_rcl E) s s'"
    by (auto dest: yieldsD)
  show "rc_RemoveObj (backupjob_rcl E) s h = (Return (s', res, err), h') \<Longrightarrow> same_resource (backupjob_rcl E) s s'"
    by (auto simp: RemoveObj_backupjob_def same_resource_def dest: yieldsD [OF delete_same])
  show "rc_GetCR (backupjob_rcl E) (rc_PutCR (backupjob_rcl E) (set_finalizers fs (rc_GetCR (backupjob_rcl E) s)) s) =
      set_finalizers fs (rc_GetCR (backupjob_rcl E) s)"
    by (simp add: GetCR_backupjob_def PutCR_backupjob_def set_finalizers_def)
qed


lemma restorejob_rcl_sel [simp]:
  "rc_CreateObj (restorejob_rcl E) = CreateObj_restorejob E" "rc_RemoveObj (restorejob_rcl E) = RemoveObj_restorejob E"
  "rc_LoadCR (restorejob_rcl E) = LoadCR_restorejob E" "rc_LoadObj (restorejob_rcl E) = LoadObj_restorejob E"
  "rc_EnsureCorrect (restorejob_rcl E) = EnsureCorrect_restorejob" "rc_GetCR (restorejob_rcl E) = GetCR_restorejob"
  "rc_PutCR (restorejob_rcl E) = PutCR_restorejob" "rc_CleanupConn (restorejob_rcl E) = CleanupConn_restorejob"
  by (simp_all add: restorejob_rcl_def)

lemma mine_restorejob: "mine (restorejob_rcl E) s = \<lparr>nn_Namespace = nn_Namespace (jr_NsNm s), nn_Name = m_Name (rj_meta (jr_cr s))\<rparr>"
  by (simp add: mine_def own_name_def GetCR_restorejob_def)

interpretation restore_ctl: job_controller "restorejob_rcl E" K_Job for E
proof
  fix s h s' r h' res err fs b
  show "emits k8s_read (rc_LoadCR (restorejob_rcl E) s)"
    unfolding restorejob_rcl_sel LoadCR_restorejob_def by (intro emits_intro) simp
  show "emits (job_may K_Job b (mine (restorejob_rcl E) s)) (rc_LoadObj (restorejob_rcl E) s)"
    unfolding restorejob_rcl_sel LoadObj_restorejob_def by (intro emits_load_jobs emits_intro) simp
  show "emits (job_may K_Job False (mine (restorejob_rcl E) s)) (rc_CreateObj (restorejob_rcl E) s)"
    unfolding restorejob_rcl_sel CreateObj_restorejob_def mine_restorejob Let_def
    by (intro emits_intro emits_EnsureScripts emits_storage_and_actions emits_closures) (simp_all add: BuildJob_def new_meta_def)
  show "emits (job_may K_Job True (mine (restorejob_rcl E) s)) (rc_RemoveObj (restorejob_rcl E) s)"
    unfolding mine_def restorejob_rcl_sel RemoveObj_restorejob_def by (rule emits_delete_or_back_off) simp
  show "emits (job_may K_Job b (mine (restorejob_rcl E) s)) (rc_EnsureCorrect (restorejob_rcl E) s)"
    by (simp add: EnsureCorrect_restorejob_def emits_ret)
  show "emits is_close (rc_CleanupConn (restorejob_rcl E) s)"
    by (simp add: CleanupConn_restorejob_def emits_ret)
  have "yields (\<lambda>(s', x). same_resource (restorejob_rcl E) s s') (LoadObj_restorejob E s)"
    unfolding LoadObj_restorejob_def
    by (intro load_jobs_same yields_no_note) (simp_all add: same_resource_def mine_restorejob GetCR_restorejob_def)
  then show "rc_LoadObj (restorejob_rcl E) s h = (Return (s', r), h') \<Longrightarrow> same_resource (restorejob_rcl E) s s'"
    by (auto dest: yieldsD)
  show "rc_RemoveObj (restorejob_rcl E) s h = (Return (s', res, err), h') \<Longrightarrow> same_resource (restorejob_rcl E) s s'"
    by (auto simp: RemoveObj_restorejob_def same_resource_def dest: yieldsD [OF delete_same])
  show "rc_GetCR (restorejob_rcl E) (rc_PutCR (restorejob_rcl E) (set_finalizers fs (rc_GetCR (restorejob_rcl E) s)) s) =
      set_finalizers fs (rc_GetCR (restorejob_rcl E) s)"
    by (simp add: GetCR_restorejob_def PutCR_restorejob_def set_finalizers_def)
qed

lemma copyjob_rcl_sel [simp]:
  "rc_CreateObj (copyjob_rcl E) = CreateObj_copyjob E" "rc_RemoveObj (copyjob_rcl E) = RemoveObj_copyjob E"
  "rc_LoadCR (copyjob_rcl E) = LoadCR_copyjob E" "rc_LoadObj (copyjob_rcl E) = LoadObj_copyjob E"
  "rc_EnsureCorrect (copyjob_rcl E) = EnsureCorrect_copyjob" "rc_GetCR (copyjob_rcl E) = GetCR_copyjob"
  "rc_PutCR (copyjob_rcl E) = PutCR_copyjob" "rc_CleanupConn (copyjob_rcl E) = CleanupConn_copyjob"
  by (simp_all add: copyjob_rcl_def)

lemma mine_copyjob: "mine (copyjob_rcl E) s = \<lparr>nn_Namespace = nn_Namespace (jr_NsNm s), nn_Name = m_Name (dcj_meta (jr_cr s))\<rparr>"
  by (simp add: mine_def own_name_def GetCR_copyjob_def)

interpretation copy_ctl: job_controller "copyjob_rcl E" K_Job for E
proof
  fix s h s' r h' res err fs b
  show "emits k8s_read (rc_LoadCR (copyjob_rcl E) s)"
    unfolding copyjob_rcl_sel LoadCR_copyjob_def by (intro emits_intro) simp
  show "emits (job_may K_Job b (mine (copyjob_rcl E) s)) (rc_LoadObj (copyjob_rcl E) s)"
    unfolding copyjob_rcl_sel LoadObj_copyjob_def by (intro emits_load_jobs emits_intro) simp
  show "emits (job_may K_Job False (mine (copyjob_rcl E) s)) (rc_CreateObj (copyjob_rcl E) s)"
    unfolding copyjob_rcl_sel CreateObj_copyjob_def mine_copyjob Let_def
    by (intro emits_intro emits_EnsureScripts emits_GetServerActionsFromDbName) (simp_all add: BuildJob_def new_meta_def)
  show "emits (job_may K_Job True (mine (copyjob_rcl E) s)) (rc_RemoveObj (copyjob_rcl E) s)"
    unfolding mine_def copyjob_rcl_sel RemoveObj_copyjob_def by (rule emits_delete_or_back_off) simp
  show "emits (job_may K_Job b (mine (copyjob_rcl E) s)) (rc_EnsureCorrect (copyjob_rcl E) s)"
    by (simp add: EnsureCorrect_copyjob_def emits_ret)
  show "emits is_close (rc_CleanupConn (copyjob_rcl E) s)"
    by (simp add: CleanupConn_copyjob_def emits_ret)
  have "yields (\<lambda>(s', x). same_resource (copyjob_rcl E) s s') (LoadObj_copyjob E s)"
    unfolding LoadObj_copyjob_def
    by (intro load_jobs_same yields_no_note) (simp_all add: same_resource_def mine_copyjob GetCR_copyjob_def)
  then show "rc_LoadObj (copyjob_rcl E) s h = (Return (s', r), h') \<Longrightarrow> same_resource (copyjob_rcl E) s s'"
    by (auto dest: yieldsD)
  show "rc_RemoveObj (copyjob_rcl E) s h = (Return (s', res, err), h') \<Longrightarrow> same_resource (copyjob_rcl E) s s'"
    by (auto simp: RemoveObj_copyjob_def same_resource_def dest: yieldsD [OF delete_same])
  show "rc_GetCR (copyjob_rcl E) (rc_PutCR (copyjob_rcl E) (set_finalizers fs (rc_GetCR (copyjob_rcl E) s)) s) =
      set_finalizers fs (rc_GetCR (copyjob_rcl E) s)"
    by (simp add: GetCR_copyjob_def PutCR_copyjob_def set_finalizers_def)
qed

subsection \<open>What a reconciliation of a job does\<close>

text \<open>No resource of a backup, restore or copy job loses the operator's finalizer before it is
  marked for deletion.\<close>

lemma Reconcile_jobs_protect:
  "emits protects (Reconcile_backupjob E req) \<and> emits protects (Reconcile_restorejob E req) \<and> emits protects (Reconcile_copyjob E req)"
  unfolding Reconcile_backupjob_def Reconcile_restorejob_def Reconcile_copyjob_def
  by (intro conjI backup_ctl.Reconcile_protects restore_ctl.Reconcile_protects copy_ctl.Reconcile_protects)

lemma jobs_same:
  "yields (\<lambda>(r', x). jr_cr r' = jr_cr rb) (LoadObj_backupjob E rb)" "yields (\<lambda>(r', x). jr_cr r' = jr_cr rr) (LoadObj_restorejob E rr)"
  "yields (\<lambda>(r', x). jr_cr r' = jr_cr rc) (LoadObj_copyjob E rc)" "yields (\<lambda>(r', x). jr_cr r' = jr_cr rb) (CreateObj_backupjob E rb)"
  "yields (\<lambda>(r', x). jr_cr r' = jr_cr rr) (CreateObj_restorejob E rr)" "yields (\<lambda>(r', x). jr_cr r' = jr_cr rc) (CreateObj_copyjob E rc)"
  unfolding LoadObj_backupjob_def LoadObj_restorejob_def LoadObj_copyjob_def CreateObj_backupjob_def CreateObj_restorejob_def CreateObj_copyjob_def Let_def
  by (intro load_jobs_same yields_no_note yields_storage_and_actions yields_backoffs yields_intro; simp)+

lemma removes_same: "yields (\<lambda>(r', x). jr_cr r' = jr_cr r) (delete_or_back_off E k ob r)"
  by (rule yields_mono [OF delete_same]) auto

lemma jobs_stay_own:
  "stays_own cr (backupjob_rcl E) (rc_LoadObj (backupjob_rcl E))" "stays_own cr (backupjob_rcl E) (rc_CreateObj (backupjob_rcl E))"
  "stays_own cr (backupjob_rcl E) (rc_RemoveObj (backupjob_rcl E))" "stays_own cr (backupjob_rcl E) (rc_EnsureCorrect (backupjob_rcl E))"
  "stays_own cr (restorejob_rcl E) (rc_LoadObj (restorejob_rcl E))" "stays_own cr (restorejob_rcl E) (rc_CreateObj (restorejob_rcl E))"
  "stays_own cr (restorejob_rcl E) (rc_RemoveObj (restorejob_rcl E))" "stays_own cr (restorejob_rcl E) (rc_EnsureCorrect (restorejob_rcl E))"
  "stays_own cr (copyjob_rcl E) (rc_LoadObj (copyjob_rcl E))" "stays_own cr (copyjob_rcl E) (rc_CreateObj (copyjob_rcl E))"
  "stays_own cr (copyjob_rcl E) (rc_RemoveObj (copyjob_rcl E))" "stays_own cr (copyjob_rcl E) (rc_EnsureCorrect (copyjob_rcl E))"
  by (rule stays_own_same, simp add: GetCR_backupjob_def GetCR_restorejob_def GetCR_copyjob_def,
      rule emits_mono [OF backup_ctl.load_obj_may job_writes_none] emits_mono [OF backup_ctl.create_may job_writes_none]
        emits_mono [OF backup_ctl.remove_may job_writes_none] emits_mono [OF backup_ctl.ensure_may job_writes_none]
        emits_mono [OF restore_ctl.load_obj_may job_writes_none] emits_mono [OF restore_ctl.create_may job_writes_none]
        emits_mono [OF restore_ctl.remove_may job_writes_none] emits_mono [OF restore_ctl.ensure_may job_writes_none]
        emits_mono [OF copy_ctl.load_obj_may job_writes_none] emits_mono [OF copy_ctl.create_may job_writes_none]
        emits_mono [OF copy_ctl.remove_may job_writes_none] emits_mono [OF copy_ctl.ensure_may job_writes_none],
      assumption,
      simp add: jobs_same removes_same RemoveObj_backupjob_def RemoveObj_restorejob_def RemoveObj_copyjob_def
        EnsureCorrect_backupjob_def EnsureCorrect_restorejob_def EnsureCorrect_copyjob_def yields_ret)+

lemma loaded_jobs:
  "(\<forall>h x. get_BackupJob_cr E h req = Inr x \<longrightarrow> x = b) \<Longrightarrow> LoadCR_backupjob E (start_reco req zero_backupjob) h = (Return (sb, res, None), h') \<Longrightarrow>
     jr_NsNm sb = req \<and> GetCR_backupjob sb = O_BackupJob b"
  "(\<forall>h x. get_RestoreJob_cr E h req = Inr x \<longrightarrow> x = r) \<Longrightarrow> LoadCR_restorejob E (start_reco req zero_restorejob) h = (Return (sr, res, None), h') \<Longrightarrow>
     jr_NsNm sr = req \<and> GetCR_restorejob sr = O_RestoreJob r"
  "(\<forall>h x. get_DbCopyJob_cr E h req = Inr x \<longrightarrow> x = c) \<Longrightarrow> LoadCR_copyjob E (start_reco req zero_copyjob) h = (Return (sc, res, None), h') \<Longrightarrow>
     jr_NsNm sc = req \<and> GetCR_copyjob sc = O_DbCopyJob c"
  by (auto simp: LoadCR_backupjob_def LoadCR_restorejob_def LoadCR_copyjob_def start_reco_def GetCR_backupjob_def GetCR_restorejob_def
      GetCR_copyjob_def run split: sum.splits)

text \<open>C16: the reconciliation of a backup, restore or copy job runs no statement on any server and
  opens no connection.  In the API server it updates nothing but the resource itself, the object of the same kind, namespace
  and name as the one that was read; it writes no status, and besides the
  scripts of its namespace it creates and deletes only the one job that has the name of the resource, which it creates
  only when the resource is not marked for deletion and deletes only when it is.  The resource is the one that the API server
  returns whenever the request is read.\<close>

theorem Reconcile_jobs_own_job_only:
  assumes "\<And>h b'. get_BackupJob_cr E h req = Inr b' \<Longrightarrow> b' = b"
    and "\<And>h r'. get_RestoreJob_cr E h req = Inr r' \<Longrightarrow> r' = r"
    and "\<And>h c'. get_DbCopyJob_cr E h req = Inr c' \<Longrightarrow> c' = c"
  shows "emits (touches_own K_Job (O_BackupJob b) req) (Reconcile_backupjob E req) \<and>
    emits (touches_own K_Job (O_RestoreJob r) req) (Reconcile_restorejob E req) \<and>
    emits (touches_own K_Job (O_DbCopyJob c) req) (Reconcile_copyjob E req)"
proof -
  have same: "\<forall>h x. get_BackupJob_cr E h req = Inr x \<longrightarrow> x = b" "\<forall>h x. get_RestoreJob_cr E h req = Inr x \<longrightarrow> x = r"
    "\<forall>h x. get_DbCopyJob_cr E h req = Inr x \<longrightarrow> x = c"
    using assms by blast+
  show ?thesis
    unfolding Reconcile_backupjob_def Reconcile_restorejob_def Reconcile_copyjob_def
    by (intro conjI backup_ctl.Reconcile_touches_own restore_ctl.Reconcile_touches_own copy_ctl.Reconcile_touches_own jobs_stay_own)
      (auto dest: loaded_jobs(1) [OF same(1)] loaded_jobs(2) [OF same(2)] loaded_jobs(3) [OF same(3)])
qed

definition demo_backupjob :: "int option \<Rightarrow> BackupJob" where
  "demo_backupjob deleted =
     \<lparr>bj_meta = (new_meta ''nightly'' ''ns'' [])\<lparr>m_DeletionTimestamp := deleted\<rparr>,
      bj_Spec = \<lparr>bj_BackupTarget = ''t'', bj_FixedFileName = None, bj_ServiceAccount = ''''\<rparr>\<rparr>"

definition demo_restorejob :: RestoreJob where
  "demo_restorejob =
     \<lparr>rj_meta = new_meta ''nightly'' ''ns'' [], rj_Spec = \<lparr>rj_RestoreTarget = ''t'', rj_FixedFileName = None, rj_ServiceAccount = ''''\<rparr>\<rparr>"

definition demo_copyjob :: DbCopyJob where
  "demo_copyjob = \<lparr>dcj_meta = new_meta ''nightly'' ''ns'' [], dcj_Spec = \<lparr>dcj_FromDbName = ''a'', dcj_ToDbName = ''b'', dcj_ServiceAccount = ''''\<rparr>\<rparr>"

abbreviation demo_req :: NamespacedName where
  "demo_req \<equiv> \<lparr>nn_Namespace = ''ns'', nn_Name = ''nightly''\<rparr>"

definition jobs_env :: env where
  "jobs_env = null_env\<lparr>get_BackupJob_cr := \<lambda>_ _. Inr (demo_backupjob None), get_RestoreJob_cr := \<lambda>_ _. Inr demo_restorejob,
     get_DbCopyJob_cr := \<lambda>_ _. Inr demo_copyjob\<rparr>"

theorem Reconcile_jobs_own_job_only_witness:
  "emits (touches_own K_Job (O_BackupJob (demo_backupjob None)) demo_req) (Reconcile_backupjob jobs_env demo_req) \<and>
   touches_own K_Job (O_BackupJob (demo_backupjob None)) demo_req (K8sUpdate (set_finalizers [DB_OPERATOR_FINALIZER] (O_BackupJob (demo_backupjob None)))) \<and>
   \<not> touches_own K_Job (O_BackupJob (demo_backupjob None)) demo_req (K8sUpdate (O_RestoreJob demo_restorejob))"
  using Reconcile_jobs_own_job_only [of jobs_env demo_req "demo_backupjob None" demo_restorejob demo_copyjob]
  by (simp add: jobs_env_def touches_own_def same_object_def [of _ "O_RestoreJob demo_restorejob"])

subsection \<open>Jobs that are created are found again\<close>

lemma map_of_fold_update:
  "map_of (fold (\<lambda>x m. AList.update (key x) x m) xs m) n = None \<longleftrightarrow> map_of m n = None \<and> (\<forall>x\<in>set xs. key x \<noteq> n)"
  by (induction xs arbitrary: m) (auto simp: update_conv')

lemma map_of_fold_update_iff:
  "(\<exists>y. map_of (fold (\<lambda>x m. AList.update (key x) x m) xs []) n = Some y) \<longleftrightarrow> (\<exists>x\<in>set xs. key x = n)"
  using map_of_fold_update [of key xs "[]" n] by (auto simp flip: not_None_eq)

lemma load_jobs_run:
  assumes "list_Jobs E h = Inr items"
  shows "\<exists>r'. load_jobs (GetJobMap E nsnm) wrap no_note n r h =
    (Return (r', Inr (\<exists>j\<in>set items. ours nsnm (job_meta j) \<and> m_Name (job_meta j) = n)), h @ [K8sList K_Job])"
  using assms by (auto simp: load_jobs_def GetJobMap_def no_note_def Let_def run map_of_fold_update_iff)

lemma built_job_ours: "ours nsnm (job_meta (BuildJob nsnm cs c n sa)) \<and> m_Name (job_meta (BuildJob nsnm cs c n sa)) = n"
  by (simp add: BuildJob_def new_meta_def ours_def controlled_def)

text \<open>An event creates no job but the one with the name, for the operator.\<close>

definition created_as :: "NamespacedName \<Rightarrow> string \<Rightarrow> event \<Rightarrow> bool" where
  "created_as nsnm n ev \<longleftrightarrow> (\<forall>j. ev = K8sCreate (O_Job j) \<longrightarrow> ours nsnm (job_meta j) \<and> m_Name (job_meta j) = n)"

lemma emits_created_backupjob: "emits (created_as (jr_NsNm r) (m_Name (bj_meta (jr_cr r)))) (CreateObj_backupjob E r)"
proof -
  have "emits (created_as (jr_NsNm r) n) (EnsureScripts E (jr_NsNm r))" for n
    unfolding EnsureScripts_def Let_def by (intro emits_intro) (simp_all add: created_as_def)
  then show ?thesis
    unfolding CreateObj_backupjob_def Let_def
    by (intro emits_intro emits_storage_and_actions emits_closures) (simp_all add: created_as_def built_job_ours)
qed

text \<open>C17: a backup job is looked up among the jobs of the operator in its namespace: \<^verbatim>\<open>LoadObj\<close>
  reports that it exists exactly if one of them has its name.  Every job that \<^verbatim>\<open>CreateObj\<close> sends for the resource is found in this
  way: once a job with its namespace, its name and its labels is in the list, whatever else the API server filled in, \<^verbatim>\<open>LoadObj\<close>
  reports that it exists.\<close>

theorem LoadObj_backupjob_finds_created:
  assumes "list_Jobs E h = Inr items" and "CreateObj_backupjob E' r h0 = (out, h0 @ es)"
  shows "\<exists>r' found. LoadObj_backupjob E r h = (Return (r', Inr found), h @ [K8sList K_Job]) \<and>
      found = (\<exists>j\<in>set items. ours (jr_NsNm r) (job_meta j) \<and> m_Name (job_meta j) = m_Name (bj_meta (jr_cr r))) \<and>
      (\<forall>j j'. K8sCreate (O_Job j) \<in> set es \<longrightarrow> j' \<in> set items \<longrightarrow> m_Namespace (job_meta j') = m_Namespace (job_meta j) \<longrightarrow>
         m_Name (job_meta j') = m_Name (job_meta j) \<longrightarrow> m_Labels (job_meta j') = m_Labels (job_meta j) \<longrightarrow> found)"
proof -
  obtain r' where run: "LoadObj_backupjob E r h =
      (Return (r', Inr (\<exists>j\<in>set items. ours (jr_NsNm r) (job_meta j) \<and> m_Name (job_meta j) = m_Name (bj_meta (jr_cr r)))), h @ [K8sList K_Job])"
    using load_jobs_run [OF assms(1)] unfolding LoadObj_backupjob_def by blast
  have "list_all (created_as (jr_NsNm r) (m_Name (bj_meta (jr_cr r)))) es"
    using emitsD [OF emits_created_backupjob assms(2)] by auto
  then have "ours (jr_NsNm r) (job_meta j) \<and> m_Name (job_meta j) = m_Name (bj_meta (jr_cr r))" if "K8sCreate (O_Job j) \<in> set es" for j
    using that by (fastforce simp: list_all_iff created_as_def)
  then show ?thesis using run by (fastforce simp: ours_def)
qed

definition demo_job_reco :: BackupJobReco where
  "demo_job_reco = (start_reco demo_req (demo_backupjob None))\<lparr>jr_helper := Some (NewLazyTargetHelper ''t'')\<rparr>"

lemma demo_job_created:
  obtains out es j where "CreateObj_backupjob backup_env demo_job_reco [] = (out, [] @ es)" "K8sCreate (O_Job j) \<in> set es"
proof -
  obtain t' h2 st a where "GetStorageInfoAndActions backup_env demo_req (backup_type_and_location backup_env demo_req) (backup_db_helper backup_env demo_req)
      (NewLazyTargetHelper ''t'') [K8sGet K_ConfigMap \<lparr>nn_Namespace = ''ns'', nn_Name = SCRIPTS_CONFIGMAP\<rparr>] = (Return (t', Inr (Some st, a)), h2)"
    using demo_storage by blast
  moreover have "EnsureScripts backup_env demo_req [] = (Return None, [K8sGet K_ConfigMap \<lparr>nn_Namespace = ''ns'', nn_Name = SCRIPTS_CONFIGMAP\<rparr>])"
    by (simp add: EnsureScripts_def Let_def run backup_env_def)
  moreover have "jr_NsNm demo_job_reco = demo_req" "jr_helper demo_job_reco = Some (NewLazyTargetHelper ''t'')"
    by (simp_all add: demo_job_reco_def start_reco_def)
  ultimately show ?thesis
    by (auto intro!: that simp: CreateObj_backupjob_def storage_and_actions_def create_logged_def Let_def run)
qed

theorem LoadObj_backupjob_finds_created_witness:
  "\<exists>out es j r'. CreateObj_backupjob backup_env demo_job_reco [] = (out, [] @ es) \<and> K8sCreate (O_Job j) \<in> set es \<and>
     LoadObj_backupjob (null_env\<lparr>list_Jobs := \<lambda>_. Inr [j]\<rparr>) demo_job_reco [] = (Return (r', Inr True), [K8sList K_Job])"
proof -
  obtain out es j where run: "CreateObj_backupjob backup_env demo_job_reco [] = (out, [] @ es)" "K8sCreate (O_Job j) \<in> set es"
    by (rule demo_job_created)
  have "list_Jobs (null_env\<lparr>list_Jobs := \<lambda>_. Inr [j]\<rparr>) [] = Inr [j]" by simp
  from LoadObj_backupjob_finds_created [OF this run(1)] run show ?thesis by fastforce
qed

subsection \<open>What a job runs\<close>

text \<open>
  A container finds the script it runs: its command is a file of a volume it mounts, the pod
  fills that volume from the ConfigMap of the scripts, and \<^verbatim>\<open>EnsureScripts\<close> puts the
  script there.
\<close>

definition finds_script :: "PodSpec \<Rightarrow> Container \<Rightarrow> string \<Rightarrow> bool" where
  "finds_script pod c s \<longleftrightarrow>
     s \<in> set (map fst SCRIPTS_MAP) \<and>
     (\<exists>vm\<in>set (co_VolumeMounts c). \<exists>v\<in>set (pod_Volumes pod).
        vol_Name v = vm_Name vm \<and> vol_Source v = ConfigMapVolume SCRIPTS_CONFIGMAP 511 \<and> co_Command c = [vm_MountPath vm @ ''/'' @ s])"

text \<open>Two containers see the same empty directory under the same path.\<close>

definition share_backups :: "PodSpec \<Rightarrow> Container \<Rightarrow> Container \<Rightarrow> bool" where
  "share_backups pod c1 c2 \<longleftrightarrow>
     (\<exists>v\<in>set (pod_Volumes pod). vol_Source v = EmptyDirVolume \<and>
        (\<exists>vm\<in>set (co_VolumeMounts c1). vm \<in> set (co_VolumeMounts c2) \<and> vm_Name vm = vol_Name v))"

definition runs_in_order :: "string list \<Rightarrow> string list \<Rightarrow> PodSpec \<Rightarrow> bool" where
  "runs_in_order first second pod \<longleftrightarrow>
     (\<exists>c1 c2. pod_InitContainers pod = [c1] \<and> pod_Containers pod = [c2] \<and> pod_RestartPolicy pod = ''Never'' \<and>
        (\<exists>s\<in>set first. finds_script pod c1 s) \<and> (\<exists>s\<in>set second. finds_script pod c2 s) \<and> share_backups pod c1 c2)"

lemmas container_defs = BuildBackupContainer_def BuildRestoreContainer_def BuildBackupContainer_pg_def BuildRestoreContainer_pg_def
  BuildBackupContainer_mysql_def BuildRestoreContainer_mysql_def BuildContainer_pg_def BuildContainer_mysql_def
  BuildUploadContainer_def BuildDownloadContainer_def BuildContainer_s3_def

lemma built_containers:
  "\<exists>s\<in>{BACKUP_POSTGRES, BACKUP_MYSQL}. co_Command (BuildBackupContainer a) = [script_path s]"
  "\<exists>s\<in>{RESTORE_POSTGRES, RESTORE_MYSQL}. co_Command (BuildRestoreContainer a) = [script_path s]"
  "co_Command (BuildUploadContainer st f) = [script_path UPLOAD_S3]" "co_Command (BuildDownloadContainer st f) = [script_path DOWNLOAD_S3]"
  "co_VolumeMounts (BuildBackupContainer a) = VOLUME_MOUNTS" "co_VolumeMounts (BuildRestoreContainer a) = VOLUME_MOUNTS"
  "co_VolumeMounts (BuildUploadContainer st f) = VOLUME_MOUNTS" "co_VolumeMounts (BuildDownloadContainer st f) = VOLUME_MOUNTS"
  by (cases a; cases st; simp add: container_defs Let_def)+

lemma finds_script_pod:
  assumes "co_Command c = [script_path s]" "co_VolumeMounts c = VOLUME_MOUNTS" "s \<in> set (map fst SCRIPTS_MAP)"
  shows "finds_script (pod_spec cs d sa) c s"
  using assms by (auto simp: finds_script_def pod_spec_def GetVolumes_def VOLUME_MOUNTS_def script_path_def)

lemma share_backups_pod:
  "co_VolumeMounts c1 = VOLUME_MOUNTS \<Longrightarrow> co_VolumeMounts c2 = VOLUME_MOUNTS \<Longrightarrow> share_backups (pod_spec cs d sa) c1 c2"
  by (auto simp: share_backups_def pod_spec_def GetVolumes_def VOLUME_MOUNTS_def)

lemma known_scripts:
  "BACKUP_POSTGRES \<in> set (map fst SCRIPTS_MAP)" "BACKUP_MYSQL \<in> set (map fst SCRIPTS_MAP)"
  "RESTORE_POSTGRES \<in> set (map fst SCRIPTS_MAP)" "RESTORE_MYSQL \<in> set (map fst SCRIPTS_MAP)"
  "UPLOAD_S3 \<in> set (map fst SCRIPTS_MAP)" "DOWNLOAD_S3 \<in> set (map fst SCRIPTS_MAP)"
  by (simp_all add: SCRIPTS_MAP_def)

lemma pod_runs_in_order:
  assumes "\<exists>s\<in>set first. co_Command c1 = [script_path s]" "\<exists>s\<in>set second. co_Command c2 = [script_path s]"
    and "set first \<subseteq> set (map fst SCRIPTS_MAP)" "set second \<subseteq> set (map fst SCRIPTS_MAP)"
    and "co_VolumeMounts c1 = VOLUME_MOUNTS" "co_VolumeMounts c2 = VOLUME_MOUNTS"
  shows "runs_in_order first second (pod_spec [c1] c2 sa)"
proof -
  have "pod_InitContainers (pod_spec [c1] c2 sa) = [c1]" "pod_Containers (pod_spec [c1] c2 sa) = [c2]" "pod_RestartPolicy (pod_spec [c1] c2 sa) = ''Never''"
    by (simp_all add: pod_spec_def)
  then show ?thesis
    unfolding runs_in_order_def using assms by (blast intro: finds_script_pod share_backups_pod)
qed

lemma pod_orders:
  "runs_in_order [BACKUP_POSTGRES, BACKUP_MYSQL] [UPLOAD_S3] (pod_spec [BuildBackupContainer a] (BuildUploadContainer st f) sa)"
  "runs_in_order [DOWNLOAD_S3] [RESTORE_POSTGRES, RESTORE_MYSQL] (pod_spec [BuildDownloadContainer st f] (BuildRestoreContainer a) sa)"
  "runs_in_order [BACKUP_POSTGRES, BACKUP_MYSQL] [RESTORE_POSTGRES, RESTORE_MYSQL] (pod_spec [BuildBackupContainer a] (BuildRestoreContainer b) sa)"
  using built_containers by (intro pod_runs_in_order; simp add: known_scripts [simplified])+

definition creates_pod :: "(PodSpec \<Rightarrow> bool) \<Rightarrow> event \<Rightarrow> bool" where
  "creates_pod Q ev \<longleftrightarrow>
     (case ev of K8sCreate (O_Job j) \<Rightarrow> Q (job_Template j) | K8sCreate (O_CronJob j) \<Rightarrow> Q (cj_Template j) | _ \<Rightarrow> True)"

lemma creates_pod_other [simp]:
  "creates_pod Q (K8sGet kd n)" "creates_pod Q (K8sList kd)" "creates_pod Q (K8sDelete kd n)" "creates_pod Q (K8sCreate (O_ConfigMap c))"
  "creates_pod Q (K8sCreate (O_CronJob cj)) = Q (cj_Template cj)" "creates_pod Q (K8sCreate (O_Job j)) = Q (job_Template j)"
  "creates_pod Q (K8sStatusUpdate ob)"
  by (simp_all add: creates_pod_def)

lemma creates_pod_no_create: "\<not> is_create ev \<Longrightarrow> creates_pod Q ev"
  by (cases ev) (auto simp: creates_pod_def split: k8s_obj.split)

lemma emits_scripts_creates: "emits (creates_pod Q) (EnsureScripts E nsnm)"
  unfolding EnsureScripts_def Let_def by (intro emits_intro) simp_all

lemma job_Template_BuildJob [simp]: "job_Template (BuildJob nsnm cs c n sa) = pod_spec cs c sa"
  by (simp add: BuildJob_def)

lemma cj_Template_BuildCronJob [simp]: "cj_Template (BuildCronJob nsnm cs c n sched susp sa) = pod_spec cs c sa"
  by (simp add: BuildCronJob_def)

lemma emits_creates_iff: "emits (\<lambda>ev. is_create ev \<longrightarrow> creates_pod Q ev) m \<longleftrightarrow> emits (creates_pod Q) m"
  using creates_pod_no_create by (intro arg_cong [where f = "\<lambda>P. emits P m"] ext) blast

context job_controller
begin

lemma Reconcile_creates_pod:
  "(\<And>s. emits (creates_pod Q) (rc_CreateObj rcl s)) \<Longrightarrow> emits (creates_pod Q) (Reconcile E rcl s0)"
  using Reconcile_creates [of "creates_pod Q"] by (simp add: emits_creates_iff)

end

text \<open>C15: whatever is created to carry out a backup, restore or copy job runs two scripts in turn,
  without being restarted: a backup dumps the database and then uploads the file, a
  restore downloads a file and then loads it, a copy dumps the one database and loads the other.  Both
  containers find their script in the ConfigMap that the operator keeps, and they share
  the directory of the file.\<close>

theorem Reconcile_jobs_run_in_order:
  "emits (creates_pod (runs_in_order [BACKUP_POSTGRES, BACKUP_MYSQL] [UPLOAD_S3])) (Reconcile_backupjob E req) \<and>
   emits (creates_pod (runs_in_order [DOWNLOAD_S3] [RESTORE_POSTGRES, RESTORE_MYSQL])) (Reconcile_restorejob E req) \<and>
   emits (creates_pod (runs_in_order [BACKUP_POSTGRES, BACKUP_MYSQL] [RESTORE_POSTGRES, RESTORE_MYSQL])) (Reconcile_copyjob E req)"
proof (intro conjI)
  have "emits (creates_pod (runs_in_order [BACKUP_POSTGRES, BACKUP_MYSQL] [UPLOAD_S3])) (CreateObj_backupjob E r)" for r
    unfolding CreateObj_backupjob_def Let_def
    by (intro emits_intro emits_scripts_creates emits_storage_and_actions emits_closures) (simp_all add: pod_orders)
  then show "emits (creates_pod (runs_in_order [BACKUP_POSTGRES, BACKUP_MYSQL] [UPLOAD_S3])) (Reconcile_backupjob E req)"
    unfolding Reconcile_backupjob_def by (intro backup_ctl.Reconcile_creates_pod) simp
  have "emits (creates_pod (runs_in_order [DOWNLOAD_S3] [RESTORE_POSTGRES, RESTORE_MYSQL])) (CreateObj_restorejob E r)" for r
    unfolding CreateObj_restorejob_def Let_def
    by (intro emits_intro emits_scripts_creates emits_storage_and_actions emits_closures) (simp_all add: pod_orders)
  then show "emits (creates_pod (runs_in_order [DOWNLOAD_S3] [RESTORE_POSTGRES, RESTORE_MYSQL])) (Reconcile_restorejob E req)"
    unfolding Reconcile_restorejob_def by (intro restore_ctl.Reconcile_creates_pod) simp
  have "emits (creates_pod (runs_in_order [BACKUP_POSTGRES, BACKUP_MYSQL] [RESTORE_POSTGRES, RESTORE_MYSQL])) (CreateObj_copyjob E r)" for r
    unfolding CreateObj_copyjob_def Let_def
    by (intro emits_intro emits_scripts_creates emits_GetServerActionsFromDbName) (simp_all add: pod_orders)
  then show "emits (creates_pod (runs_in_order [BACKUP_POSTGRES, BACKUP_MYSQL] [RESTORE_POSTGRES, RESTORE_MYSQL])) (Reconcile_copyjob E req)"
    unfolding Reconcile_copyjob_def by (intro copy_ctl.Reconcile_creates_pod) simp
qed

text \<open>Jobs of different resources share their names: the job of a backup is taken for the job of
  a restore with the same name, so the restore is reported to exist and is never carried out.\<close>

theorem LoadObj_restorejob_takes_backup:
  assumes "list_Jobs E h = Inr items" "BuildJob (jr_NsNm r) [BuildBackupContainer a] (BuildUploadContainer st f) (m_Name (rj_meta (jr_cr r))) sa \<in> set items"
  shows "\<exists>r'. LoadObj_restorejob E r h = (Return (r', Inr True), h @ [K8sList K_Job])"
proof -
  obtain r' where "LoadObj_restorejob E r h =
      (Return (r', Inr (\<exists>j\<in>set items. ours (jr_NsNm r) (job_meta j) \<and> m_Name (job_meta j) = m_Name (rj_meta (jr_cr r)))), h @ [K8sList K_Job])"
    using load_jobs_run [OF assms(1)] unfolding LoadObj_restorejob_def by blast
  moreover have "\<exists>j\<in>set items. ours (jr_NsNm r) (job_meta j) \<and> m_Name (job_meta j) = m_Name (rj_meta (jr_cr r))"
    using assms(2) built_job_ours by blast
  ultimately show ?thesis by auto
qed

definition demo_backup_job :: Job where
  "demo_backup_job = BuildJob demo_req [BuildBackupContainer (PostgresActions (demo_server ''ns'') demo_source [])]
     (BuildUploadContainer (S3StorageInfo demo_s3) None) ''nightly'' ''''"

theorem LoadObj_restorejob_takes_backup_witness:
  "\<exists>r'. LoadObj_restorejob (null_env\<lparr>list_Jobs := \<lambda>_. Inr [demo_backup_job]\<rparr>) (start_reco demo_req demo_restorejob) [] = (Return (r', Inr True), [] @ [K8sList K_Job])"
  by (rule LoadObj_restorejob_takes_backup [where items = "[demo_backup_job]"])
    (simp_all add: demo_backup_job_def start_reco_def demo_restorejob_def new_meta_def)


end
