(* ===== verification/CronControllers.thy ===== *)
theory CronControllers
  imports JobControllers
begin

section \<open>The controllers of backup, restore and copy cron jobs\<close>

text \<open>
  \<^verbatim>\<open>controllers/backupcronjob_controller.go\<close>, \<^verbatim>\<open>restorecronjob_controller.go\<close> and
  \<^verbatim>\<open>dbcopycronjob_controller.go\<close>.  They are like the controllers of jobs, but two of them write a
  status.  The error of that write is dropped; a successful one overwrites the resource that the
  controller object holds.
\<close>

type_synonym BackupCronJobReco = "(BackupCronJob, CronJob, BackupTarget LazyTargetHelper) JobReco"
type_synonym RestoreCronJobReco = "(RestoreCronJob, CronJob, RestoreTarget LazyTargetHelper) JobReco"
type_synonym DbCopyCronJobReco = "(DbCopyCronJob, CronJob, unit) JobReco"

text \<open>\<^verbatim>\<open>StatusWriter.Update\<close> on the resource of a controller object, its error dropped.\<close>

definition write_status :: "env \<Rightarrow> (k8s_obj \<Rightarrow> 'r \<Rightarrow> 'r) \<Rightarrow> k8s_obj \<Rightarrow> 'r \<Rightarrow> 'r go" where
  "write_status E put ob r =
     bind_io (call (K8sStatusUpdate ob) (\<lambda>h. k8s_status_update E h ob)) (\<lambda>x. case x of
       Inl err \<Rightarrow> ret r
     | Inr ob' \<Rightarrow> ret (put ob' r))"

subsection \<open>Backup cron jobs\<close>

definition GetCR_backupcron :: "BackupCronJobReco \<Rightarrow> k8s_obj" where
  "GetCR_backupcron r = O_BackupCronJob (jr_cr r)"

definition PutCR_backupcron :: "k8s_obj \<Rightarrow> BackupCronJobReco \<Rightarrow> BackupCronJobReco" where
  "PutCR_backupcron ob r = (case ob of O_BackupCronJob x \<Rightarrow> r\<lparr>jr_cr := x\<rparr> | _ \<Rightarrow> r)"

definition UpdateStatus_backupcron :: "env \<Rightarrow> BackupCronJobReco \<Rightarrow> bool \<Rightarrow> BackupCronJobReco go" where
  "UpdateStatus_backupcron E r exists =
     (let newStatus = \<lparr>bcj_Exists = exists, bcj_CronJobName = m_Name (bcj_meta (jr_cr r))\<rparr> in
      if bcj_Status (jr_cr r) \<noteq> newStatus then
        (let r = r\<lparr>jr_cr := (jr_cr r)\<lparr>bcj_Status := newStatus\<rparr>\<rparr> in write_status E PutCR_backupcron (GetCR_backupcron r) r)
      else ret r)"

definition LoadObj_backupcron :: "env \<Rightarrow> BackupCronJobReco \<Rightarrow> (BackupCronJobReco \<times> (error + bool)) go" where
  "LoadObj_backupcron E r =
     load_jobs (GetCronJobMap E (jr_NsNm r)) id (UpdateStatus_backupcron E) (m_Name (bcj_meta (jr_cr r))) r"

definition CreateObj_backupcron :: "env \<Rightarrow> BackupCronJobReco \<Rightarrow> (BackupCronJobReco \<times> Result \<times> error option) go" where
  "CreateObj_backupcron E r =
     (let nsnm = jr_NsNm r; spec = bcj_Spec (jr_cr r); backoff = backoff_creation E (GetCR_backupcron r) in
      bind_io (EnsureScripts E nsnm) (\<lambda>err.
        if err \<noteq> None then backoff r
        else storage_and_actions E (backup_type_and_location E nsnm) (backup_db_helper E nsnm) r backoff
          (\<lambda>r storageInfo actions.
             let backupContainer = BuildBackupContainer actions;
                 uploadContainer = BuildUploadContainer storageInfo (bcj_FixedFileName spec);
                 cronJob = BuildCronJob nsnm [backupContainer] uploadContainer (m_Name (bcj_meta (jr_cr r))) (bcj_Interval spec)
                   (bcj_Suspend spec) (bcj_ServiceAccount spec)
             in bind_io (create_logged E (O_CronJob cronJob)) (\<lambda>_.
                  bind_io (UpdateStatus_backupcron E r True) (\<lambda>r. ret (r, no_result, None))))))"

text \<open>The error of the deletion is returned, and the status is written in any case.\<close>

definition RemoveObj_backupcron :: "env \<Rightarrow> BackupCronJobReco \<Rightarrow> (BackupCronJobReco \<times> Result \<times> error option) go" where
  "RemoveObj_backupcron E r =
     (let n = own_name (jr_NsNm r) (GetCR_backupcron r) in
      bind_io (call (K8sDelete K_CronJob n) (\<lambda>h. k8s_delete E h K_CronJob n)) (\<lambda>err.
        bind_io (UpdateStatus_backupcron E r False) (\<lambda>r. ret (r, no_result, err))))"

definition LoadCR_backupcron :: "env \<Rightarrow> BackupCronJobReco \<Rightarrow> (BackupCronJobReco \<times> Result \<times> error option) go" where
  "LoadCR_backupcron E r =
     try_io (call (K8sGet K_BackupCronJob (jr_NsNm r)) (\<lambda>h. get_BackupCronJob_cr E h (jr_NsNm r))) (\<lambda>err. ret (r, no_result, Some err)) (\<lambda>job.
       ret (r\<lparr>jr_cr := job, jr_helper := Some (NewLazyTargetHelper (bcj_BackupTarget (bcj_Spec job)))\<rparr>, no_result, None))"

definition EnsureCorrect_backupcron :: "BackupCronJobReco \<Rightarrow> (BackupCronJobReco \<times> Result \<times> error option) go" where
  "EnsureCorrect_backupcron r = ret (r, no_result, None)"

definition CleanupConn_backupcron :: "env \<Rightarrow> BackupCronJobReco \<Rightarrow> BackupCronJobReco go" where
  "CleanupConn_backupcron E r = cleanup_helper E r"

definition backupcron_rcl :: "env \<Rightarrow> BackupCronJobReco Reconcilable" where
  "backupcron_rcl E =
     \<lparr>rc_CreateObj = CreateObj_backupcron E, rc_RemoveObj = RemoveObj_backupcron E, rc_LoadCR = LoadCR_backupcron E,
      rc_LoadObj = LoadObj_backupcron E, rc_EnsureCorrect = EnsureCorrect_backupcron, rc_GetCR = GetCR_backupcron,
      rc_PutCR = PutCR_backupcron, rc_CleanupConn = CleanupConn_backupcron E\<rparr>"

definition zero_backupcron :: BackupCronJob where
  "zero_backupcron =
     \<lparr>bcj_meta = zero_meta,
      bcj_Spec = \<lparr>bcj_BackupTarget = '''', bcj_FixedFileName = None, bcj_Interval = '''', bcj_Suspend = False, bcj_ServiceAccount = ''''\<rparr>,
      bcj_Status = \<lparr>bcj_Exists = False, bcj_CronJobName = ''''\<rparr>\<rparr>"

definition Reconcile_backupcron :: "env \<Rightarrow> NamespacedName \<Rightarrow> Result go" where
  "Reconcile_backupcron E req = Reconcile E (backupcron_rcl E) (start_reco req zero_backupcron)"

subsection \<open>Restore cron jobs\<close>

definition GetCR_restorecron :: "RestoreCronJobReco \<Rightarrow> k8s_obj" where
  "GetCR_restorecron r = O_RestoreCronJob (jr_cr r)"

definition PutCR_restorecron :: "k8s_obj \<Rightarrow> RestoreCronJobReco \<Rightarrow> RestoreCronJobReco" where
  "PutCR_restorecron ob r = (case ob of O_RestoreCronJob x \<Rightarrow> r\<lparr>jr_cr := x\<rparr> | _ \<Rightarrow> r)"

definition LoadObj_restorecron :: "env \<Rightarrow> RestoreCronJobReco \<Rightarrow> (RestoreCronJobReco \<times> (error + bool)) go" where
  "LoadObj_restorecron E r = load_jobs (GetCronJobMap E (jr_NsNm r)) id no_note (m_Name (rcj_meta (jr_cr r))) r"

definition CreateObj_restorecron :: "env \<Rightarrow> RestoreCronJobReco \<Rightarrow> (RestoreCronJobReco \<times> Result \<times> error option) go" where
  "CreateObj_restorecron E r =
     (let nsnm = jr_NsNm r; spec = rcj_Spec (jr_cr r); backoff = backoff_creation E (GetCR_restorecron r) in
      bind_io (EnsureScripts E nsnm) (\<lambda>err.
        if err \<noteq> None then backoff r
        else storage_and_actions E (restore_type_and_location E nsnm) (restore_db_helper E nsnm) r backoff
          (\<lambda>r storageInfo actions.
             let restoreContainer = BuildRestoreContainer actions;
                 downloadContainer = BuildDownloadContainer storageInfo (rcj_FixedFileName spec);
                 cronJob = BuildCronJob nsnm [downloadContainer] restoreContainer (m_Name (rcj_meta (jr_cr r))) (rcj_Interval spec)
                   (rcj_Suspend spec) (rcj_ServiceAccount spec)
             in bind_io (create_logged E (O_CronJob cronJob)) (\<lambda>_. ret (r, no_result, None)))))"

definition RemoveObj_restorecron :: "env \<Rightarrow> RestoreCronJobReco \<Rightarrow> (RestoreCronJobReco \<times> Result \<times> error option) go" where
  "RemoveObj_restorecron E r = delete_or_back_off E K_CronJob (GetCR_restorecron r) r"

text \<open>A resource that cannot be read is a back-off, not an error.\<close>

definition LoadCR_restorecron :: "env \<Rightarrow> RestoreCronJobReco \<Rightarrow> (RestoreCronJobReco \<times> Result \<times> error option) go" where
  "LoadCR_restorecron E r =
     try_io (call (K8sGet K_RestoreCronJob (jr_NsNm r)) (\<lambda>h. get_RestoreCronJob_cr E h (jr_NsNm r)))
       (\<lambda>err. backoff_creation E (GetCR_restorecron r) r)
       (\<lambda>job. ret (r\<lparr>jr_cr := job, jr_helper := Some (NewLazyTargetHelper (rcj_RestoreTarget (rcj_Spec job)))\<rparr>, no_result, None))"

definition EnsureCorrect_restorecron :: "RestoreCronJobReco \<Rightarrow> (RestoreCronJobReco \<times> Result \<times> error option) go" where
  "EnsureCorrect_restorecron r = ret (r, no_result, None)"

definition CleanupConn_restorecron :: "env \<Rightarrow> RestoreCronJobReco \<Rightarrow> RestoreCronJobReco go" where
  "CleanupConn_restorecron E r = cleanup_helper E r"

definition restorecron_rcl :: "env \<Rightarrow> RestoreCronJobReco Reconcilable" where
  "restorecron_rcl E =
     \<lparr>rc_CreateObj = CreateObj_restorecron E, rc_RemoveObj = RemoveObj_restorecron E, rc_LoadCR = LoadCR_restorecron E,
      rc_LoadObj = LoadObj_restorecron E, rc_EnsureCorrect = EnsureCorrect_restorecron, rc_GetCR = GetCR_restorecron,
      rc_PutCR = PutCR_restorecron, rc_CleanupConn = CleanupConn_restorecron E\<rparr>"

definition zero_restorecron :: RestoreCronJob where
  "zero_restorecron =
     \<lparr>rcj_meta = zero_meta,
      rcj_Spec = \<lparr>rcj_RestoreTarget = '''', rcj_Interval = '''', rcj_FixedFileName = None, rcj_Suspend = False, rcj_ServiceAccount = ''''\<rparr>\<rparr>"

definition Reconcile_restorecron :: "env \<Rightarrow> NamespacedName \<Rightarrow> Result go" where
  "Reconcile_restorecron E req = Reconcile E (restorecron_rcl E) (start_reco req zero_restorecron)"

subsection \<open>Copy cron jobs\<close>

definition GetCR_copycron :: "DbCopyCronJobReco \<Rightarrow> k8s_obj" where
  "GetCR_copycron r = O_DbCopyCronJob (jr_cr r)"

definition PutCR_copycron :: "k8s_obj \<Rightarrow> DbCopyCronJobReco \<Rightarrow> DbCopyCronJobReco" where
  "PutCR_copycron ob r = (case ob of O_DbCopyCronJob x \<Rightarrow> r\<lparr>jr_cr := x\<rparr> | _ \<Rightarrow> r)"

definition UpdateStatus_copycron :: "env \<Rightarrow> DbCopyCronJobReco \<Rightarrow> bool \<Rightarrow> DbCopyCronJobReco go" where
  "UpdateStatus_copycron E r exists =
     (let newStatus = \<lparr>dccj_Exists = exists, dccj_CronJobName = m_Name (dccj_meta (jr_cr r))\<rparr> in
      if dccj_Status (jr_cr r) \<noteq> newStatus then
        (let r = r\<lparr>jr_cr := (jr_cr r)\<lparr>dccj_Status := newStatus\<rparr>\<rparr> in write_status E PutCR_copycron (GetCR_copycron r) r)
      else ret r)"

definition LoadObj_copycron :: "env \<Rightarrow> DbCopyCronJobReco \<Rightarrow> (DbCopyCronJobReco \<times> (error + bool)) go" where
  "LoadObj_copycron E r =
     load_jobs (GetCronJobMap E (jr_NsNm r)) id (UpdateStatus_copycron E) (m_Name (dccj_meta (jr_cr r))) r"

definition CreateObj_copycron :: "env \<Rightarrow> DbCopyCronJobReco \<Rightarrow> (DbCopyCronJobReco \<times> Result \<times> error option) go" where
  "CreateObj_copycron E r =
     (let nsnm = jr_NsNm r; spec = dccj_Spec (jr_cr r); backoff = backoff_creation E (GetCR_copycron r) in
      bind_io (EnsureScripts E nsnm) (\<lambda>err.
        if err \<noteq> None then backoff r
        else try_io (GetServerActionsFromDbName E nsnm (dccj_FromDbName spec)) (\<lambda>_. backoff r) (\<lambda>fromDbServerActions.
          try_io (GetServerActionsFromDbName E nsnm (dccj_ToDbName spec)) (\<lambda>_. backoff r) (\<lambda>toDbServerActions.
            let backupContainer = BuildBackupContainer fromDbServerActions;
                restoreContainer = BuildRestoreContainer toDbServerActions;
                cronJob = BuildCronJob nsnm [backupContainer] restoreContainer (m_Name (dccj_meta (jr_cr r))) (dccj_Interval spec)
                  (dccj_Suspend spec) (dccj_ServiceAccount spec)
            in bind_io (create_logged E (O_CronJob cronJob)) (\<lambda>_.
                 bind_io (UpdateStatus_copycron E r True) (\<lambda>r. ret (r, no_result, None)))))))"

definition RemoveObj_copycron :: "env \<Rightarrow> DbCopyCronJobReco \<Rightarrow> (DbCopyCronJobReco \<times> Result \<times> error option) go" where
  "RemoveObj_copycron E r =
     (let n = own_name (jr_NsNm r) (GetCR_copycron r) in
      bind_io (call (K8sDelete K_CronJob n) (\<lambda>h. k8s_delete E h K_CronJob n)) (\<lambda>err.
        if err \<noteq> None then backoff_deletion E (GetCR_copycron r) r
        else bind_io (UpdateStatus_copycron E r False) (\<lambda>r. ret (r, no_result, None))))"

definition LoadCR_copycron :: "env \<Rightarrow> DbCopyCronJobReco \<Rightarrow> (DbCopyCronJobReco \<times> Result \<times> error option) go" where
  "LoadCR_copycron E r =
     try_io (call (K8sGet K_DbCopyCronJob (jr_NsNm r)) (\<lambda>h. get_DbCopyCronJob_cr E h (jr_NsNm r)))
       (\<lambda>err. backoff_creation E (GetCR_copycron r) r)
       (\<lambda>job. ret (r\<lparr>jr_cr := job\<rparr>, no_result, None))"

definition EnsureCorrect_copycron :: "DbCopyCronJobReco \<Rightarrow> (DbCopyCronJobReco \<times> Result \<times> error option) go" where
  "EnsureCorrect_copycron r = ret (r, no_result, None)"

definition CleanupConn_copycron :: "DbCopyCronJobReco \<Rightarrow> DbCopyCronJobReco go" where
  "CleanupConn_copycron r = ret r"

definition copycron_rcl :: "env \<Rightarrow> DbCopyCronJobReco Reconcilable" where
  "copycron_rcl E =
     \<lparr>rc_CreateObj = CreateObj_copycron E, rc_RemoveObj = RemoveObj_copycron E, rc_LoadCR = LoadCR_copycron E,
      rc_LoadObj = LoadObj_copycron E, rc_EnsureCorrect = EnsureCorrect_copycron, rc_GetCR = GetCR_copycron,
      rc_PutCR = PutCR_copycron, rc_CleanupConn = CleanupConn_copycron\<rparr>"

definition zero_copycron :: DbCopyCronJob where
  "zero_copycron =
     \<lparr>dccj_meta = zero_meta,
      dccj_Spec = \<lparr>dccj_FromDbName = '''', dccj_ToDbName = '''', dccj_Interval = '''', dccj_Suspend = False, dccj_ServiceAccount = ''''\<rparr>,
      dccj_Status = \<lparr>dccj_Exists = False, dccj_CronJobName = ''''\<rparr>\<rparr>"

definition Reconcile_copycron :: "env \<Rightarrow> NamespacedName \<Rightarrow> Result go" where
  "Reconcile_copycron E req = Reconcile E (copycron_rcl E) (start_reco req zero_copycron)"

subsection \<open>The contract\<close>

text \<open>
  A write of the status leaves the name of the resource and its mark of deletion alone, as
  the status subresource of the API server does.
\<close>

definition keeps_identity :: "env \<Rightarrow> bool" where
  "keeps_identity E \<longleftrightarrow>
     (\<forall>h ob ob'. k8s_status_update E h ob = Inr ob' \<longrightarrow>
        m_Name (obj_meta ob') = m_Name (obj_meta ob) \<and> m_DeletionTimestamp (obj_meta ob') = m_DeletionTimestamp (obj_meta ob))"

lemma emits_write_status [emits_intro]: "P (K8sStatusUpdate ob) \<Longrightarrow> emits P (write_status E put ob r)"
  unfolding write_status_def by (intro emits_intro)

lemma yields_write_status:
  assumes "keeps_identity E" "Q r"
    and "\<And>ob'. m_Name (obj_meta ob') = m_Name (obj_meta ob) \<Longrightarrow> m_DeletionTimestamp (obj_meta ob') = m_DeletionTimestamp (obj_meta ob) \<Longrightarrow> Q (put ob' r)"
  shows "yields Q (write_status E put ob r)"
  using assms by (auto simp: yields_def write_status_def keeps_identity_def run split: sum.splits)

lemma emits_UpdateStatus [emits_intro]:
  "(\<And>ob. P (K8sStatusUpdate ob)) \<Longrightarrow> emits P (UpdateStatus_backupcron E b x)"
  "(\<And>ob. P (K8sStatusUpdate ob)) \<Longrightarrow> emits P (UpdateStatus_copycron E c x)"
  unfolding UpdateStatus_backupcron_def UpdateStatus_copycron_def Let_def by (intro emits_intro; blast)+

lemma backupcron_rcl_sel [simp]:
  "rc_CreateObj (backupcron_rcl E) = CreateObj_backupcron E" "rc_RemoveObj (backupcron_rcl E) = RemoveObj_backupcron E"
  "rc_LoadCR (backupcron_rcl E) = LoadCR_backupcron E" "rc_LoadObj (backupcron_rcl E) = LoadObj_backupcron E"
  "rc_EnsureCorrect (backupcron_rcl E) = EnsureCorrect_backupcron" "rc_GetCR (backupcron_rcl E) = GetCR_backupcron"
  "rc_PutCR (backupcron_rcl E) = PutCR_backupcron" "rc_CleanupConn (backupcron_rcl E) = CleanupConn_backupcron E"
  by (simp_all add: backupcron_rcl_def)

lemma mine_backupcron: "mine (backupcron_rcl E) s = \<lparr>nn_Namespace = nn_Namespace (jr_NsNm s), nn_Name = m_Name (bcj_meta (jr_cr s))\<rparr>"
  by (simp add: mine_def own_name_def GetCR_backupcron_def)

lemma UpdateStatus_backupcron_same:
  assumes "keeps_identity E" "same_resource (backupcron_rcl E) s r"
  shows "yields (same_resource (backupcron_rcl E) s) (UpdateStatus_backupcron E r x)"
  unfolding UpdateStatus_backupcron_def Let_def using assms
  by (intro yields_intro yields_write_status)
    (auto simp: same_resource_def mine_backupcron GetCR_backupcron_def PutCR_backupcron_def markedToBeDeleted_def split: k8s_obj.split)

lemma backupcron_controller:
  assumes E: "keeps_identity E"
  shows "job_controller (backupcron_rcl E) K_CronJob"
proof
  fix s h s' r h' res err fs b
  show "emits k8s_read (rc_LoadCR (backupcron_rcl E) s)"
    unfolding backupcron_rcl_sel LoadCR_backupcron_def by (intro emits_intro) simp
  show "emits (job_may K_CronJob b (mine (backupcron_rcl E) s)) (rc_LoadObj (backupcron_rcl E) s)"
    unfolding backupcron_rcl_sel LoadObj_backupcron_def by (intro emits_load_jobs emits_intro) simp_all
  show "emits (job_may K_CronJob False (mine (backupcron_rcl E) s)) (rc_CreateObj (backupcron_rcl E) s)"
    unfolding backupcron_rcl_sel CreateObj_backupcron_def mine_backupcron Let_def
    by (intro emits_intro emits_EnsureScripts emits_storage_and_actions emits_closures) (simp_all add: BuildCronJob_def new_meta_def)
  show "emits (job_may K_CronJob True (mine (backupcron_rcl E) s)) (rc_RemoveObj (backupcron_rcl E) s)"
    unfolding mine_def backupcron_rcl_sel RemoveObj_backupcron_def Let_def by (intro emits_intro) simp_all
  show "emits (job_may K_CronJob b (mine (backupcron_rcl E) s)) (rc_EnsureCorrect (backupcron_rcl E) s)"
    by (simp add: EnsureCorrect_backupcron_def emits_ret)
  show "emits is_close (rc_CleanupConn (backupcron_rcl E) s)"
    by (simp add: CleanupConn_backupcron_def emits_cleanup_helper)
  have "yields (\<lambda>(s', x). same_resource (backupcron_rcl E) s s') (LoadObj_backupcron E s)"
    unfolding LoadObj_backupcron_def
    by (intro load_jobs_same UpdateStatus_backupcron_same E) (simp_all add: same_resource_def mine_backupcron GetCR_backupcron_def)
  then show "rc_LoadObj (backupcron_rcl E) s h = (Return (s', r), h') \<Longrightarrow> same_resource (backupcron_rcl E) s s'"
    by (auto dest: yieldsD)
  have "yields (\<lambda>(s', x). same_resource (backupcron_rcl E) s s') (RemoveObj_backupcron E s)"
    unfolding RemoveObj_backupcron_def Let_def
    by (intro yields_bind_any yields_bind [OF UpdateStatus_backupcron_same [OF E]] yields_ret) (auto simp: same_resource_def)
  then show "rc_RemoveObj (backupcron_rcl E) s h = (Return (s', res, err), h') \<Longrightarrow> same_resource (backupcron_rcl E) s s'"
    by (auto dest: yieldsD)
  show "rc_GetCR (backupcron_rcl E) (rc_PutCR (backupcron_rcl E) (set_finalizers fs (rc_GetCR (backupcron_rcl E) s)) s) =
      set_finalizers fs (rc_GetCR (backupcron_rcl E) s)"
    by (simp add: GetCR_backupcron_def PutCR_backupcron_def set_finalizers_def)
qed

lemma copycron_rcl_sel [simp]:
  "rc_CreateObj (copycron_rcl E) = CreateObj_copycron E" "rc_RemoveObj (copycron_rcl E) = RemoveObj_copycron E"
  "rc_LoadCR (copycron_rcl E) = LoadCR_copycron E" "rc_LoadObj (copycron_rcl E) = LoadObj_copycron E"
  "rc_EnsureCorrect (copycron_rcl E) = EnsureCorrect_copycron" "rc_GetCR (copycron_rcl E) = GetCR_copycron"
  "rc_PutCR (copycron_rcl E) = PutCR_copycron" "rc_CleanupConn (copycron_rcl E) = CleanupConn_copycron"
  by (simp_all add: copycron_rcl_def)

lemma mine_copycron: "mine (copycron_rcl E) s = \<lparr>nn_Namespace = nn_Namespace (jr_NsNm s), nn_Name = m_Name (dccj_meta (jr_cr s))\<rparr>"
  by (simp add: mine_def own_name_def GetCR_copycron_def)

lemma UpdateStatus_copycron_same:
  assumes "keeps_identity E" "same_resource (copycron_rcl E) s r"
  shows "yields (same_resource (copycron_rcl E) s) (UpdateStatus_copycron E r x)"
  unfolding UpdateStatus_copycron_def Let_def using assms
  by (intro yields_intro yields_write_status)
    (auto simp: same_resource_def mine_copycron GetCR_copycron_def PutCR_copycron_def markedToBeDeleted_def split: k8s_obj.split)

lemma copycron_controller:
  assumes E: "keeps_identity E"
  shows "job_controller (copycron_rcl E) K_CronJob"
proof
  fix s h s' r h' res err fs b
  show "emits k8s_read (rc_LoadCR (copycron_rcl E) s)"
    unfolding copycron_rcl_sel LoadCR_copycron_def by (intro emits_intro) simp
  show "emits (job_may K_CronJob b (mine (copycron_rcl E) s)) (rc_LoadObj (copycron_rcl E) s)"
    unfolding copycron_rcl_sel LoadObj_copycron_def by (intro emits_load_jobs emits_intro) simp_all
  show "emits (job_may K_CronJob False (mine (copycron_rcl E) s)) (rc_CreateObj (copycron_rcl E) s)"
    unfolding copycron_rcl_sel CreateObj_copycron_def mine_copycron Let_def
    by (intro emits_intro emits_EnsureScripts emits_GetServerActionsFromDbName) (simp_all add: BuildCronJob_def new_meta_def)
  show "emits (job_may K_CronJob True (mine (copycron_rcl E) s)) (rc_RemoveObj (copycron_rcl E) s)"
    unfolding mine_def copycron_rcl_sel RemoveObj_copycron_def Let_def by (intro emits_intro) simp_all
  show "emits (job_may K_CronJob b (mine (copycron_rcl E) s)) (rc_EnsureCorrect (copycron_rcl E) s)"
    by (simp add: EnsureCorrect_copycron_def emits_ret)
  show "emits is_close (rc_CleanupConn (copycron_rcl E) s)"
    by (simp add: CleanupConn_copycron_def emits_ret)
  have "yields (\<lambda>(s', x). same_resource (copycron_rcl E) s s') (LoadObj_copycron E s)"
    unfolding LoadObj_copycron_def
    by (intro load_jobs_same UpdateStatus_copycron_same E) (simp_all add: same_resource_def mine_copycron GetCR_copycron_def)
  then show "rc_LoadObj (copycron_rcl E) s h = (Return (s', r), h') \<Longrightarrow> same_resource (copycron_rcl E) s s'"
    by (auto dest: yieldsD)
  have "yields (\<lambda>(s', x). same_resource (copycron_rcl E) s s') (RemoveObj_copycron E s)"
    unfolding RemoveObj_copycron_def Let_def
    by (rule yields_bind_any, rule yields_if, rule yields_backoffs, simp add: same_resource_def, rule yields_bind [OF UpdateStatus_copycron_same [OF E]])
      (auto simp: same_resource_def intro: yields_ret)
  then show "rc_RemoveObj (copycron_rcl E) s h = (Return (s', res, err), h') \<Longrightarrow> same_resource (copycron_rcl E) s s'"
    by (auto dest: yieldsD)
  show "rc_GetCR (copycron_rcl E) (rc_PutCR (copycron_rcl E) (set_finalizers fs (rc_GetCR (copycron_rcl E) s)) s) =
      set_finalizers fs (rc_GetCR (copycron_rcl E) s)"
    by (simp add: GetCR_copycron_def PutCR_copycron_def set_finalizers_def)
qed

lemma restorecron_rcl_sel [simp]:
  "rc_CreateObj (restorecron_rcl E) = CreateObj_restorecron E" "rc_RemoveObj (restorecron_rcl E) = RemoveObj_restorecron E"
  "rc_LoadCR (restorecron_rcl E) = LoadCR_restorecron E" "rc_LoadObj (restorecron_rcl E) = LoadObj_restorecron E"
  "rc_EnsureCorrect (restorecron_rcl E) = EnsureCorrect_restorecron" "rc_GetCR (restorecron_rcl E) = GetCR_restorecron"
  "rc_PutCR (restorecron_rcl E) = PutCR_restorecron" "rc_CleanupConn (restorecron_rcl E) = CleanupConn_restorecron E"
  by (simp_all add: restorecron_rcl_def)

lemma mine_restorecron: "mine (restorecron_rcl E) s = \<lparr>nn_Namespace = nn_Namespace (jr_NsNm s), nn_Name = m_Name (rcj_meta (jr_cr s))\<rparr>"
  by (simp add: mine_def own_name_def GetCR_restorecron_def)

interpretation restorecron_ctl: job_controller "restorecron_rcl E" K_CronJob for E
proof
  fix s h s' r h' res err fs b
  show "emits k8s_read (rc_LoadCR (restorecron_rcl E) s)"
    unfolding restorecron_rcl_sel LoadCR_restorecron_def by (intro emits_intro) simp
  show "emits (job_may K_CronJob b (mine (restorecron_rcl E) s)) (rc_LoadObj (restorecron_rcl E) s)"
    unfolding restorecron_rcl_sel LoadObj_restorecron_def by (intro emits_load_jobs emits_intro) simp
  show "emits (job_may K_CronJob False (mine (restorecron_rcl E) s)) (rc_CreateObj (restorecron_rcl E) s)"
    unfolding restorecron_rcl_sel CreateObj_restorecron_def mine_restorecron Let_def
    by (intro emits_intro emits_EnsureScripts emits_storage_and_actions emits_closures) (simp_all add: BuildCronJob_def new_meta_def)
  show "emits (job_may K_CronJob True (mine (restorecron_rcl E) s)) (rc_RemoveObj (restorecron_rcl E) s)"
    unfolding mine_def restorecron_rcl_sel RemoveObj_restorecron_def by (rule emits_delete_or_back_off) simp
  show "emits (job_may K_CronJob b (mine (restorecron_rcl E) s)) (rc_EnsureCorrect (restorecron_rcl E) s)"
    by (simp add: EnsureCorrect_restorecron_def emits_ret)
  show "emits is_close (rc_CleanupConn (restorecron_rcl E) s)"
    by (simp add: CleanupConn_restorecron_def emits_cleanup_helper)
  have "yields (\<lambda>(s', x). same_resource (restorecron_rcl E) s s') (LoadObj_restorecron E s)"
    unfolding LoadObj_restorecron_def
    by (intro load_jobs_same yields_no_note) (simp_all add: same_resource_def mine_restorecron GetCR_restorecron_def)
  then show "rc_LoadObj (restorecron_rcl E) s h = (Return (s', r), h') \<Longrightarrow> same_resource (restorecron_rcl E) s s'"
    by (auto dest: yieldsD)
  show "rc_RemoveObj (restorecron_rcl E) s h = (Return (s', res, err), h') \<Longrightarrow> same_resource (restorecron_rcl E) s s'"
    by (auto simp: RemoveObj_restorecron_def same_resource_def dest: yieldsD [OF delete_same])
  show "rc_GetCR (restorecron_rcl E) (rc_PutCR (restorecron_rcl E) (set_finalizers fs (rc_GetCR (restorecron_rcl E) s)) s) =
      set_finalizers fs (rc_GetCR (restorecron_rcl E) s)"
    by (simp add: GetCR_restorecron_def PutCR_restorecron_def set_finalizers_def)
qed

subsection \<open>What a reconciliation of a cron job does\<close>

text \<open>No resource of a backup, restore or copy cron job loses the operator's finalizer before it
  is marked for deletion.\<close>

lemma Reconcile_crons_protect:
  assumes "keeps_identity E"
  shows "emits protects (Reconcile_backupcron E req) \<and> emits protects (Reconcile_restorecron E req) \<and> emits protects (Reconcile_copycron E req)"
  unfolding Reconcile_backupcron_def Reconcile_restorecron_def Reconcile_copycron_def
  by (intro conjI restorecron_ctl.Reconcile_protects job_controller.job_protects [OF backupcron_controller [OF assms]]
      job_controller.job_protects [OF copycron_controller [OF assms]])

text \<open>A write of the status leaves the namespace alone too.\<close>

definition keeps_object :: "env \<Rightarrow> bool" where
  "keeps_object E \<longleftrightarrow> keeps_identity E \<and>
     (\<forall>h ob ob'. k8s_status_update E h ob = Inr ob' \<longrightarrow> m_Namespace (obj_meta ob') = m_Namespace (obj_meta ob))"

lemma yields_write_own:
  assumes "keeps_object E" "Q r"
    and "\<And>ob'. m_Name (obj_meta ob') = m_Name (obj_meta ob) \<Longrightarrow> m_Namespace (obj_meta ob') = m_Namespace (obj_meta ob) \<Longrightarrow> Q (put ob' r)"
  shows "yields Q (write_status E put ob r)"
  using assms by (auto simp: yields_def write_status_def keeps_object_def keeps_identity_def run split: sum.splits)

lemma UpdateStatus_backupcron_own:
  assumes "same_object cr (GetCR_backupcron r)"
  shows "emits (writes_own cr) (UpdateStatus_backupcron E r x)"
    and "keeps_object E \<Longrightarrow> yields (\<lambda>r'. same_object cr (GetCR_backupcron r')) (UpdateStatus_backupcron E r x)"
  using assms unfolding UpdateStatus_backupcron_def Let_def
  by (auto intro!: emits_intro yields_if yields_ret yields_write_own simp: same_object_def GetCR_backupcron_def PutCR_backupcron_def
      split: k8s_obj.split)

lemma UpdateStatus_copycron_own:
  assumes "same_object cr (GetCR_copycron r)"
  shows "emits (writes_own cr) (UpdateStatus_copycron E r x)"
    and "keeps_object E \<Longrightarrow> yields (\<lambda>r'. same_object cr (GetCR_copycron r')) (UpdateStatus_copycron E r x)"
  using assms unfolding UpdateStatus_copycron_def Let_def
  by (auto intro!: emits_intro yields_if yields_ret yields_write_own simp: same_object_def GetCR_copycron_def PutCR_copycron_def
      split: k8s_obj.split)

lemma emits_load_jobs_of:
  "emits P get_map \<Longrightarrow> (\<And>jobs b. emits P (note (r\<lparr>jr_jobs := jobs\<rparr>) b)) \<Longrightarrow> emits P (load_jobs get_map wrap note name r)"
  unfolding load_jobs_def Let_def by (intro emits_intro)

lemma EnsureScripts_own: "emits (writes_own cr) (EnsureScripts E nsnm)"
  unfolding EnsureScripts_def Let_def by (intro emits_intro) simp_all

lemma unread_own [simp]:
  "GetCR_backupcron (r\<lparr>jr_jobs := js\<rparr>) = GetCR_backupcron r" "GetCR_backupcron (r\<lparr>jr_helper := t\<rparr>) = GetCR_backupcron r"
  "GetCR_copycron (c\<lparr>jr_jobs := ks\<rparr>) = GetCR_copycron c" "GetCR_copycron (c\<lparr>jr_helper := t'\<rparr>) = GetCR_copycron c"
  by (simp_all add: GetCR_backupcron_def GetCR_copycron_def)

lemma backupcron_stays_own:
  assumes E: "keeps_object E"
  shows "stays_own cr (backupcron_rcl E) (rc_LoadObj (backupcron_rcl E))" "stays_own cr (backupcron_rcl E) (rc_CreateObj (backupcron_rcl E))"
    "stays_own cr (backupcron_rcl E) (rc_RemoveObj (backupcron_rcl E))" "stays_own cr (backupcron_rcl E) (rc_EnsureCorrect (backupcron_rcl E))"
proof (rule_tac [!] stays_ownI)
  fix s assume own: "same_object cr (rc_GetCR (backupcron_rcl E) s)"
  note own' = own [unfolded backupcron_rcl_sel]
  note status = UpdateStatus_backupcron_own(2) [OF _ E]
  show "emits (writes_own cr) (rc_LoadObj (backupcron_rcl E) s)"
    unfolding backupcron_rcl_sel LoadObj_backupcron_def
    by (intro emits_load_jobs_of emits_intro UpdateStatus_backupcron_own) (simp_all add: own')
  show "yields (\<lambda>(s', x). same_object cr (rc_GetCR (backupcron_rcl E) s')) (rc_LoadObj (backupcron_rcl E) s)"
    unfolding backupcron_rcl_sel LoadObj_backupcron_def by (intro load_jobs_same status) (simp_all add: own')
  show "emits (writes_own cr) (rc_CreateObj (backupcron_rcl E) s)"
    unfolding backupcron_rcl_sel CreateObj_backupcron_def Let_def
    by (intro emits_bind emits_if emits_ret emits_backoffs EnsureScripts_own emits_storage_and_actions emits_create_logged emits_closures
        UpdateStatus_backupcron_own) (simp_all add: own')
  show "yields (\<lambda>(s', x). same_object cr (rc_GetCR (backupcron_rcl E) s')) (rc_CreateObj (backupcron_rcl E) s)"
    unfolding backupcron_rcl_sel CreateObj_backupcron_def Let_def
    by (intro yields_bind_any yields_if yields_storage_and_actions yields_backoffs yields_bind [OF status] yields_ret) (simp_all add: own')
  show "emits (writes_own cr) (rc_RemoveObj (backupcron_rcl E) s)"
    unfolding backupcron_rcl_sel RemoveObj_backupcron_def Let_def
    by (intro emits_bind emits_call emits_ret UpdateStatus_backupcron_own) (simp_all add: own')
  show "yields (\<lambda>(s', x). same_object cr (rc_GetCR (backupcron_rcl E) s')) (rc_RemoveObj (backupcron_rcl E) s)"
    unfolding backupcron_rcl_sel RemoveObj_backupcron_def Let_def
    by (intro yields_bind_any yields_bind [OF status] yields_ret) (simp_all add: own')
  show "emits (writes_own cr) (rc_EnsureCorrect (backupcron_rcl E) s)"
    "yields (\<lambda>(s', x). same_object cr (rc_GetCR (backupcron_rcl E) s')) (rc_EnsureCorrect (backupcron_rcl E) s)"
    by (simp_all add: EnsureCorrect_backupcron_def emits_ret yields_ret own')
qed

lemma copycron_stays_own:
  assumes E: "keeps_object E"
  shows "stays_own cr (copycron_rcl E) (rc_LoadObj (copycron_rcl E))" "stays_own cr (copycron_rcl E) (rc_CreateObj (copycron_rcl E))"
    "stays_own cr (copycron_rcl E) (rc_RemoveObj (copycron_rcl E))" "stays_own cr (copycron_rcl E) (rc_EnsureCorrect (copycron_rcl E))"
proof (rule_tac [!] stays_ownI)
  fix s assume own: "same_object cr (rc_GetCR (copycron_rcl E) s)"
  note own' = own [unfolded copycron_rcl_sel]
  note status = UpdateStatus_copycron_own(2) [OF _ E]
  show "emits (writes_own cr) (rc_LoadObj (copycron_rcl E) s)"
    unfolding copycron_rcl_sel LoadObj_copycron_def
    by (intro emits_load_jobs_of emits_intro UpdateStatus_copycron_own) (simp_all add: own')
  show "yields (\<lambda>(s', x). same_object cr (rc_GetCR (copycron_rcl E) s')) (rc_LoadObj (copycron_rcl E) s)"
    unfolding copycron_rcl_sel LoadObj_copycron_def by (intro load_jobs_same status) (simp_all add: own')
  show "emits (writes_own cr) (rc_CreateObj (copycron_rcl E) s)"
    unfolding copycron_rcl_sel CreateObj_copycron_def Let_def
    by (intro emits_bind emits_if emits_ret emits_try emits_backoffs EnsureScripts_own emits_GetServerActionsFromDbName emits_create_logged
        UpdateStatus_copycron_own) (simp_all add: own')
  show "yields (\<lambda>(s', x). same_object cr (rc_GetCR (copycron_rcl E) s')) (rc_CreateObj (copycron_rcl E) s)"
    unfolding copycron_rcl_sel CreateObj_copycron_def Let_def try_io_def
    by (intro yields_bind_any yields_if yields_case_sum yields_backoffs yields_bind [OF status] yields_ret) (simp_all add: own')
  show "emits (writes_own cr) (rc_RemoveObj (copycron_rcl E) s)"
    unfolding copycron_rcl_sel RemoveObj_copycron_def Let_def
    by (intro emits_bind emits_if emits_backoffs emits_call emits_ret UpdateStatus_copycron_own) (simp_all add: own')
  show "yields (\<lambda>(s', x). same_object cr (rc_GetCR (copycron_rcl E) s')) (rc_RemoveObj (copycron_rcl E) s)"
    unfolding copycron_rcl_sel RemoveObj_copycron_def Let_def
    by (intro yields_bind_any yields_if yields_backoffs yields_bind [OF status] yields_ret) (simp_all add: own')
  show "emits (writes_own cr) (rc_EnsureCorrect (copycron_rcl E) s)"
    "yields (\<lambda>(s', x). same_object cr (rc_GetCR (copycron_rcl E) s')) (rc_EnsureCorrect (copycron_rcl E) s)"
    by (simp_all add: EnsureCorrect_copycron_def emits_ret yields_ret own')
qed

text \<open>The controller of restore cron jobs writes no status.\<close>

lemma restorecron_stays_own:
  "stays_own cr (restorecron_rcl E) (rc_LoadObj (restorecron_rcl E))" "stays_own cr (restorecron_rcl E) (rc_CreateObj (restorecron_rcl E))"
  "stays_own cr (restorecron_rcl E) (rc_RemoveObj (restorecron_rcl E))" "stays_own cr (restorecron_rcl E) (rc_EnsureCorrect (restorecron_rcl E))"
proof (rule_tac [!] stays_own_same)
  show "emits (writes_own cr) (rc_LoadObj (restorecron_rcl E) r)" for r
    unfolding restorecron_rcl_sel LoadObj_restorecron_def by (intro emits_load_jobs emits_intro) simp
  show "emits (writes_own cr) (rc_CreateObj (restorecron_rcl E) r)" for r
    unfolding restorecron_rcl_sel CreateObj_restorecron_def Let_def
    by (intro emits_intro EnsureScripts_own emits_storage_and_actions emits_closures) simp_all
  show "emits (writes_own cr) (rc_RemoveObj (restorecron_rcl E) r)" for r
    unfolding restorecron_rcl_sel RemoveObj_restorecron_def delete_or_back_off_def Let_def by (intro emits_intro) simp
  show "emits (writes_own cr) (rc_EnsureCorrect (restorecron_rcl E) r)" for r
    by (simp add: EnsureCorrect_restorecron_def emits_ret)
  show "yields (\<lambda>(r', x). jr_cr r' = jr_cr r) (rc_LoadObj (restorecron_rcl E) r)" for r
    unfolding restorecron_rcl_sel LoadObj_restorecron_def by (intro load_jobs_same yields_no_note; simp)
  show "yields (\<lambda>(r', x). jr_cr r' = jr_cr r) (rc_CreateObj (restorecron_rcl E) r)" for r
    unfolding restorecron_rcl_sel CreateObj_restorecron_def Let_def by (intro yields_intro yields_storage_and_actions yields_backoffs; simp)
qed (simp_all add: GetCR_restorecron_def RemoveObj_restorecron_def removes_same EnsureCorrect_restorecron_def yields_ret)

lemma loaded_crons:
  "(\<forall>h x. get_BackupCronJob_cr E h req = Inr x \<longrightarrow> x = b) \<Longrightarrow> LoadCR_backupcron E (start_reco req zero_backupcron) h = (Return (sb, res, None), h') \<Longrightarrow>
     jr_NsNm sb = req \<and> GetCR_backupcron sb = O_BackupCronJob b"
  "(\<forall>h x. get_RestoreCronJob_cr E h req = Inr x \<longrightarrow> x = r) \<Longrightarrow> LoadCR_restorecron E (start_reco req zero_restorecron) h = (Return (sr, res, None), h') \<Longrightarrow>
     \<not> Requeue res \<Longrightarrow> jr_NsNm sr = req \<and> GetCR_restorecron sr = O_RestoreCronJob r"
  "(\<forall>h x. get_DbCopyCronJob_cr E h req = Inr x \<longrightarrow> x = c) \<Longrightarrow> LoadCR_copycron E (start_reco req zero_copycron) h = (Return (sc, res, None), h') \<Longrightarrow>
     \<not> Requeue res \<Longrightarrow> jr_NsNm sc = req \<and> GetCR_copycron sc = O_DbCopyCronJob c"
  by (auto simp: LoadCR_backupcron_def LoadCR_restorecron_def LoadCR_copycron_def backoff_creation_def LogAndBackoffCreation_def start_reco_def
      GetCR_backupcron_def GetCR_restorecron_def GetCR_copycron_def run split: sum.splits)

text \<open>C18: the reconciliation of a backup, restore or copy cron job runs no statement on any server and
  opens no connection.  In the API server it updates, the status included, nothing but the resource itself, the object of
  the same kind, namespace and name as the one that was read; besides the scripts of its namespace it creates and deletes
  only the one \<^verbatim>\<open>CronJob\<close> that has the name of the resource, which it creates only when the resource is
  not marked for deletion and deletes only when it is.  The resource is the one that the API server returns
  whenever the request is read, and a write of its status leaves its name, namespace and mark of deletion alone.\<close>

theorem Reconcile_crons_own_job_only:
  assumes E: "keeps_object E"
    and "\<And>h b'. get_BackupCronJob_cr E h req = Inr b' \<Longrightarrow> b' = b"
    and "\<And>h r'. get_RestoreCronJob_cr E h req = Inr r' \<Longrightarrow> r' = r"
    and "\<And>h c'. get_DbCopyCronJob_cr E h req = Inr c' \<Longrightarrow> c' = c"
  shows "emits (touches_own K_CronJob (O_BackupCronJob b) req) (Reconcile_backupcron E req) \<and>
    emits (touches_own K_CronJob (O_RestoreCronJob r) req) (Reconcile_restorecron E req) \<and>
    emits (touches_own K_CronJob (O_DbCopyCronJob c) req) (Reconcile_copycron E req)"
proof -
  have same: "\<forall>h x. get_BackupCronJob_cr E h req = Inr x \<longrightarrow> x = b" "\<forall>h x. get_RestoreCronJob_cr E h req = Inr x \<longrightarrow> x = r"
    "\<forall>h x. get_DbCopyCronJob_cr E h req = Inr x \<longrightarrow> x = c"
    using assms(2-4) by blast+
  have id: "keeps_identity E" using E by (simp add: keeps_object_def)
  show ?thesis
    unfolding Reconcile_backupcron_def Reconcile_restorecron_def Reconcile_copycron_def
    by (intro conjI job_controller.Reconcile_touches_own [OF backupcron_controller [OF id]] restorecron_ctl.Reconcile_touches_own
        job_controller.Reconcile_touches_own [OF copycron_controller [OF id]] backupcron_stays_own copycron_stays_own restorecron_stays_own E)
      (auto dest: loaded_crons(1) [OF same(1)] loaded_crons(2) [OF same(2)] loaded_crons(3) [OF same(3)])
qed

definition demo_backupcron :: BackupCronJob where
  "demo_backupcron = zero_backupcron\<lparr>bcj_meta := new_meta ''nightly'' ''ns'' []\<rparr>"

definition crons_env :: env where
  "crons_env = null_env\<lparr>get_BackupCronJob_cr := \<lambda>_ _. Inr demo_backupcron, k8s_status_update := \<lambda>_ ob. Inr ob\<rparr>"

theorem Reconcile_crons_own_job_only_witness:
  "emits (touches_own K_CronJob (O_BackupCronJob demo_backupcron) demo_req) (Reconcile_backupcron crons_env demo_req) \<and>
   touches_own K_CronJob (O_BackupCronJob demo_backupcron) demo_req
     (K8sStatusUpdate (O_BackupCronJob (demo_backupcron\<lparr>bcj_Status := \<lparr>bcj_Exists = True, bcj_CronJobName = ''nightly''\<rparr>\<rparr>))) \<and>
   \<not> touches_own K_CronJob (O_BackupCronJob demo_backupcron) demo_req (K8sStatusUpdate (O_RestoreCronJob zero_restorecron))"
  using Reconcile_crons_own_job_only [of crons_env demo_req demo_backupcron zero_restorecron zero_copycron]
  by (simp add: crons_env_def keeps_object_def keeps_identity_def null_env_def touches_own_def
      same_object_def [of _ "O_RestoreCronJob zero_restorecron"] same_object_def [of _ "O_BackupCronJob (_\<lparr>bcj_Status := _\<rparr>)"])

subsection \<open>What a cron job runs, and when\<close>

definition creates_cron :: "string \<Rightarrow> bool \<Rightarrow> string list \<Rightarrow> string list \<Rightarrow> event \<Rightarrow> bool" where
  "creates_cron schedule suspend first second ev \<longleftrightarrow>
     (\<forall>j. ev = K8sCreate (O_CronJob j) \<longrightarrow>
        cj_Schedule j = schedule \<and> cj_Suspend j = suspend \<and> runs_in_order first second (cj_Template j))"

lemma creates_cron_simps [simp]:
  "creates_cron sc su f s (K8sGet kd n)" "creates_cron sc su f s (K8sList kd)" "creates_cron sc su f s (K8sDelete kd n)"
  "creates_cron sc su f s (K8sCreate (O_ConfigMap cm))" "creates_cron sc su f s (K8sStatusUpdate ob)"
  "creates_cron sc su f s (K8sCreate (O_CronJob (BuildCronJob nsnm cs c nm sc su sa))) = runs_in_order f s (pod_spec cs c sa)"
  by (auto simp: creates_cron_def BuildCronJob_def)

lemma emits_scripts_cron: "emits (creates_cron sc su f s) (EnsureScripts E nsnm)"
  unfolding EnsureScripts_def Let_def by (intro emits_intro) simp_all

text \<open>The \<^verbatim>\<open>CronJob\<close> that is created for a backup, restore or copy has the schedule and the
  suspension of the resource's spec, and a run of it runs two scripts in turn: dump and
  upload, download and load, dump and load.\<close>

theorem CreateObj_crons_follow_spec:
  "emits (creates_cron (bcj_Interval (bcj_Spec (jr_cr rb))) (bcj_Suspend (bcj_Spec (jr_cr rb))) [BACKUP_POSTGRES, BACKUP_MYSQL] [UPLOAD_S3])
     (CreateObj_backupcron E rb) \<and>
   emits (creates_cron (rcj_Interval (rcj_Spec (jr_cr rr))) (rcj_Suspend (rcj_Spec (jr_cr rr))) [DOWNLOAD_S3] [RESTORE_POSTGRES, RESTORE_MYSQL])
     (CreateObj_restorecron E rr) \<and>
   emits (creates_cron (dccj_Interval (dccj_Spec (jr_cr rc))) (dccj_Suspend (dccj_Spec (jr_cr rc))) [BACKUP_POSTGRES, BACKUP_MYSQL]
       [RESTORE_POSTGRES, RESTORE_MYSQL])
     (CreateObj_copycron E rc)"
  unfolding CreateObj_backupcron_def CreateObj_restorecron_def CreateObj_copycron_def Let_def
  by (intro conjI emits_intro emits_scripts_cron emits_storage_and_actions emits_closures emits_GetServerActionsFromDbName)
    (simp_all add: pod_orders)

subsection \<open>A flaw\<close>

text \<open>A backup cron job that could not be created is reported to exist: whatever
  the API server answers to the creation, the status that is sent afterwards has \<^verbatim>\<open>Exists\<close> set, and the
  resource is treated as done.\<close>

theorem CreateObj_backupcron_reports_failed_creation:
  assumes "EnsureScripts E (jr_NsNm r) h = (Return None, h1)"
    and "jr_helper r = Some t"
    and "GetStorageInfoAndActions E (jr_NsNm r) (backup_type_and_location E (jr_NsNm r)) (backup_db_helper E (jr_NsNm r)) t h1 =
      (Return (t', Inr (Some st, a)), h2)"
    and "\<not> bcj_Exists (bcj_Status (jr_cr r))"
    and "k8s_create E h2 (O_CronJob (BuildCronJob (jr_NsNm r) [BuildBackupContainer a] (BuildUploadContainer st (bcj_FixedFileName (bcj_Spec (jr_cr r))))
        (m_Name (bcj_meta (jr_cr r))) (bcj_Interval (bcj_Spec (jr_cr r))) (bcj_Suspend (bcj_Spec (jr_cr r))) (bcj_ServiceAccount (bcj_Spec (jr_cr r))))) = Some err"
  shows "\<exists>r' cronJob b. CreateObj_backupcron E r h =
     (Return (r', no_result, None), h2 @ [K8sCreate (O_CronJob cronJob), K8sStatusUpdate (O_BackupCronJob b)]) \<and>
     k8s_create E h2 (O_CronJob cronJob) \<noteq> None \<and> bcj_Exists (bcj_Status b)"
proof -
  have "bcj_Status (jr_cr r) \<noteq> \<lparr>bcj_Exists = True, bcj_CronJobName = m_Name (bcj_meta (jr_cr r))\<rparr>" using assms(4) by auto
  then show ?thesis
    using assms(1,2,3,5)
    by (auto simp: CreateObj_backupcron_def storage_and_actions_def create_logged_def UpdateStatus_backupcron_def write_status_def GetCR_backupcron_def
        Let_def run split: sum.split)
qed

definition demo_cron_reco :: BackupCronJobReco where
  "demo_cron_reco = (start_reco demo_req demo_backupcron)\<lparr>jr_helper := Some (NewLazyTargetHelper ''t'')\<rparr>"

lemma demo_scripts:
  "EnsureScripts backup_env demo_req [] = (Return None, [K8sGet K_ConfigMap \<lparr>nn_Namespace = ''ns'', nn_Name = SCRIPTS_CONFIGMAP\<rparr>])"
  by (simp add: EnsureScripts_def Let_def run backup_env_def)

theorem CreateObj_backupcron_reports_failed_creation_witness:
  "\<exists>r' h2 cronJob b. CreateObj_backupcron backup_env demo_cron_reco [] =
     (Return (r', no_result, None), h2 @ [K8sCreate (O_CronJob cronJob), K8sStatusUpdate (O_BackupCronJob b)]) \<and>
     k8s_create backup_env h2 (O_CronJob cronJob) \<noteq> None \<and> bcj_Exists (bcj_Status b)"
proof -
  have r: "jr_NsNm demo_cron_reco = demo_req" "jr_helper demo_cron_reco = Some (NewLazyTargetHelper ''t'')" "\<not> bcj_Exists (bcj_Status (jr_cr demo_cron_reco))"
    by (simp_all add: demo_cron_reco_def start_reco_def demo_backupcron_def zero_backupcron_def)
  have fails: "k8s_create backup_env g ob = Some down" for g ob by (simp add: backup_env_def null_env_def)
  obtain t' h2 st a where "GetStorageInfoAndActions backup_env demo_req (backup_type_and_location backup_env demo_req) (backup_db_helper backup_env demo_req)
      (NewLazyTargetHelper ''t'') [K8sGet K_ConfigMap \<lparr>nn_Namespace = ''ns'', nn_Name = SCRIPTS_CONFIGMAP\<rparr>] = (Return (t', Inr (Some st, a)), h2)"
    using demo_storage by blast
  from CreateObj_backupcron_reports_failed_creation [of backup_env demo_cron_reco, unfolded r(1), OF demo_scripts r(2) this r(3) fails]
  show ?thesis by blast
qed


end
