(* ===== verification/CrdbControllers.thy ===== *)
theory CrdbControllers
  imports CronControllers
begin

section \<open>The controllers of CockroachDB backups and schedules\<close>

text \<open>
  \<^verbatim>\<open>controllers/cockroachdbbackupjob_controller.go\<close> and
  \<^verbatim>\<open>controllers/cockroachdbbackupcronjob_controller.go\<close>.  These controllers talk to the server
  themselves: a backup is a statement that returns the number of a job on the server, and a cron job is
  a schedule on the server.  The connection that the lazy helper hands out is not kept by
  it, so it is a local variable.  A type assertion on a value of a result set panics for a
  value of another type; times are compared by the instant they name.
\<close>

record 'cr CrdbReco =
  xr_NsNm :: NamespacedName
  xr_cr :: 'cr
  xr_helper :: "BackupTarget LazyTargetHelper option"

type_synonym CrdbBackubJobReco = "CockroachDBBackupJob CrdbReco"
type_synonym CockroachDBBackupCronJobReco = "CockroachDBBackupCronJob CrdbReco"

definition on_helper :: "'cr CrdbReco \<Rightarrow> (BackupTarget LazyTargetHelper \<Rightarrow> (BackupTarget LazyTargetHelper \<times> 'a) go) \<Rightarrow> ('cr CrdbReco \<times> 'a) go" where
  "on_helper r m =
     (case xr_helper r of
        None \<Rightarrow> panic ''nil pointer dereference''
      | Some t \<Rightarrow> bind_io (m t) (\<lambda>(t, x). ret (r\<lparr>xr_helper := Some t\<rparr>, x)))"

definition GetPgConnection_crdb :: "env \<Rightarrow> 'cr CrdbReco \<Rightarrow> ('cr CrdbReco \<times> (error + SqlConnection)) go" where
  "GetPgConnection_crdb E r = on_helper r (GetPgConnection_target E (xr_NsNm r) (backup_db_helper E (xr_NsNm r)))"

definition GetDbName_crdb :: "env \<Rightarrow> 'cr CrdbReco \<Rightarrow> ('cr CrdbReco \<times> (error + string)) go" where
  "GetDbName_crdb E r = on_helper r (GetDbName_backup E (xr_NsNm r))"

definition GetBucketStorageInfo_crdb :: "env \<Rightarrow> 'cr CrdbReco \<Rightarrow> ('cr CrdbReco \<times> (error + BucketStorageInfo)) go" where
  "GetBucketStorageInfo_crdb E r = on_helper r (GetBucketStorageInfo_target E (xr_NsNm r) (backup_type_and_location E (xr_NsNm r)))"

definition CleanupConn_crdb :: "env \<Rightarrow> 'cr CrdbReco \<Rightarrow> 'cr CrdbReco go" where
  "CleanupConn_crdb E r =
     (case xr_helper r of
        None \<Rightarrow> ret r
      | Some t \<Rightarrow> bind_io (CleanupConn_target E t) (\<lambda>t. ret (r\<lparr>xr_helper := Some t\<rparr>)))"

text \<open>Type assertions on the values of a row.\<close>

definition assert_time :: "gval option \<Rightarrow> int go" where
  "assert_time v = (case v of Some (GTime t) \<Rightarrow> ret t | _ \<Rightarrow> panic ''interface conversion'')"

definition assert_int64 :: "gval option \<Rightarrow> int go" where
  "assert_int64 v = (case v of Some (GInt i) \<Rightarrow> ret i | _ \<Rightarrow> panic ''interface conversion'')"

definition assert_string :: "gval option \<Rightarrow> string go" where
  "assert_string v = (case v of Some (GStr s) \<Rightarrow> ret s | _ \<Rightarrow> panic ''interface conversion'')"

definition assert_bytes :: "gval option \<Rightarrow> string go" where
  "assert_bytes v = (case v of Some (GBytes s) \<Rightarrow> ret s | _ \<Rightarrow> panic ''interface conversion'')"

text \<open>A value that is there and not nil, asserted; otherwise a default.\<close>

definition if_set :: "gval gomap \<Rightarrow> string \<Rightarrow> (gval option \<Rightarrow> 'a go) \<Rightarrow> 'a \<Rightarrow> 'a go" where
  "if_set m key conv dflt =
     (case map_of m key of None \<Rightarrow> ret dflt | Some v \<Rightarrow> if v \<noteq> GNull then conv (Some v) else ret dflt)"

subsection \<open>Backup jobs\<close>

definition jobMapToJobStatus :: "gval gomap \<Rightarrow> CockroachDBBackupJobStatus go" where
  "jobMapToJobStatus jobMap =
     bind_io (if_set jobMap ''created'' assert_time 0) (\<lambda>created.
     bind_io (if_set jobMap ''started'' assert_time 0) (\<lambda>started.
     bind_io (if_set jobMap ''finished'' assert_time 0) (\<lambda>finished.
     bind_io (assert_int64 (map_of jobMap ''job_id'')) (\<lambda>jobId.
     bind_io (assert_string (map_of jobMap ''status'')) (\<lambda>status.
     bind_io (assert_string (map_of jobMap ''description'')) (\<lambda>description.
     bind_io (assert_string (map_of jobMap ''error'')) (\<lambda>err.
       ret \<lparr>crjs_JobId = jobId, crjs_Status = status, crjs_Description = description, crjs_Created = created, crjs_Started = started,
            crjs_Finished = finished, crjs_Error = err\<rparr>)))))))"

definition GetCR_crdbjob :: "CrdbBackubJobReco \<Rightarrow> k8s_obj" where
  "GetCR_crdbjob r = O_CockroachDBBackupJob (xr_cr r)"

definition PutCR_crdbjob :: "k8s_obj \<Rightarrow> CrdbBackubJobReco \<Rightarrow> CrdbBackubJobReco" where
  "PutCR_crdbjob ob r = (case ob of O_CockroachDBBackupJob x \<Rightarrow> r\<lparr>xr_cr := x\<rparr> | _ \<Rightarrow> r)"

text \<open>The finalizer is added here too, because the loop does not add it when the request is queued again.\<close>

definition SetStatus_crdbjob :: "env \<Rightarrow> CrdbBackubJobReco \<Rightarrow> CockroachDBBackupJobStatus \<Rightarrow> (CrdbBackubJobReco \<times> error option) go" where
  "SetStatus_crdbjob E r newStatus =
     (if crj_Status (xr_cr r) \<noteq> newStatus then
        (let r = r\<lparr>xr_cr := (xr_cr r)\<lparr>crj_Status := newStatus\<rparr>\<rparr>; ob = GetCR_crdbjob r in
         bind_io (call (K8sStatusUpdate ob) (\<lambda>h. k8s_status_update E h ob)) (\<lambda>x. case x of
           Inl err \<Rightarrow> ret (r, Some err)
         | Inr ob \<Rightarrow>
             let r = PutCR_crdbjob ob r in
             bind_io (EnsureFinalizer E (GetCR_crdbjob r)) (\<lambda>(ob, res, err). ret (PutCR_crdbjob ob r, err))))
      else ret (r, None))"

definition LoadObj_crdbjob :: "env \<Rightarrow> CrdbBackubJobReco \<Rightarrow> (CrdbBackubJobReco \<times> (error + bool)) go" where
  "LoadObj_crdbjob E r =
     (if crjs_JobId (crj_Status (xr_cr r)) = 0 then ret (r, Inr False)
      else
        bind_io (GetPgConnection_crdb E r) (\<lambda>(r, x). case x of
          Inl err \<Rightarrow> ret (r, Inl err)
        | Inr pgConn \<Rightarrow>
            bind_io (GetBackupJobById E pgConn (crjs_JobId (crj_Status (xr_cr r)))) (\<lambda>(pgConn, x). case x of
              Inl err \<Rightarrow> ret (r, Inl err)
            | Inr found \<Rightarrow>
                (case found of
                   None \<Rightarrow> ret (r, Inr False)
                 | Some jobMap \<Rightarrow>
                     bind_io (jobMapToJobStatus jobMap) (\<lambda>jobStatus.
                       bind_io (SetStatus_crdbjob E r jobStatus) (\<lambda>(r, err). case err of
                         Some e \<Rightarrow> ret (r, Inl e)
                       | None \<Rightarrow> ret (r, Inr True)))))))"

definition LoadCR_crdbjob :: "env \<Rightarrow> CrdbBackubJobReco \<Rightarrow> (CrdbBackubJobReco \<times> Result \<times> error option) go" where
  "LoadCR_crdbjob E r =
     try_io (call (K8sGet K_CockroachDBBackupJob (xr_NsNm r)) (\<lambda>h. get_CockroachDBBackupJob_cr E h (xr_NsNm r)))
       (\<lambda>err. backoff_creation E (GetCR_crdbjob r) r)
       (\<lambda>job. ret (r\<lparr>xr_cr := job, xr_helper := Some (NewLazyTargetHelper (crj_BackupTarget (crj_Spec job)))\<rparr>, no_result, None))"

definition BackupEnded :: "CrdbBackubJobReco \<Rightarrow> bool" where
  "BackupEnded r \<longleftrightarrow> crjs_Status (crj_Status (xr_cr r)) = ''failed'' \<or> crjs_Status (crj_Status (xr_cr r)) = ''succeeded''"

definition EnsureCorrect_crdbjob :: "env \<Rightarrow> CrdbBackubJobReco \<Rightarrow> (CrdbBackubJobReco \<times> Result \<times> error option) go" where
  "EnsureCorrect_crdbjob E r =
     (if \<not> BackupEnded r then bind_io (GradualBackoffRetry E (m_CreationTimestamp (crj_meta (xr_cr r)))) (\<lambda>res. ret (r, res, None))
      else ret (r, no_result, None))"

text \<open>The error of the last write of the status is dropped.\<close>

definition CreateObj_crdbjob :: "env \<Rightarrow> CrdbBackubJobReco \<Rightarrow> (CrdbBackubJobReco \<times> Result \<times> error option) go" where
  "CreateObj_crdbjob E r =
     (if crjs_JobId (crj_Status (xr_cr r)) \<noteq> 0 then ret (r, no_result, None)
      else
        bind_io (GetPgConnection_crdb E r) (\<lambda>(r, x). case x of
          Inl err \<Rightarrow> backoff_creation E (GetCR_crdbjob r) r
        | Inr pgConn \<Rightarrow>
            bind_io (GetDbName_crdb E r) (\<lambda>(r, x). case x of
              Inl err \<Rightarrow> backoff_creation E (GetCR_crdbjob r) r
            | Inr dbName \<Rightarrow>
                bind_io (GetBucketStorageInfo_crdb E r) (\<lambda>(r, x). case x of
                  Inl err \<Rightarrow> backoff_creation E (GetCR_crdbjob r) r
                | Inr bucketStorageInfo \<Rightarrow>
                    bind_io (CreateBackupJob E pgConn dbName bucketStorageInfo) (\<lambda>(pgConn, x). case x of
                      Inl err \<Rightarrow> bind_io (GradualBackoffRetry E (m_CreationTimestamp (crj_meta (xr_cr r)))) (\<lambda>res. ret (r, res, None))
                    | Inr job_id \<Rightarrow>
                        bind_io (ask (time_now E)) (\<lambda>now.
                          bind_io (SetStatus_crdbjob E r
                              \<lparr>crjs_JobId = job_id, crjs_Status = '''', crjs_Description = '''', crjs_Created = now, crjs_Started = 0,
                               crjs_Finished = 0, crjs_Error = ''''\<rparr>) (\<lambda>(r, _).
                            bind_io (GradualBackoffRetry E (m_CreationTimestamp (crj_meta (xr_cr r)))) (\<lambda>res. ret (r, res, None)))))))))"

definition RemoveObj_crdbjob :: "CrdbBackubJobReco \<Rightarrow> (CrdbBackubJobReco \<times> Result \<times> error option) go" where
  "RemoveObj_crdbjob r = ret (r, no_result, None)"

definition crdbjob_rcl :: "env \<Rightarrow> CrdbBackubJobReco Reconcilable" where
  "crdbjob_rcl E =
     \<lparr>rc_CreateObj = CreateObj_crdbjob E, rc_RemoveObj = RemoveObj_crdbjob, rc_LoadCR = LoadCR_crdbjob E,
      rc_LoadObj = LoadObj_crdbjob E, rc_EnsureCorrect = EnsureCorrect_crdbjob E, rc_GetCR = GetCR_crdbjob,
      rc_PutCR = PutCR_crdbjob, rc_CleanupConn = CleanupConn_crdb E\<rparr>"

definition zero_crdbjob :: CockroachDBBackupJob where
  "zero_crdbjob =
     \<lparr>crj_meta = zero_meta, crj_Spec = \<lparr>crj_BackupTarget = ''''\<rparr>,
      crj_Status = \<lparr>crjs_JobId = 0, crjs_Status = '''', crjs_Description = '''', crjs_Created = zero_time, crjs_Started = zero_time,
        crjs_Finished = zero_time, crjs_Error = ''''\<rparr>\<rparr>"

definition Reconcile_crdbjob :: "env \<Rightarrow> NamespacedName \<Rightarrow> Result go" where
  "Reconcile_crdbjob E req = Reconcile E (crdbjob_rcl E) \<lparr>xr_NsNm = req, xr_cr = zero_crdbjob, xr_helper = None\<rparr>"

subsection \<open>Schedules\<close>

definition scheduleMapToJobStatus :: "env \<Rightarrow> gval gomap \<Rightarrow> (error + CockroachDBBackupCronJobStatus) go" where
  "scheduleMapToJobStatus E scheduleMap =
     bind_io (if_set scheduleMap ''created'' assert_time zero_time) (\<lambda>created.
       let rest = (\<lambda>command.
             bind_io (if_set scheduleMap ''state'' (\<lambda>v. bind_io (assert_string v) (\<lambda>s. ret (Some s))) None) (\<lambda>state.
             bind_io (if_set scheduleMap ''id'' assert_int64 0) (\<lambda>schduleId.
             bind_io (if_set scheduleMap ''schedule_status'' assert_string '''') (\<lambda>scheduleStatus.
               ret (Inr \<lparr>crcs_ScheduleId = schduleId, crcs_ScheduleStatus = scheduleStatus, crcs_State = state, crcs_Command = command,
                         crcs_Created = created\<rparr>)))))
       in case map_of scheduleMap ''command'' of
            None \<Rightarrow> rest None
          | Some commandInterface \<Rightarrow>
              bind_io (assert_bytes (Some commandInterface)) (\<lambda>commandBytes.
                case json_Unmarshal (lib E) commandBytes of
                  Inl err \<Rightarrow> ret (Inl err)
                | Inr commandMap \<Rightarrow>
                    (case map_of commandMap ''backup_statement'' of
                       None \<Rightarrow> rest None
                     | Some commandValue \<Rightarrow> bind_io (assert_string (Some commandValue)) (\<lambda>strValue. rest (Some strValue)))))"

definition GetCR_crdbcron :: "CockroachDBBackupCronJobReco \<Rightarrow> k8s_obj" where
  "GetCR_crdbcron r = O_CockroachDBBackupCronJob (xr_cr r)"

definition PutCR_crdbcron :: "k8s_obj \<Rightarrow> CockroachDBBackupCronJobReco \<Rightarrow> CockroachDBBackupCronJobReco" where
  "PutCR_crdbcron ob r = (case ob of O_CockroachDBBackupCronJob x \<Rightarrow> r\<lparr>xr_cr := x\<rparr> | _ \<Rightarrow> r)"

definition SetStatus_crdbcron :: "env \<Rightarrow> CockroachDBBackupCronJobReco \<Rightarrow> CockroachDBBackupCronJobStatus \<Rightarrow> (CockroachDBBackupCronJobReco \<times> error option) go" where
  "SetStatus_crdbcron E r newStatus =
     (if crc_Status (xr_cr r) \<noteq> newStatus then
        (let r = r\<lparr>xr_cr := (xr_cr r)\<lparr>crc_Status := newStatus\<rparr>\<rparr>; ob = GetCR_crdbcron r in
         bind_io (call (K8sStatusUpdate ob) (\<lambda>h. k8s_status_update E h ob)) (\<lambda>x. case x of
           Inl err \<Rightarrow> ret (r, Some (Err (''failed patching status '' @ error_msg err)))
         | Inr ob \<Rightarrow> ret (PutCR_crdbcron ob r, None)))
      else ret (r, None))"

definition UpdateStatus_crdbcron :: "env \<Rightarrow> CockroachDBBackupCronJobReco \<Rightarrow> SqlConnection \<Rightarrow> int
    \<Rightarrow> (CockroachDBBackupCronJobReco \<times> SqlConnection \<times> error option) go" where
  "UpdateStatus_crdbcron E r pgConn scheduleId =
     bind_io (GetBackupScheduleById E pgConn scheduleId) (\<lambda>(pgConn, x). case x of
       Inl err \<Rightarrow> ret (r, pgConn, Some err)
     | Inr scheduleMap \<Rightarrow>
         bind_io (scheduleMapToJobStatus E scheduleMap) (\<lambda>x. case x of
           Inl err \<Rightarrow> ret (r, pgConn, Some err)
         | Inr scheduleStatus \<Rightarrow>
             bind_io (SetStatus_crdbcron E r scheduleStatus) (\<lambda>(r, err). ret (r, pgConn, err))))"

definition LoadObj_crdbcron :: "env \<Rightarrow> CockroachDBBackupCronJobReco \<Rightarrow> (CockroachDBBackupCronJobReco \<times> (error + bool)) go" where
  "LoadObj_crdbcron E r =
     (if crcs_ScheduleId (crc_Status (xr_cr r)) = 0 then ret (r, Inr False)
      else
        bind_io (GetPgConnection_crdb E r) (\<lambda>(r, x). case x of
          Inl err \<Rightarrow> ret (r, Inl err)
        | Inr pgConn \<Rightarrow>
            bind_io (UpdateStatus_crdbcron E r pgConn (crcs_ScheduleId (crc_Status (xr_cr r)))) (\<lambda>(r, pgConn, err). case err of
              Some e \<Rightarrow> ret (r, Inl e)
            | None \<Rightarrow> ret (r, Inr True))))"

definition LoadCR_crdbcron :: "env \<Rightarrow> CockroachDBBackupCronJobReco \<Rightarrow> (CockroachDBBackupCronJobReco \<times> Result \<times> error option) go" where
  "LoadCR_crdbcron E r =
     try_io (call (K8sGet K_CockroachDBBackupCronJob (xr_NsNm r)) (\<lambda>h. get_CockroachDBBackupCronJob_cr E h (xr_NsNm r)))
       (\<lambda>err. backoff_creation E (GetCR_crdbcron r) r)
       (\<lambda>job. ret (r\<lparr>xr_cr := job, xr_helper := Some (NewLazyTargetHelper (crc_BackupTarget (crc_Spec job)))\<rparr>, no_result, None))"

text \<open>Waiting for three seconds has no other effect and is left out.\<close>

definition CreateObj_crdbcron :: "env \<Rightarrow> CockroachDBBackupCronJobReco \<Rightarrow> (CockroachDBBackupCronJobReco \<times> Result \<times> error option) go" where
  "CreateObj_crdbcron E r =
     (let backoff = (\<lambda>r. backoff_creation E (GetCR_crdbcron r) r); spec = crc_Spec (xr_cr r); name = m_Name (crc_meta (xr_cr r)) in
      if crcs_ScheduleId (crc_Status (xr_cr r)) \<noteq> 0 then ret (r, no_result, None)
      else if crc_Suspend spec then backoff r
      else
        bind_io (GetPgConnection_crdb E r) (\<lambda>(r, x). case x of
          Inl err \<Rightarrow> backoff r
        | Inr pgConn \<Rightarrow>
            bind_io (GetDbName_crdb E r) (\<lambda>(r, x). case x of
              Inl err \<Rightarrow> backoff r
            | Inr dbName \<Rightarrow>
                bind_io (GetBucketStorageInfo_crdb E r) (\<lambda>(r, x). case x of
                  Inl err \<Rightarrow> backoff r
                | Inr bucketStorageInfo \<Rightarrow>
                    bind_io (CreateBackupSchedule E pgConn dbName bucketStorageInfo name (crc_Interval spec) True (crc_IgnoreExistingBackups spec))
                      (\<lambda>(pgConn, x). case x of
                         Inl err \<Rightarrow> backoff r
                       | Inr arrayMap \<Rightarrow>
                           bind_io (if length arrayMap = 0 then GetBackupScheduleByLabel E pgConn name else ret (pgConn, Inr (arrayMap ! 0)))
                             (\<lambda>(pgConn, x). case x of
                                Inl err \<Rightarrow> backoff r
                              | Inr scheduleMap \<Rightarrow>
                                  bind_io (scheduleMapToJobStatus E scheduleMap) (\<lambda>x. case x of
                                    Inl err \<Rightarrow> backoff r
                                  | Inr scheduleStatus \<Rightarrow>
                                      bind_io (UpdateStatus_crdbcron E r pgConn (crcs_ScheduleId scheduleStatus)) (\<lambda>(r, pgConn, err).
                                        if err \<noteq> None then backoff r else ret (r, no_result, None))))))))) "

text \<open>The last part of \<^verbatim>\<open>EnsureCorrect\<close>: pause or resume the schedule; an error is only logged.\<close>

definition suspend_or_resume :: "env \<Rightarrow> CockroachDBBackupCronJobReco \<Rightarrow> SqlConnection \<Rightarrow> CockroachDBBackupCronJobStatus
    \<Rightarrow> (CockroachDBBackupCronJobReco \<times> Result \<times> error option) go" where
  "suspend_or_resume E r pgConn scheduleStatus =
     (let scheduleId = crcs_ScheduleId (crc_Status (xr_cr r)) in
      bind_io
        (if crc_Suspend (crc_Spec (xr_cr r)) then
           (if crcs_ScheduleStatus scheduleStatus \<noteq> ''PAUSED'' then PauseSchedule E pgConn scheduleId else ret (pgConn, None))
         else
           (if crcs_ScheduleStatus scheduleStatus \<noteq> ''ACTIVE'' \<and> crcs_State scheduleStatus = None then ResumeSchedule E pgConn scheduleId
            else ret (pgConn, None)))
        (\<lambda>_. ret (r, no_result, None)))"

text \<open>Its middle part: read the schedule again and compare its status.\<close>

definition check_schedule :: "env \<Rightarrow> CockroachDBBackupCronJobReco \<Rightarrow> SqlConnection \<Rightarrow> (CockroachDBBackupCronJobReco \<times> Result \<times> error option) go" where
  "check_schedule E r pgConn =
     bind_io (GetBackupScheduleById E pgConn (crcs_ScheduleId (crc_Status (xr_cr r)))) (\<lambda>(pgConn, x). case x of
       Inl err \<Rightarrow> backoff_creation E (GetCR_crdbcron r) r
     | Inr scheduleMap \<Rightarrow>
         bind_io (scheduleMapToJobStatus E scheduleMap) (\<lambda>x. case x of
           Inl err \<Rightarrow> backoff_creation E (GetCR_crdbcron r) r
         | Inr scheduleStatus \<Rightarrow> suspend_or_resume E r pgConn scheduleStatus))"

text \<open>
  Its first part, once the statement is known: a schedule with another statement is dropped and created
  again.  The result of \<^verbatim>\<open>CreateObj\<close> is dropped; its error is always nil.
\<close>

definition renew_schedule :: "env \<Rightarrow> CockroachDBBackupCronJobReco \<Rightarrow> SqlConnection \<Rightarrow> string \<Rightarrow> (CockroachDBBackupCronJobReco \<times> Result \<times> error option) go" where
  "renew_schedule E r pgConn statement =
     (case crcs_Command (crc_Status (xr_cr r)) of
        None \<Rightarrow> panic ''nil pointer dereference''
      | Some command \<Rightarrow>
          if statement \<noteq> command @ '';'' then
            bind_io (DropBackupSchedule E pgConn (crcs_ScheduleId (crc_Status (xr_cr r)))) (\<lambda>(pgConn, err).
              if err \<noteq> None then backoff_creation E (GetCR_crdbcron r) r
              else
                (let r = r\<lparr>xr_cr := (xr_cr r)\<lparr>crc_Status := (crc_Status (xr_cr r))\<lparr>crcs_ScheduleId := 0\<rparr>\<rparr>\<rparr> in
                 bind_io (CreateObj_crdbcron E r) (\<lambda>(r, _, err).
                   if err \<noteq> None then backoff_creation E (GetCR_crdbcron r) r else check_schedule E r pgConn)))
          else check_schedule E r pgConn)"

definition EnsureCorrect_crdbcron :: "env \<Rightarrow> CockroachDBBackupCronJobReco \<Rightarrow> (CockroachDBBackupCronJobReco \<times> Result \<times> error option) go" where
  "EnsureCorrect_crdbcron E r =
     (let backoff = (\<lambda>r. backoff_creation E (GetCR_crdbcron r) r) in
      bind_io (GetPgConnection_crdb E r) (\<lambda>(r, x). case x of
        Inl err \<Rightarrow> backoff r
      | Inr pgConn \<Rightarrow>
          bind_io (GetBucketStorageInfo_crdb E r) (\<lambda>(r, x). case x of
            Inl err \<Rightarrow> backoff r
          | Inr storageInfo \<Rightarrow>
              bind_io (GetDbName_crdb E r) (\<lambda>(r, x). case x of
                Inl err \<Rightarrow> backoff r
              | Inr dbName \<Rightarrow>
                  bind_io (ConstructBackupJobStatement E storageInfo dbName '''' True) (\<lambda>x. case x of
                    Inl err \<Rightarrow> backoff r
                  | Inr statement \<Rightarrow> renew_schedule E r pgConn statement)))))"

definition RemoveObj_crdbcron :: "env \<Rightarrow> CockroachDBBackupCronJobReco \<Rightarrow> (CockroachDBBackupCronJobReco \<times> Result \<times> error option) go" where
  "RemoveObj_crdbcron E r =
     (let scheduleId = crcs_ScheduleId (crc_Status (xr_cr r)) in
      if scheduleId \<noteq> 0 \<and> crc_DropOnDeletion (crc_Spec (xr_cr r)) then
        bind_io (GetPgConnection_crdb E r) (\<lambda>(r, x). case x of
          Inl err \<Rightarrow> backoff_deletion E (GetCR_crdbcron r) r
        | Inr pgConn \<Rightarrow>
            bind_io (DropBackupSchedule E pgConn scheduleId) (\<lambda>(pgConn, err).
              if err \<noteq> None then backoff_deletion E (GetCR_crdbcron r) r else ret (r, no_result, None)))
      else ret (r, no_result, None))"

definition crdbcron_rcl :: "env \<Rightarrow> CockroachDBBackupCronJobReco Reconcilable" where
  "crdbcron_rcl E =
     \<lparr>rc_CreateObj = CreateObj_crdbcron E, rc_RemoveObj = RemoveObj_crdbcron E, rc_LoadCR = LoadCR_crdbcron E,
      rc_LoadObj = LoadObj_crdbcron E, rc_EnsureCorrect = EnsureCorrect_crdbcron E, rc_GetCR = GetCR_crdbcron,
      rc_PutCR = PutCR_crdbcron, rc_CleanupConn = CleanupConn_crdb E\<rparr>"

definition zero_crdbcron :: CockroachDBBackupCronJob where
  "zero_crdbcron =
     \<lparr>crc_meta = zero_meta,
      crc_Spec = \<lparr>crc_Interval = '''', crc_Suspend = False, crc_BackupTarget = '''', crc_IgnoreExistingBackups = False, crc_DropOnDeletion = False\<rparr>,
      crc_Status = \<lparr>crcs_ScheduleId = 0, crcs_ScheduleStatus = '''', crcs_State = None, crcs_Command = None, crcs_Created = zero_time\<rparr>\<rparr>"

definition Reconcile_crdbcron :: "env \<Rightarrow> NamespacedName \<Rightarrow> Result go" where
  "Reconcile_crdbcron E req = Reconcile E (crdbcron_rcl E) \<lparr>xr_NsNm = req, xr_cr = zero_crdbcron, xr_helper = None\<rparr>"

subsection \<open>What the operations send\<close>

text \<open>The events that every step may cause: opening connections, reading and writing the status.\<close>

definition show_query :: "string \<Rightarrow> bool" where
  "show_query q \<longleftrightarrow> prefix ''WITH x as (SHOW '' q"

fun crdb_common :: "event \<Rightarrow> bool" where
  "crdb_common (SqlQuery _ q _) \<longleftrightarrow> show_query q"
| "crdb_common (K8sGet _ _) \<longleftrightarrow> True"
| "crdb_common (K8sList _) \<longleftrightarrow> True"
| "crdb_common (K8sStatusUpdate _) \<longleftrightarrow> True"
| "crdb_common ev \<longleftrightarrow> is_open ev"

definition admits :: "(event \<Rightarrow> bool) \<Rightarrow> bool" where
  "admits P \<longleftrightarrow> (\<forall>ev. crdb_common ev \<longrightarrow> P ev)"

lemma admitsD:
  assumes "admits P"
  shows "P (K8sGet kd n)" "P (K8sList kd)" "P (K8sStatusUpdate ob)" "show_query q \<Longrightarrow> P (SqlQuery c q args)" "is_open ev \<Longrightarrow> P ev"
  using assms by (auto simp: admits_def elim: is_open.elims)

lemma emits_on_helper: "(\<And>t. emits P (m t)) \<Longrightarrow> emits P (on_helper r m)"
  unfolding on_helper_def by (intro emits_intro)

lemma emits_on_helper_bind:
  assumes "\<And>t. emits P (m t)" "\<And>t x. emits P (f (r\<lparr>xr_helper := Some t\<rparr>) x)"
  shows "emits P (bind_io (on_helper r m) (\<lambda>(r, x). f r x))"
proof (rule emits_bind_run [OF emits_on_helper [OF assms(1)]])
  fix g y g'
  assume "on_helper r m g = (Return y, g')"
  then obtain t x where "y = (r\<lparr>xr_helper := Some t\<rparr>, x)"
    by (auto simp: on_helper_def run split: option.splits prod.splits outcome.splits)
  then show "emits P (case y of (r, x) \<Rightarrow> f r x)" using assms(2) by simp
qed

lemma emits_helper_bind:
  assumes P: "admits P"
  shows "(\<And>t x. emits P (f1 (r\<lparr>xr_helper := Some t\<rparr>) x)) \<Longrightarrow> emits P (bind_io (GetPgConnection_crdb E r) (\<lambda>(r, x). f1 r x))"
    "(\<And>t x. emits P (f2 (r\<lparr>xr_helper := Some t\<rparr>) x)) \<Longrightarrow> emits P (bind_io (GetDbName_crdb E r) (\<lambda>(r, x). f2 r x))"
    "(\<And>t x. emits P (f3 (r\<lparr>xr_helper := Some t\<rparr>) x)) \<Longrightarrow> emits P (bind_io (GetBucketStorageInfo_crdb E r) (\<lambda>(r, x). f3 r x))"
proof -
  note get = admitsD(1) [OF P] and list = admitsD(2) [OF P]
  have "emits P (backup_type_and_location E n h)" "emits P (backup_db_helper E n h)" for n h
    by (intro emits_closures get)+
  note target = emits_targets [OF get list this]
  show "(\<And>t x. emits P (f1 (r\<lparr>xr_helper := Some t\<rparr>) x)) \<Longrightarrow> emits P (bind_io (GetPgConnection_crdb E r) (\<lambda>(r, x). f1 r x))"
    unfolding GetPgConnection_crdb_def by (intro emits_on_helper_bind target)
  show "(\<And>t x. emits P (f2 (r\<lparr>xr_helper := Some t\<rparr>) x)) \<Longrightarrow> emits P (bind_io (GetDbName_crdb E r) (\<lambda>(r, x). f2 r x))"
    unfolding GetDbName_crdb_def by (intro emits_on_helper_bind emits_closures get)
  show "(\<And>t x. emits P (f3 (r\<lparr>xr_helper := Some t\<rparr>) x)) \<Longrightarrow> emits P (bind_io (GetBucketStorageInfo_crdb E r) (\<lambda>(r, x). f3 r x))"
    unfolding GetBucketStorageInfo_crdb_def by (intro emits_on_helper_bind target)
qed

lemma emits_SelectToArrayMap: "(\<And>c. P (SqlQuery c q args)) \<Longrightarrow> emits P (SelectToArrayMap E c q args)"
  unfolding SelectToArrayMap_def by (intro emits_intro)

lemma emits_crdb_reads:
  assumes P: "admits P"
  shows "emits P (GetBackupJobById E p i)" "emits P (GetBackupScheduleById E p i)" "emits P (GetBackupScheduleByLabel E p l)"
  unfolding GetBackupJobById_def GetBackupScheduleById_def GetBackupScheduleByLabel_def
  by ((rule emits_on_pg, erule admitsD(5) [OF P]), (intro emits_intro emits_SelectToArrayMap admitsD(4) [OF P]), simp add: show_query_def)+

lemma emits_getBucketString:
  assumes P: "admits P"
  shows "emits P (getBucketString E bi b)"
  unfolding getBucketString_def by (intro emits_intro admitsD(1) [OF P])

lemma emits_ConstructBackup: "admits P \<Longrightarrow> emits P (ConstructBackupJobStatement E bi d o' b)"
  unfolding ConstructBackupJobStatement_def by (intro emits_intro emits_getBucketString)

lemma emits_schedule_exec:
  assumes P: "admits P"
  shows "(\<And>c. P (SqlExec c (''PAUSE SCHEDULE '' @ Itoa i) [])) \<Longrightarrow> emits P (PauseSchedule E p i)"
    "(\<And>c. P (SqlExec c (''RESUME SCHEDULE '' @ Itoa i) [])) \<Longrightarrow> emits P (ResumeSchedule E p i)"
    "(\<And>c. P (SqlExec c (''DROP SCHEDULE '' @ Itoa i) [])) \<Longrightarrow> emits P (DropBackupSchedule E p i)"
  unfolding PauseSchedule_def ResumeSchedule_def DropBackupSchedule_def
  by (rule emits_on_pg, erule admitsD(5) [OF P], intro emits_intro, blast)+

lemma emits_CreateBackupJob:
  assumes P: "admits P" and q: "\<And>c q. prefix ''BACKUP DATABASE '' q \<Longrightarrow> P (SqlQuery c q [])"
  shows "emits P (CreateBackupJob E p d bi)"
proof -
  have construct: "yields (\<lambda>x. \<forall>s. x = Inr s \<longrightarrow> prefix ''BACKUP DATABASE '' s) (ConstructBackupJobStatement E bi d o' b)" for o' b
    unfolding ConstructBackupJobStatement_def by (intro yields_intro) auto
  show ?thesis
    unfolding CreateBackupJob_def SelectFirstValueInt64_def
    by (rule emits_on_pg, erule admitsD(5) [OF P], rule emits_keep, rule emits_try_run)
      (auto intro!: emits_ConstructBackup P emits_intro q dest!: yieldsD [OF construct])
qed

lemma emits_CreateBackupSchedule:
  assumes P: "admits P" and q: "\<And>c q. prefix ''CREATE SCHEDULE '' q \<Longrightarrow> P (SqlQuery c q [])"
  shows "emits P (CreateBackupSchedule E p d bi n s b i)"
  unfolding CreateBackupSchedule_def Let_def
  by (rule emits_on_pg, erule admitsD(5) [OF P], intro emits_intro emits_getBucketString P emits_SelectToArrayMap q) simp_all

lemma emits_asserts [emits_intro]: "emits P (assert_time v)" "emits P (assert_int64 v)" "emits P (assert_string v)" "emits P (assert_bytes v)"
  unfolding assert_time_def assert_int64_def assert_string_def assert_bytes_def
  by (auto intro!: emits_intro split: option.split gval.split)

lemma emits_if_set [emits_intro]: "(\<And>v. emits P (conv v)) \<Longrightarrow> emits P (if_set m key conv dflt)"
  unfolding if_set_def by (intro emits_intro)

lemma emits_status_maps [emits_intro]: "emits P (jobMapToJobStatus m)" "emits P (scheduleMapToJobStatus E m)"
  unfolding jobMapToJobStatus_def scheduleMapToJobStatus_def Let_def by (intro emits_intro)+

lemma emits_EnsureFinalizer_adds: "(\<And>ob. ContainsFinalizer ob \<Longrightarrow> P (K8sUpdate ob)) \<Longrightarrow> emits P (EnsureFinalizer E cr)"
  by (auto simp: EnsureFinalizer_def AddFinalizerToCr_def intro!: emits_intro)

lemma emits_SetStatus_crdbjob:
  assumes "\<And>ob. P (K8sStatusUpdate ob)" "\<And>ob. ContainsFinalizer ob \<Longrightarrow> P (K8sUpdate ob)"
  shows "emits P (SetStatus_crdbjob E r st)"
  unfolding SetStatus_crdbjob_def Let_def by (intro emits_intro emits_EnsureFinalizer_adds assms)

lemma emits_SetStatus_crdbcron: "(\<And>ob. P (K8sStatusUpdate ob)) \<Longrightarrow> emits P (SetStatus_crdbcron E r st)"
  unfolding SetStatus_crdbcron_def Let_def by (intro emits_intro)

lemma emits_UpdateStatus_crdbcron:
  assumes P: "admits P"
  shows "emits P (UpdateStatus_crdbcron E r p i)"
  unfolding UpdateStatus_crdbcron_def
  by (intro emits_intro emits_crdb_reads [OF P] emits_SetStatus_crdbcron admitsD(3) [OF P])

lemma emits_crdbjob:
  assumes P: "admits P" and fin: "\<And>ob. ContainsFinalizer ob \<Longrightarrow> P (K8sUpdate ob)"
  shows "emits P (LoadObj_crdbjob E r)"
    and "(\<And>c q. prefix ''BACKUP DATABASE '' q \<Longrightarrow> P (SqlQuery c q [])) \<Longrightarrow> emits P (CreateObj_crdbjob E r)"
proof -
  note st = admitsD(3) [OF P]
  show "emits P (LoadObj_crdbjob E r)"
    unfolding LoadObj_crdbjob_def
    by (intro emits_helper_bind [OF P] emits_intro emits_crdb_reads [OF P] emits_SetStatus_crdbjob st fin)
  assume q: "\<And>c q. prefix ''BACKUP DATABASE '' q \<Longrightarrow> P (SqlQuery c q [])"
  note create = emits_CreateBackupJob [OF P q]
  show "emits P (CreateObj_crdbjob E r)"
    unfolding CreateObj_crdbjob_def
    by (intro emits_helper_bind [OF P] emits_intro create emits_SetStatus_crdbjob st fin)
qed

lemma emits_LoadObj_crdbcron:
  assumes P: "admits P"
  shows "emits P (LoadObj_crdbcron E r)"
  unfolding LoadObj_crdbcron_def
  by (intro emits_helper_bind [OF P] emits_intro emits_UpdateStatus_crdbcron [OF P])

lemma emits_CreateObj_crdbcron:
  assumes P: "admits P" and q: "\<And>c q. \<not> crc_Suspend (crc_Spec (xr_cr r)) \<Longrightarrow> prefix ''CREATE SCHEDULE '' q \<Longrightarrow> P (SqlQuery c q [])"
  shows "emits P (CreateObj_crdbcron E r)"
proof -
  have create: "emits P (CreateBackupSchedule E p d bi n s b i)" if "\<not> crc_Suspend (crc_Spec (xr_cr r))" for p d bi n s b i
    by (rule emits_CreateBackupSchedule [OF P q [OF that]])
  show ?thesis
    unfolding CreateObj_crdbcron_def Let_def
    by (intro emits_helper_bind [OF P] emits_intro create emits_crdb_reads [OF P] emits_UpdateStatus_crdbcron [OF P])
qed

lemma emits_check_schedule:
  assumes P: "admits P"
    and pause: "\<And>c i. P (SqlExec c (''PAUSE SCHEDULE '' @ Itoa i) [])" and resume: "\<And>c i. P (SqlExec c (''RESUME SCHEDULE '' @ Itoa i) [])"
  shows "emits P (check_schedule E r p)"
  unfolding check_schedule_def suspend_or_resume_def Let_def
  by (intro emits_intro emits_crdb_reads [OF P] emits_schedule_exec(1,2) [OF P] pause resume)

lemma emits_EnsureCorrect_crdbcron:
  assumes P: "admits P"
    and pause: "\<And>c i. P (SqlExec c (''PAUSE SCHEDULE '' @ Itoa i) [])" and resume: "\<And>c i. P (SqlExec c (''RESUME SCHEDULE '' @ Itoa i) [])"
    and drop: "\<And>c i. P (SqlExec c (''DROP SCHEDULE '' @ Itoa i) [])"
    and create: "\<And>c q. \<not> crc_Suspend (crc_Spec (xr_cr r)) \<Longrightarrow> prefix ''CREATE SCHEDULE '' q \<Longrightarrow> P (SqlQuery c q [])"
  shows "emits P (EnsureCorrect_crdbcron E r)"
proof -
  have renew: "emits P (renew_schedule E r1 p s)" if "xr_cr r1 = xr_cr r" for r1 p s
  proof -
    have "emits P (CreateObj_crdbcron E (r1\<lparr>xr_cr := (xr_cr r1)\<lparr>crc_Status := st\<rparr>\<rparr>))" for st
      by (rule emits_CreateObj_crdbcron [OF P]) (simp add: create that)
    then show ?thesis
      unfolding renew_schedule_def Let_def
      by (intro emits_intro emits_schedule_exec(3) [OF P] emits_check_schedule [OF P] pause resume drop)
  qed
  show ?thesis
    unfolding EnsureCorrect_crdbcron_def Let_def
    by (intro emits_helper_bind [OF P] emits_case_sum emits_backoffs emits_bind [OF emits_ConstructBackup [OF P]] renew) simp
qed

lemma emits_RemoveObj_crdbcron:
  assumes P: "admits P"
    and drop: "\<And>c i. crc_DropOnDeletion (crc_Spec (xr_cr r)) \<Longrightarrow> i \<noteq> 0 \<Longrightarrow> P (SqlExec c (''DROP SCHEDULE '' @ Itoa i) [])"
  shows "emits P (RemoveObj_crdbcron E r)"
  unfolding RemoveObj_crdbcron_def Let_def
  by (intro emits_if emits_helper_bind [OF P] emits_intro emits_schedule_exec(3) [OF P] drop) simp_all

lemma emits_CleanupConn_crdb: "emits is_close (CleanupConn_crdb E r)"
  unfolding CleanupConn_crdb_def by (intro emits_intro emits_CleanupConn_target)

lemma emits_LoadCR_crdb:
  "P (K8sGet K_CockroachDBBackupJob (xr_NsNm j)) \<Longrightarrow> emits P (LoadCR_crdbjob E j)"
  "P (K8sGet K_CockroachDBBackupCronJob (xr_NsNm c)) \<Longrightarrow> emits P (LoadCR_crdbcron E c)"
  unfolding LoadCR_crdbjob_def LoadCR_crdbcron_def by (intro emits_intro; assumption)+

subsection \<open>The contract of the loop\<close>

definition keeps_mark :: "env \<Rightarrow> bool" where
  "keeps_mark E \<longleftrightarrow>
     (\<forall>h ob ob'. k8s_update E h ob = Inr ob' \<or> k8s_status_update E h ob = Inr ob' \<longrightarrow>
        m_DeletionTimestamp (obj_meta ob') = m_DeletionTimestamp (obj_meta ob))"

lemma crdbjob_rcl_sel [simp]:
  "rc_CreateObj (crdbjob_rcl E) = CreateObj_crdbjob E" "rc_RemoveObj (crdbjob_rcl E) = RemoveObj_crdbjob"
  "rc_LoadCR (crdbjob_rcl E) = LoadCR_crdbjob E" "rc_LoadObj (crdbjob_rcl E) = LoadObj_crdbjob E"
  "rc_EnsureCorrect (crdbjob_rcl E) = EnsureCorrect_crdbjob E" "rc_GetCR (crdbjob_rcl E) = GetCR_crdbjob"
  "rc_PutCR (crdbjob_rcl E) = PutCR_crdbjob" "rc_CleanupConn (crdbjob_rcl E) = CleanupConn_crdb E"
  by (simp_all add: crdbjob_rcl_def)

lemma crdbcron_rcl_sel [simp]:
  "rc_CreateObj (crdbcron_rcl E) = CreateObj_crdbcron E" "rc_RemoveObj (crdbcron_rcl E) = RemoveObj_crdbcron E"
  "rc_LoadCR (crdbcron_rcl E) = LoadCR_crdbcron E" "rc_LoadObj (crdbcron_rcl E) = LoadObj_crdbcron E"
  "rc_EnsureCorrect (crdbcron_rcl E) = EnsureCorrect_crdbcron E" "rc_GetCR (crdbcron_rcl E) = GetCR_crdbcron"
  "rc_PutCR (crdbcron_rcl E) = PutCR_crdbcron" "rc_CleanupConn (crdbcron_rcl E) = CleanupConn_crdb E"
  by (simp_all add: crdbcron_rcl_def)

lemma admits_protects: "admits protects"
  unfolding admits_def protects_def by auto

lemma yields_on_helper_bind:
  assumes "\<And>t x. yields Q (f (r\<lparr>xr_helper := Some t\<rparr>) x)"
  shows "yields Q (bind_io (on_helper r m) (\<lambda>(r, x). f r x))"
proof (rule yields_bind [where R = "\<lambda>y. \<exists>t x. y = (r\<lparr>xr_helper := Some t\<rparr>, x)"])
  show "yields (\<lambda>y. \<exists>t x. y = (r\<lparr>xr_helper := Some t\<rparr>, x)) (on_helper r m)"
    by (rule yieldsI) (auto simp: on_helper_def run split: option.splits prod.splits outcome.splits)
qed (auto simp: assms)

text \<open>The mark of deletion of the resource that a controller object holds.\<close>

abbreviation job_mark :: "CrdbBackubJobReco \<Rightarrow> int option" where
  "job_mark r \<equiv> m_DeletionTimestamp (crj_meta (xr_cr r))"

lemma EnsureFinalizer_mark:
  "keeps_mark E \<Longrightarrow> yields (\<lambda>(ob', res, err). m_DeletionTimestamp (obj_meta ob') = m_DeletionTimestamp (obj_meta ob)) (EnsureFinalizer E ob)"
  by (rule yieldsI)
    (auto simp: EnsureFinalizer_def AddFinalizerToCr_def Update_cr_def keeps_mark_def run split: if_splits sum.splits)

lemma PutCR_crdb_mark: "m_DeletionTimestamp (obj_meta ob) = job_mark j \<Longrightarrow> job_mark (PutCR_crdbjob ob j) = job_mark j"
  by (auto simp: PutCR_crdbjob_def split: k8s_obj.split)

lemma SetStatus_crdbjob_mark:
  assumes E: "keeps_mark E"
  shows "yields (\<lambda>(r', e). job_mark r' = job_mark r) (SetStatus_crdbjob E r st)"
proof -
  have step: "yields (\<lambda>(r', e). job_mark r' = job_mark r) (bind_io (EnsureFinalizer E (GetCR_crdbjob r1)) (\<lambda>(ob, res, err). ret (PutCR_crdbjob ob r1, err)))"
    if "job_mark r1 = job_mark r" for r1
    by (rule yields_bind [OF EnsureFinalizer_mark [OF E]])
      (auto simp: GetCR_crdbjob_def that PutCR_crdb_mark intro!: yields_ret)
  define r1 where "r1 = r\<lparr>xr_cr := (xr_cr r)\<lparr>crj_Status := st\<rparr>\<rparr>"
  have r1: "job_mark r1 = job_mark r" by (simp add: r1_def)
  have ob: "job_mark (PutCR_crdbjob ob r1) = job_mark r" if "k8s_status_update E h (GetCR_crdbjob r1) = Inr ob" for h ob
    using that E r1 by (subst PutCR_crdb_mark) (auto simp: keeps_mark_def GetCR_crdbjob_def)
  have "yields (\<lambda>(r', e). job_mark r' = job_mark r)
    (bind_io (call (K8sStatusUpdate (GetCR_crdbjob r1)) (\<lambda>h. k8s_status_update E h (GetCR_crdbjob r1))) (\<lambda>x. case x of
       Inl err \<Rightarrow> ret (r1, Some err)
     | Inr ob \<Rightarrow> bind_io (EnsureFinalizer E (GetCR_crdbjob (PutCR_crdbjob ob r1))) (\<lambda>(ob', res, err). ret (PutCR_crdbjob ob' (PutCR_crdbjob ob r1), err))))"
  proof (rule yields_bind [where R = "\<lambda>x. \<forall>ob. x = Inr ob \<longrightarrow> job_mark (PutCR_crdbjob ob r1) = job_mark r"], goal_cases)
    case 1
    show ?case by (auto simp: yields_def run ob)
  next
    case (2 x)
    then show ?case by (cases x) (auto intro!: yields_ret step simp: r1)
  qed
  then show ?thesis
    unfolding SetStatus_crdbjob_def Let_def r1_def [symmetric] by (intro yields_if yields_ret) simp_all
qed

text \<open>What a write of the status leaves alone in the resource of a schedule.\<close>

definition keeps_cron :: "env \<Rightarrow> (CockroachDBBackupCronJob \<Rightarrow> 'a) \<Rightarrow> bool" where
  "keeps_cron E f \<longleftrightarrow>
     (\<forall>c st. f (c\<lparr>crc_Status := st\<rparr>) = f c) \<and>
     (\<forall>h c c'. k8s_status_update E h (O_CockroachDBBackupCronJob c) = Inr (O_CockroachDBBackupCronJob c') \<longrightarrow> f c' = f c)"

lemma keeps_mark_cron: "keeps_mark E \<Longrightarrow> keeps_cron E (\<lambda>c. m_DeletionTimestamp (crc_meta c))"
  by (fastforce simp: keeps_mark_def keeps_cron_def)

lemma SetStatus_crdbcron_keeps:
  "keeps_cron E f \<Longrightarrow> yields (\<lambda>(r', e). f (xr_cr r') = f (xr_cr r)) (SetStatus_crdbcron E r st)"
  by (rule yieldsI)
    (auto simp: SetStatus_crdbcron_def PutCR_crdbcron_def GetCR_crdbcron_def keeps_cron_def Let_def run
      split: if_splits sum.splits k8s_obj.splits)

lemma LoadObj_crdbjob_mark:
  assumes E: "keeps_mark E"
  shows "yields (\<lambda>(r', x). job_mark r' = job_mark r) (LoadObj_crdbjob E r)"
proof -
  have step: "yields (\<lambda>(r', x). job_mark r' = job_mark r) (bind_io (SetStatus_crdbjob E r1 st) (\<lambda>(r, err). case err of Some e \<Rightarrow> ret (r, Inl e) | None \<Rightarrow> ret (r, Inr True)))"
    if "job_mark r1 = job_mark r" for r1 st
    by (rule yields_bind [OF SetStatus_crdbjob_mark [OF E]]) (auto simp: that intro!: yields_intro)
  show ?thesis
    unfolding LoadObj_crdbjob_def GetPgConnection_crdb_def
    by (intro step yields_if yields_ret yields_on_helper_bind yields_case_sum yields_bind_any yields_case_prod yields_case_option) simp_all
qed

lemma UpdateStatus_crdbcron_keeps:
  assumes E: "keeps_cron E f"
  shows "yields (\<lambda>(r', p, e). f (xr_cr r') = f (xr_cr r)) (UpdateStatus_crdbcron E r p i)"
proof -
  have step: "yields (\<lambda>(r', p, e). f (xr_cr r') = f (xr_cr r)) (bind_io (SetStatus_crdbcron E r st) (\<lambda>(r, err). ret (r, p, err)))" for st p
    by (rule yields_bind [OF SetStatus_crdbcron_keeps [OF E]]) (auto intro!: yields_intro)
  show ?thesis
    unfolding UpdateStatus_crdbcron_def by (intro step yields_ret yields_case_sum yields_bind_any yields_case_prod) simp_all
qed

lemma LoadObj_crdbcron_keeps:
  assumes E: "keeps_cron E f"
  shows "yields (\<lambda>(r', x). f (xr_cr r') = f (xr_cr r)) (LoadObj_crdbcron E r)"
proof -
  have "yields (\<lambda>(r', x). f (xr_cr r') = f (xr_cr r))
      (bind_io (UpdateStatus_crdbcron E r1 p i) (\<lambda>(r, pgConn, err). case err of Some e \<Rightarrow> ret (r, Inl e) | None \<Rightarrow> ret (r, Inr True)))"
    if "f (xr_cr r1) = f (xr_cr r)" for r1 p i
    by (rule yields_bind [OF UpdateStatus_crdbcron_keeps [OF E]]) (auto simp: that intro!: yields_intro)
  then show ?thesis
    unfolding LoadObj_crdbcron_def GetPgConnection_crdb_def
    by (intro yields_if yields_ret yields_on_helper_bind yields_case_sum) simp_all
qed

lemma RemoveObj_crdbcron_keeps: "yields (\<lambda>(r', x). f (xr_cr r') = f (xr_cr r)) (RemoveObj_crdbcron E r)"
  unfolding RemoveObj_crdbcron_def GetPgConnection_crdb_def Let_def
  by (intro yields_if yields_ret yields_on_helper_bind yields_case_sum yields_bind_any yields_case_prod yields_backoffs) simp_all

lemma admits_no_update: "admits (\<lambda>ev. \<not> is_update ev)"
proof -
  have "crdb_common ev \<Longrightarrow> \<not> is_update ev" for ev by (cases ev) auto
  then show ?thesis by (simp add: admits_def)
qed

lemma protects_other: "protects (SqlQuery c q a)" "protects (SqlExec c q a)" "protects (K8sGet kd n)"
  by (simp_all add: protects_def)

lemma close_protects: "is_close ev \<Longrightarrow> protects ev"
  by (cases ev) (auto simp: protects_def)

lemma crdbjob_reconcilable:
  assumes E: "keeps_mark E"
  shows "reconcilable (crdbjob_rcl E)"
proof
  fix s h s' r h' res err fs
  note P = admits_protects
  have fin: "ContainsFinalizer ob \<Longrightarrow> protects (K8sUpdate ob)" for ob by (simp add: protects_def)
  show "emits protects (rc_LoadCR (crdbjob_rcl E) s)" by (simp add: emits_LoadCR_crdb protects_other)
  show "emits protects (rc_LoadObj (crdbjob_rcl E) s)" using emits_crdbjob(1) [OF P fin] by simp
  show "emits protects (rc_CreateObj (crdbjob_rcl E) s)" using emits_crdbjob(2) [OF P fin] by (simp add: protects_other)
  show "emits (\<lambda>ev. \<not> is_update ev) (rc_RemoveObj (crdbjob_rcl E) s)" by (simp add: RemoveObj_crdbjob_def emits_ret)
  show "emits protects (rc_EnsureCorrect (crdbjob_rcl E) s)" unfolding crdbjob_rcl_sel EnsureCorrect_crdbjob_def by (intro emits_intro)
  show "emits protects (rc_CleanupConn (crdbjob_rcl E) s)" unfolding crdbjob_rcl_sel by (rule emits_mono [OF emits_CleanupConn_crdb close_protects])
  show "rc_LoadObj (crdbjob_rcl E) s h = (Return (s', r), h') \<Longrightarrow> markedToBeDeleted (rc_GetCR (crdbjob_rcl E) s) \<Longrightarrow> markedToBeDeleted (rc_GetCR (crdbjob_rcl E) s')"
    by (auto simp: markedToBeDeleted_def GetCR_crdbjob_def dest!: yieldsD [OF LoadObj_crdbjob_mark [OF E]])
  show "rc_RemoveObj (crdbjob_rcl E) s h = (Return (s', res, err), h') \<Longrightarrow> markedToBeDeleted (rc_GetCR (crdbjob_rcl E) s) \<Longrightarrow> markedToBeDeleted (rc_GetCR (crdbjob_rcl E) s')"
    by (simp add: RemoveObj_crdbjob_def run)
  show "rc_GetCR (crdbjob_rcl E) (rc_PutCR (crdbjob_rcl E) (set_finalizers fs (rc_GetCR (crdbjob_rcl E) s)) s) = set_finalizers fs (rc_GetCR (crdbjob_rcl E) s)"
    by (simp add: GetCR_crdbjob_def PutCR_crdbjob_def set_finalizers_def)
qed

lemma crdbcron_reconcilable:
  assumes E: "keeps_mark E"
  shows "reconcilable (crdbcron_rcl E)"
proof
  fix s h s' r h' res err fs
  note P = admits_protects
  show "emits protects (rc_LoadCR (crdbcron_rcl E) s)" by (simp add: emits_LoadCR_crdb protects_other)
  show "emits protects (rc_LoadObj (crdbcron_rcl E) s)" using emits_LoadObj_crdbcron [OF P] by simp
  show "emits protects (rc_CreateObj (crdbcron_rcl E) s)" using emits_CreateObj_crdbcron [OF P] by (simp add: protects_other)
  show "emits (\<lambda>ev. \<not> is_update ev) (rc_RemoveObj (crdbcron_rcl E) s)" using emits_RemoveObj_crdbcron [OF admits_no_update] by simp
  show "emits protects (rc_EnsureCorrect (crdbcron_rcl E) s)" using emits_EnsureCorrect_crdbcron [OF P] by (simp add: protects_other)
  show "emits protects (rc_CleanupConn (crdbcron_rcl E) s)" unfolding crdbcron_rcl_sel by (rule emits_mono [OF emits_CleanupConn_crdb close_protects])
  show "rc_LoadObj (crdbcron_rcl E) s h = (Return (s', r), h') \<Longrightarrow> markedToBeDeleted (rc_GetCR (crdbcron_rcl E) s) \<Longrightarrow> markedToBeDeleted (rc_GetCR (crdbcron_rcl E) s')"
    by (auto simp: markedToBeDeleted_def GetCR_crdbcron_def dest!: yieldsD [OF LoadObj_crdbcron_keeps [OF keeps_mark_cron [OF E]]])
  show "rc_RemoveObj (crdbcron_rcl E) s h = (Return (s', res, err), h') \<Longrightarrow> markedToBeDeleted (rc_GetCR (crdbcron_rcl E) s) \<Longrightarrow> markedToBeDeleted (rc_GetCR (crdbcron_rcl E) s')"
    by (auto simp: markedToBeDeleted_def GetCR_crdbcron_def dest!: yieldsD [OF RemoveObj_crdbcron_keeps [where f = "\<lambda>c. m_DeletionTimestamp (crc_meta c)"]])
  show "rc_GetCR (crdbcron_rcl E) (rc_PutCR (crdbcron_rcl E) (set_finalizers fs (rc_GetCR (crdbcron_rcl E) s)) s) = set_finalizers fs (rc_GetCR (crdbcron_rcl E) s)"
    by (simp add: GetCR_crdbcron_def PutCR_crdbcron_def set_finalizers_def)
qed

subsection \<open>What a reconciliation of a CockroachDB backup or schedule does\<close>

text \<open>No resource of a CockroachDB backup or schedule loses the operator's finalizer before it is
  marked for deletion, provided that the API server's answer to a write keeps the mark.\<close>

lemma Reconcile_crdb_protect:
  assumes "keeps_mark E"
  shows "emits protects (Reconcile_crdbjob E req) \<and> emits protects (Reconcile_crdbcron E req)"
  unfolding Reconcile_crdbjob_def Reconcile_crdbcron_def
  by (intro conjI reconcilable.Reconcile_protects [OF crdbjob_reconcilable [OF assms]] reconcilable.Reconcile_protects [OF crdbcron_reconcilable [OF assms]])

definition crdb_idle :: "event \<Rightarrow> bool" where
  "crdb_idle ev \<longleftrightarrow> crdb_common ev \<or> is_update ev \<or> is_close ev"

lemma admits_idle: "admits crdb_idle"
  by (simp add: admits_def crdb_idle_def)

lemma LoadObj_crdbjob_absent:
  assumes "LoadObj_crdbjob E r h = (Return (r', Inr False), h')"
  shows "xr_cr r' = xr_cr r"
proof -
  have "yields (\<lambda>(r', x). x = Inr False \<longrightarrow> xr_cr r' = xr_cr r) (LoadObj_crdbjob E r)"
    unfolding LoadObj_crdbjob_def GetPgConnection_crdb_def
    by (intro yields_if yields_ret yields_on_helper_bind yields_case_sum yields_bind_any yields_case_prod yields_case_option) simp_all
  then show ?thesis using assms by (auto dest: yieldsD)
qed

text \<open>C19: a backup is started at most once for a resource: once the number of the job is recorded in
  the status, no reconciliation runs a statement on the server, other than to show the jobs, whether that
  job is still listed or not.\<close>

theorem Reconcile_crdbjob_started_once:
  assumes "\<And>h cr. get_CockroachDBBackupJob_cr E h req = Inr cr \<Longrightarrow> crjs_JobId (crj_Status cr) \<noteq> 0"
  shows "emits crdb_idle (Reconcile_crdbjob E req)"
  unfolding Reconcile_crdbjob_def
proof (rule emits_Reconcile_branch [where I = "\<lambda>b r. crjs_JobId (crj_Status (xr_cr r)) \<noteq> 0"
        and J = "\<lambda>b x r. \<not> x \<longrightarrow> crjs_JobId (crj_Status (xr_cr r)) \<noteq> 0"], goal_cases)
  case 1
  show ?case by (simp add: emits_LoadCR_crdb crdb_idle_def)
next
  case (2 h s res h')
  then show ?case
    by (auto simp: LoadCR_crdbjob_def backoff_creation_def LogAndBackoffCreation_def run dest: assms split: sum.splits)
next
  case (3 b s)
  show ?case unfolding crdbjob_rcl_sel by (rule emits_crdbjob(1) [OF admits_idle]) (simp add: crdb_idle_def)
next
  case (4 b s h s' x h')
  then show ?case by (cases x) (auto dest!: LoadObj_crdbjob_absent)
next
  case (5 s)
  show ?case by (simp add: RemoveObj_crdbjob_def emits_ret)
next
  case (6 s)
  then show ?case by (simp add: CreateObj_crdbjob_def emits_ret)
next
  case (7 s)
  show ?case unfolding crdbjob_rcl_sel EnsureCorrect_crdbjob_def by (intro emits_intro)
next
  case (8 ob)
  show ?case by (simp add: crdb_idle_def)
next
  case (9 s)
  show ?case unfolding crdbjob_rcl_sel by (rule emits_mono [OF emits_CleanupConn_crdb]) (simp add: crdb_idle_def)
qed

definition demo_crdbjob :: CockroachDBBackupJob where
  "demo_crdbjob = zero_crdbjob\<lparr>crj_Status := (crj_Status zero_crdbjob)\<lparr>crjs_JobId := 7\<rparr>\<rparr>"

theorem Reconcile_crdbjob_started_once_witness:
  "emits crdb_idle (Reconcile_crdbjob (open_env\<lparr>get_CockroachDBBackupJob_cr := \<lambda>_ _. Inr demo_crdbjob\<rparr>) demo_req)"
  by (rule Reconcile_crdbjob_started_once) (auto simp: demo_crdbjob_def)

definition crdbcron_may :: "CockroachDBBackupCronJob \<Rightarrow> event \<Rightarrow> bool" where
  "crdbcron_may cron ev \<longleftrightarrow>
     (case ev of
        SqlExec c q args \<Rightarrow>
          if markedToBeDeleted (O_CockroachDBBackupCronJob cron)
          then crc_DropOnDeletion (crc_Spec cron) \<and> prefix ''DROP SCHEDULE '' q
          else prefix ''DROP SCHEDULE '' q \<or> prefix ''PAUSE SCHEDULE '' q \<or> prefix ''RESUME SCHEDULE '' q
      | SqlQuery c q args \<Rightarrow>
          show_query q \<or>
          \<not> markedToBeDeleted (O_CockroachDBBackupCronJob cron) \<and> \<not> crc_Suspend (crc_Spec cron) \<and> prefix ''CREATE SCHEDULE '' q
      | _ \<Rightarrow> crdb_idle ev)"

lemma admits_cron: "admits (crdbcron_may cron)"
proof -
  have "crdb_common ev \<Longrightarrow> crdbcron_may cron ev" for ev by (cases ev) (auto simp: crdbcron_may_def crdb_idle_def)
  then show ?thesis by (simp add: admits_def)
qed

text \<open>C20: the statements that the reconciliation of a CockroachDB schedule runs: for a resource that is
  marked for deletion only \<^verbatim>\<open>DROP SCHEDULE\<close>, and only if its spec has \<^verbatim>\<open>DropOnDeletion\<close>;
  otherwise it may drop, pause and resume the schedule, and create it unless the spec suspends
  it.  Nothing else is written but the resource itself.\<close>

theorem Reconcile_crdbcron_statements:
  assumes E: "keeps_cron E (\<lambda>c. (crc_Spec c, m_DeletionTimestamp (crc_meta c)))"
    and cr: "\<And>h c. get_CockroachDBBackupCronJob_cr E h req = Inr c \<Longrightarrow> c = cron"
  shows "emits (crdbcron_may cron) (Reconcile_crdbcron E req)"
  unfolding Reconcile_crdbcron_def
proof (rule emits_Reconcile [where I = "\<lambda>b r. crc_Spec (xr_cr r) = crc_Spec cron \<and> b = markedToBeDeleted (O_CockroachDBBackupCronJob cron)"], goal_cases)
  case 1
  show ?case by (simp add: emits_LoadCR_crdb crdbcron_may_def crdb_idle_def)
next
  case (2 h s res h')
  then show ?case
    by (auto simp: LoadCR_crdbcron_def GetCR_crdbcron_def backoff_creation_def LogAndBackoffCreation_def run dest: cr split: sum.splits)
next
  case (3 b s)
  show ?case using emits_LoadObj_crdbcron [OF admits_cron] by simp
next
  case (4 b s h s' x h')
  then show ?case by (auto dest!: yieldsD [OF LoadObj_crdbcron_keeps [OF E]])
next
  case (5 s)
  then show ?case using emits_RemoveObj_crdbcron [OF admits_cron, where r = s] by (simp add: crdbcron_may_def)
next
  case (6 s)
  then show ?case using emits_CreateObj_crdbcron [OF admits_cron, where r = s] by (simp add: crdbcron_may_def)
next
  case (7 s)
  then show ?case using emits_EnsureCorrect_crdbcron [OF admits_cron, where r = s] by (simp add: crdbcron_may_def)
next
  case (8 ob)
  show ?case by (simp add: crdbcron_may_def crdb_idle_def)
next
  case (9 s)
  have "is_close ev \<Longrightarrow> crdbcron_may cron ev" for ev by (cases ev) (auto simp: crdbcron_may_def crdb_idle_def)
  then show ?case unfolding crdbcron_rcl_sel by (rule emits_mono [OF emits_CleanupConn_crdb])
qed

definition demo_crdbcron :: "bool \<Rightarrow> CockroachDBBackupCronJob" where
  "demo_crdbcron suspend =
     zero_crdbcron\<lparr>crc_meta := new_meta ''nightly'' ''ns'' [], crc_Spec := (crc_Spec zero_crdbcron)\<lparr>crc_Suspend := suspend\<rparr>,
       crc_Status := (crc_Status zero_crdbcron)\<lparr>crcs_ScheduleId := 7, crcs_Command := Some ''BACKUP''\<rparr>\<rparr>"

theorem Reconcile_crdbcron_statements_witness:
  "emits (crdbcron_may (demo_crdbcron True))
     (Reconcile_crdbcron (null_env\<lparr>get_CockroachDBBackupCronJob_cr := \<lambda>_ _. Inr (demo_crdbcron True), k8s_status_update := \<lambda>_ ob. Inr ob\<rparr>) demo_req)"
  by (rule Reconcile_crdbcron_statements) (auto simp: keeps_cron_def)

subsection \<open>When a schedule is renewed\<close>

definition adjusts :: "event \<Rightarrow> bool" where
  "adjusts ev \<longleftrightarrow> crdb_common ev \<or> exec_of ''PAUSE SCHEDULE '' ev \<or> exec_of ''RESUME SCHEDULE '' ev"

text \<open>C21: a schedule whose recorded statement is the one that the resource asks for is neither dropped nor
  created again: apart from reading, it is at most paused or resumed.\<close>

theorem renew_schedule_keeps_matching:
  assumes "crcs_Command (crc_Status (xr_cr r)) = Some command"
  shows "emits adjusts (renew_schedule E r p (command @ '';''))"
proof -
  have "admits adjusts" by (simp add: admits_def adjusts_def)
  then have "emits adjusts (check_schedule E r p)"
    by (rule emits_check_schedule) (simp_all add: adjusts_def exec_of_def)
  then show ?thesis using assms by (simp add: renew_schedule_def)
qed

definition demo_cron_xr :: CockroachDBBackupCronJobReco where
  "demo_cron_xr = \<lparr>xr_NsNm = demo_req, xr_cr = demo_crdbcron True, xr_helper = None\<rparr>"

lemma demo_cron_xr_sel:
  "crcs_Command (crc_Status (xr_cr demo_cron_xr)) = Some ''BACKUP''" "crcs_ScheduleId (crc_Status (xr_cr demo_cron_xr)) = 7"
  "crc_Suspend (crc_Spec (xr_cr demo_cron_xr))"
  by (simp_all add: demo_cron_xr_def demo_crdbcron_def)

theorem renew_schedule_keeps_matching_witness: "emits adjusts (renew_schedule open_env demo_cron_xr demo_pg (''BACKUP'' @ '';''))"
  by (rule renew_schedule_keeps_matching) (rule demo_cron_xr_sel)

text \<open>C40: a suspended schedule is lost when its statement changes: it is dropped, and because a
  suspended schedule is never created, none takes its place.\<close>

theorem renew_schedule_suspended_is_lost:
  assumes "crcs_Command (crc_Status (xr_cr r)) = Some command" "statement \<noteq> command @ '';''" "crc_Suspend (crc_Spec (xr_cr r))"
    and drop: "DropBackupSchedule E p (crcs_ScheduleId (crc_Status (xr_cr r))) h = (Return (p', None), h1)"
  shows "\<exists>g c out es. h1 = g @ [SqlExec c (''DROP SCHEDULE '' @ Itoa (crcs_ScheduleId (crc_Status (xr_cr r)))) []] \<and>
    renew_schedule E r p statement h = (out, h1 @ es) \<and> list_all adjusts es"
proof -
  let ?r = "r\<lparr>xr_cr := (xr_cr r)\<lparr>crc_Status := (crc_Status (xr_cr r))\<lparr>crcs_ScheduleId := 0\<rparr>\<rparr>\<rparr>"
  let ?rest = "bind_io (CreateObj_crdbcron E ?r) (\<lambda>(r, _, err). if err \<noteq> None then backoff_creation E (GetCR_crdbcron r) r else check_schedule E r p')"
  have P: "admits adjusts" by (simp add: admits_def adjusts_def)
  have "emits adjusts (CreateObj_crdbcron E ?r)"
    by (rule emits_CreateObj_crdbcron [OF P]) (simp add: assms)
  then have "emits adjusts ?rest"
    by (intro emits_intro emits_check_schedule [OF P]) (simp_all add: adjusts_def exec_of_def)
  then obtain es where es: "snd (?rest h1) = h1 @ es" "list_all adjusts es" by (rule emitsE)
  have "renew_schedule E r p statement h = ?rest h1"
    using assms by (simp add: renew_schedule_def run_bind Let_def)
  with es(1) have "renew_schedule E r p statement h = (fst (?rest h1), h1 @ es)" by (simp add: prod_eq_iff)
  moreover have "\<exists>g c. h1 = g @ [SqlExec c (''DROP SCHEDULE '' @ Itoa (crcs_ScheduleId (crc_Status (xr_cr r)))) []]"
    using drop by (auto simp: DropBackupSchedule_def on_conn_run keep_def run split: prod.splits outcome.splits sum.splits)
  ultimately show ?thesis using es(2) by blast
qed

lemma demo_drop_schedule: "\<exists>p' h1. DropBackupSchedule open_env demo_pg 7 [] = (Return (p', None), h1)"
  by (simp add: DropBackupSchedule_def on_demo_conn keep_def run)

theorem renew_schedule_suspended_is_lost_witness:
  "\<exists>h1 g c out es. h1 = g @ [SqlExec c (''DROP SCHEDULE '' @ Itoa 7) []] \<and>
     renew_schedule open_env demo_cron_xr demo_pg ''BACKUP DATABASE;'' [] = (out, h1 @ es) \<and> list_all adjusts es"
proof -
  obtain p' h1 where drop: "DropBackupSchedule open_env demo_pg (crcs_ScheduleId (crc_Status (xr_cr demo_cron_xr))) [] = (Return (p', None), h1)"
    using demo_drop_schedule demo_cron_xr_sel by auto
  have "''BACKUP DATABASE;'' \<noteq> ''BACKUP'' @ '';''" by simp
  note renew_schedule_suspended_is_lost [OF demo_cron_xr_sel(1) this demo_cron_xr_sel(3) drop]
  then show ?thesis unfolding demo_cron_xr_sel(2) by (rule exI [of _ h1])
qed

end
