(* ===== verification/Pacing.thy ===== *)
theory Pacing
  imports DbServerController SchemaController UserController DbController CrdbControllers
begin

section \<open>How soon a request is queued again\<close>

text \<open>
  A reconciliation ends with a \<^verbatim>\<open>ctrl.Result\<close>: the request is done, or it is queued again after some
  time.  The loop of \<^verbatim>\<open>controllers/reconcilable.go\<close> passes on what the operations of a controller
  return, so what can be said of the result of a controller rests on what its operations
  return.  The contract is the locale \<open>paced_controller\<close>, which every controller meets.
\<close>

definition paced :: "Result \<Rightarrow> bool" where
  "paced res \<longleftrightarrow> res = no_result \<or> Requeue res \<and> 1000000000 \<le> RequeueAfter res \<and> RequeueAfter res \<le> 300 * 1000000000"

definition paced_out :: "'s \<times> Result \<times> error option \<Rightarrow> bool" where
  "paced_out out \<longleftrightarrow> paced (fst (snd out))"

lemma paced_no_result [simp]: "paced no_result"
  by (simp add: paced_def)

lemma paced_RetryAfter_3 [simp]: "paced (RetryAfter 3)"
  by (simp add: paced_def RetryAfter_def)

lemma paced_out_simp [simp]: "paced_out (s, res, err) \<longleftrightarrow> paced res"
  by (simp add: paced_out_def)

lemma yields_backoff: "yields paced (GradualBackoffRetry E t)"
  by (rule yieldsI) (auto simp: run backoff_result_def paced_def)

subsection \<open>Rules for the operations\<close>

named_theorems paced_intro "introduction rules for the results of back-offs"

lemma paced_bind_backoff [paced_intro]:
  "(\<And>res. paced res \<Longrightarrow> yields Q (k res)) \<Longrightarrow> yields Q (bind_io (GradualBackoffRetry E t) k)"
  by (rule yields_bind [OF yields_backoff])

lemma paced_bind_creation [paced_intro]:
  "(\<And>res. paced res \<Longrightarrow> yields Q (k (res, None))) \<Longrightarrow> yields Q (bind_io (LogAndBackoffCreation E ob) k)"
  unfolding LogAndBackoffCreation_def
  by (rule yields_bind [of "\<lambda>(res, e). paced res \<and> e = None"]) (auto intro!: paced_bind_backoff yields_ret)

lemma paced_deletion: "yields paced (deletion_backoff E ob)"
  unfolding deletion_backoff_def by (intro yields_intro yields_backoff)

lemma paced_bind_deletion [paced_intro]:
  "(\<And>res. paced res \<Longrightarrow> yields Q (k (res, None))) \<Longrightarrow> yields Q (bind_io (LogAndBackoffDeletion E ob) k)"
  unfolding LogAndBackoffDeletion_def
  by (rule yields_bind [of "\<lambda>(res, e). paced res \<and> e = None"]) (auto intro!: yields_bind [OF paced_deletion] yields_ret)

lemma paced_backoff_jobs [paced_intro]:
  "(\<And>res. paced res \<Longrightarrow> Q (r, res, None)) \<Longrightarrow> yields Q (backoff_creation E ob r)"
  "(\<And>res. paced res \<Longrightarrow> Q (r, res, None)) \<Longrightarrow> yields Q (backoff_deletion E ob r)"
  unfolding backoff_creation_def backoff_deletion_def
  by (auto intro!: paced_bind_creation paced_bind_deletion yields_ret)

subsection \<open>The contract and the loop\<close>

locale paced_controller =
  fixes rcl :: "'s Reconcilable"
  assumes load_cr_paced: "yields paced_out (rc_LoadCR rcl s)"
    and create_paced: "yields paced_out (rc_CreateObj rcl s)"
    and ensure_paced: "yields paced_out (rc_EnsureCorrect rcl s)"
    and remove_paced: "yields paced_out (rc_RemoveObj rcl s)"
begin

lemma finalizer_paced: "yields paced_out (on_cr rcl (EnsureFinalizer E) s)"
  unfolding on_cr_def
  by (rule yields_bind [of "\<lambda>(cr, res, err). res = no_result"]) (auto simp: EnsureFinalizer_def Let_def intro!: yields_intro)

lemma reconcile_obj_paced: "yields paced_out (reconcile_obj E rcl exists marked s)"
proof -
  have removed: "yields paced_out (bind_io (rc_RemoveObj rcl s) (\<lambda>(s, res, err).
      if err = None \<and> \<not> Requeue res then bind_io (on_cr rcl (RemoveFinalizer E) s) (\<lambda>(s, err). ret (s, res, err)) else ret (s, res, err)))"
    by (rule yields_bind [OF remove_paced]) (auto intro!: yields_intro)
  have kept: "yields paced_out (bind_io (rc_EnsureCorrect rcl s) (\<lambda>(s, res, err).
      if err = None \<and> \<not> Requeue res
      then bind_io (on_cr rcl (EnsureFinalizer E) s) (\<lambda>(s, res, err). if err \<noteq> None then ret (s, RetryAfter 3, None) else ret (s, res, err))
      else ret (s, res, err)))"
    by (rule yields_bind [OF ensure_paced]) (auto intro!: yields_bind [OF finalizer_paced] yields_ret)
  have created: "yields paced_out (bind_io (rc_CreateObj rcl s) (\<lambda>(s, res, err).
      if err = None \<and> \<not> Requeue res then on_cr rcl (EnsureFinalizer E) s else ret (s, res, err)))"
    by (rule yields_bind [OF create_paced]) (auto intro!: finalizer_paced yields_ret)
  have released: "yields paced_out (bind_io (on_cr rcl (RemoveFinalizer E) s) (\<lambda>(s, err). ret (s, no_result, err)))"
    by (auto intro!: yields_intro)
  show ?thesis
    unfolding reconcile_obj_def using removed kept created released by (auto intro!: yields_ret)
qed

lemma handle_error_paced: "paced_out out \<Longrightarrow> yields (\<lambda>(s, res). paced res) (handle_error E rcl marked out)"
  unfolding handle_error_def
  by (auto simp: paced_out_def intro!: yields_case_prod yields_case_option yields_if yields_ret
      yields_bind [OF yields_backoff] yields_bind [OF paced_deletion])

lemma reconcile_loaded_paced: "yields (\<lambda>(s, res). paced res) (reconcile_loaded E rcl s)"
  unfolding reconcile_loaded_def Let_def
proof (rule yields_bind_any, clarify, rule yields_case_sum)
  fix s err
  show "yields (\<lambda>(s, res). paced res)
      (if CannotFindError err \<and> m then bind_io (on_cr rcl (RemoveFinalizer E) s) (\<lambda>(s, _). ret (s, no_result))
       else bind_io (GradualBackoffRetry E (m_CreationTimestamp (obj_meta (rc_GetCR rcl s)))) (\<lambda>res. ret (s, res)))" for m
    by (intro yields_if yields_bind_any yields_case_prod yields_bind [OF yields_backoff] yields_ret) auto
next
  fix s exists
  show "yields (\<lambda>(s, res). paced res) (bind_io (reconcile_obj E rcl exists m s) (handle_error E rcl m))" for m
    by (rule yields_bind [OF reconcile_obj_paced handle_error_paced])
qed

lemma paced_Reconcile: "yields paced (Reconcile E rcl s)"
  unfolding Reconcile_def
proof (rule yields_bind [OF load_cr_paced], clarsimp, intro conjI impI yields_ret)
  fix s res assume "paced res"
  then show "paced res" .
next
  fix s
  show "yields paced (bind_io (reconcile_loaded E rcl s) (\<lambda>(s, res). bind_io (rc_CleanupConn rcl s) (\<lambda>_. ret res)))"
    by (rule yields_bind [OF reconcile_loaded_paced]) (auto intro!: yields_intro)
qed

end

subsection \<open>Every controller meets it\<close>

text \<open>The rules for a back-off are tried before those for any other step.\<close>

lemma paced_ret [paced_intro]: "paced res \<Longrightarrow> yields paced_out (ret (s, res, err))"
  by (simp add: yields_ret)

lemma paced_backoff_out [paced_intro]: "yields paced_out (backoff_creation E ob r)" "yields paced_out (backoff_deletion E ob r)"
  by (rule paced_backoff_jobs; simp)+

lemma paced_delete_or_back_off [paced_intro]: "yields paced_out (delete_or_back_off E k ob r)"
  unfolding delete_or_back_off_def by (rule paced_intro paced_no_result | rule yields_intro)+

lemma paced_storage_and_actions [paced_intro]:
  "(\<And>r. yields Q (handler r)) \<Longrightarrow> (\<And>r st a. yields Q (k r st a)) \<Longrightarrow> yields Q (storage_and_actions E tal build r handler k)"
  unfolding storage_and_actions_def by (rule yields_intro | (clarsimp; fail) | assumption)+

lemma paced_LoadCR:
  "yields paced_out (LoadCR_db E a)" "yields paced_out (LoadCR_user E b)" "yields paced_out (LoadCR_schema E c)"
  "yields paced_out (LoadCR_backupjob E d)" "yields paced_out (LoadCR_restorejob E e)" "yields paced_out (LoadCR_copyjob E f)"
  "yields paced_out (LoadCR_backupcron E g)" "yields paced_out (LoadCR_restorecron E i)" "yields paced_out (LoadCR_copycron E j)"
  "yields paced_out (LoadCR_crdbjob E k)" "yields paced_out (LoadCR_crdbcron E l)"
  unfolding LoadCR_db_def LoadCR_user_def LoadCR_schema_def LoadCR_backupjob_def LoadCR_restorejob_def LoadCR_copyjob_def
    LoadCR_backupcron_def LoadCR_restorecron_def LoadCR_copycron_def LoadCR_crdbjob_def LoadCR_crdbcron_def
  by (rule paced_intro | rule yields_intro | (clarsimp; fail))+

lemma paced_EnsureCorrect:
  "yields paced_out (EnsureCorrect_db a)" "yields paced_out (EnsureCorrect_user E b)" "yields paced_out (EnsureCorrect_schema c)"
  "yields paced_out (EnsureCorrect_backupjob d)" "yields paced_out (EnsureCorrect_restorejob e)" "yields paced_out (EnsureCorrect_copyjob f)"
  "yields paced_out (EnsureCorrect_backupcron g)" "yields paced_out (EnsureCorrect_restorecron i)" "yields paced_out (EnsureCorrect_copycron j)"
  "yields paced_out (EnsureCorrect_crdbjob E k)"
  unfolding EnsureCorrect_db_def EnsureCorrect_user_def EnsureCorrect_schema_def EnsureCorrect_backupjob_def EnsureCorrect_restorejob_def
    EnsureCorrect_copyjob_def EnsureCorrect_backupcron_def EnsureCorrect_restorecron_def EnsureCorrect_copycron_def EnsureCorrect_crdbjob_def
  by (rule paced_intro | rule yields_intro | (clarsimp; fail))+

lemma paced_RemoveObj:
  "yields paced_out (RemoveObj_db E a)" "yields paced_out (RemoveObj_user E b)" "yields paced_out (RemoveObj_schema E c)"
  "yields paced_out (RemoveObj_backupjob E d)" "yields paced_out (RemoveObj_restorejob E e)" "yields paced_out (RemoveObj_copyjob E f)"
  "yields paced_out (RemoveObj_backupcron E g)" "yields paced_out (RemoveObj_restorecron E i)" "yields paced_out (RemoveObj_copycron E j)"
  "yields paced_out (RemoveObj_crdbjob k)" "yields paced_out (RemoveObj_crdbcron E l)"
  unfolding RemoveObj_db_def RemoveObj_user_def RemoveObj_schema_def RemoveObj_backupjob_def RemoveObj_restorejob_def RemoveObj_copyjob_def
    RemoveObj_backupcron_def RemoveObj_restorecron_def RemoveObj_copycron_def RemoveObj_crdbjob_def RemoveObj_crdbcron_def
  by (rule paced_intro | rule yields_intro | (clarsimp; fail))+

lemma paced_CreateObj:
  "yields paced_out (CreateObj_db E a)" "yields paced_out (CreateObj_schema E c)"
  "yields paced_out (CreateObj_backupjob E d)" "yields paced_out (CreateObj_restorejob E e)" "yields paced_out (CreateObj_copyjob E f)"
  "yields paced_out (CreateObj_backupcron E g)" "yields paced_out (CreateObj_restorecron E i)" "yields paced_out (CreateObj_copycron E j)"
  "yields paced_out (CreateObj_crdbjob E k)" "yields paced_out (CreateObj_crdbcron E l)"
  unfolding CreateObj_db_def CreateObj_schema_def CreateObj_backupjob_def CreateObj_restorejob_def CreateObj_copyjob_def
    CreateObj_backupcron_def CreateObj_restorecron_def CreateObj_copycron_def CreateObj_crdbjob_def CreateObj_crdbcron_def
  by (rule paced_intro | rule yields_intro | (clarsimp; fail))+

lemma paced_CreateObj_user: "yields paced_out (CreateObj_user E b)"
  unfolding CreateObj_user_def
  by (rule paced_intro yields_bind [OF paced_EnsureCorrect(2)] | rule yields_intro | (clarsimp; fail) | (clarsimp split: option.split; intro conjI impI allI))+

lemma paced_EnsureCorrect_crdbcron: "yields paced_out (EnsureCorrect_crdbcron E l)"
  unfolding EnsureCorrect_crdbcron_def renew_schedule_def check_schedule_def suspend_or_resume_def
  by (rule paced_intro | rule yields_intro | (clarsimp; fail))+

lemmas paced_operations = paced_LoadCR paced_EnsureCorrect paced_EnsureCorrect_crdbcron paced_RemoveObj paced_CreateObj paced_CreateObj_user

interpretation db_pace: paced_controller "db_rcl E" for E
  by unfold_locales (simp_all add: db_rcl_def paced_operations)

interpretation user_pace: paced_controller "user_rcl E" for E
  by unfold_locales (simp_all add: user_rcl_def paced_operations)

interpretation schema_pace: paced_controller "schema_rcl E" for E
  by unfold_locales (simp_all add: schema_rcl_def paced_operations)

interpretation backupjob_pace: paced_controller "backupjob_rcl E" for E
  by unfold_locales (simp_all add: backupjob_rcl_def paced_operations)

interpretation restorejob_pace: paced_controller "restorejob_rcl E" for E
  by unfold_locales (simp_all add: restorejob_rcl_def paced_operations)

interpretation copyjob_pace: paced_controller "copyjob_rcl E" for E
  by unfold_locales (simp_all add: copyjob_rcl_def paced_operations)

interpretation backupcron_pace: paced_controller "backupcron_rcl E" for E
  by unfold_locales (simp_all add: paced_operations)

interpretation restorecron_pace: paced_controller "restorecron_rcl E" for E
  by unfold_locales (simp_all add: paced_operations)

interpretation copycron_pace: paced_controller "copycron_rcl E" for E
  by unfold_locales (simp_all add: paced_operations)

interpretation crdbjob_pace: paced_controller "crdbjob_rcl E" for E
  by unfold_locales (simp_all add: paced_operations)

interpretation crdbcron_pace: paced_controller "crdbcron_rcl E" for E
  by unfold_locales (simp_all add: paced_operations)

text \<open>The controller of servers does not use the loop.\<close>

lemma paced_serve: "yields (\<lambda>(conn, res). paced res) (serve E srv conn)"
  unfolding serve_def by (rule yields_intro | (clarsimp; fail))+

lemma paced_Reconcile_dbserver: "yields paced (Reconcile_dbserver E req)"
  unfolding Reconcile_dbserver_def
  by (rule yields_backoff | rule yields_bind [OF paced_serve] | rule yields_intro | (clarsimp; fail))+

text \<open>C12: whatever the API server and the SQL servers answer, a reconciliation that ends is done with its
  request or asks for it to be queued again after at least one second and at most five
  minutes: no controller retries without a pause, and none waits longer.\<close>

theorem every_requeue_is_paced:
  "yields paced (Reconcile_db E req) \<and> yields paced (Reconcile_user E req) \<and> yields paced (Reconcile_schema E req) \<and>
   yields paced (Reconcile_dbserver E req) \<and>
   yields paced (Reconcile_backupjob E req) \<and> yields paced (Reconcile_restorejob E req) \<and> yields paced (Reconcile_copyjob E req) \<and>
   yields paced (Reconcile_backupcron E req) \<and> yields paced (Reconcile_restorecron E req) \<and> yields paced (Reconcile_copycron E req) \<and>
   yields paced (Reconcile_crdbjob E req) \<and> yields paced (Reconcile_crdbcron E req)"
  unfolding Reconcile_db_def Reconcile_user_def Reconcile_schema_def Reconcile_backupjob_def Reconcile_restorejob_def Reconcile_copyjob_def
    Reconcile_backupcron_def Reconcile_restorecron_def Reconcile_copycron_def Reconcile_crdbjob_def Reconcile_crdbcron_def
  by (intro conjI db_pace.paced_Reconcile user_pace.paced_Reconcile schema_pace.paced_Reconcile paced_Reconcile_dbserver
      backupjob_pace.paced_Reconcile restorejob_pace.paced_Reconcile copyjob_pace.paced_Reconcile backupcron_pace.paced_Reconcile
      restorecron_pace.paced_Reconcile copycron_pace.paced_Reconcile crdbjob_pace.paced_Reconcile crdbcron_pace.paced_Reconcile)

end
