(* ===== verification/Totality.thy ===== *)
theory Totality
  imports Pacing
begin

section \<open>Reconciliations that always come to an end\<close>

text \<open>
  A panic ends the process of the operator.  \<open>always Q m\<close> says that \<open>m\<close> never panics: from every history it returns,
  with a value that satisfies \<open>Q\<close>.  The contract that keeps the loop of \<^verbatim>\<open>controllers/reconcilable.go\<close>
  from panicking is the locale \<open>total_controller\<close>; the controllers of databases and schemas
  meet it, and the controller of servers, which does not use the loop, is shown to return directly.
\<close>

definition always :: "('a \<Rightarrow> bool) \<Rightarrow> ('e, 'a) io \<Rightarrow> bool" where
  "always Q m \<longleftrightarrow> (\<forall>h. \<exists>x h'. m h = (Return x, h') \<and> Q x)"

abbreviation returns :: "('e, 'a) io \<Rightarrow> bool" where
  "returns m \<equiv> always (\<lambda>_. True) m"

named_theorems always_intro "introduction rules for computations that return"

lemma always_mono: "always Q m \<Longrightarrow> (\<And>x. Q x \<Longrightarrow> R x) \<Longrightarrow> always R m"
  by (fastforce simp: always_def)

lemma always_returns: "always Q m \<Longrightarrow> returns m"
  by (erule always_mono) simp

lemma always_yields: "returns m \<Longrightarrow> yields Q m \<Longrightarrow> always Q m"
  by (fastforce simp: always_def yields_def)

lemma always_bind: "always R m \<Longrightarrow> (\<And>x. R x \<Longrightarrow> always Q (k x)) \<Longrightarrow> always Q (bind_io m k)"
  unfolding always_def
proof
  fix h
  assume m: "\<forall>h. \<exists>x h'. m h = (Return x, h') \<and> R x" and k: "\<And>x. R x \<Longrightarrow> \<forall>h. \<exists>y h'. k x h = (Return y, h') \<and> Q y"
  from m obtain x h' where "m h = (Return x, h')" "R x" by blast
  with k [of x] show "\<exists>y h'. bind_io m k h = (Return y, h') \<and> Q y" by (simp add: run)
qed

lemma always_ret [always_intro]: "Q x \<Longrightarrow> always Q (ret x)"
  by (simp add: always_def ret_def)

lemma returns_primitives [always_intro]:
  "returns (call ev f)" "returns (ask g)" "returns (emit ev)"
  by (simp_all add: always_def run)

lemma always_bind_returns [always_intro]: "returns m \<Longrightarrow> (\<And>x. always Q (k x)) \<Longrightarrow> always Q (bind_io m k)"
  by (rule always_bind)

lemma always_try [always_intro]:
  "returns m \<Longrightarrow> (\<And>e. always Q (handler e)) \<Longrightarrow> (\<And>x. always Q (rest x)) \<Longrightarrow> always Q (try_io m handler rest)"
  unfolding try_io_def by (rule always_bind_returns) (auto split: sum.split)

lemma always_check [always_intro]:
  "returns m \<Longrightarrow> (\<And>e. always Q (handler e)) \<Longrightarrow> always Q rest \<Longrightarrow> always Q (check_io m handler rest)"
  unfolding check_io_def by (rule always_bind_returns) (auto split: option.split)

lemma always_if [always_intro]: "(b \<Longrightarrow> always Q m) \<Longrightarrow> (\<not> b \<Longrightarrow> always Q n) \<Longrightarrow> always Q (if b then m else n)"
  by simp

lemma always_let [always_intro]: "always Q (f x) \<Longrightarrow> always Q (let y = x in f y)"
  by simp

lemma always_case_sum [always_intro]:
  "(\<And>e. x = Inl e \<Longrightarrow> always Q (f e)) \<Longrightarrow> (\<And>y. x = Inr y \<Longrightarrow> always Q (g y)) \<Longrightarrow> always Q (case x of Inl e \<Rightarrow> f e | Inr y \<Rightarrow> g y)"
  by (cases x) auto

lemma always_case_option [always_intro]:
  "(x = None \<Longrightarrow> always Q m) \<Longrightarrow> (\<And>y. x = Some y \<Longrightarrow> always Q (g y)) \<Longrightarrow> always Q (case x of None \<Rightarrow> m | Some y \<Rightarrow> g y)"
  by (cases x) auto

lemma always_case_prod [always_intro]: "(\<And>a b. x = (a, b) \<Longrightarrow> always Q (f a b)) \<Longrightarrow> always Q (case x of (a, b) \<Rightarrow> f a b)"
  by (cases x) auto

lemma returns_for [always_intro]: "(\<And>x s. returns (body x s)) \<Longrightarrow> returns (for_io xs body s)"
proof (induction xs arbitrary: s)
  case Nil
  show ?case by (simp add: always_ret)
next
  case (Cons x xs)
  then show ?case by (auto intro!: always_intro)
qed

subsection \<open>Connections\<close>

lemma returns_env [always_intro]:
  "returns (Query E c q args)" "returns (Exec E c q args)" "returns (Close_conn E c)" "returns (GetSecret E n)"
  "returns (range_map E xs)" "returns (GradualBackoffRetry E t)" "returns (Update_cr E ob)"
  unfolding Query_def Exec_def Close_conn_def GetSecret_def range_map_def GradualBackoffRetry_def Update_cr_def
  by (intro always_intro TrueI; simp)+

lemma returns_keep [always_intro]: "returns m \<Longrightarrow> returns (keep p m)"
  unfolding keep_def by (intro always_intro TrueI)

lemma returns_connect [always_intro]: "returns (PostgresConnect E info creds db)" "returns (MySqlConnect E info creds db)"
  unfolding PostgresConnect_def MySqlConnect_def connect_string_def getConnectionString_def add_cert_def writeToTempFile_def
  by (intro always_intro TrueI)+

lemma returns_on_conn [always_intro]:
  "(\<And>info creds db. returns (C info creds db)) \<Longrightarrow> (\<And>p c. returns (k p c)) \<Longrightarrow> returns (on_conn C p u d fail k)"
  unfolding on_conn_def GetDbConnection_def by (intro always_intro TrueI)

lemma returns_Close_store [always_intro]: "returns (Close_store E st)"
  unfolding Close_store_def by (intro always_intro TrueI) (auto intro!: always_intro)

lemma returns_dispatch: "(\<And>p. returns (pg p)) \<Longrightarrow> (\<And>m. returns (my m)) \<Longrightarrow> returns (dispatch conn pg my)"
  unfolding dispatch_def by (cases conn) (auto intro!: always_intro)

lemma returns_server_connection [always_intro]:
  "returns (conn_GetDbs E conn)" "returns (conn_GetUsers E conn)" "returns (conn_GetSchemas E conn u)"
  "returns (conn_CreateDb E conn d)" "returns (conn_DropDb E conn d b)" "returns (conn_CreateSchema E conn s u)"
  "returns (conn_DropSchema E conn s u b)" "returns (conn_Execute E conn q u)" "returns (conn_Close E conn)"
  unfolding conn_GetDbs_def conn_GetUsers_def conn_GetSchemas_def conn_CreateDb_def conn_DropDb_def conn_CreateSchema_def
    conn_DropSchema_def conn_Execute_def conn_Close_def
    GetDbs_pg_def GetUsers_pg_def GetSchemas_pg_def CreateDb_pg_def DropDb_pg_def CreateSchema_pg_def DropSchema_pg_def Execute_pg_def Close_pg_def
    GetDbs_mysql_def GetUsers_mysql_def GetSchemas_mysql_def CreateDb_mysql_def DropDb_mysql_def CreateSchema_mysql_def DropSchema_mysql_def
    Execute_mysql_def Close_mysql_def GetSchemas_def
  by (rule returns_dispatch; intro always_intro TrueI)+

lemma returns_lookups [always_intro]:
  "returns (GetDbServer E n ns)" "returns (GetDbConnection_reco E nsnm srv gs db)" "returns (TriggerDbServerReconcile t)"
  unfolding GetDbServer_def GetDbConnection_reco_def TriggerDbServerReconcile_def GetConnectInfo_def GetCredentials_def GetDbServerSecrets_def
    GetCredentialsForUser_def GetUserCredentials_def
  by (intro always_intro TrueI)+

subsection \<open>The contract and the loop\<close>

text \<open>
  \<open>found s\<close> is what the controller object holds once \<^verbatim>\<open>LoadObj\<close> reported that the object exists on
  the server.  The mark of deletion must survive the steps after which its time is read.
\<close>

definition marked_cr :: "'s Reconcilable \<Rightarrow> 's \<Rightarrow> bool" where
  "marked_cr rcl s \<longleftrightarrow> markedToBeDeleted (rc_GetCR rcl s)"

lemma Update_cr_failed: "always (\<lambda>(cr', err). err \<noteq> None \<longrightarrow> cr' = cr) (Update_cr E cr)"
  by (simp add: always_def Update_cr_def run split: sum.split)

locale total_controller =
  fixes rcl :: "'s Reconcilable" and found :: "'s \<Rightarrow> bool"
  assumes load_cr_returns: "returns (rc_LoadCR rcl s)"
    and load_obj_returns: "always (\<lambda>(s', x). (marked_cr rcl s \<longrightarrow> marked_cr rcl s') \<and> (x = Inr True \<longrightarrow> found s')) (rc_LoadObj rcl s)"
    and create_returns: "returns (rc_CreateObj rcl s)"
    and ensure_returns: "returns (rc_EnsureCorrect rcl s)"
    and remove_returns: "found s \<Longrightarrow> marked_cr rcl s \<Longrightarrow> always (\<lambda>(s', _). marked_cr rcl s') (rc_RemoveObj rcl s)"
    and cleanup_returns: "returns (rc_CleanupConn rcl s)"
    and put_keeps_mark: "marked_cr rcl s \<Longrightarrow> marked_cr rcl (rc_PutCR rcl (set_finalizers fs (rc_GetCR rcl s)) s)"
begin

lemma finalizer_removed:
  "marked_cr rcl s \<Longrightarrow> always (\<lambda>(s', err). err \<noteq> None \<longrightarrow> marked_cr rcl s') (on_cr rcl (RemoveFinalizer E) s)"
  unfolding on_cr_def RemoveFinalizer_def
  by (rule always_bind [OF Update_cr_failed]) (auto intro!: always_ret put_keeps_mark)

lemma finalizer_ensured: "returns (on_cr rcl (EnsureFinalizer E) s)"
  unfolding on_cr_def EnsureFinalizer_def by (intro always_intro TrueI)

lemma reconcile_obj_returns:
  assumes "marked \<longrightarrow> marked_cr rcl s" "exists \<longrightarrow> found s"
  shows "always (\<lambda>(s', res, err). marked \<and> err \<noteq> None \<longrightarrow> marked_cr rcl s') (reconcile_obj E rcl exists marked s)"
proof (cases marked)
  case True
  show ?thesis
  proof (cases exists)
    case exists: True
    have "always (\<lambda>(s', res, err). err \<noteq> None \<longrightarrow> marked_cr rcl s') (bind_io (rc_RemoveObj rcl s) (\<lambda>(s, res, err).
        if err = None \<and> \<not> Requeue res then bind_io (on_cr rcl (RemoveFinalizer E) s) (\<lambda>(s, err). ret (s, res, err)) else ret (s, res, err)))"
      using assms True exists
      by (intro always_bind [OF remove_returns]) (auto intro!: always_ret always_bind [OF finalizer_removed])
    with True exists show ?thesis by (auto simp: reconcile_obj_def intro!: always_ret)
  next
    case False
    with True assms show ?thesis
      by (auto simp: reconcile_obj_def intro!: always_ret always_bind [OF finalizer_removed])
  qed
next
  case False
  then show ?thesis
    by (auto simp: reconcile_obj_def intro!: always_intro finalizer_ensured create_returns ensure_returns always_mono [OF finalizer_ensured])
qed

lemma handle_error_returns:
  assumes "case out of (s, res, err) \<Rightarrow> marked \<and> err \<noteq> None \<longrightarrow> marked_cr rcl s"
  shows "returns (handle_error E rcl marked out)"
  using assms by (auto simp: handle_error_def deletion_backoff_def marked_cr_def markedToBeDeleted_def split: option.split intro!: always_intro)

lemma reconcile_loaded_returns: "returns (reconcile_loaded E rcl s)"
  unfolding reconcile_loaded_def Let_def
proof (rule always_bind [OF load_obj_returns], clarify, rule always_case_sum)
  fix s' err
  show "returns (if CannotFindError err \<and> m then bind_io (on_cr rcl (RemoveFinalizer E) s') (\<lambda>(s, _). ret (s, no_result))
      else bind_io (GradualBackoffRetry E (m_CreationTimestamp (obj_meta (rc_GetCR rcl s')))) (\<lambda>res. ret (s', res)))" for m
    unfolding on_cr_def RemoveFinalizer_def by (intro always_intro TrueI)
next
  fix s' x exists
  assume "marked_cr rcl s \<longrightarrow> marked_cr rcl s'" "x = Inr True \<longrightarrow> found s'" "x = Inr exists"
  then show "returns (bind_io (reconcile_obj E rcl exists (markedToBeDeleted (rc_GetCR rcl s)) s') (handle_error E rcl (markedToBeDeleted (rc_GetCR rcl s))))"
    by (intro always_bind [OF reconcile_obj_returns handle_error_returns]) (auto simp: marked_cr_def)
qed

lemma returns_Reconcile: "returns (Reconcile E rcl s)"
  unfolding Reconcile_def by (intro always_intro load_cr_returns reconcile_loaded_returns cleanup_returns TrueI)

end


subsection \<open>Databases, schemas, copies and servers\<close>

lemma returns_backoffs [always_intro]:
  "returns (LogAndBackoffCreation E ob)" "returns (backoff_creation E ob r)"
  unfolding LogAndBackoffCreation_def backoff_creation_def by (intro always_intro TrueI)+

lemma returns_deletion_backoff: "markedToBeDeleted ob \<Longrightarrow> returns (LogAndBackoffDeletion E ob)"
  by (auto simp: LogAndBackoffDeletion_def deletion_backoff_def markedToBeDeleted_def intro!: always_intro)

lemma returns_RemoveFinalizer [always_intro]: "returns (RemoveFinalizer E ob)"
  unfolding RemoveFinalizer_def by (intro always_intro)

lemma bind_ret: "bind_io (ret x) k = k x"
  by (simp add: fun_eq_iff run)

lemma returns_NotifyChanges_db [always_intro]: "returns (NotifyChanges_db E r)"
  unfolding NotifyChanges_db_def by (intro always_intro TrueI)

interpretation db_total: total_controller "db_rcl E" "\<lambda>r. dr_conn r \<noteq> None" for E
proof
  fix s fs
  show "returns (rc_LoadCR (db_rcl E) s)"
    by (simp add: db_rcl_def LoadCR_db_def) (intro always_intro TrueI)
  show "always (\<lambda>(s', x). (marked_cr (db_rcl E) s \<longrightarrow> marked_cr (db_rcl E) s') \<and> (x = Inr True \<longrightarrow> dr_conn s' \<noteq> None)) (rc_LoadObj (db_rcl E) s)"
    by (simp add: db_rcl_def LoadObj_db_def marked_cr_def GetCR_db_def Let_def) (intro always_intro; simp)
  show "returns (rc_CreateObj (db_rcl E) s)"
    by (simp add: db_rcl_def CreateObj_db_def) (intro always_intro TrueI)
  show "returns (rc_EnsureCorrect (db_rcl E) s)"
    by (simp add: db_rcl_def EnsureCorrect_db_def always_ret)
  show "returns (rc_CleanupConn (db_rcl E) s)"
    by (simp add: db_rcl_def CleanupConn_db_def) (intro always_intro TrueI)
  show "marked_cr (db_rcl E) s \<Longrightarrow> marked_cr (db_rcl E) (rc_PutCR (db_rcl E) (set_finalizers fs (rc_GetCR (db_rcl E) s)) s)"
    by (simp add: db_rcl_def marked_cr_def GetCR_db_def PutCR_db_def set_finalizers_def markedToBeDeleted_def)
  show "always (\<lambda>(s', _). marked_cr (db_rcl E) s') (rc_RemoveObj (db_rcl E) s)" if "dr_conn s \<noteq> None" "marked_cr (db_rcl E) s"
    using that
    by (auto simp: db_rcl_def RemoveObj_db_def marked_cr_def GetCR_db_def Let_def split: option.split
        intro!: always_intro returns_deletion_backoff)
qed

lemma returns_set_created [always_intro]: "returns (set_created E r)"
  unfolding set_created_def SetStatus_schema_def by (intro always_intro TrueI)

lemma LoadObj_schema_returns: "returns (LoadObj_schema E r)"
  unfolding LoadObj_schema_def by (intro always_intro TrueI)

lemma set_created_conn: "set_created E r h = (Return r', h') \<Longrightarrow> sr_conn r' = sr_conn r"
  by (auto simp: set_created_def SetStatus_schema_def PutCR_schema_def Let_def run split: if_splits sum.splits k8s_obj.splits)

lemma LoadObj_schema_conn: "LoadObj_schema E r h = (Return (r', Inr True), h') \<Longrightarrow> sr_conn r' \<noteq> None"
  by (auto simp: LoadObj_schema_def Let_def run dest!: set_created_conn split: sum.splits prod.splits outcome.splits if_splits)

lemma schema_total:
  assumes "keeps_schema E"
  shows "total_controller (schema_rcl E) (\<lambda>r. sr_conn r \<noteq> None)"
proof
  fix s fs
  show "returns (rc_LoadCR (schema_rcl E) s)"
    by (simp add: schema_rcl_def LoadCR_schema_def) (intro always_intro TrueI)
  show "always (\<lambda>(s', x). (marked_cr (schema_rcl E) s \<longrightarrow> marked_cr (schema_rcl E) s') \<and> (x = Inr True \<longrightarrow> sr_conn s' \<noteq> None)) (rc_LoadObj (schema_rcl E) s)"
    using LoadObj_schema_same [OF assms] LoadObj_schema_conn
    by (auto simp: schema_rcl_def marked_cr_def GetCR_schema_def markedToBeDeleted_def same_schema_def
        intro!: always_yields [OF LoadObj_schema_returns] yieldsI)
  show "returns (rc_CreateObj (schema_rcl E) s)"
    by (simp add: schema_rcl_def CreateObj_schema_def) (intro always_intro TrueI)
  show "returns (rc_EnsureCorrect (schema_rcl E) s)"
    by (simp add: schema_rcl_def EnsureCorrect_schema_def always_ret)
  show "returns (rc_CleanupConn (schema_rcl E) s)"
    by (simp add: schema_rcl_def CleanupConn_schema_def) (intro always_intro TrueI)
  show "marked_cr (schema_rcl E) s \<Longrightarrow> marked_cr (schema_rcl E) (rc_PutCR (schema_rcl E) (set_finalizers fs (rc_GetCR (schema_rcl E) s)) s)"
    by (simp add: schema_rcl_def marked_cr_def GetCR_schema_def PutCR_schema_def set_finalizers_def markedToBeDeleted_def)
  show "always (\<lambda>(s', _). marked_cr (schema_rcl E) s') (rc_RemoveObj (schema_rcl E) s)" if "sr_conn s \<noteq> None" "marked_cr (schema_rcl E) s"
    using that
    by (auto simp: schema_rcl_def RemoveObj_schema_def marked_cr_def GetCR_schema_def Let_def split: option.split intro!: always_intro)
qed

lemma returns_copy [always_intro]:
  "returns (EnsureScripts E nsnm)" "returns (GetServerActionsFromDbName E nsnm d)" "returns (create_logged E ob)" "returns (GetJobMap E nsnm)"
  unfolding EnsureScripts_def GetServerActionsFromDbName_def GetDbServerFromDbName_def GetDb_def create_logged_def GetJobMap_def
  by (intro always_intro TrueI)+

interpretation copyjob_total: total_controller "copyjob_rcl E" "\<lambda>_. True" for E
proof
  fix s fs
  show "returns (rc_LoadCR (copyjob_rcl E) s)"
    by (simp add: LoadCR_copyjob_def) (intro always_intro TrueI)
  show "always (\<lambda>(s', x). (marked_cr (copyjob_rcl E) s \<longrightarrow> marked_cr (copyjob_rcl E) s') \<and> (x = Inr True \<longrightarrow> True)) (rc_LoadObj (copyjob_rcl E) s)"
    by (simp add: LoadObj_copyjob_def load_jobs_def no_note_def bind_ret marked_cr_def GetCR_copyjob_def) (intro always_intro; simp)
  show "returns (rc_CreateObj (copyjob_rcl E) s)"
    by (simp add: CreateObj_copyjob_def) (intro always_intro TrueI)
  show "returns (rc_EnsureCorrect (copyjob_rcl E) s)" "returns (rc_CleanupConn (copyjob_rcl E) s)"
    by (simp_all add: EnsureCorrect_copyjob_def CleanupConn_copyjob_def always_ret)
  show "marked_cr (copyjob_rcl E) s \<Longrightarrow> marked_cr (copyjob_rcl E) (rc_PutCR (copyjob_rcl E) (set_finalizers fs (rc_GetCR (copyjob_rcl E) s)) s)"
    by (simp add: marked_cr_def GetCR_copyjob_def PutCR_copyjob_def set_finalizers_def markedToBeDeleted_def)
  show "always (\<lambda>(s', _). marked_cr (copyjob_rcl E) s') (rc_RemoveObj (copyjob_rcl E) s)" if "marked_cr (copyjob_rcl E) s"
    using that
    by (auto simp: RemoveObj_copyjob_def delete_or_back_off_def backoff_deletion_def marked_cr_def Let_def intro!: always_intro returns_deletion_backoff)
qed

lemma returns_SetStatus [always_intro]: "returns (SetStatus E srv dbs us avail msg)"
  unfolding SetStatus_def by (intro always_intro TrueI)

lemma returns_Reconcile_dbserver: "returns (Reconcile_dbserver E req)"
  unfolding Reconcile_dbserver_def serve_def by (intro always_intro TrueI)

text \<open>C11: whatever the API server and the SQL servers answer, the reconciliations of a database, a
  server, a copy job and a schema never panic: from every history they come to an end, with a result that is done or
  asks to be queued again after one second to five minutes.  For schemas the API server's
  answer to a write must be the schema that was sent.\<close>

theorem Reconcile_always_ends:
  assumes "keeps_schema E"
  shows "\<forall>R \<in> {Reconcile_db E req, Reconcile_dbserver E req, Reconcile_copyjob E req, Reconcile_schema E req}.
    \<forall>h. \<exists>res h'. R h = (Return res, h') \<and> paced res"
proof -
  have "always paced (Reconcile_db E req)"
    unfolding Reconcile_db_def by (rule always_yields [OF db_total.returns_Reconcile db_pace.paced_Reconcile])
  moreover have "always paced (Reconcile_dbserver E req)"
    by (rule always_yields [OF returns_Reconcile_dbserver paced_Reconcile_dbserver])
  moreover have "always paced (Reconcile_copyjob E req)"
    unfolding Reconcile_copyjob_def by (rule always_yields [OF copyjob_total.returns_Reconcile copyjob_pace.paced_Reconcile])
  moreover have "always paced (Reconcile_schema E req)"
    unfolding Reconcile_schema_def
    by (rule always_yields [OF total_controller.returns_Reconcile [OF schema_total [OF assms]] schema_pace.paced_Reconcile])
  ultimately show ?thesis by (simp add: always_def)
qed

theorem Reconcile_always_ends_witness:
  "\<exists>res h'. Reconcile_schema (null_env\<lparr>k8s_update := \<lambda>_ ob. Inr ob, k8s_status_update := \<lambda>_ ob. Inr ob\<rparr>) demo_req [] = (Return res, h') \<and> paced res"
proof -
  have "keeps_schema (null_env\<lparr>k8s_update := \<lambda>_ ob. Inr ob, k8s_status_update := \<lambda>_ ob. Inr ob\<rparr>)"
    by (simp add: keeps_schema_def)
  from Reconcile_always_ends [OF this, of demo_req] show ?thesis by simp
qed

end
