(* ===== verification/Crash.thy ===== *)
theory Crash
  imports Reco
begin

section \<open>What holds at every point of a run\<close>

text \<open>
  The operator may be stopped between any two external calls, and started again.  So it is not enough to know what holds
  when an operation returns.  \<open>safe I P m Q\<close> says that a run of \<open>m\<close> from a history that satisfies \<open>P\<close> keeps \<open>I\<close> after
  every single call, and ends with \<open>Q\<close> if it returns.  Its rules follow the shape of the computation; an
  operation whose calls are all of one kind needs only the rule \<open>safe_leaf\<close>.
\<close>

definition safe :: "('e list \<Rightarrow> bool) \<Rightarrow> ('e list \<Rightarrow> bool) \<Rightarrow> ('e, 'a) io \<Rightarrow> ('a \<Rightarrow> 'e list \<Rightarrow> bool) \<Rightarrow> bool" where
  "safe I P m Q \<longleftrightarrow>
     (\<forall>h. P h \<longrightarrow> (\<exists>es. snd (m h) = h @ es \<and> (\<forall>xs. prefix xs es \<longrightarrow> I (h @ xs)) \<and> (\<forall>x. fst (m h) = Return x \<longrightarrow> Q x (h @ es))))"

lemma safeI:
  "(\<And>h. P h \<Longrightarrow> \<exists>es. snd (m h) = h @ es \<and> (\<forall>xs. prefix xs es \<longrightarrow> I (h @ xs)) \<and> (\<forall>x. fst (m h) = Return x \<longrightarrow> Q x (h @ es))) \<Longrightarrow> safe I P m Q"
  by (simp add: safe_def)

lemma safeD:
  assumes "safe I P m Q" "P h" "m h = (out, h @ es)"
  shows "prefix xs es \<Longrightarrow> I (h @ xs)" "out = Return x \<Longrightarrow> Q x (h @ es)"
  using assms unfolding safe_def by (metis fst_conv same_append_eq snd_conv)+

lemma safe_conseq: "safe I P m Q \<Longrightarrow> (\<And>h. P' h \<Longrightarrow> P h) \<Longrightarrow> (\<And>x h. Q x h \<Longrightarrow> Q' x h) \<Longrightarrow> safe I P' m Q'"
  unfolding safe_def by blast

lemma safe_pre: "safe I P m Q \<Longrightarrow> (\<And>h. P' h \<Longrightarrow> P h) \<Longrightarrow> safe I P' m Q"
  by (rule safe_conseq)

lemma safe_ret: "(\<And>h. P h \<Longrightarrow> I h) \<Longrightarrow> (\<And>h. P h \<Longrightarrow> Q x h) \<Longrightarrow> safe I P (ret x) Q"
  by (rule safeI) (simp add: run)

lemma safe_panic: "(\<And>h. P h \<Longrightarrow> I h) \<Longrightarrow> safe I P (panic s) Q"
  by (rule safeI) (simp add: run)

lemma safe_call:
  "(\<And>h. P h \<Longrightarrow> I h) \<Longrightarrow> (\<And>h. P h \<Longrightarrow> I (h @ [ev]) \<and> Q (f h) (h @ [ev])) \<Longrightarrow> safe I P (call ev f) Q"
  by (rule safeI) (auto simp: run prefix_Cons)

lemma safe_bind:
  assumes m: "safe I P m R" and k: "\<And>x. safe I (R x) (k x) Q"
  shows "safe I P (bind_io m k) Q"
proof (rule safeI)
  fix h assume "P h"
  with m obtain es where es: "snd (m h) = h @ es" "\<And>xs. prefix xs es \<Longrightarrow> I (h @ xs)" "\<And>x. fst (m h) = Return x \<Longrightarrow> R x (h @ es)"
    unfolding safe_def by blast
  show "\<exists>es. snd (bind_io m k h) = h @ es \<and> (\<forall>xs. prefix xs es \<longrightarrow> I (h @ xs)) \<and> (\<forall>x. fst (bind_io m k h) = Return x \<longrightarrow> Q x (h @ es))"
  proof (cases "fst (m h)")
    case (Return x)
    then have mh: "m h = (Return x, h @ es)" using es(1) by (simp add: prod_eq_iff)
    from k [of x] es(3) [OF Return] obtain fs where fs: "snd (k x (h @ es)) = (h @ es) @ fs" "\<And>xs. prefix xs fs \<Longrightarrow> I ((h @ es) @ xs)"
        "\<And>y. fst (k x (h @ es)) = Return y \<Longrightarrow> Q y ((h @ es) @ fs)"
      unfolding safe_def by blast
    have "I (h @ xs)" if "prefix xs (es @ fs)" for xs using that es(2) fs(2) by (auto simp: prefix_append)
    with mh fs show ?thesis by (intro exI [of _ "es @ fs"]) (simp add: run)
  next
    case (Panic s)
    then have "m h = (Panic s, h @ es)" using es(1) by (simp add: prod_eq_iff)
    with es(2) show ?thesis by (intro exI [of _ es]) (simp add: run)
  qed
qed

lemma safe_if: "(b \<Longrightarrow> safe I P m Q) \<Longrightarrow> (\<not> b \<Longrightarrow> safe I P n Q) \<Longrightarrow> safe I P (if b then m else n) Q"
  by simp

lemma safe_leaf:
  assumes "emits A m" "\<And>h ev. P h \<Longrightarrow> A ev \<Longrightarrow> P (h @ [ev])" "\<And>h. P h \<Longrightarrow> I h"
    and "\<And>h x h'. P h \<Longrightarrow> P h' \<Longrightarrow> m h = (Return x, h') \<Longrightarrow> Q x h'"
  shows "safe I P m Q"
proof (rule safeI)
  fix h assume h: "P h"
  obtain es where es: "snd (m h) = h @ es" "list_all A es" using assms(1) by (rule emitsE)
  have keep: "P (h @ xs)" if "list_all A xs" for xs
    using that
  proof (induction xs rule: rev_induct)
    case Nil
    show ?case using h by simp
  next
    case (snoc ev xs)
    then show ?case using assms(2) [of "h @ xs" ev] by simp
  qed
  have "I (h @ xs)" if "prefix xs es" for xs
    using that es(2) by (auto elim!: prefixE intro!: assms(3) keep)
  moreover have "Q x (h @ es)" if "fst (m h) = Return x" for x
    using assms(4) [OF h keep [OF es(2)], of x] that es(1) by (simp add: prod_eq_iff)
  ultimately show "\<exists>es. snd (m h) = h @ es \<and> (\<forall>xs. prefix xs es \<longrightarrow> I (h @ xs)) \<and> (\<forall>x. fst (m h) = Return x \<longrightarrow> Q x (h @ es))"
    using es(1) by blast
qed


lemma safe_case_prod: "(\<And>a b. x = (a, b) \<Longrightarrow> safe I P (f a b) Q) \<Longrightarrow> safe I P (case x of (a, b) \<Rightarrow> f a b) Q"
  by (cases x) auto

lemma safe_case_sum:
  "(\<And>e. x = Inl e \<Longrightarrow> safe I P (f e) Q) \<Longrightarrow> (\<And>y. x = Inr y \<Longrightarrow> safe I P (g y) Q) \<Longrightarrow> safe I P (case x of Inl e \<Rightarrow> f e | Inr y \<Rightarrow> g y) Q"
  by (cases x) auto

text \<open>A computation that makes no calls.\<close>

lemma safe_silent: "emits (\<lambda>_. False) m \<Longrightarrow> (\<And>h. P h \<Longrightarrow> I h) \<Longrightarrow> (\<And>h x. P h \<Longrightarrow> m h = (Return x, h) \<Longrightarrow> Q x h) \<Longrightarrow> safe I P m Q"
  by (rule safeI) (metis append_Nil2 emits_none prefix_Nil prod.collapse)

subsection \<open>A guarded object\<close>

text \<open>
  Three facts about the world after a history: \<open>prot\<close>, the stored resource has the operator's finalizer; \<open>mark\<close>, it is marked for deletion;
  \<open>there\<close>, the object exists on the server.  The object is guarded as long as its resource cannot be taken
  away while the object is there.
\<close>

definition guarded :: "(hist \<Rightarrow> bool) \<Rightarrow> (hist \<Rightarrow> bool) \<Rightarrow> (hist \<Rightarrow> bool) \<Rightarrow> hist \<Rightarrow> bool" where
  "guarded prot mark there h \<longleftrightarrow> prot h \<or> mark h \<and> \<not> there h"

text \<open>The resource that a controller object holds is in step with the stored one; that one may have been marked since.  What else the
  controller object has to satisfy is \<open>ok\<close>.\<close>

definition in_step :: "'s Reconcilable \<Rightarrow> ('s \<Rightarrow> bool) \<Rightarrow> (hist \<Rightarrow> bool) \<Rightarrow> (hist \<Rightarrow> bool) \<Rightarrow> 's \<Rightarrow> hist \<Rightarrow> bool" where
  "in_step rcl ok prot mark s h \<longleftrightarrow>
     ok s \<and> (markedToBeDeleted (rc_GetCR rcl s) \<longrightarrow> mark h) \<and> (ContainsFinalizer (rc_GetCR rcl s) \<longleftrightarrow> prot h) \<and>
     (markedToBeDeleted (rc_GetCR rcl s) \<or> prot h)"

fun is_exec :: "event \<Rightarrow> bool" where
  "is_exec (SqlExec _ _ _) = True"
| "is_exec _ = False"

locale guarded_world =
  fixes prot mark there :: "hist \<Rightarrow> bool"
  assumes mark_mono: "mark h \<Longrightarrow> mark (h @ [ev])"
    and prot_kept: "\<not> is_update ev \<Longrightarrow> prot (h @ [ev]) = prot h"
    and there_kept: "\<not> is_exec ev \<Longrightarrow> there (h @ [ev]) = there h"
begin

lemma guarded_kept: "guarded prot mark there h \<Longrightarrow> \<not> is_update ev \<Longrightarrow> \<not> is_exec ev \<Longrightarrow> guarded prot mark there (h @ [ev])"
  by (auto simp: guarded_def prot_kept there_kept mark_mono)

lemma protected_guarded: "prot h \<Longrightarrow> guarded prot mark there h"
  by (simp add: guarded_def)

lemma in_step_kept: "in_step rcl ok prot mark s h \<Longrightarrow> \<not> is_update ev \<Longrightarrow> in_step rcl ok prot mark s (h @ [ev])"
  by (auto simp: in_step_def prot_kept mark_mono)

lemma released_guarded: "mark h \<Longrightarrow> \<not> there h \<Longrightarrow> guarded prot mark there (h @ [K8sUpdate ob])"
  by (simp add: guarded_def mark_mono there_kept)

end

context guarded_world
begin

text \<open>A step that sends no update keeps the object guarded while the finalizer is there.\<close>

lemma safe_protected:
  assumes "emits (\<lambda>ev. \<not> is_update ev) m" "\<And>h x h'. prot h \<Longrightarrow> m h = (Return x, h') \<Longrightarrow> R x h'"
  shows "safe (guarded prot mark there) (\<lambda>h. prot h \<and> mark h) m (\<lambda>x h. prot h \<and> mark h \<and> R x h)"
  by (rule safe_leaf [OF assms(1)]) (auto simp: prot_kept mark_mono protected_guarded assms(2))

lemma safe_gone:
  assumes "emits (\<lambda>ev. \<not> is_update ev \<and> \<not> is_exec ev) m"
  shows "safe (guarded prot mark there) (\<lambda>h. prot h \<and> mark h \<and> \<not> there h) m (\<lambda>_ h. prot h \<and> mark h \<and> \<not> there h)"
  by (rule safe_leaf [OF assms]) (auto simp: prot_kept mark_mono there_kept protected_guarded)

lemma safe_created:
  assumes "emits (\<lambda>ev. \<not> is_update ev) m" "\<And>h x h'. m h = (Return x, h') \<Longrightarrow> R x"
  shows "safe (guarded prot mark there) prot m (\<lambda>x h. prot h \<and> R x)"
  by (rule safe_leaf [OF assms(1)]) (auto simp: prot_kept protected_guarded assms(2))

lemma safe_inert:
  assumes "emits (\<lambda>ev. \<not> is_update ev \<and> \<not> is_exec ev) m"
  shows "safe (guarded prot mark there) (guarded prot mark there) m (\<lambda>_. guarded prot mark there)"
  by (rule safe_leaf [OF assms]) (auto simp: guarded_kept)

text \<open>The removal of the object followed by steps that change nothing.\<close>

lemma safe_removal:
  fixes m :: "('c \<times> error option) go"
  assumes drops: "emits (\<lambda>ev. \<not> is_update ev) m" "\<And>h c h'. m h = (Return (c, None), h') \<Longrightarrow> \<not> there h'"
    and fails: "\<And>c e. emits (\<lambda>ev. \<not> is_update ev) (f c e)" "\<And>c e h s res err h'. f c e h = (Return (s, res, err), h') \<Longrightarrow> err \<noteq> None \<or> Requeue res"
    and notify: "\<And>c. emits (\<lambda>ev. \<not> is_update ev \<and> \<not> is_exec ev) (g c)"
  shows "safe (guarded prot mark there) (\<lambda>h. prot h \<and> mark h)
    (bind_io m (\<lambda>(c, err). if err \<noteq> None then f c err else g c))
    (\<lambda>(s, res, err) h. guarded prot mark there h \<and> mark h \<and> (err = None \<and> \<not> Requeue res \<longrightarrow> \<not> there h))"
proof (rule safe_bind, rule safe_protected [OF drops(1), where R = "\<lambda>x h. snd x = None \<longrightarrow> \<not> there h"])
  show "snd x = None \<longrightarrow> \<not> there h'" if "m h = (Return x, h')" for h x h'
    using that drops(2) by (cases x) auto
  fix x :: "'c \<times> error option"
  obtain c err where x: "x = (c, err)" by fastforce
  have bad: "safe (guarded prot mark there) (\<lambda>h. prot h \<and> mark h) (f c err) (\<lambda>(s, res, err) h. guarded prot mark there h \<and> mark h \<and> (err = None \<and> \<not> Requeue res \<longrightarrow> \<not> there h))"
    by (rule safe_conseq [OF safe_protected [OF fails(1), where R = "\<lambda>(s, res, err) h. err \<noteq> None \<or> Requeue res"]])
      (auto simp: protected_guarded dest: fails(2))
  have good: "safe (guarded prot mark there) (\<lambda>h. prot h \<and> mark h \<and> \<not> there h) (g c) (\<lambda>(s, res, err) h. guarded prot mark there h \<and> mark h \<and> (err = None \<and> \<not> Requeue res \<longrightarrow> \<not> there h))"
    by (rule safe_conseq [OF safe_gone [OF notify]]) (auto simp: protected_guarded)
  show "safe (guarded prot mark there) (\<lambda>h. prot h \<and> mark h \<and> (snd x = None \<longrightarrow> \<not> there h))
     (case x of (c, err) \<Rightarrow> if err \<noteq> None then f c err else g c)
     (\<lambda>(s, res, err) h. guarded prot mark there h \<and> mark h \<and> (err = None \<and> \<not> Requeue res \<longrightarrow> \<not> there h))"
    unfolding x prod.case snd_conv by (rule safe_if; rule safe_pre [OF bad] safe_pre [OF good]; simp)
qed

end

text \<open>
  What a controller must keep so that its object is guarded at every point: it believes that the object is absent only when it is, it
  reports the removal only when the object is gone, and none of its operations but the loop's own sends an
  update.
\<close>

locale guarded_controller = guarded_world prot mark there for prot mark there +
  fixes rcl :: "'s Reconcilable" and ok :: "'s \<Rightarrow> bool" and s0 :: 's
  assumes load_cr: "safe (guarded prot mark there) (guarded prot mark there) (rc_LoadCR rcl s0)
      (\<lambda>(s, res, err) h. guarded prot mark there h \<and> (err = None \<and> \<not> Requeue res \<longrightarrow> in_step rcl ok prot mark s h))"
    and load_obj: "safe (guarded prot mark there) (\<lambda>h. guarded prot mark there h \<and> in_step rcl ok prot mark s h) (rc_LoadObj rcl s)
      (\<lambda>(s', x) h. guarded prot mark there h \<and> in_step rcl ok prot mark s' h \<and>
        (markedToBeDeleted (rc_GetCR rcl s') \<longleftrightarrow> markedToBeDeleted (rc_GetCR rcl s)) \<and>
        (x = Inr False \<longrightarrow> \<not> there h) \<and> (\<forall>e. x = Inl e \<longrightarrow> \<not> IsCannotFindError e))"
    and create: "safe (guarded prot mark there) (\<lambda>h. prot h \<and> ContainsFinalizer (rc_GetCR rcl s)) (rc_CreateObj rcl s)
      (\<lambda>(s', _) h. prot h \<and> ContainsFinalizer (rc_GetCR rcl s'))"
    and ensure: "safe (guarded prot mark there) (\<lambda>h. prot h \<and> ContainsFinalizer (rc_GetCR rcl s)) (rc_EnsureCorrect rcl s)
      (\<lambda>(s', _) h. prot h \<and> ContainsFinalizer (rc_GetCR rcl s'))"
    and remove: "safe (guarded prot mark there) (\<lambda>h. prot h \<and> in_step rcl ok prot mark s h \<and> markedToBeDeleted (rc_GetCR rcl s)) (rc_RemoveObj rcl s)
      (\<lambda>(s', res, err) h. guarded prot mark there h \<and> mark h \<and> (err = None \<and> \<not> Requeue res \<longrightarrow> \<not> there h))"
    and cleanup: "safe (guarded prot mark there) (guarded prot mark there) (rc_CleanupConn rcl s) (\<lambda>_. guarded prot mark there)"
begin

lemma release_safe:
  "safe (guarded prot mark there) (\<lambda>h. mark h \<and> \<not> there h) (on_cr rcl (RemoveFinalizer E) s) (\<lambda>_. guarded prot mark there)"
  unfolding on_cr_def RemoveFinalizer_def Update_cr_def
  by (rule safe_leaf [where A = is_update])
    (auto simp: guarded_def mark_mono there_kept elim!: is_update.elims intro!: emits_intro)

lemma ensure_finalizer_safe:
  "safe (guarded prot mark there) (\<lambda>h. prot h \<and> ContainsFinalizer (rc_GetCR rcl s)) (on_cr rcl (EnsureFinalizer E) s) (\<lambda>_. guarded prot mark there)"
  by (rule safeI) (simp add: on_cr_def EnsureFinalizer_def AddFinalizerToCr_def run protected_guarded)

lemma reconcile_obj_safe:
  "safe (guarded prot mark there)
     (\<lambda>h. guarded prot mark there h \<and> in_step rcl ok prot mark s h \<and> (\<not> exists \<longrightarrow> \<not> there h))
     (reconcile_obj E rcl exists (markedToBeDeleted (rc_GetCR rcl s)) s) (\<lambda>_. guarded prot mark there)"
proof (cases "markedToBeDeleted (rc_GetCR rcl s)")
  case True
  have removed: "safe (guarded prot mark there) (\<lambda>h. prot h \<and> in_step rcl ok prot mark s h \<and> markedToBeDeleted (rc_GetCR rcl s))
     (bind_io (rc_RemoveObj rcl s) (\<lambda>(s, res, err).
        if err = None \<and> \<not> Requeue res then bind_io (on_cr rcl (RemoveFinalizer E) s) (\<lambda>(s, err). ret (s, res, err)) else ret (s, res, err)))
     (\<lambda>_. guarded prot mark there)"
    by (rule safe_bind [OF remove])
      (auto intro!: safe_ret safe_if safe_case_prod safe_bind [OF safe_pre [OF release_safe]])
  have released: "safe (guarded prot mark there) (\<lambda>h. mark h \<and> \<not> there h)
     (bind_io (on_cr rcl (RemoveFinalizer E) s) (\<lambda>(s, err). ret (s, no_result, err))) (\<lambda>_. guarded prot mark there)"
    by (rule safe_bind [OF release_safe]) (auto intro!: safe_ret safe_case_prod)
  show ?thesis
    using True by (auto simp: reconcile_obj_def in_step_def intro!: safe_ret safe_pre [OF removed] safe_pre [OF released])
next
  case False
  have kept: "safe (guarded prot mark there) (\<lambda>h. prot h \<and> ContainsFinalizer (rc_GetCR rcl s))
     (bind_io (rc_EnsureCorrect rcl s) (\<lambda>(s, res, err).
        if err = None \<and> \<not> Requeue res
        then bind_io (on_cr rcl (EnsureFinalizer E) s) (\<lambda>(s, res, err). if err \<noteq> None then ret (s, RetryAfter 3, None) else ret (s, res, err))
        else ret (s, res, err))) (\<lambda>_. guarded prot mark there)"
    by (rule safe_bind [OF ensure])
      (auto simp: protected_guarded intro!: safe_ret safe_if safe_case_prod safe_bind [OF safe_pre [OF ensure_finalizer_safe]])
  have created: "safe (guarded prot mark there) (\<lambda>h. prot h \<and> ContainsFinalizer (rc_GetCR rcl s))
     (bind_io (rc_CreateObj rcl s) (\<lambda>(s, res, err).
        if err = None \<and> \<not> Requeue res then on_cr rcl (EnsureFinalizer E) s else ret (s, res, err))) (\<lambda>_. guarded prot mark there)"
    by (rule safe_bind [OF create])
      (auto simp: protected_guarded intro!: safe_ret safe_if safe_case_prod safe_pre [OF ensure_finalizer_safe])
  show ?thesis
    using False by (auto simp: reconcile_obj_def in_step_def intro!: safe_pre [OF kept] safe_pre [OF created])
qed

lemma reconcile_loaded_safe:
  "safe (guarded prot mark there) (\<lambda>h. guarded prot mark there h \<and> in_step rcl ok prot mark s h) (reconcile_loaded E rcl s) (\<lambda>_. guarded prot mark there)"
  unfolding reconcile_loaded_def Let_def
proof (rule safe_bind [OF load_obj], clarify)
  fix s' x
  let ?P = "\<lambda>h. guarded prot mark there h \<and> in_step rcl ok prot mark s' h \<and>
        (markedToBeDeleted (rc_GetCR rcl s') \<longleftrightarrow> markedToBeDeleted (rc_GetCR rcl s)) \<and>
        (x = Inr False \<longrightarrow> \<not> there h) \<and> (\<forall>e. x = Inl e \<longrightarrow> \<not> IsCannotFindError e)"
  have silent: "safe (guarded prot mark there) (guarded prot mark there) m (\<lambda>_. guarded prot mark there)" if "emits (\<lambda>_. False) m" for m :: "'b go"
    using that by (rule safe_silent) auto
  show "safe (guarded prot mark there) ?P
     (case x of Inl err \<Rightarrow> if CannotFindError err \<and> markedToBeDeleted (rc_GetCR rcl s) then bind_io (on_cr rcl (RemoveFinalizer E) s') (\<lambda>(s, _). ret (s, no_result))
          else bind_io (GradualBackoffRetry E (m_CreationTimestamp (obj_meta (rc_GetCR rcl s')))) (\<lambda>res. ret (s', res))
      | Inr exists \<Rightarrow> bind_io (reconcile_obj E rcl exists (markedToBeDeleted (rc_GetCR rcl s)) s') (handle_error E rcl (markedToBeDeleted (rc_GetCR rcl s))))
     (\<lambda>_. guarded prot mark there)"
  proof (cases x)
    case (Inl err)
    show ?thesis
    proof (cases "IsCannotFindError err")
      case True
      with Inl show ?thesis by (auto simp: safe_def)
    next
      case False
      with Inl show ?thesis by (auto intro!: safe_pre [OF silent] emits_intro)
    qed
  next
    case (Inr exists)
    show ?thesis
    proof (cases "markedToBeDeleted (rc_GetCR rcl s') \<longleftrightarrow> markedToBeDeleted (rc_GetCR rcl s)")
      case True
      with Inr show ?thesis
        by (auto simp flip: True intro!: safe_bind [OF safe_pre [OF reconcile_obj_safe]] silent emits_intro)
    next
      case False
      then show ?thesis by (auto simp: safe_def)
    qed
  qed
qed

lemma Reconcile_guarded: "safe (guarded prot mark there) (guarded prot mark there) (Reconcile E rcl s0) (\<lambda>_. guarded prot mark there)"
  unfolding Reconcile_def
proof (rule safe_bind [OF load_cr], clarify)
  fix s res err
  have step: "safe (guarded prot mark there) (\<lambda>h. guarded prot mark there h \<and> in_step rcl ok prot mark s h)
      (bind_io (reconcile_loaded E rcl s) (\<lambda>(s, res). bind_io (rc_CleanupConn rcl s) (\<lambda>_. ret res))) (\<lambda>_. guarded prot mark there)"
    by (rule safe_bind [OF reconcile_loaded_safe]) (auto intro!: safe_case_prod safe_bind [OF cleanup] safe_ret)
  show "safe (guarded prot mark there) (\<lambda>h. guarded prot mark there h \<and> (err = None \<and> \<not> Requeue res \<longrightarrow> in_step rcl ok prot mark s h))
      (if err \<noteq> None \<or> Requeue res then ret res
       else bind_io (reconcile_loaded E rcl s) (\<lambda>(s, res). bind_io (rc_CleanupConn rcl s) (\<lambda>_. ret res))) (\<lambda>_. guarded prot mark there)"
    by (rule safe_if) (auto intro!: safe_ret safe_pre [OF step])
qed

end

end
