(* ===== verification/Guarding.thy ===== *)
theory Guarding
  imports Crash DbLifecycle UserController
begin

section \<open>No object is orphaned while its server is known\<close>

text \<open>
  The operator may be stopped at any point and started again, every call may fail, and the resource may be marked for deletion at any
  moment, but the resource of the server stays.  Here the world is a function of the history of calls; an environment is honest about it if
  it lists an object that is there and if a statement that succeeds has its effect.  For the
  controllers of databases and users the object stays guarded: a resource that has once carried the finalizer loses it only
  when its object is gone.
\<close>

subsection \<open>Errors that are not the API server's NotFound\<close>

definition plain :: "error + 'a \<Rightarrow> bool" where
  "plain r \<longleftrightarrow> (\<forall>e. r = Inl e \<longrightarrow> \<not> IsCannotFindError e)"

lemma plain_simps [simp]: "plain (Inr x)" "plain (Inl e) \<longleftrightarrow> \<not> IsCannotFindError e" "\<not> IsCannotFindError (Err s)"
  by (simp_all add: plain_def IsCannotFindError_def)

text \<open>The errors of the drivers and of the file system are not status errors of the API server.\<close>

definition foreign_errors :: "env \<Rightarrow> bool" where
  "foreign_errors E \<longleftrightarrow>
     (\<forall>h d s. plain (sql_open E h d s)) \<and> (\<forall>h c q args. plain (sql_query E h c q args)) \<and>
     (\<forall>h f s e. fs_write E h f s = Some e \<longrightarrow> \<not> IsCannotFindError e)"

lemma yields_call: "(\<And>h. Q (f h)) \<Longrightarrow> yields Q (call ev f)"
  by (rule yieldsI) (auto simp: run)

lemma yields_try_plain:
  "yields plain m \<Longrightarrow> (\<And>e. \<not> IsCannotFindError e \<Longrightarrow> yields Q (handler e)) \<Longrightarrow> (\<And>x. yields Q (rest x)) \<Longrightarrow> yields Q (try_io m handler rest)"
  unfolding try_io_def by (erule yields_bind) (auto split: sum.split)

lemma plain_writeToTempFile: "foreign_errors E \<Longrightarrow> yields plain (writeToTempFile E contents)"
  by (rule yieldsI) (auto simp: writeToTempFile_def foreign_errors_def Let_def run split: if_splits option.splits)

lemma plain_add_cert: "foreign_errors E \<Longrightarrow> yields plain (add_cert E opt cert s)"
  unfolding add_cert_def
  by (rule yields_case_option) (auto intro!: yields_ret yields_try_plain [OF plain_writeToTempFile])

lemma plain_connect:
  assumes "foreign_errors E"
  shows "yields plain (PostgresConnect E info creds db)" "yields plain (MySqlConnect E info creds db)"
proof -
  have "yields plain (call (SqlOpen d s) (\<lambda>h. sql_open E h d s))" for d s
    using assms by (intro yields_call) (simp add: foreign_errors_def)
  moreover have "yields plain (connect_string E info creds dn m)" for dn m
    unfolding connect_string_def getConnectionString_def Let_def
    by (intro yields_case_option yields_if yields_bind_any yields_try_plain plain_add_cert yields_ret assms) simp_all
  ultimately show "yields plain (PostgresConnect E info creds db)" "yields plain (MySqlConnect E info creds db)"
    unfolding PostgresConnect_def MySqlConnect_def Let_def
    by (auto simp: passwordless_error_def intro!: yields_try_plain yields_ret yields_case_option)
qed

lemma plain_GetDbConnection:
  assumes "\<And>info creds db. yields plain (C info creds db)"
  shows "yields (\<lambda>(st, r). plain r) (GetDbConnection C st u d)"
  unfolding GetDbConnection_def Let_def
  by (auto simp: store_creds_def intro!: yields_case_option yields_ret yields_case_sum yields_try_plain [OF assms] split: option.splits)

lemma plain_on_conn:
  assumes "\<And>info creds db. yields plain (C info creds db)" "\<And>p c. yields (\<lambda>(p, r). plain r) (k p c)"
  shows "yields (\<lambda>(p, r). plain r) (on_conn C p u d Inl k)"
  unfolding on_conn_def
  by (rule yields_bind [OF plain_GetDbConnection [OF assms(1)]]) (auto intro!: yields_case_sum yields_ret assms(2))

lemma plain_keep: "yields plain m \<Longrightarrow> yields (\<lambda>(p, r). plain r) (keep p m)"
  unfolding keep_def by (erule yields_bind) (auto intro!: yields_ret)

lemma plain_Query: "foreign_errors E \<Longrightarrow> yields plain (Query E c q args)"
  unfolding Query_def by (rule yields_call) (simp add: foreign_errors_def)

lemma plain_string_col [simp]: "plain (string_col L (Err s) rows)"
  by (induction rows) (auto split: sum.splits list.splits)

lemma plain_rows [simp]: "plain (db_rows L rows m)" "plain (user_rows L rows us)" "plain (mysql_user_rows L rows us)"
  by (induction rows arbitrary: m us) (auto split: sum.splits list.splits)

lemma plain_case_sum [simp]: "plain x \<Longrightarrow> plain (case x of Inl e \<Rightarrow> Inl e | Inr y \<Rightarrow> Inr (f y))"
  by (cases x) auto

lemma plain_dispatch:
  assumes "\<And>p. yields (\<lambda>(p, r). plain r) (pg p)" "\<And>m. yields (\<lambda>(m, r). plain r) (my m)"
  shows "yields (\<lambda>(c, r). plain r) (dispatch conn pg my)"
  unfolding dispatch_def using assms by (cases conn) (auto intro!: yields_bind [OF assms(1)] yields_bind [OF assms(2)] yields_ret)

lemma plain_lists:
  assumes "foreign_errors E"
  shows "yields (\<lambda>(c, r). plain r) (conn_GetDbs E conn)" "yields (\<lambda>(c, r). plain r) (conn_GetUsers E conn)"
  unfolding conn_GetDbs_def conn_GetUsers_def GetDbs_pg_def GetDbs_mysql_def GetUsers_pg_def GetUsers_mysql_def
  by (intro plain_dispatch plain_on_conn plain_connect assms plain_keep yields_try_plain [OF plain_Query [OF assms]] yields_ret; simp)+


lemma plain_fill_creds [simp]: "plain (fill_creds cr data pk ca tk tc ns n)"
  by (auto simp: fill_creds_def secret_key_def missing_key_def Let_def split: sum.split option.split)

lemma plain_GetCredentials: "yields plain (GetCredentials E srv)"
  unfolding GetCredentials_def GetDbServerSecrets_def Let_def
  by (intro yields_try_plain yields_intro; simp)

lemma plain_for_io:
  "(\<And>x s. x \<in> set xs \<Longrightarrow> yields plain (body x s)) \<Longrightarrow> yields plain (for_io xs body s)"
proof (induction xs arbitrary: s)
  case Nil
  show ?case by (simp add: yields_ret)
next
  case (Cons x xs)
  have head: "yields plain (body x s)" by (rule Cons.prems) simp
  have "yields plain (for_io xs body s)" for s by (rule Cons.IH) (simp add: Cons.prems)
  then show ?case by (simp, intro yields_bind [OF head]) (auto intro!: yields_case_sum yields_ret)
qed

text \<open>A connection is refused for the lack of a grantor only if the grantor's own resource is missing.\<close>

definition grantors_stay :: "env \<Rightarrow> string \<Rightarrow> string list \<Rightarrow> bool" where
  "grantors_stay E ns gs \<longleftrightarrow> (\<forall>h. \<forall>g \<in> set gs. plain (get_User_cr E h \<lparr>nn_Namespace = ns, nn_Name = g\<rparr>))"

lemma plain_GetDbConnection_reco:
  assumes "grantors_stay E (nn_Namespace nsnm) gs"
  shows "yields plain (GetDbConnection_reco E nsnm srv gs d)"
proof -
  have creds: "yields plain (GetUserCredentials E u)" for u
    unfolding GetUserCredentials_def Let_def empty_secret_name_def
    by (intro yields_try_plain yields_intro; simp)
  have user: "yields plain (GetCredentialsForUser E (nn_Namespace nsnm) n)" if "n \<in> set gs" for n
    using that assms unfolding GetCredentialsForUser_def Let_def
    by (intro yields_try_plain [OF yields_call] yields_ret creds) (simp_all add: grantors_stay_def)
  have "yields plain (for_io gs (\<lambda>userName userCredentials.
           try_io (GetCredentialsForUser E (nn_Namespace nsnm) userName) (\<lambda>err. ret (Inl err))
             (\<lambda>credentials. ret (Inr (AList.update userName credentials userCredentials)))) [])"
    by (intro plain_for_io yields_try_plain [OF user] yields_ret) simp_all
  then show ?thesis
    unfolding GetDbConnection_reco_def GetConnectInfo_def GetServerConnection_def Let_def server_type_error_def
    by (intro yields_try_plain plain_GetCredentials yields_ret; simp)
qed

subsection \<open>What a successful listing and a successful drop mean\<close>

definition lists_name :: "string \<Rightarrow> gval list \<Rightarrow> bool" where
  "lists_name n row \<longleftrightarrow> row \<noteq> [] \<and> (hd row = GStr n \<or> hd row = GBytes n)"

definition listed :: "gval list list \<Rightarrow> string \<Rightarrow> bool" where
  "listed rows n \<longleftrightarrow> list_ex (lists_name n) rows"

lemma listed_Cons: "listed (row # rows) n \<longleftrightarrow> lists_name n row \<or> listed rows n"
  by (simp add: listed_def)

lemma scan_strings_hd: "scan_strings L k row = Inr ss \<Longrightarrow> lists_name n row \<Longrightarrow> ss \<noteq> [] \<and> ss ! 0 = n"
  by (cases row) (auto simp: lists_name_def scan_strings_def scan_any_def scan_string_def split: sum.splits if_splits)

lemma string_col_listed: "string_col L err rows = Inr names \<Longrightarrow> listed rows n \<Longrightarrow> n \<in> set names"
proof (induction rows arbitrary: names)
  case Nil
  then show ?case by (simp add: listed_def)
next
  case (Cons row rows)
  from Cons.prems(1) obtain s ss where s: "scan_strings L 1 row = Inr [s]" "string_col L err rows = Inr ss" "names = s # ss"
    by (auto split: sum.splits list.splits)
  show ?case
  proof (cases "lists_name n row")
    case True
    then show ?thesis using scan_strings_hd [OF s(1)] s(3) by auto
  next
    case False
    then show ?thesis using Cons s by (simp add: listed_Cons)
  qed
qed

lemma db_rows_listed: "db_rows L rows m = Inr m' \<Longrightarrow> listed rows n \<or> map_of m n \<noteq> None \<Longrightarrow> map_of m' n \<noteq> None"
proof (induction rows arbitrary: m)
  case Nil
  then show ?case by (simp add: listed_def)
next
  case (Cons row rows)
  from Cons.prems(1) obtain ss where ss: "scan_strings L 1 row = Inr ss" "db_rows L rows (AList.update (ss ! 0) \<lparr>sd_DatbaseName = ss ! 0\<rparr> m) = Inr m'"
    by (auto split: sum.splits)
  from Cons.prems(2) scan_strings_hd [OF ss(1)]
  have "listed rows n \<or> map_of (AList.update (ss ! 0) \<lparr>sd_DatbaseName = ss ! 0\<rparr> m) n \<noteq> None"
    by (auto simp: listed_Cons update_conv')
  then show ?case by (rule Cons.IH [OF ss(2)])
qed

lemma user_rows_listed: "user_rows L rows m = Inr m' \<Longrightarrow> listed rows n \<or> map_of m n \<noteq> None \<Longrightarrow> map_of m' n \<noteq> None"
proof (induction rows arbitrary: m)
  case Nil
  then show ?case by (simp add: listed_def)
next
  case (Cons row rows)
  from Cons.prems(1) obtain u a where ss: "scan_strings L 2 row = Inr [u, a]" "user_rows L rows (AList.update u \<lparr>su_UserName = u, su_Attributes = a\<rparr> m) = Inr m'"
    by (auto split: sum.splits list.splits)
  from Cons.prems(2) scan_strings_hd [OF ss(1)]
  have "listed rows n \<or> map_of (AList.update u \<lparr>su_UserName = u, su_Attributes = a\<rparr> m) n \<noteq> None"
    by (auto simp: listed_Cons update_conv')
  then show ?case by (rule Cons.IH [OF ss(2)])
qed

lemma mysql_user_rows_listed:
  assumes "\<not> HasPrefix n ''mysql.''"
  shows "mysql_user_rows L rows m = Inr m' \<Longrightarrow> listed rows n \<or> map_of m n \<noteq> None \<Longrightarrow> map_of m' n \<noteq> None"
proof (induction rows arbitrary: m)
  case Nil
  then show ?case by (simp add: listed_def)
next
  case (Cons row rows)
  from Cons.prems(1) obtain u a where ss: "scan_strings L 2 row = Inr [u, a]"
      "mysql_user_rows L rows (if \<not> HasPrefix u ''mysql.'' then AList.update u \<lparr>su_UserName = u, su_Attributes = a\<rparr> m else m) = Inr m'"
    by (auto split: sum.splits list.splits)
  from Cons.prems(2) scan_strings_hd [OF ss(1)] assms
  have "listed rows n \<or> map_of (if \<not> HasPrefix u ''mysql.'' then AList.update u \<lparr>su_UserName = u, su_Attributes = a\<rparr> m else m) n \<noteq> None"
    by (auto simp: listed_Cons update_conv')
  then show ?case by (rule Cons.IH [OF ss(2)])
qed

text \<open>A listing that succeeds ends with a query, and every name of its answer is in the map that is returned.\<close>

definition db_lists :: "string list" where
  "db_lists = [datname_query, dbs_query]"

definition user_lists :: "string list" where
  "user_lists = [pg_users_query, ''select user, host from mysql.user;'']"

definition listing :: "env \<Rightarrow> string list \<Rightarrow> string \<Rightarrow> 'v gomap \<Rightarrow> hist \<Rightarrow> bool" where
  "listing E qs n m h \<longleftrightarrow>
     (\<exists>h1 c q rows. q \<in> set qs \<and> h = h1 @ [SqlQuery c q []] \<and> sql_query E h1 c q [] = Inr rows \<and>
        (listed (row_data rows) n \<longrightarrow> map_of m n \<noteq> None))"

lemma conn_GetDbs_lists: "conn_GetDbs E conn h = (Return (conn', Inr m), h') \<Longrightarrow> listing E db_lists n m h'"
  unfolding conn_GetDbs_def dispatch_def GetDbs_pg_def GetDbs_mysql_def listing_def db_lists_def
  by (auto simp: on_conn_run keep_def Query_def run datname_query_def map_of_names db_rows_listed simp del: not_None_eq
      dest!: string_col_listed split: DbServerConnection.splits prod.splits outcome.splits sum.splits)

lemma conn_GetUsers_lists:
  "conn_GetUsers E conn h = (Return (conn', Inr m), h') \<Longrightarrow> \<not> HasPrefix n ''mysql.'' \<Longrightarrow> listing E user_lists n m h'"
  unfolding conn_GetUsers_def dispatch_def GetUsers_pg_def GetUsers_mysql_def listing_def user_lists_def
  by (auto simp: on_conn_run keep_def Query_def run user_rows_listed mysql_user_rows_listed simp del: not_None_eq
      split: DbServerConnection.splits prod.splits outcome.splits sum.splits)

text \<open>A removal that succeeds ends with a statement that drops the object, and that statement succeeded.\<close>

definition db_drops :: "libs \<Rightarrow> string \<Rightarrow> string list" where
  "db_drops L n = [drop_stmt L n, ''DROP DATABASE '' @ pq_QuoteIdentifier L n @ '' CASCADE;'', ''DROP DATABASE `'' @ n @ ''`;'']"

definition user_drops :: "libs \<Rightarrow> string \<Rightarrow> string list" where
  "user_drops L n = [''DROP USER IF EXISTS '' @ pq_QuoteIdentifier L n @ '';'', ''DROP USER '' @ user_at_host n ''%'' @ '';'']"

definition dropping :: "env \<Rightarrow> string list \<Rightarrow> hist \<Rightarrow> bool" where
  "dropping E qs h \<longleftrightarrow> (\<exists>h1 c q. q \<in> set qs \<and> h = h1 @ [SqlExec c q []] \<and> sql_exec E h1 c q [] = None)"

lemma conn_DropDb_drops: "conn_DropDb E conn n casc h = (Return (conn', None), h') \<Longrightarrow> dropping E (db_drops (lib E) n) h'"
  unfolding conn_DropDb_def dispatch_def DropDb_pg_def DropDb_mysql_def dropping_def db_drops_def drop_stmt_def
  by (auto simp: on_conn_run keep_def Exec_def run Let_def
      split: DbServerConnection.splits prod.splits outcome.splits sum.splits if_splits)

lemma conn_DropUser_drops:
  "conn_DropUser E conn spec h = (Return (conn', None), h') \<Longrightarrow> dropping E (user_drops (lib E) (usr_UserName spec)) h'"
  unfolding conn_DropUser_def dispatch_def DropUser_pg_def DropUser_mysql_def dropping_def user_drops_def and_then_def
  by (auto simp: on_conn_run keep_def Exec_def run Let_def
      split: DbServerConnection.splits prod.splits outcome.splits sum.splits if_splits option.splits)

subsection \<open>The controller of databases\<close>

text \<open>
  What is assumed of the world, as functions of the history of calls: \<open>cr\<close>, the stored resource, and \<open>there\<close>, whether the object \<open>n\<close> is on
  the server.  A mark is not taken back, only updates change the finalizers, only statements change the server, a statement of
  \<open>ds\<close> that succeeds removes the object, and the answers to the queries \<open>qs\<close> list an object that
  is there.  Every call may fail, and the resource may be marked at any point.
\<close>

definition honest :: "env \<Rightarrow> (hist \<Rightarrow> k8s_obj) \<Rightarrow> (hist \<Rightarrow> bool) \<Rightarrow> string list \<Rightarrow> string list \<Rightarrow> string \<Rightarrow> bool" where
  "honest E cr there qs ds n \<longleftrightarrow>
     (\<forall>h ev. markedToBeDeleted (cr h) \<longrightarrow> markedToBeDeleted (cr (h @ [ev]))) \<and>
     (\<forall>h ev. \<not> is_update ev \<longrightarrow> ContainsFinalizer (cr (h @ [ev])) = ContainsFinalizer (cr h)) \<and>
     (\<forall>h ev. \<not> is_exec ev \<longrightarrow> there (h @ [ev]) = there h) \<and>
     (\<forall>h c q. q \<in> set ds \<longrightarrow> sql_exec E h c q [] = None \<longrightarrow> \<not> there (h @ [SqlExec c q []])) \<and>
     (\<forall>h c q rows. q \<in> set qs \<longrightarrow> there h \<longrightarrow> sql_query E h c q [] = Inr rows \<longrightarrow> listed (row_data rows) n) \<and>
     foreign_errors E"

text \<open>The resource of the server stays, and listing the servers does not answer NotFound.\<close>

definition server_stays :: "env \<Rightarrow> string \<Rightarrow> string \<Rightarrow> bool" where
  "server_stays E s ns \<longleftrightarrow> (\<forall>h. plain (get_DbServers E h) \<and> (\<forall>items. get_DbServers E h = Inr items \<longrightarrow> plain (choose_server s ns items)))"

abbreviation stored_finalizer :: "(hist \<Rightarrow> k8s_obj) \<Rightarrow> hist \<Rightarrow> bool" where
  "stored_finalizer cr \<equiv> \<lambda>h. ContainsFinalizer (cr h)"

abbreviation stored_mark :: "(hist \<Rightarrow> k8s_obj) \<Rightarrow> hist \<Rightarrow> bool" where
  "stored_mark cr \<equiv> \<lambda>h. markedToBeDeleted (cr h)"

lemma honest_world: "honest E cr there qs ds n \<Longrightarrow> guarded_world (stored_finalizer cr) (stored_mark cr) there"
  by unfold_locales (auto simp: honest_def)

lemma dropping_gone: "honest E cr there qs ds n \<Longrightarrow> dropping E ds h \<Longrightarrow> \<not> there h"
  by (auto simp: honest_def dropping_def)

lemma listing_there: "honest E cr there qs ds n \<Longrightarrow> listing E qs n m h \<Longrightarrow> there h \<Longrightarrow> map_of m n \<noteq> None"
  unfolding honest_def listing_def by fastforce

lemma plain_GetDbServer: "server_stays E s ns \<Longrightarrow> yields plain (GetDbServer E s ns)"
  by (rule yieldsI) (auto simp: GetDbServer_def server_stays_def plain_def run pick_server_eq simp del: plain_simps split: sum.splits)

definition db_stored :: "env \<Rightarrow> NamespacedName \<Rightarrow> (hist \<Rightarrow> Db) \<Rightarrow> string \<Rightarrow> string \<Rightarrow> bool" where
  "db_stored E req cr srv n \<longleftrightarrow>
     (\<forall>h db. get_Db_cr E h req = Inr db \<longrightarrow> db = cr h) \<and>
     (\<forall>h. db_DbName (db_Spec (cr h)) = n \<and> db_Server (db_Spec (cr h)) = srv \<and> db_DropOnDeletion (db_Spec (cr h)))"

lemma db_storedD:
  assumes "db_stored E req cr srv n"
  shows "get_Db_cr E h req = Inr db \<Longrightarrow> db = cr h" "db_DbName (db_Spec (cr h)) = n" "db_Server (db_Spec (cr h)) = srv"
    "db_DropOnDeletion (db_Spec (cr h))"
  using assms unfolding db_stored_def by blast+

definition db_ok :: "NamespacedName \<Rightarrow> string \<Rightarrow> string \<Rightarrow> DbReco \<Rightarrow> bool" where
  "db_ok req srv n r \<longleftrightarrow>
     dr_NsNm r = req \<and> db_DbName (db_Spec (dr_db r)) = n \<and> db_Server (db_Spec (dr_db r)) = srv \<and> db_DropOnDeletion (db_Spec (dr_db r))"

lemma quiet_inert: "quiet ev \<Longrightarrow> \<not> is_update ev \<and> \<not> is_exec ev"
  by (cases ev) auto

lemma LoadObj_db_absent:
  assumes "honest E cr there db_lists ds n" "server_stays E srv (nn_Namespace req)" "db_ok req srv n r"
    and "LoadObj_db E r h = (Return (r', x), h')"
  shows "plain x" "x = Inr False \<Longrightarrow> \<not> there h'" "dr_NsNm r' = dr_NsNm r"
proof -
  have srv: "\<And>e h1. GetDbServer E srv (nn_Namespace req) h = (Return (Inl e), h1) \<Longrightarrow> \<not> IsCannotFindError e"
    using yieldsD [OF plain_GetDbServer [OF assms(2)]] by fastforce
  have "grantors_stay E (nn_Namespace req) []" by (simp add: grantors_stay_def)
  then have conn: "\<And>dbServer e h1 h2. GetDbConnection_reco E req dbServer [] None h1 = (Return (Inl e), h2) \<Longrightarrow> \<not> IsCannotFindError e"
    using yieldsD [OF plain_GetDbConnection_reco] by fastforce
  have "foreign_errors E" using assms(1) by (simp add: honest_def)
  then have dbs: "\<And>conn e h1 h2 c. conn_GetDbs E conn h1 = (Return (c, Inl e), h2) \<Longrightarrow> \<not> IsCannotFindError e"
    using yieldsD [OF plain_lists(1)] by fastforce
  have seen: "\<And>conn m h1 h2 c. conn_GetDbs E conn h1 = (Return (c, Inr m), h2) \<Longrightarrow> there h2 \<Longrightarrow> map_of m n \<noteq> None"
    by (rule listing_there [OF assms(1) conn_GetDbs_lists])
  show "plain x"
    using assms(3,4) srv conn dbs
    by (auto simp: LoadObj_db_def db_ok_def plain_def run Let_def simp del: plain_simps split: sum.splits prod.splits outcome.splits if_splits)
  show "x = Inr False \<Longrightarrow> \<not> there h'"
    using assms(3,4) srv seen
    by (auto simp: LoadObj_db_def db_ok_def run Let_def simp del: not_None_eq split: sum.splits prod.splits outcome.splits if_splits)
  show "dr_NsNm r' = dr_NsNm r"
    using assms(4) by (auto simp: LoadObj_db_def run Let_def split: sum.splits prod.splits outcome.splits if_splits)
qed

lemma backoff_queued: "LogAndBackoffDeletion E ob h = (Return (res, err), h') \<Longrightarrow> Requeue res"
  "LogAndBackoffCreation E ob h = (Return (res, err), h') \<Longrightarrow> Requeue res"
  by (auto simp: LogAndBackoffDeletion_def LogAndBackoffCreation_def deletion_backoff_def run GradualBackoffRetry_def Let_def RetryAfter_def
      split: option.splits if_splits)

text \<open>The resource that was just read is in step with the stored one.\<close>

lemma in_step_read:
  assumes w: "guarded_world (stored_finalizer cr) (stored_mark cr) there" and G: "guarded (stored_finalizer cr) (stored_mark cr) there h"
    and s: "ok s" "rc_GetCR rcl s = cr h" and ev: "\<not> is_update ev"
  shows "in_step rcl ok (stored_finalizer cr) (stored_mark cr) s (h @ [ev])"
  using G s guarded_world.mark_mono [OF w, of h ev] guarded_world.prot_kept [OF w ev, of h] by (auto simp: in_step_def guarded_def)

lemma guarded_controllerI:
  fixes rcl :: "'s Reconcilable" and ok :: "'s \<Rightarrow> bool" and prot mark there :: "hist \<Rightarrow> bool"
  defines "G \<equiv> guarded prot mark there" and "synced \<equiv> in_step rcl ok prot mark"
  assumes w: "guarded_world prot mark there"
    and load_cr: "emits (\<lambda>ev. \<not> is_update ev \<and> \<not> is_exec ev) (rc_LoadCR rcl s0)"
      "\<And>h s res h'. G h \<Longrightarrow> rc_LoadCR rcl s0 h = (Return (s, res, None), h') \<Longrightarrow> \<not> Requeue res \<Longrightarrow> synced s h'"
    and load_obj: "\<And>s. emits (\<lambda>ev. \<not> is_update ev \<and> \<not> is_exec ev) (rc_LoadObj rcl s)"
      "\<And>s h s' x h'. ok s \<Longrightarrow> rc_LoadObj rcl s h = (Return (s', x), h') \<Longrightarrow>
         ok s' \<and> rc_GetCR rcl s' = rc_GetCR rcl s \<and> plain x \<and> (x = Inr False \<longrightarrow> \<not> there h')"
    and create: "\<And>s. emits (\<lambda>ev. \<not> is_update ev) (rc_CreateObj rcl s)"
      "\<And>s h s' x h'. rc_CreateObj rcl s h = (Return (s', x), h') \<Longrightarrow> rc_GetCR rcl s' = rc_GetCR rcl s"
    and ensure: "\<And>s. emits (\<lambda>ev. \<not> is_update ev) (rc_EnsureCorrect rcl s)"
      "\<And>s h s' x h'. rc_EnsureCorrect rcl s h = (Return (s', x), h') \<Longrightarrow> rc_GetCR rcl s' = rc_GetCR rcl s"
    and remove: "\<And>s. ok s \<Longrightarrow> safe G (\<lambda>h. prot h \<and> mark h) (rc_RemoveObj rcl s)
         (\<lambda>(s', res, err) h. G h \<and> mark h \<and> (err = None \<and> \<not> Requeue res \<longrightarrow> \<not> there h))"
    and cleanup: "\<And>s. emits (\<lambda>ev. \<not> is_update ev \<and> \<not> is_exec ev) (rc_CleanupConn rcl s)"
  shows "guarded_controller prot mark there rcl ok s0"
proof (rule guarded_controller.intro [OF w], rule guarded_controller_axioms.intro, goal_cases)
  case 1
  show ?case
    by (rule safe_leaf [OF load_cr(1)]) (use load_cr(2) in \<open>auto simp: G_def synced_def guarded_world.guarded_kept [OF w]\<close>)
next
  case (2 s)
  show ?case
  proof (rule safe_leaf [OF load_obj(1)], goal_cases)
    case (1 h ev)
    then show ?case by (simp add: guarded_world.guarded_kept [OF w] guarded_world.in_step_kept [OF w])
  next
    case (2 h)
    then show ?case by simp
  next
    case (3 h y h')
    obtain s' x where y: "y = (s', x)" by fastforce
    have "ok s" using 3 by (simp add: in_step_def)
    from load_obj(2) [OF this] 3(3) y have "ok s'" "rc_GetCR rcl s' = rc_GetCR rcl s" "plain x" "x = Inr False \<longrightarrow> \<not> there h'" by blast+
    with 3(2) y show ?case by (simp add: in_step_def plain_def)
  qed
next
  case (3 s)
  show ?case
    by (rule safe_leaf [OF create(1)])
      (auto simp: guarded_world.prot_kept [OF w] guarded_world.protected_guarded [OF w] dest!: create(2))
next
  case (4 s)
  show ?case
    by (rule safe_leaf [OF ensure(1)])
      (auto simp: guarded_world.prot_kept [OF w] guarded_world.protected_guarded [OF w] dest!: ensure(2))
next
  case (5 s)
  show ?case
  proof (cases "ok s")
    case True
    show ?thesis by (rule safe_pre [OF remove [OF True, unfolded G_def]]) (simp add: in_step_def)
  next
    case False
    then show ?thesis by (simp add: safe_def in_step_def)
  qed
next
  case (6 s)
  show ?case by (rule guarded_world.safe_inert [OF w cleanup])
qed

lemma CreateObj_db_keeps: "CreateObj_db E r h = (Return (r', x), h') \<Longrightarrow> dr_db r' = dr_db r"
  by (auto simp: CreateObj_db_def LogAndBackoffCreation_def run Let_def split: sum.splits prod.splits outcome.splits if_splits option.splits)

lemma RemoveObj_db_safe:
  assumes h: "honest E cr there db_lists (db_drops (lib E) n) n" and ok: "db_ok req srv n r"
  defines "G \<equiv> guarded (stored_finalizer cr) (stored_mark cr) there"
  shows "safe G (\<lambda>h. stored_finalizer cr h \<and> stored_mark cr h) (RemoveObj_db E r)
    (\<lambda>(r', res, err) h. G h \<and> stored_mark cr h \<and> (err = None \<and> \<not> Requeue res \<longrightarrow> \<not> there h))"
proof (cases "dr_conn r")
  case None
  with ok show ?thesis by (auto simp: RemoveObj_db_def db_ok_def G_def guarded_def Let_def intro!: safe_panic)
next
  case (Some conn)
  have n: "db_DbName (db_Spec (dr_db r)) = n" "db_DropOnDeletion (db_Spec (dr_db r))" using ok by (simp_all add: db_ok_def)
  have eq: "RemoveObj_db E r = bind_io (conn_DropDb E conn n (db_CascadeOnDrop (db_Spec (dr_db r)))) (\<lambda>(conn, err).
      if err \<noteq> None then bind_io (LogAndBackoffDeletion E (GetCR_db (r\<lparr>dr_conn := Some conn\<rparr>))) (\<lambda>(res, e). ret (r\<lparr>dr_conn := Some conn\<rparr>, res, e))
      else bind_io (NotifyChanges_db E (r\<lparr>dr_conn := Some conn\<rparr>)) (\<lambda>_. ret (r\<lparr>dr_conn := Some conn\<rparr>, no_result, None)))"
    by (simp add: RemoveObj_db_def Some n Let_def)
  show ?thesis
    unfolding G_def eq
  proof (intro guarded_world.safe_removal [OF honest_world [OF h]], goal_cases)
    case 1
    show ?case by (rule any_server.emits_drop_db) (auto simp: quiet_no_update exec_no_update)
  next
    case (2 h' c h'')
    show ?case by (rule dropping_gone [OF h conn_DropDb_drops [OF 2]])
  next
    case (3 c e)
    show ?case unfolding LogAndBackoffDeletion_def deletion_backoff_def by (intro emits_intro)
  next
    case (4 c e h' s res err h'')
    then show ?case by (auto simp: run dest!: backoff_queued(1) split: prod.splits outcome.splits)
  next
    case (5 c)
    show ?case by (intro emits_intro emits_NotifyChanges_db) auto
  qed
qed

text \<open>The stored resource of a database with \<^verbatim>\<open>DropOnDeletion\<close>, and a world that is honest about the database.\<close>

locale honest_databases =
  fixes E :: env and req :: NamespacedName and cr :: "hist \<Rightarrow> Db" and there :: "hist \<Rightarrow> bool" and srv n :: string
  assumes honest: "honest E (\<lambda>h. O_Db (cr h)) there db_lists (db_drops (lib E) n) n"
    and server: "server_stays E srv (nn_Namespace req)"
    and stored: "db_stored E req cr srv n"

sublocale honest_databases \<subseteq> guarded_controller "stored_finalizer (\<lambda>h. O_Db (cr h))" "stored_mark (\<lambda>h. O_Db (cr h))" there
  "db_rcl E" "db_ok req srv n" "\<lparr>dr_NsNm = req, dr_db = zero_db, dr_dbs = [], dr_conn = None\<rparr>"
proof (rule guarded_controllerI [OF honest_world [OF honest]], goal_cases)
  case 1
  show ?case by (auto intro!: emits_LoadCR_db)
next
  case (2 h s res h')
  from 2(2,3) have "get_Db_cr E h req = Inr (dr_db s)" "dr_NsNm s = req" "h' = h @ [K8sGet K_Db req]"
    by (auto simp: LoadCR_db_def run dest!: backoff_queued(2) split: sum.splits prod.splits outcome.splits)
  note loaded = this
  have "dr_db s = cr h" by (rule db_storedD(1) [OF stored loaded(1)])
  moreover have "db_ok req srv n s" using db_storedD(2-4) [OF stored] loaded calculation by (simp add: db_ok_def)
  ultimately show ?case by (simp add: loaded(3) in_step_read [OF honest_world [OF honest] 2(1)] GetCR_db_def)
next
  case (3 s)
  show ?case by (auto simp: quiet_inert intro!: emits_LoadObj_db)
next
  case (4 s h s' x h')
  then show ?case
    using LoadObj_db_absent [OF honest server, of s h s' x h'] LoadObj_db_keeps [of E s h s' x h'] by (auto simp: db_ok_def GetCR_db_def)
next
  case (5 s)
  show ?case by (auto simp: quiet_no_update exec_no_update intro!: emits_CreateObj_db)
next
  case (6 s h s' x h')
  then show ?case by (simp add: GetCR_db_def CreateObj_db_keeps)
next
  case (7 s)
  show ?case by (auto simp: EnsureCorrect_db_def intro!: emits_intro)
next
  case (8 s h s' x h')
  then show ?case by (simp add: EnsureCorrect_db_def run)
next
  case (9 s)
  then show ?case unfolding db_rcl_sel by (rule RemoveObj_db_safe [OF honest])
next
  case (10 s)
  show ?case unfolding db_rcl_sel by (rule emits_CleanupConn_db) (auto elim!: is_close.elims)
qed

subsection \<open>Any number of reconciliations, stopped anywhere\<close>

text \<open>
  The histories of an operator that runs \<open>R\<close> again and again: a run may be cut off after any of its calls, and between the
  runs others may make calls that are neither updates nor statements.  The resource is marked by somebody else; that
  the stored resource changes then is part of the world.
\<close>

inductive operated :: "Result go \<Rightarrow> hist \<Rightarrow> hist \<Rightarrow> bool" for R h0 where
  start: "operated R h0 h0"
| reconcile: "operated R h0 h \<Longrightarrow> R h = (out, h @ es) \<Longrightarrow> prefix xs es \<Longrightarrow> operated R h0 (h @ xs)"
| elsewhere: "operated R h0 h \<Longrightarrow> \<not> is_update ev \<Longrightarrow> \<not> is_exec ev \<Longrightarrow> operated R h0 (h @ [ev])"

lemma operated_keeps:
  assumes "operated R h0 h" "I h0" "safe I I R Q" "\<And>h ev. I h \<Longrightarrow> \<not> is_update ev \<Longrightarrow> \<not> is_exec ev \<Longrightarrow> I (h @ [ev])"
  shows "I h"
  using assms(1)
proof (induction rule: operated.induct)
  case start
  show ?case by (fact assms(2))
next
  case (reconcile h out es xs)
  show ?case by (rule safeD(1) [OF assms(3) reconcile.IH reconcile.hyps(2,3)])
next
  case (elsewhere h ev)
  then show ?case by (simp add: assms(4))
qed

context guarded_controller
begin

lemma operated_guarded: "operated (Reconcile E rcl s0) h0 h \<Longrightarrow> prot h0 \<Longrightarrow> guarded prot mark there h"
  by (rule operated_keeps [OF _ protected_guarded Reconcile_guarded]) (auto simp: guarded_kept)

end

context honest_databases
begin

lemma operated_databases:
  "operated (Reconcile_db E req) h0 h \<Longrightarrow> ContainsFinalizer (O_Db (cr h0)) \<Longrightarrow>
     ContainsFinalizer (O_Db (cr h)) \<or> markedToBeDeleted (O_Db (cr h)) \<and> \<not> there h"
  unfolding Reconcile_db_def by (drule (1) operated_guarded) (simp add: guarded_def)

end

text \<open>C2: no database is orphaned while the resource of its server is there: once the resource of a database with
  \<^verbatim>\<open>DropOnDeletion\<close> carries the operator's finalizer, it loses it only when it is marked for deletion and its database
  is gone.  The operator may be stopped after any call and started again, any call may fail, and the resource may be marked at any
  point; but the list of the servers, when it is answered, has the server that the spec names, no error of a listing, of a driver or
  of the file system is the API server's NotFound, the spec keeps its server, its name and \<^verbatim>\<open>DropOnDeletion\<close>, a mark
  stays and the finalizers change only by the operator's updates, and the server is honest: a listing that is answered shows the
  database if it is there, and a drop that succeeds has its effect.\<close>

theorem databases_never_orphaned:
  assumes "honest E (\<lambda>h. O_Db (cr h)) there db_lists (db_drops (lib E) n) n" "server_stays E srv (nn_Namespace req)" "db_stored E req cr srv n"
    and "ContainsFinalizer (O_Db (cr h0))" "operated (Reconcile_db E req) h0 h"
  shows "ContainsFinalizer (O_Db (cr h)) \<or> markedToBeDeleted (O_Db (cr h)) \<and> \<not> there h"
  using honest_databases.operated_databases [OF honest_databases.intro [OF assms(1-3)] assms(5,4)] .

text \<open>A world with a marked resource: an update releases it, a statement drops the database.\<close>

definition kept_db :: "hist \<Rightarrow> Db" where
  "kept_db h = (demo_db (Some 0))\<lparr>db_meta := (db_meta (demo_db (Some 0)))\<lparr>m_Finalizers := if list_ex is_update h then [] else [DB_OPERATOR_FINALIZER]\<rparr>\<rparr>"

definition kept_there :: "hist \<Rightarrow> bool" where
  "kept_there h \<longleftrightarrow> \<not> list_ex is_exec h"

definition kept_env :: env where
  "kept_env =
     null_env\<lparr>get_Db_cr := \<lambda>h _. Inr (kept_db h), k8s_update := \<lambda>_ ob. Inr ob, get_DbServers := \<lambda>_. Inr [demo_server ''ns''],
       get_Secret := \<lambda>_ _. Inr \<lparr>sec_meta = new_meta ''s'' ''ns'' [], sec_Data = []\<rparr>, sql_open := \<lambda>_ _ _. Inr 5,
       sql_query := \<lambda>h _ _ _. Inr \<lparr>row_cols = Inr [''datname''], row_data = (if kept_there h then [[GStr ''app'']] else [])\<rparr>,
       sql_exec := \<lambda>_ _ _ _. None\<rparr>"

lemma kept_env_foreign: "foreign_errors kept_env"
  by (simp add: foreign_errors_def kept_env_def null_env_def)

lemma kept_flags: "markedToBeDeleted (O_Db (kept_db h))" "ContainsFinalizer (O_Db (kept_db h)) \<longleftrightarrow> \<not> list_ex is_update h"
  by (simp_all add: markedToBeDeleted_def ContainsFinalizer_def kept_db_def demo_db_def)

interpretation kept: honest_databases kept_env "\<lparr>nn_Namespace = ''ns'', nn_Name = ''db''\<rparr>" kept_db kept_there "''srv''" "''app''"
proof
  have "\<not> kept_there (h @ [SqlExec c q []])" for h c q by (simp add: kept_there_def)
  moreover have "kept_there (h @ [ev]) \<longleftrightarrow> kept_there h" if "\<not> is_exec ev" for h ev using that by (simp add: kept_there_def)
  moreover have "listed (row_data rows) ''app''" if "kept_there h" "sql_query kept_env h c q [] = Inr rows" for h c q rows
    using that by (auto simp: kept_env_def listed_def lists_name_def)
  ultimately show "honest kept_env (\<lambda>h. O_Db (kept_db h)) kept_there db_lists (db_drops (lib kept_env) ''app'') ''app''"
    by (auto simp: honest_def kept_env_foreign kept_flags)
  show "server_stays kept_env ''srv'' (nn_Namespace \<lparr>nn_Namespace = ''ns'', nn_Name = ''db''\<rparr>)"
    by (simp add: server_stays_def kept_env_def choose_server_def named_def local_to_def demo_server_def new_meta_def)
  show "db_stored kept_env \<lparr>nn_Namespace = ''ns'', nn_Name = ''db''\<rparr> kept_db ''srv'' ''app''"
    by (simp add: db_stored_def kept_env_def kept_db_def demo_db_def)
qed

text \<open>A server that answers, without certificates.\<close>

definition serves :: "env \<Rightarrow> bool" where
  "serves E \<longleftrightarrow>
     lib E = ref_libs \<and> (\<forall>h. get_DbServers E h = Inr [demo_server ''ns'']) \<and>
     (\<forall>h s. get_Secret E h s = Inr \<lparr>sec_meta = new_meta ''s'' ''ns'' [], sec_Data = []\<rparr>) \<and> (\<forall>h d s. sql_open E h d s = Inr 5) \<and>
     (\<forall>h c q args. sql_exec E h c q args = None) \<and> (\<forall>h ob. k8s_update E h ob = Inr ob)"

lemma serves_server:
  "serves E \<Longrightarrow> GetDbServer E ''srv'' ''ns'' h = (Return (Inr (demo_server ''ns'')), h @ [K8sList K_DbServer])"
  by (simp add: serves_def run choose_server_def named_def local_to_def demo_server_def new_meta_def)

lemma serves_conn:
  assumes "serves E" "kept_there h"
  obtains p h' where "usable p" "GetDbConnection_reco E req (demo_server ''ns'') [] None h = (Return (Inr (Pg p)), h')" "kept_there h'"
proof -
  have "ToLower ''postgres'' = ''postgres''" by code_simp
  then have "\<exists>p s. usable p \<and> GetDbConnection_reco E req (demo_server ''ns'') [] None h = (Return (Inr (Pg p)), h @ [K8sGet K_Secret s])"
    using assms(1)
    by (auto simp: GetDbConnection_reco_def GetConnectInfo_def GetCredentials_def GetDbServerSecrets_def fill_creds_def secret_key_def
        GetServerConnection_def NewPostgresConnection_def serves_def demo_server_def new_meta_def usable_def plain_creds_def Let_def run)
  then show ?thesis using assms(2) that by (auto simp: kept_there_def)
qed

lemma serves_on_conn:
  assumes "serves E" "usable p"
  obtains p' c es where "on_conn (PostgresConnect E) p None None fail k h = k p' c (h @ es)" "usable p'" "\<not> list_ex is_exec es"
proof -
  have "\<exists>st c es. GetDbConnection (PostgresConnect E) (pc_store p) None None h = (Return (st, Inr c), h @ es) \<and>
      cs_ServerConnInfo st = cs_ServerConnInfo (pc_store p) \<and> \<not> list_ex is_exec es"
    using assms
    by (auto simp: GetDbConnection_def store_creds_def PostgresConnect_def connect_string_def getConnectionString_def usable_def plain_creds_def
        serves_def Let_def run split: option.split)
  then obtain st c es where "GetDbConnection (PostgresConnect E) (pc_store p) None None h = (Return (st, Inr c), h @ es)"
      "cs_ServerConnInfo st = cs_ServerConnInfo (pc_store p)" "\<not> list_ex is_exec es" by blast
  then show ?thesis using assms by (intro that [of "p\<lparr>pc_store := st\<rparr>" c es]) (simp_all add: on_conn_run usable_def)
qed

text \<open>A removal that succeeded is followed by the update that takes the finalizer away.\<close>

lemma serves_release:
  assumes "serves E" and cr: "rc_LoadCR rcl init [] = (Return (s0, no_result, None), h0)" and marked: "markedToBeDeleted (rc_GetCR rcl s0)"
    and obj: "rc_LoadObj rcl s0 h0 = (Return (s, Inr True), h)" and fin: "ContainsFinalizer (rc_GetCR rcl s)"
    and rm: "rc_RemoveObj rcl s h = (Return (s', no_result, None), h1)" and clean: "\<And>s. emits (\<lambda>_. True) (rc_CleanupConn rcl s)"
  shows "list_ex is_update (snd (Reconcile E rcl init []))"
proof -
  obtain s2 ob where mid: "reconcile_obj E rcl True True s h = (Return (s2, no_result, None), h1 @ [K8sUpdate ob])"
    using assms(1) fin rm by (auto simp: reconcile_obj_def on_cr_def RemoveFinalizer_def Update_cr_def serves_def run)
  obtain es where "snd (rc_CleanupConn rcl s2 (h1 @ [K8sUpdate ob])) = (h1 @ [K8sUpdate ob]) @ es" using emitsE [OF clean] by blast
  moreover have "Reconcile E rcl init [] = bind_io (rc_CleanupConn rcl s2) (\<lambda>_. ret no_result) (h1 @ [K8sUpdate ob])"
    using cr marked obj mid by (simp add: Reconcile_def reconcile_loaded_def handle_error_def run_bind run_ret Let_def)
  ultimately show ?thesis by (auto simp: run split: prod.splits outcome.splits)
qed

lemma kept_serves: "serves kept_env"
  by (simp add: serves_def kept_env_def)

lemma kept_dbs:
  assumes "usable p" "kept_there h"
  obtains p' m h' where "GetDbs_pg kept_env p h = (Return (p', Inr m), h')" "usable p'" "map_of m ''app'' \<noteq> None"
proof -
  obtain p' c es where "GetDbs_pg kept_env p h = keep p' (try_io (Query kept_env c datname_query []) (\<lambda>err. ret (Inl err))
         (\<lambda>rows. ret (case string_col (lib kept_env) (Err ''unable to load PostgresDb'') (row_data rows) of
             Inl err \<Rightarrow> Inl err
           | Inr names \<Rightarrow> Inr (fold (\<lambda>d m. AList.update d \<lparr>sd_DatbaseName = d\<rparr> m) names [])))) (h @ es)"
      and p': "usable p'" "\<not> list_ex is_exec es"
    using serves_on_conn [OF kept_serves assms(1)] unfolding GetDbs_pg_def datname_query_def by blast
  then show ?thesis
    using assms(2) that by (fastforce simp: keep_def run kept_env_def kept_there_def scan_strings_def scan_any_def scan_string_def)
qed

lemma kept_drop:
  assumes "usable p"
  obtains p' h' where "DropDb_pg kept_env p ''app'' False h = (Return (p', None), h')"
proof -
  obtain p' c es where "DropDb_pg kept_env p ''app'' False h =
      keep p' (Exec kept_env c (''DROP DATABASE '' @ pq_QuoteIdentifier (lib kept_env) ''app'' @ '' '' @ '';'') []) (h @ es)"
    using serves_on_conn [OF kept_serves assms] unfolding DropDb_pg_def by (simp add: Let_def) blast
  then show ?thesis using that by (simp add: keep_def run kept_env_def)
qed

lemma kept_run: "list_ex is_update (snd (Reconcile_db kept_env \<lparr>nn_Namespace = ''ns'', nn_Name = ''db''\<rparr> []))"
proof -
  let ?req = "\<lparr>nn_Namespace = ''ns'', nn_Name = ''db''\<rparr>" and ?db = "kept_db []"
  let ?r = "\<lparr>dr_NsNm = ?req, dr_db = ?db, dr_dbs = [], dr_conn = None\<rparr>" and ?h = "[K8sGet K_Db ?req]"
  have spec: "db_Spec ?db = \<lparr>db_Server = ''srv'', db_DbName = ''app'', db_DropOnDeletion = True, db_CascadeOnDrop = False, db_AfterCreateSQL = ''''\<rparr>"
    by (simp add: kept_db_def demo_db_def)
  have ns: "m_Namespace (db_meta ?db) = ''ns''" by (simp add: kept_db_def demo_db_def new_meta_def)
  obtain p h3 where conn: "usable p" "GetDbConnection_reco kept_env ?req (demo_server ''ns'') [] None (?h @ [K8sList K_DbServer]) = (Return (Inr (Pg p)), h3)"
      "kept_there h3"
    by (rule serves_conn [OF kept_serves]) (auto simp: kept_there_def)
  obtain p' m h4 where dbs: "GetDbs_pg kept_env p h3 = (Return (p', Inr m), h4)" "usable p'" "map_of m ''app'' \<noteq> None"
    by (rule kept_dbs [OF conn(1,3)])
  obtain p'' h5 where gone: "DropDb_pg kept_env p' ''app'' False h4 = (Return (p'', None), h5)" by (rule kept_drop [OF dbs(2)])
  let ?r2 = "?r\<lparr>dr_conn := Some (Pg p'), dr_dbs := m\<rparr>"
  obtain es where notify: "NotifyChanges_db kept_env (?r2\<lparr>dr_conn := Some (Pg p'')\<rparr>) h5 = (Return (), h5 @ es)"
    by (simp add: NotifyChanges_db_def TriggerDbServerReconcile_def spec ns run_try run_emit serves_server [OF kept_serves])
  have cr: "rc_LoadCR (db_rcl kept_env) (?r\<lparr>dr_db := zero_db\<rparr>) [] = (Return (?r, no_result, None), ?h)"
    by (simp add: LoadCR_db_def kept_env_def run)
  have obj: "rc_LoadObj (db_rcl kept_env) ?r ?h = (Return (?r2, Inr True), h4)"
    using serves_server [OF kept_serves] conn dbs
    by (auto simp: LoadObj_db_def spec conn_GetDbs_def dispatch_def run_try run_bind run_ret Let_def)
  have rm: "rc_RemoveObj (db_rcl kept_env) ?r2 h4 = (Return (?r2\<lparr>dr_conn := Some (Pg p'')\<rparr>, no_result, None), h5 @ es)"
    using gone notify by (simp add: RemoveObj_db_def spec conn_DropDb_def dispatch_def run_bind run_ret Let_def)
  have "list_ex is_update (snd (Reconcile kept_env (db_rcl kept_env) (?r\<lparr>dr_db := zero_db\<rparr>) []))"
    by (rule serves_release [OF kept_serves cr _ obj _ rm]) (auto simp: GetCR_db_def kept_flags intro: emits_CleanupConn_db)
  then show ?thesis by (simp add: Reconcile_db_def)
qed

theorem databases_never_orphaned_witness:
  "\<exists>h. operated (Reconcile_db kept_env \<lparr>nn_Namespace = ''ns'', nn_Name = ''db''\<rparr>) [] h \<and> \<not> ContainsFinalizer (O_Db (kept_db h)) \<and> \<not> kept_there h"
proof -
  let ?R = "Reconcile_db kept_env \<lparr>nn_Namespace = ''ns'', nn_Name = ''db''\<rparr>"
  obtain out es where run: "?R [] = (out, [] @ es)" by fastforce
  then have "operated ?R [] ([] @ es)" by (rule operated.reconcile [OF operated.start]) simp
  moreover have "\<not> ContainsFinalizer (O_Db (kept_db ([] @ es)))" using run kept_run by (simp add: kept_flags)
  moreover have "ContainsFinalizer (O_Db (kept_db []))" by (simp add: kept_flags)
  ultimately show ?thesis
    using databases_never_orphaned [OF kept.honest kept.server kept.stored] by blast
qed

subsection \<open>The controller of users\<close>

definition user_stored :: "env \<Rightarrow> NamespacedName \<Rightarrow> (hist \<Rightarrow> User) \<Rightarrow> string \<Rightarrow> string \<Rightarrow> string list \<Rightarrow> bool" where
  "user_stored E req cr srv n gs \<longleftrightarrow>
     (\<forall>h user. get_User_cr E h req = Inr user \<longrightarrow> user = cr h) \<and>
     (\<forall>h. let spec = usr_Spec (cr h) in
        usr_UserName spec = n \<and> usr_DbServerName spec = srv \<and> usr_DropOnDeletion spec \<and> GetGrantorNamesFromDbPrivs (usr_DbPrivs spec) = gs)"

lemma user_storedD:
  assumes "user_stored E req cr srv n gs"
  shows "get_User_cr E h req = Inr user \<Longrightarrow> user = cr h" "usr_UserName (usr_Spec (cr h)) = n" "usr_DbServerName (usr_Spec (cr h)) = srv"
    "usr_DropOnDeletion (usr_Spec (cr h))" "GetGrantorNamesFromDbPrivs (usr_DbPrivs (usr_Spec (cr h))) = gs"
  using assms unfolding user_stored_def Let_def by blast+

definition user_ok :: "NamespacedName \<Rightarrow> string \<Rightarrow> string \<Rightarrow> string list \<Rightarrow> UserReco \<Rightarrow> bool" where
  "user_ok req srv n gs r \<longleftrightarrow>
     (let spec = usr_Spec (ur_user r) in
      ur_NsNm r = req \<and> usr_UserName spec = n \<and> usr_DbServerName spec = srv \<and> usr_DropOnDeletion spec \<and>
      GetGrantorNamesFromDbPrivs (usr_DbPrivs spec) = gs)"

lemma LoadObj_user_absent:
  assumes "honest E cr there user_lists ds n" "\<not> HasPrefix n ''mysql.''" "server_stays E srv (nn_Namespace req)"
    and "grantors_stay E (nn_Namespace req) gs" "user_ok req srv n gs r"
    and "LoadObj_user E r h = (Return (r', x), h')"
  shows "plain x" "x = Inr False \<Longrightarrow> \<not> there h'" "ur_NsNm r' = ur_NsNm r"
proof -
  have srv: "\<And>e h1. GetDbServer E srv (nn_Namespace req) h = (Return (Inl e), h1) \<Longrightarrow> \<not> IsCannotFindError e"
    using yieldsD [OF plain_GetDbServer [OF assms(3)]] by fastforce
  have conn: "\<And>dbServer e h1 h2. GetDbConnection_reco E req dbServer gs None h1 = (Return (Inl e), h2) \<Longrightarrow> \<not> IsCannotFindError e"
    using yieldsD [OF plain_GetDbConnection_reco [OF assms(4)]] by fastforce
  have "foreign_errors E" using assms(1) by (simp add: honest_def)
  then have users: "\<And>conn e h1 h2 c. conn_GetUsers E conn h1 = (Return (c, Inl e), h2) \<Longrightarrow> \<not> IsCannotFindError e"
    using yieldsD [OF plain_lists(2)] by fastforce
  have seen: "\<And>conn m h1 h2 c. conn_GetUsers E conn h1 = (Return (c, Inr m), h2) \<Longrightarrow> there h2 \<Longrightarrow> map_of m n \<noteq> None"
    by (rule listing_there [OF assms(1) conn_GetUsers_lists [OF _ assms(2)]])
  show "plain x"
    using assms(5,6) srv conn users
    by (auto simp: LoadObj_user_def user_ok_def plain_def run Let_def simp del: plain_simps split: sum.splits prod.splits outcome.splits if_splits)
  show "x = Inr False \<Longrightarrow> \<not> there h'"
    using assms(5,6) srv seen
    by (auto simp: LoadObj_user_def user_ok_def run Let_def simp del: not_None_eq split: sum.splits prod.splits outcome.splits if_splits)
  show "ur_NsNm r' = ur_NsNm r"
    using assms(6) by (auto simp: LoadObj_user_def run Let_def split: sum.splits prod.splits outcome.splits if_splits)
qed

lemma EnsureCorrect_user_keeps: "EnsureCorrect_user E r h = (Return (r', x), h') \<Longrightarrow> ur_user r' = ur_user r"
  by (auto simp: EnsureCorrect_user_def LogAndBackoffCreation_def run Let_def split: sum.splits prod.splits outcome.splits if_splits option.splits)

lemma CreateObj_user_keeps: "CreateObj_user E r h = (Return (r', x), h') \<Longrightarrow> ur_user r' = ur_user r"
  by (auto simp: CreateObj_user_def LogAndBackoffCreation_def run Let_def dest!: EnsureCorrect_user_keeps
      split: sum.splits prod.splits outcome.splits if_splits option.splits)

lemma RemoveObj_user_safe:
  assumes h: "honest E cr there user_lists (user_drops (lib E) n) n" and ok: "user_ok req srv n gs r"
  defines "G \<equiv> guarded (stored_finalizer cr) (stored_mark cr) there"
  shows "safe G (\<lambda>h. stored_finalizer cr h \<and> stored_mark cr h) (RemoveObj_user E r)
    (\<lambda>(r', res, err) h. G h \<and> stored_mark cr h \<and> (err = None \<and> \<not> Requeue res \<longrightarrow> \<not> there h))"
proof (cases "ur_conn r")
  case None
  with ok show ?thesis by (auto simp: RemoveObj_user_def user_ok_def G_def guarded_def Let_def intro!: safe_panic)
next
  case (Some conn)
  let ?spec = "usr_Spec (ur_user r)"
  have n: "usr_UserName ?spec = n" "usr_DropOnDeletion ?spec" using ok by (simp_all add: user_ok_def Let_def)
  have eq: "RemoveObj_user E r = bind_io (conn_DropUser E conn ?spec) (\<lambda>(conn, err).
      if err \<noteq> None then bind_io (LogAndBackoffDeletion E (GetCR_user (r\<lparr>ur_conn := Some conn\<rparr>))) (\<lambda>(res, e). ret (r\<lparr>ur_conn := Some conn\<rparr>, res, e))
      else bind_io (NotifyChanges_user E (r\<lparr>ur_conn := Some conn\<rparr>)) (\<lambda>_. ret (r\<lparr>ur_conn := Some conn\<rparr>, no_result, None)))"
    by (simp add: RemoveObj_user_def Some n Let_def)
  show ?thesis
    unfolding G_def eq
  proof (intro guarded_world.safe_removal [OF honest_world [OF h]], goal_cases)
    case 1
    show ?case by (rule any_user.emits_drop_user) (auto simp: quiet_no_update priv_no_update)
  next
    case (2 h' c h'')
    show ?case by (rule dropping_gone [OF h conn_DropUser_drops [OF 2, unfolded n]])
  next
    case (3 c e)
    show ?case unfolding LogAndBackoffDeletion_def deletion_backoff_def by (intro emits_intro)
  next
    case (4 c e h' s res err h'')
    then show ?case by (auto simp: run dest!: backoff_queued(1) split: prod.splits outcome.splits)
  next
    case (5 c)
    show ?case by (intro emits_intro emits_NotifyChanges_user) auto
  qed
qed

text \<open>
  The stored resource of a user with \<^verbatim>\<open>DropOnDeletion\<close>, and a world that is honest about the role.  \<^verbatim>\<open>GetUsers\<close> of MySQL leaves out the names
  that start with \<^verbatim>\<open>mysql.\<close>, and the resources of the grantors have to be there.
\<close>

locale honest_users =
  fixes E :: env and req :: NamespacedName and cr :: "hist \<Rightarrow> User" and there :: "hist \<Rightarrow> bool" and srv n :: string and gs :: "string list"
  assumes honest: "honest E (\<lambda>h. O_User (cr h)) there user_lists (user_drops (lib E) n) n"
    and server: "server_stays E srv (nn_Namespace req)"
    and stored: "user_stored E req cr srv n gs"
    and named: "\<not> HasPrefix n ''mysql.''"
    and grantors: "grantors_stay E (nn_Namespace req) gs"

sublocale honest_users \<subseteq> guarded_controller "stored_finalizer (\<lambda>h. O_User (cr h))" "stored_mark (\<lambda>h. O_User (cr h))" there
  "user_rcl E" "user_ok req srv n gs" "\<lparr>ur_NsNm = req, ur_user = zero_user, ur_users = [], ur_conn = None\<rparr>"
proof (rule guarded_controllerI [OF honest_world [OF honest]], goal_cases)
  case 1
  show ?case by (auto intro!: emits_LoadCR_user)
next
  case (2 h s res h')
  from 2(2,3) have "get_User_cr E h req = Inr (ur_user s)" "ur_NsNm s = req" "h' = h @ [K8sGet K_User req]"
    by (auto simp: LoadCR_user_def run split: sum.splits)
  note loaded = this
  have "ur_user s = cr h" by (rule user_storedD(1) [OF stored loaded(1)])
  moreover have "user_ok req srv n gs s" using user_storedD(2-5) [OF stored] loaded calculation by (simp add: user_ok_def)
  ultimately show ?case by (simp add: loaded(3) in_step_read [OF honest_world [OF honest] 2(1)] GetCR_user_def)
next
  case (3 s)
  show ?case by (auto simp: quiet_inert intro!: emits_LoadObj_user)
next
  case (4 s h s' x h')
  then show ?case
    using LoadObj_user_absent [OF honest named server grantors, of s h s' x h'] LoadObj_user_keeps [of E s h s' x h']
    by (auto simp: user_ok_def GetCR_user_def Let_def)
next
  case (5 s)
  show ?case by (auto simp: quiet_no_update exec_no_update priv_no_update intro!: emits_CreateObj_user)
next
  case (6 s h s' x h')
  then show ?case by (simp add: GetCR_user_def CreateObj_user_keeps)
next
  case (7 s)
  show ?case by (auto simp: quiet_no_update priv_no_update intro!: emits_EnsureCorrect_user)
next
  case (8 s h s' x h')
  then show ?case by (simp add: GetCR_user_def EnsureCorrect_user_keeps)
next
  case (9 s)
  then show ?case unfolding user_rcl_sel by (rule RemoveObj_user_safe [OF honest])
next
  case (10 s)
  show ?case unfolding user_rcl_sel by (rule emits_CleanupConn_user) (auto elim!: is_close.elims)
qed

context honest_users
begin

lemma operated_users:
  "operated (Reconcile_user E req) h0 h \<Longrightarrow> ContainsFinalizer (O_User (cr h0)) \<Longrightarrow>
     ContainsFinalizer (O_User (cr h)) \<or> markedToBeDeleted (O_User (cr h)) \<and> \<not> there h"
  unfolding Reconcile_user_def by (drule (1) operated_guarded) (simp add: guarded_def)

end

text \<open>C3: no user is orphaned while the resources of its server and of its grantors are there: once the resource of a user
  with \<^verbatim>\<open>DropOnDeletion\<close> carries the operator's finalizer, it loses it only when it is marked for deletion and the
  role is gone.  The operator may be stopped after any call and started again, any call may fail, and the resource may be marked at any
  point; but the list of the servers, when it is answered, has the server that the spec names, reading a grantor's resource does not
  answer NotFound, nor does an error of a listing, of a driver or of the file system, the spec keeps its server, its user name, its
  grantors and \<^verbatim>\<open>DropOnDeletion\<close>, the user name does not begin with \<open>mysql.\<close>, a mark stays and the finalizers change
  only by the operator's updates, and the server is honest: a listing that is answered shows the role if it is there, and a drop that
  succeeds has its effect.\<close>

theorem users_never_orphaned:
  assumes "honest E (\<lambda>h. O_User (cr h)) there user_lists (user_drops (lib E) n) n" "server_stays E srv (nn_Namespace req)" "user_stored E req cr srv n gs"
    and "\<not> HasPrefix n ''mysql.''" "grantors_stay E (nn_Namespace req) gs"
    and "ContainsFinalizer (O_User (cr h0))" "operated (Reconcile_user E req) h0 h"
  shows "ContainsFinalizer (O_User (cr h)) \<or> markedToBeDeleted (O_User (cr h)) \<and> \<not> there h"
  using honest_users.operated_users [OF honest_users.intro [OF assms(1-5)] assms(7,6)] .

text \<open>The same world for a marked user.\<close>

definition kept_user :: "hist \<Rightarrow> User" where
  "kept_user h =
     \<lparr>usr_meta = (new_meta ''u'' ''ns'' [])\<lparr>m_DeletionTimestamp := Some 0, m_Finalizers := if list_ex is_update h then [] else [DB_OPERATOR_FINALIZER]\<rparr>,
      usr_Spec = (usr_Spec zero_user)\<lparr>usr_UserName := ''app'', usr_DbServerName := ''srv'', usr_DropOnDeletion := True\<rparr>\<rparr>"

definition kept_user_env :: env where
  "kept_user_env =
     kept_env\<lparr>get_User_cr := \<lambda>h _. Inr (kept_user h),
       sql_query := \<lambda>h _ _ _. Inr \<lparr>row_cols = Inr [''role_name'', ''role_attributes''],
         row_data = (if kept_there h then [[GStr ''app'', GStr '''']] else [])\<rparr>\<rparr>"

lemma kept_user_flags: "markedToBeDeleted (O_User (kept_user h))" "ContainsFinalizer (O_User (kept_user h)) \<longleftrightarrow> \<not> list_ex is_update h"
  by (simp_all add: markedToBeDeleted_def ContainsFinalizer_def kept_user_def)

interpretation kept_users: honest_users kept_user_env "\<lparr>nn_Namespace = ''ns'', nn_Name = ''u''\<rparr>" kept_user kept_there "''srv''" "''app''" "[]"
proof
  have "\<not> kept_there (h @ [SqlExec c q []])" for h c q by (simp add: kept_there_def)
  moreover have "kept_there (h @ [ev]) \<longleftrightarrow> kept_there h" if "\<not> is_exec ev" for h ev using that by (simp add: kept_there_def)
  moreover have "listed (row_data rows) ''app''" if "kept_there h" "sql_query kept_user_env h c q [] = Inr rows" for h c q rows
    using that by (auto simp: kept_user_env_def listed_def lists_name_def)
  moreover have "foreign_errors kept_user_env" by (simp add: foreign_errors_def kept_user_env_def kept_env_def null_env_def)
  ultimately show "honest kept_user_env (\<lambda>h. O_User (kept_user h)) kept_there user_lists (user_drops (lib kept_user_env) ''app'') ''app''"
    by (auto simp: honest_def kept_user_flags)
  show "server_stays kept_user_env ''srv'' (nn_Namespace \<lparr>nn_Namespace = ''ns'', nn_Name = ''u''\<rparr>)"
    by (simp add: server_stays_def kept_user_env_def kept_env_def choose_server_def named_def local_to_def demo_server_def new_meta_def)
  show "user_stored kept_user_env \<lparr>nn_Namespace = ''ns'', nn_Name = ''u''\<rparr> kept_user ''srv'' ''app'' []"
    by (simp add: user_stored_def kept_user_env_def kept_user_def zero_user_def)
  show "\<not> HasPrefix ''app'' ''mysql.''" by code_simp
  show "grantors_stay kept_user_env (nn_Namespace \<lparr>nn_Namespace = ''ns'', nn_Name = ''u''\<rparr>) []" by (simp add: grantors_stay_def)
qed

lemma kept_user_serves: "serves kept_user_env"
  by (simp add: serves_def kept_user_env_def kept_env_def)

lemma kept_user_list:
  assumes "usable p" "kept_there h"
  obtains p' m h' where "GetUsers_pg kept_user_env p h = (Return (p', Inr m), h')" "usable p'" "map_of m ''app'' \<noteq> None"
proof -
  obtain p' c es where "GetUsers_pg kept_user_env p h = keep p' (try_io (Query kept_user_env c pg_users_query [])
         (\<lambda>err. ret (Inl (Err (''unable to read users from server '' @ error_msg err))))
         (\<lambda>rows. ret (user_rows (lib kept_user_env) (row_data rows) []))) (h @ es)"
      and p': "usable p'" "\<not> list_ex is_exec es"
    using serves_on_conn [OF kept_user_serves assms(1)] unfolding GetUsers_pg_def by blast
  then show ?thesis
    using assms(2) that
    by (fastforce simp: keep_def run kept_user_env_def kept_there_def scan_strings_def scan_any_def scan_string_def)
qed

lemma kept_user_drop:
  assumes "usable p" "usr_DropUserOptions spec = None"
  obtains p' h' where "DropUser_pg kept_user_env p spec h = (Return (p', None), h')"
proof -
  define k where "k = (\<lambda>(p :: SqlConnection) conn.
       and_then (case usr_DropUserOptions spec of None \<Rightarrow> ret (p, None) | Some opts \<Rightarrow> drop_user_options kept_user_env conn spec opts p) (\<lambda>p.
         keep p (Exec kept_user_env conn (''DROP USER IF EXISTS '' @ pq_QuoteIdentifier (lib kept_user_env) (usr_UserName spec) @ '';'') [])))"
  have "DropUser_pg kept_user_env p spec = on_conn (PostgresConnect kept_user_env) p None None Some k"
    by (simp add: DropUser_pg_def k_def)
  then obtain p' c es where "DropUser_pg kept_user_env p spec h = k p' c (h @ es)"
    using serves_on_conn [OF kept_user_serves assms(1)] by metis
  then show ?thesis using that assms(2) by (simp add: k_def and_then_def keep_def run kept_user_env_def kept_env_def)
qed

lemma kept_user_run: "list_ex is_update (snd (Reconcile_user kept_user_env \<lparr>nn_Namespace = ''ns'', nn_Name = ''u''\<rparr> []))"
proof -
  let ?req = "\<lparr>nn_Namespace = ''ns'', nn_Name = ''u''\<rparr>" and ?user = "kept_user []"
  let ?r = "\<lparr>ur_NsNm = ?req, ur_user = ?user, ur_users = [], ur_conn = None\<rparr>" and ?h = "[K8sGet K_User ?req]"
  have spec: "usr_UserName (usr_Spec ?user) = ''app''" "usr_DbServerName (usr_Spec ?user) = ''srv''" "usr_DropOnDeletion (usr_Spec ?user)"
      "usr_DropUserOptions (usr_Spec ?user) = None" "usr_DbPrivs (usr_Spec ?user) = []" "m_Namespace (usr_meta ?user) = ''ns''"
    by (simp_all add: kept_user_def zero_user_def new_meta_def)
  obtain p h3 where conn: "usable p" "GetDbConnection_reco kept_user_env ?req (demo_server ''ns'') [] None (?h @ [K8sList K_DbServer]) = (Return (Inr (Pg p)), h3)"
      "kept_there h3"
    by (rule serves_conn [OF kept_user_serves]) (auto simp: kept_there_def)
  obtain p' m h4 where users: "GetUsers_pg kept_user_env p h3 = (Return (p', Inr m), h4)" "usable p'" "map_of m ''app'' \<noteq> None"
    by (rule kept_user_list [OF conn(1,3)])
  obtain p'' h5 where gone: "DropUser_pg kept_user_env p' (usr_Spec ?user) h4 = (Return (p'', None), h5)" by (rule kept_user_drop [OF users(2) spec(4)])
  let ?r2 = "?r\<lparr>ur_conn := Some (Pg p'), ur_users := m\<rparr>"
  obtain es where notify: "NotifyChanges_user kept_user_env (?r2\<lparr>ur_conn := Some (Pg p'')\<rparr>) h5 = (Return (), h5 @ es)"
    by (simp add: NotifyChanges_user_def TriggerDbServerReconcile_def spec run_bind run_emit serves_server [OF kept_user_serves])
  have cr: "rc_LoadCR (user_rcl kept_user_env) (?r\<lparr>ur_user := zero_user\<rparr>) [] = (Return (?r, no_result, None), ?h)"
    by (simp add: LoadCR_user_def kept_user_env_def run)
  have obj: "rc_LoadObj (user_rcl kept_user_env) ?r ?h = (Return (?r2, Inr True), h4)"
    using serves_server [OF kept_user_serves] conn users
    by (auto simp: LoadObj_user_def spec conn_GetUsers_def dispatch_def run_try run_bind run_ret Let_def)
  have rm: "rc_RemoveObj (user_rcl kept_user_env) ?r2 h4 = (Return (?r2\<lparr>ur_conn := Some (Pg p'')\<rparr>, no_result, None), h5 @ es)"
    using gone notify by (simp add: RemoveObj_user_def spec conn_DropUser_def dispatch_def run_bind run_ret Let_def)
  have "list_ex is_update (snd (Reconcile kept_user_env (user_rcl kept_user_env) (?r\<lparr>ur_user := zero_user\<rparr>) []))"
    by (rule serves_release [OF kept_user_serves cr _ obj _ rm]) (auto simp: GetCR_user_def kept_user_flags intro: emits_CleanupConn_user)
  then show ?thesis by (simp add: Reconcile_user_def)
qed

theorem users_never_orphaned_witness:
  "\<exists>h. operated (Reconcile_user kept_user_env \<lparr>nn_Namespace = ''ns'', nn_Name = ''u''\<rparr>) [] h \<and> \<not> ContainsFinalizer (O_User (kept_user h)) \<and> \<not> kept_there h"
proof -
  let ?R = "Reconcile_user kept_user_env \<lparr>nn_Namespace = ''ns'', nn_Name = ''u''\<rparr>"
  obtain out es where run: "?R [] = (out, [] @ es)" by fastforce
  then have "operated ?R [] ([] @ es)" by (rule operated.reconcile [OF operated.start]) simp
  moreover have "\<not> ContainsFinalizer (O_User (kept_user ([] @ es)))" using run kept_user_run by (simp add: kept_user_flags)
  moreover have "ContainsFinalizer (O_User (kept_user []))" by (simp add: kept_user_flags)
  ultimately show ?thesis
    using users_never_orphaned [OF kept_users.honest kept_users.server kept_users.stored kept_users.named kept_users.grantors] by blast
qed

subsection \<open>The gap before the finalizer\<close>

text \<open>C39: The finalizer is added only after the object was created, so the guarantee above has to assume it: on a server that answers, the first
  reconciliation of a database passes a point at which its database exists while the stored
  resource has no finalizer.  If the operator is stopped there and the resource is deleted, the database
  stays behind.\<close>

theorem database_created_unprotected:
  assumes h: "healthy E req srv n h w" and srv: "plain_server srv" and db: "asks_for srv n (w_db w)"
    and new: "\<not> markedToBeDeleted (O_Db (w_db w))" "\<not> ContainsFinalizer (O_Db (w_db w))" "\<not> w_present w"
  shows "\<exists>es xs. Reconcile_db E req h = (Return no_result, h @ es) \<and> prefix xs es \<and>
    w_present (world_after (lib E) n xs w) \<and> \<not> ContainsFinalizer (O_Db (w_db (world_after (lib E) n xs w)))"
proof -
  let ?r = "\<lparr>dr_NsNm = req, dr_db = w_db w, dr_dbs = [], dr_conn = None\<rparr>" and ?h1 = "h @ [K8sGet K_Db req]"
  obtain es where es: "Reconcile_db E req h = (Return no_result, h @ es)" using Reconcile_db_healthy [OF h srv db] by blast
  have cr: "LoadCR_db E (?r\<lparr>dr_db := zero_db\<rparr>) h = (Return (?r, no_result, None), ?h1)"
    using healthy_now [OF h] by (simp add: LoadCR_db_def answers_def run)
  have h1: "healthy E req srv n ?h1 w" using healthy_later [OF h, of "[K8sGet K_Db req]"] by simp
  obtain r2 es2 where obj: "LoadObj_db E ?r ?h1 = (Return (r2, Inr False), ?h1 @ es2)" "dr_db r2 = w_db w" "conn_ready r2"
      "world_after (lib E) n es2 w = w"
    using LoadObj_healthy [OF h1 srv, of ?r] db new(3) by auto
  have h2: "healthy E req srv n (?h1 @ es2) w" using healthy_later [OF h1, of es2] obj(4) by simp
  obtain r3 es3 where made: "CreateObj_db E r2 (?h1 @ es2) = (Return (r3, no_result, None), (?h1 @ es2) @ es3)"
      "world_after (lib E) n es3 w = w\<lparr>w_present := True\<rparr>"
    using CreateObj_healthy [OF h2 _ obj(3)] db obj(2) by auto
  define k where "k = bind_io (bind_io (on_cr (db_rcl E) (EnsureFinalizer E) r3) (handle_error E (db_rcl E) False))
      (\<lambda>(s, res). bind_io (CleanupConn_db E s) (\<lambda>_. ret res))"
  have "Reconcile_db E req h = k ((?h1 @ es2) @ es3)"
    using cr obj(1,2) made(1) new(1)
    by (simp add: k_def Reconcile_db_def Reconcile_def reconcile_loaded_def reconcile_obj_def GetCR_db_def run_bind run_ret Let_def del: append_assoc)
  moreover have "emits (\<lambda>_. True) k"
    unfolding k_def on_cr_def EnsureFinalizer_def AddFinalizerToCr_def handle_error_def
    by (intro emits_intro emits_CleanupConn_db) simp_all
  then obtain fs where "snd (k ((?h1 @ es2) @ es3)) = ((?h1 @ es2) @ es3) @ fs" by (rule emitsE)
  ultimately have "es = ([K8sGet K_Db req] @ es2 @ es3) @ fs" using es by (simp add: prod_eq_iff)
  with es obj(4) made(2) new(2) show ?thesis
    by (intro exI [of _ es] exI [of _ "[K8sGet K_Db req] @ es2 @ es3"]) simp
qed

theorem database_created_unprotected_witness:
  "\<exists>es xs. Reconcile_db (stored_env demo_world) \<lparr>nn_Namespace = ''ns'', nn_Name = ''db''\<rparr> [] = (Return no_result, [] @ es) \<and> prefix xs es \<and>
    w_present (world_after ref_libs ''app'' xs demo_world) \<and> \<not> ContainsFinalizer (O_Db (w_db (world_after ref_libs ''app'' xs demo_world)))"
proof -
  have "lib (stored_env demo_world) = ref_libs" by (simp add: stored_env_def)
  moreover have "\<not> markedToBeDeleted (O_Db (w_db demo_world))" "\<not> ContainsFinalizer (O_Db (w_db demo_world))" "\<not> w_present demo_world"
    by (simp_all add: demo_world_def new_meta_def markedToBeDeleted_def ContainsFinalizer_def)
  ultimately show ?thesis
    using database_created_unprotected [OF stored_healthy demo_world_plain, of "\<lparr>nn_Namespace = ''ns'', nn_Name = ''db''\<rparr>"] by simp
qed

subsection \<open>What is released without a look at the server\<close>

definition api_read :: "event \<Rightarrow> bool" where
  "api_read ev \<longleftrightarrow> (\<exists>k n. ev = K8sGet k n) \<or> ev = K8sList K_DbServer"

lemma api_read_simps [simp]: "api_read (K8sGet k n)" "api_read (K8sList K_DbServer)"
  by (simp_all add: api_read_def)

text \<open>The update that takes the finalizer away.\<close>

definition release_of :: "k8s_obj \<Rightarrow> k8s_obj" where
  "release_of ob = set_finalizers (filter (\<lambda>f. f \<noteq> DB_OPERATOR_FINALIZER) (m_Finalizers (obj_meta ob))) ob"

lemma release_of_released: "\<not> ContainsFinalizer (release_of ob)"
  by (simp add: release_of_def ContainsFinalizer_def set_finalizers_def)

lemma RemoveFinalizer_run:
  "on_cr rcl (RemoveFinalizer E) s h =
     (Return (rc_PutCR rcl (case k8s_update E h (release_of (rc_GetCR rcl s)) of Inl e \<Rightarrow> release_of (rc_GetCR rcl s) | Inr ob \<Rightarrow> ob) s,
       case k8s_update E h (release_of (rc_GetCR rcl s)) of Inl e \<Rightarrow> Some e | Inr ob \<Rightarrow> None), h @ [K8sUpdate (release_of (rc_GetCR rcl s))])"
  by (simp add: on_cr_def RemoveFinalizer_def Update_cr_def release_of_def run split: sum.split)

lemma PutCR_conn [simp]: "ur_conn (PutCR_user ob r) = ur_conn r" "dr_conn (PutCR_db ob d) = dr_conn d"
  by (simp_all add: PutCR_user_def PutCR_db_def split: k8s_obj.split)

text \<open>A marked user whose \<^verbatim>\<open>LoadObj\<close> answers NotFound before it has a connection is released.\<close>

lemma Reconcile_user_not_found:
  assumes user: "get_User_cr E h req = Inr user" and marked: "markedToBeDeleted (O_User user)" and nf: "IsCannotFindError err"
    and obj: "LoadObj_user E \<lparr>ur_NsNm = req, ur_user = user, ur_users = [], ur_conn = None\<rparr> (h @ [K8sGet K_User req]) =
      (Return (\<lparr>ur_NsNm = req, ur_user = user, ur_users = [], ur_conn = None\<rparr>, Inl err), (h @ [K8sGet K_User req]) @ es)"
  shows "Reconcile_user E req h = (Return no_result, h @ (K8sGet K_User req # es) @ [K8sUpdate (release_of (O_User user))])"
proof -
  let ?r = "\<lparr>ur_NsNm = req, ur_user = user, ur_users = [], ur_conn = None\<rparr>"
  have cr: "LoadCR_user E (?r\<lparr>ur_user := zero_user\<rparr>) h = (Return (?r, no_result, None), h @ [K8sGet K_User req])"
    using user by (simp add: LoadCR_user_def run)
  show ?thesis
    using cr obj marked nf
    by (simp add: Reconcile_user_def Reconcile_def reconcile_loaded_def RemoveFinalizer_run GetCR_user_def CleanupConn_user_def CannotFindError_def
        run_bind run_ret Let_def)
qed

lemma emits_credentials:
  "emits api_read (GetCredentials E srv)" "emits api_read (GetConnectInfo E srv d)" "emits api_read (GetCredentialsForUser E ns u)"
  unfolding GetConnectInfo_def GetCredentialsForUser_def GetUserCredentials_def GetCredentials_def GetDbServerSecrets_def GetSecret_def Let_def
  by (intro emits_intro; simp)+

text \<open>The loop over the grantors stops at the first one whose resource cannot be found.\<close>

definition credentials_there :: "env \<Rightarrow> string \<Rightarrow> string \<Rightarrow> bool" where
  "credentials_there E ns u \<longleftrightarrow> (\<forall>h. \<exists>cr h'. GetCredentialsForUser E ns u h = (Return (Inr cr), h'))"

definition load_grantor :: "env \<Rightarrow> string \<Rightarrow> string \<Rightarrow> Credentials option gomap \<Rightarrow> (error + Credentials option gomap) go" where
  "load_grantor E ns userName userCredentials =
     try_io (GetCredentialsForUser E ns userName) (\<lambda>err. ret (Inl err))
       (\<lambda>credentials. ret (Inr (AList.update userName credentials userCredentials)))"

lemma load_grantor_fun:
  "load_grantor E ns = (\<lambda>userName userCredentials.
     try_io (GetCredentialsForUser E ns userName) (\<lambda>err. ret (Inl err))
       (\<lambda>credentials. ret (Inr (AList.update userName credentials userCredentials))))"
  by (intro ext) (simp only: load_grantor_def)

lemma grantor_loop_stops:
  assumes there: "\<forall>u \<in> set pre. credentials_there E ns u" and gone: "\<forall>h. get_User_cr E h \<lparr>nn_Namespace = ns, nn_Name = g\<rparr> = Inl err"
  shows "\<exists>es. for_io (pre @ g # post) (load_grantor E ns) m h = (Return (Inl err), h @ es) \<and> list_all api_read es"
  using there
proof (induction pre arbitrary: m h)
  case Nil
  show ?case using gone by (intro exI [of _ "[K8sGet K_User \<lparr>nn_Namespace = ns, nn_Name = g\<rparr>]"]) (simp add: load_grantor_def GetCredentialsForUser_def Let_def run)
next
  case (Cons u pre)
  have "credentials_there E ns u" using Cons.prems by simp
  then obtain cr h' where c: "GetCredentialsForUser E ns u h = (Return (Inr cr), h')" unfolding credentials_there_def by blast
  obtain es where es: "h' = h @ es" "list_all api_read es" using emitsD [OF emits_credentials(3) c] by blast
  have "\<forall>u \<in> set pre. credentials_there E ns u" using Cons.prems by simp
  from Cons.IH [OF this, of "AList.update u cr m" h'] obtain fs where
    "for_io (pre @ g # post) (load_grantor E ns) (AList.update u cr m) h' = (Return (Inl err), h' @ fs)"
    "list_all api_read fs" by blast
  moreover have "load_grantor E ns u m h = (Return (Inr (AList.update u cr m)), h')" using c by (simp add: load_grantor_def run_try run_ret)
  ultimately show ?case using es by (intro exI [of _ "es @ fs"]) (simp add: run_bind)
qed

text \<open>C37: 
  The hypothesis on the grantors is needed.  The loop takes every NotFound of \<^verbatim>\<open>LoadObj\<close> for the absence of the object; so
  when the resource of a grantor cannot be found, a marked user is released without a look at the database server: the run reads
  from the API server and then updates the resource to be without the finalizer, and makes no other call, whether or not the role exists.
  This holds on any server, whose own resource and credentials can be read, for the first grantor in the list whose resource is missing.\<close>

theorem user_released_without_its_grantor:
  assumes "get_User_cr E h req = Inr user" and "markedToBeDeleted (O_User user)"
    and "get_DbServers E (h @ [K8sGet K_User req]) = Inr items"
    and "choose_server (usr_DbServerName (usr_Spec user)) (nn_Namespace req) items = Inr srv"
    and "\<forall>h. \<exists>info h'. GetConnectInfo E srv None h = (Return (Inr info), h')"
    and "GetGrantorNamesFromDbPrivs (usr_DbPrivs (usr_Spec user)) = pre @ g # post"
    and "\<forall>u \<in> set pre. credentials_there E (nn_Namespace req) u"
    and "\<forall>h. get_User_cr E h \<lparr>nn_Namespace = nn_Namespace req, nn_Name = g\<rparr> = Inl err" and "IsCannotFindError err"
  shows "\<exists>es. Reconcile_user E req h = (Return no_result, h @ es @ [K8sUpdate (release_of (O_User user))]) \<and>
    list_all api_read es \<and> \<not> ContainsFinalizer (release_of (O_User user))"
proof -
  let ?r = "\<lparr>ur_NsNm = req, ur_user = user, ur_users = [], ur_conn = None\<rparr>" and ?h1 = "(h @ [K8sGet K_User req]) @ [K8sList K_DbServer]"
  obtain info h2 where info: "GetConnectInfo E srv None ?h1 = (Return (Inr info), h2)" using assms(5) by blast
  obtain es1 where es1: "h2 = ?h1 @ es1" "list_all api_read es1" using emitsD [OF emits_credentials(2) info] by blast
  obtain es2 where loop: "for_io (pre @ g # post) (load_grantor E (nn_Namespace req)) [] h2 = (Return (Inl err), h2 @ es2)" "list_all api_read es2"
    using grantor_loop_stops [OF assms(7,8)] by blast
  have conn: "GetDbConnection_reco E req srv (pre @ g # post) None ?h1 = (Return (Inl err), h2 @ es2)"
    unfolding GetDbConnection_reco_def load_grantor_fun [symmetric] using info loop(1) by (simp add: run_try run_ret)
  have "LoadObj_user E ?r (h @ [K8sGet K_User req]) = (Return (?r, Inl err), (h @ [K8sGet K_User req]) @ ([K8sList K_DbServer] @ es1 @ es2))"
    using assms(3,4,6) conn es1(1) by (simp add: LoadObj_user_def run_GetDbServer run_try run_ret Let_def)
  from Reconcile_user_not_found [OF assms(1,2,9) this] es1(2) loop(2) release_of_released show ?thesis by fastforce
qed

text \<open>The credentials of the first grantor are there, the resource of the second is not.\<close>

definition granted_user :: User where
  "granted_user = (kept_user [])\<lparr>usr_Spec := (usr_Spec (kept_user []))\<lparr>usr_DbPrivs :=
     [\<lparr>Scope = ''app'', Privs = ''CONNECT'', DefaultPrivs = '''', PrivType = '''', Grantor = Some ''f''\<rparr>,
      \<lparr>Scope = ''app.public'', Privs = ''USAGE'', DefaultPrivs = '''', PrivType = '''', Grantor = Some ''g''\<rparr>]\<rparr>\<rparr>"

definition grantor_env :: env where
  "grantor_env = kept_user_env\<lparr>get_User_cr := \<lambda>_ r. if nn_Name r = ''g'' then Inl not_found else Inr granted_user\<rparr>"

theorem user_released_without_its_grantor_witness:
  "\<exists>es ob. Reconcile_user grantor_env \<lparr>nn_Namespace = ''ns'', nn_Name = ''u''\<rparr> [] = (Return no_result, [] @ es @ [K8sUpdate ob]) \<and>
    list_all api_read es \<and> \<not> ContainsFinalizer ob"
proof -
  have user: "get_User_cr grantor_env h r = (if nn_Name r = ''g'' then Inl not_found else Inr granted_user)" for h r
    by (simp add: grantor_env_def)
  have "get_DbServers grantor_env h = Inr [demo_server ''ns'']" for h by (simp add: grantor_env_def kept_user_env_def kept_env_def)
  moreover have "choose_server (usr_DbServerName (usr_Spec granted_user)) ''ns'' [demo_server ''ns''] = Inr (demo_server ''ns'')"
    by (simp add: choose_server_def named_def local_to_def demo_server_def new_meta_def granted_user_def kept_user_def)
  moreover have "\<exists>info h'. GetConnectInfo grantor_env (demo_server ''ns'') None h = (Return (Inr info), h')" for h
    by (simp add: GetConnectInfo_def GetCredentials_def GetDbServerSecrets_def fill_creds_def secret_key_def grantor_env_def kept_user_env_def
        kept_env_def demo_server_def new_meta_def Let_def run)
  moreover have "GetGrantorNamesFromDbPrivs (usr_DbPrivs (usr_Spec granted_user)) = [''f''] @ ''g'' # []" by (simp add: granted_user_def)
  moreover have "credentials_there grantor_env ''ns'' ''f''"
    by (simp add: credentials_there_def GetCredentialsForUser_def GetUserCredentials_def user granted_user_def kept_user_def zero_user_def Let_def run)
  moreover have "markedToBeDeleted (O_User granted_user)" by (simp add: granted_user_def kept_user_def markedToBeDeleted_def)
  moreover have "IsCannotFindError not_found" by (simp add: IsCannotFindError_def not_found_def)
  ultimately show ?thesis
    using user_released_without_its_grantor [of grantor_env "[]" "\<lparr>nn_Namespace = ''ns'', nn_Name = ''u''\<rparr>" granted_user "[demo_server ''ns'']"
        "demo_server ''ns''" "[''f'']" "''g''" "[]" not_found] user by auto
qed

text \<open>C38: 
  The hypothesis on the server is needed too.  When no DbServer resource has the name that the spec gives, a marked Db or User resource is
  released without a look at any database server, and so the database or the role stays behind, \<^verbatim>\<open>DropOnDeletion\<close> or
  not: the run reads the resource, lists the servers and updates the resource to be without the finalizer, and makes no other
  call.  A comment in \<^verbatim>\<open>reconcilable.go\<close> gives the reason, that the object of a parent that was removed probably does not exist
  any more.\<close>

theorem released_without_its_server:
  assumes "get_Db_cr E h req = Inr db" and "markedToBeDeleted (O_Db db)"
    and "get_DbServers E (h @ [K8sGet K_Db req]) = Inr items" and "\<forall>srv \<in> set items. m_Name (srv_meta srv) \<noteq> db_Server (db_Spec db)"
    and "get_User_cr E h' req' = Inr user" and "markedToBeDeleted (O_User user)"
    and "get_DbServers E (h' @ [K8sGet K_User req']) = Inr items'" and "\<forall>srv \<in> set items'. m_Name (srv_meta srv) \<noteq> usr_DbServerName (usr_Spec user)"
  shows "(\<exists>res. Reconcile_db E req h = (Return res, h @ [K8sGet K_Db req, K8sList K_DbServer, K8sUpdate (release_of (O_Db db))])) \<and>
    Reconcile_user E req' h' = (Return no_result, h' @ [K8sGet K_User req', K8sList K_DbServer, K8sUpdate (release_of (O_User user))]) \<and>
    \<not> ContainsFinalizer (release_of (O_Db db)) \<and> \<not> ContainsFinalizer (release_of (O_User user))"
proof -
  have "filter (named n) xs = []" if "\<forall>srv \<in> set xs. m_Name (srv_meta srv) \<noteq> n" for n xs
    using that by (auto simp: named_def filter_empty_conv)
  then have none: "choose_server n ns xs = Inl not_found" if "\<forall>srv \<in> set xs. m_Name (srv_meta srv) \<noteq> n" for n ns xs
    using that by (simp add: choose_server_def)
  have nf: "IsCannotFindError not_found" by (simp add: IsCannotFindError_def not_found_def)
  let ?d = "\<lparr>dr_NsNm = req, dr_db = db, dr_dbs = [], dr_conn = None\<rparr>" and ?h1 = "h @ [K8sGet K_Db req]"
  have cr: "LoadCR_db E (?d\<lparr>dr_db := zero_db\<rparr>) h = (Return (?d, no_result, None), ?h1)" using assms(1) by (simp add: LoadCR_db_def run)
  have obj: "LoadObj_db E ?d ?h1 = (Return (?d, Inr False), ?h1 @ [K8sList K_DbServer])"
    using assms(3) none [OF assms(4)] nf by (simp add: LoadObj_db_def run_GetDbServer run_try run_ret CannotFindError_def)
  have upd: "k8s_update E g (release_of (O_Db db)) = Inl e \<Longrightarrow>
      \<exists>res. handle_error E (db_rcl E) True (PutCR_db (release_of (O_Db db)) ?d, no_result, Some e) g' =
        (Return (PutCR_db (release_of (O_Db db)) ?d, res), g')" for e g g'
    using assms(2)
    by (auto simp: handle_error_def deletion_backoff_def GetCR_db_def PutCR_db_def release_of_def set_finalizers_def markedToBeDeleted_def run)
  have db: "\<exists>res. Reconcile_db E req h = (Return res, h @ [K8sGet K_Db req, K8sList K_DbServer, K8sUpdate (release_of (O_Db db))])"
  proof (cases "k8s_update E (?h1 @ [K8sList K_DbServer]) (release_of (O_Db db))")
    case (Inl e)
    obtain res where "handle_error E (db_rcl E) True (PutCR_db (release_of (O_Db db)) ?d, no_result, Some e)
        (h @ [K8sGet K_Db req, K8sList K_DbServer, K8sUpdate (release_of (O_Db db))]) =
        (Return (PutCR_db (release_of (O_Db db)) ?d, res), h @ [K8sGet K_Db req, K8sList K_DbServer, K8sUpdate (release_of (O_Db db))])"
      using upd [OF Inl] by blast
    then show ?thesis
      using cr obj assms(2) Inl
      by (simp add: Reconcile_db_def Reconcile_def reconcile_loaded_def reconcile_obj_def RemoveFinalizer_run GetCR_db_def CleanupConn_db_def
          run_bind run_ret Let_def)
  next
    case (Inr ob)
    then show ?thesis
      using cr obj assms(2)
      by (simp add: Reconcile_db_def Reconcile_def reconcile_loaded_def reconcile_obj_def RemoveFinalizer_run GetCR_db_def CleanupConn_db_def
          handle_error_def run_bind run_ret Let_def)
  qed
  let ?u = "\<lparr>ur_NsNm = req', ur_user = user, ur_users = [], ur_conn = None\<rparr>" and ?g1 = "h' @ [K8sGet K_User req']"
  have "LoadObj_user E ?u ?g1 = (Return (?u, Inl not_found), ?g1 @ [K8sList K_DbServer])"
    using assms(7) none [OF assms(8)] by (simp add: LoadObj_user_def run_GetDbServer run_try run_ret Let_def)
  from Reconcile_user_not_found [OF assms(5,6) nf this] db release_of_released show ?thesis by simp
qed

definition serverless_env :: env where
  "serverless_env = kept_user_env\<lparr>get_DbServers := \<lambda>_. Inr []\<rparr>"

theorem released_without_its_server_witness:
  "(\<exists>res. Reconcile_db serverless_env \<lparr>nn_Namespace = ''ns'', nn_Name = ''db''\<rparr> [] =
      (Return res, [] @ [K8sGet K_Db \<lparr>nn_Namespace = ''ns'', nn_Name = ''db''\<rparr>, K8sList K_DbServer, K8sUpdate (release_of (O_Db (kept_db [])))])) \<and>
    db_DropOnDeletion (db_Spec (kept_db [])) \<and> ContainsFinalizer (O_Db (kept_db []))"
proof -
  have "get_Db_cr serverless_env [] r = Inr (kept_db [])" "get_User_cr serverless_env [] r = Inr (kept_user [])" "get_DbServers serverless_env h = Inr []" for r h
    by (simp_all add: serverless_env_def kept_user_env_def kept_env_def)
  from released_without_its_server [of serverless_env "[]" "\<lparr>nn_Namespace = ''ns'', nn_Name = ''db''\<rparr>" "kept_db []" "[]" "[]"
      "\<lparr>nn_Namespace = ''ns'', nn_Name = ''u''\<rparr>" "kept_user []" "[]", OF this(1) kept_flags(1) this(3) _ this(2) kept_user_flags(1) this(3)]
  have "\<exists>res. Reconcile_db serverless_env \<lparr>nn_Namespace = ''ns'', nn_Name = ''db''\<rparr> [] =
      (Return res, [] @ [K8sGet K_Db \<lparr>nn_Namespace = ''ns'', nn_Name = ''db''\<rparr>, K8sList K_DbServer, K8sUpdate (release_of (O_Db (kept_db [])))])"
    by simp
  moreover have "db_DropOnDeletion (db_Spec (kept_db []))" "ContainsFinalizer (O_Db (kept_db []))"
    by (simp add: kept_db_def demo_db_def, simp add: kept_flags(2))
  ultimately show ?thesis by blast
qed


end
