(* ===== verification/Process.thy ===== *)
theory Process
  imports Totality Guarding
begin

section \<open>The process\<close>

text \<open>
  \<^verbatim>\<open>main.go\<close> and the functions \<^verbatim>\<open>SetupWithManager\<close>: the flags, the registration of the controllers with the
  controller runtime, and the start.  Then the program as a whole: the runtime hands every request for a
  resource to the controller that is registered for its kind.
\<close>

subsection \<open>The flags\<close>

record flags =
  fl_metricsAddr :: string
  fl_probeAddr :: string
  fl_enableLeaderElection :: bool

definition default_flags :: flags where
  "default_flags = \<lparr>fl_metricsAddr = '':8080'', fl_probeAddr = '':8081'', fl_enableLeaderElection = False\<rparr>"

text \<open>
  \<^verbatim>\<open>flag.Parse\<close> on the three flags of \<^verbatim>\<open>main\<close>; \<open>others\<close> are the flags, with a string value, that imported packages add to the
  same set.  The parser stops at the first argument that is not a flag.  The left result is the code that the process exits
  with: 0 when the usage was asked for, 2 for a bad argument.
\<close>

definition set_flag :: "string \<Rightarrow> string \<Rightarrow> flags \<Rightarrow> flags" where
  "set_flag name v f =
     (if name = ''metrics-bind-address'' then f\<lparr>fl_metricsAddr := v\<rparr>
      else if name = ''health-probe-bind-address'' then f\<lparr>fl_probeAddr := v\<rparr>
      else f)"

definition flag_name :: "string \<Rightarrow> string" where
  "flag_name s = (if prefix ''--'' s then drop 2 s else drop 1 s)"

definition split_value :: "string \<Rightarrow> string \<times> string option" where
  "split_value s =
     (let name = takeWhile (\<lambda>c. c \<noteq> CHR ''='') s in
      (name, if length name < length s then Some (drop (Suc (length name)) s) else None))"

definition string_flag :: "(string \<Rightarrow> bool) \<Rightarrow> string \<Rightarrow> bool" where
  "string_flag others name \<longleftrightarrow> name \<in> {''metrics-bind-address'', ''health-probe-bind-address''} \<or> others name"

fun Parse_flags :: "(string \<Rightarrow> bool) \<Rightarrow> string list \<Rightarrow> flags \<Rightarrow> int + flags" where
  "Parse_flags others [] f = Inr f"
| "Parse_flags others (s # args) f =
     (if length s < 2 \<or> hd s \<noteq> CHR ''-'' then Inr f
      else if s = ''--'' then Inr f
      else if hd (flag_name s) \<in> {CHR ''-'', CHR ''=''} then Inl 2
      else
        (case split_value (flag_name s) of (name, v) \<Rightarrow>
           if name = ''leader-elect'' then
             (case v of
                None \<Rightarrow> Parse_flags others args (f\<lparr>fl_enableLeaderElection := True\<rparr>)
              | Some b \<Rightarrow> (case ParseBool b of None \<Rightarrow> Inl 2 | Some b \<Rightarrow> Parse_flags others args (f\<lparr>fl_enableLeaderElection := b\<rparr>)))
           else if string_flag others name then
             (case v of
                Some v \<Rightarrow> Parse_flags others args (set_flag name v f)
              | None \<Rightarrow> (case args of [] \<Rightarrow> Inl 2 | v # args \<Rightarrow> Parse_flags others args (set_flag name v f)))
           else if name = ''help'' \<or> name = ''h'' then Inl 0
           else Inl 2))"

subsection \<open>The controllers and their registration\<close>

text \<open>
  The types whose method \<^verbatim>\<open>Reconcile\<close> the runtime calls; their fields, the client, the logger and the scheme, are the
  same for all.  The channel that asks for a look at a server is a global variable, nil until it is made.
\<close>

datatype Reconciler = DbCopyJobReconciler | BackupCronJobReconciler | BackupJobReconciler | BackupTargetReconciler | DbReconciler
  | DbCopyCronJobReconciler | DbServerReconciler | RestoreCronJobReconciler | RestoreJobReconciler | RestoreTargetReconciler
  | S3StorageReconciler | UserReconciler | CockroachDBBackupJobReconciler | SchemaReconciler | CockroachDBBackupCronJobReconciler

type_synonym channel = nat

text \<open>What the builder of the runtime was told: the kind to watch, further sources, and the reconciler.\<close>

record controller =
  ctl_For :: kind
  ctl_Sources :: "channel option list"
  ctl_Reconciler :: Reconciler

record manager_options =
  mo_MetricsBindAddress :: string
  mo_HealthProbeBindAddress :: string
  mo_LeaderElection :: bool
  mo_LeaderElectionID :: string

datatype boot_event = ParseArgs | NewLogger | SetLogger | LoadDotenv | GetConfig | NewManager manager_options | MakeChannel
  | Complete controller | AddHealthzCheck string | AddReadyzCheck string | SetupSignalHandler | StartManager

type_synonym 'a boot = "(boot_event, 'a) io"

text \<open>What the calls of \<^verbatim>\<open>main\<close> answer.\<close>

record host =
  ho_flags :: "string \<Rightarrow> bool"
  ho_logger :: "boot_event list \<Rightarrow> error option"
  ho_dotenv :: "boot_event list \<Rightarrow> error option"
  ho_IsNotExist :: "error \<Rightarrow> bool"
  ho_config :: "boot_event list \<Rightarrow> error option"
  ho_NewManager :: "boot_event list \<Rightarrow> manager_options \<Rightarrow> error option"
  ho_Complete :: "boot_event list \<Rightarrow> controller \<Rightarrow> error option"
  ho_check :: "boot_event list \<Rightarrow> string \<Rightarrow> error option"
  ho_Start :: "boot_event list \<Rightarrow> error option"

definition Complete_controller :: "host \<Rightarrow> controller \<Rightarrow> error option boot" where
  "Complete_controller H c = call (Complete c) (\<lambda>h. ho_Complete H h c)"

definition SetupWithManager_copyjob :: "host \<Rightarrow> error option boot" where
  "SetupWithManager_copyjob H = Complete_controller H \<lparr>ctl_For = K_DbCopyJob, ctl_Sources = [], ctl_Reconciler = DbCopyJobReconciler\<rparr>"

definition SetupWithManager_backupcron :: "host \<Rightarrow> error option boot" where
  "SetupWithManager_backupcron H = Complete_controller H \<lparr>ctl_For = K_BackupCronJob, ctl_Sources = [], ctl_Reconciler = BackupCronJobReconciler\<rparr>"

definition SetupWithManager_backupjob :: "host \<Rightarrow> error option boot" where
  "SetupWithManager_backupjob H = Complete_controller H \<lparr>ctl_For = K_BackupJob, ctl_Sources = [], ctl_Reconciler = BackupJobReconciler\<rparr>"

definition SetupWithManager_backuptarget :: "host \<Rightarrow> error option boot" where
  "SetupWithManager_backuptarget H = Complete_controller H \<lparr>ctl_For = K_BackupTarget, ctl_Sources = [], ctl_Reconciler = BackupTargetReconciler\<rparr>"

definition SetupWithManager_db :: "host \<Rightarrow> error option boot" where
  "SetupWithManager_db H = Complete_controller H \<lparr>ctl_For = K_Db, ctl_Sources = [], ctl_Reconciler = DbReconciler\<rparr>"

definition SetupWithManager_copycron :: "host \<Rightarrow> error option boot" where
  "SetupWithManager_copycron H = Complete_controller H \<lparr>ctl_For = K_DbCopyCronJob, ctl_Sources = [], ctl_Reconciler = DbCopyCronJobReconciler\<rparr>"

definition SetupWithManager_dbserver :: "host \<Rightarrow> channel option \<Rightarrow> error option boot" where
  "SetupWithManager_dbserver H reconcileDbServerChannel =
     Complete_controller H \<lparr>ctl_For = K_DbServer, ctl_Sources = [reconcileDbServerChannel], ctl_Reconciler = DbServerReconciler\<rparr>"

definition SetupWithManager_restorecron :: "host \<Rightarrow> error option boot" where
  "SetupWithManager_restorecron H = Complete_controller H \<lparr>ctl_For = K_RestoreCronJob, ctl_Sources = [], ctl_Reconciler = RestoreCronJobReconciler\<rparr>"

definition SetupWithManager_restorejob :: "host \<Rightarrow> error option boot" where
  "SetupWithManager_restorejob H = Complete_controller H \<lparr>ctl_For = K_RestoreJob, ctl_Sources = [], ctl_Reconciler = RestoreJobReconciler\<rparr>"

definition SetupWithManager_restoretarget :: "host \<Rightarrow> error option boot" where
  "SetupWithManager_restoretarget H = Complete_controller H \<lparr>ctl_For = K_RestoreTarget, ctl_Sources = [], ctl_Reconciler = RestoreTargetReconciler\<rparr>"

definition SetupWithManager_s3storage :: "host \<Rightarrow> error option boot" where
  "SetupWithManager_s3storage H = Complete_controller H \<lparr>ctl_For = K_S3Storage, ctl_Sources = [], ctl_Reconciler = S3StorageReconciler\<rparr>"

definition SetupWithManager_user :: "host \<Rightarrow> error option boot" where
  "SetupWithManager_user H = Complete_controller H \<lparr>ctl_For = K_User, ctl_Sources = [], ctl_Reconciler = UserReconciler\<rparr>"

definition SetupWithManager_crdbjob :: "host \<Rightarrow> error option boot" where
  "SetupWithManager_crdbjob H =
     Complete_controller H \<lparr>ctl_For = K_CockroachDBBackupJob, ctl_Sources = [], ctl_Reconciler = CockroachDBBackupJobReconciler\<rparr>"

definition SetupWithManager_schema :: "host \<Rightarrow> error option boot" where
  "SetupWithManager_schema H = Complete_controller H \<lparr>ctl_For = K_Schema, ctl_Sources = [], ctl_Reconciler = SchemaReconciler\<rparr>"

definition SetupWithManager_crdbcron :: "host \<Rightarrow> error option boot" where
  "SetupWithManager_crdbcron H =
     Complete_controller H \<lparr>ctl_For = K_CockroachDBBackupCronJob, ctl_Sources = [], ctl_Reconciler = CockroachDBBackupCronJobReconciler\<rparr>"

text \<open>\<^verbatim>\<open>make\<close> gives a channel that was not there before.\<close>

definition InitializeDbServerChannel :: "channel option boot" where
  "InitializeDbServerChannel = call MakeChannel (\<lambda>h. Some (length h))"

subsection \<open>The start\<close>

text \<open>The value of \<^verbatim>\<open>main\<close> is the exit code; \<^verbatim>\<open>if err != nil { ...; os.Exit(1) }\<close> is \<open>or_exit\<close>.\<close>

definition or_exit :: "error option boot \<Rightarrow> int boot \<Rightarrow> int boot" where
  "or_exit m rest = check_io m (\<lambda>err. ret 1) rest"

definition new_manager :: "host \<Rightarrow> flags \<Rightarrow> int boot \<Rightarrow> int boot" where
  "new_manager H f rest =
     (let options = \<lparr>mo_MetricsBindAddress = fl_metricsAddr f, mo_HealthProbeBindAddress = fl_probeAddr f,
                     mo_LeaderElection = fl_enableLeaderElection f, mo_LeaderElectionID = ''5497fb29.kubemaster.com''\<rparr>
      in or_exit (call GetConfig (ho_config H)) (or_exit (call (NewManager options) (\<lambda>h. ho_NewManager H h options)) rest))"

definition register_controllers :: "host \<Rightarrow> int boot \<Rightarrow> int boot" where
  "register_controllers H rest =
     bind_io InitializeDbServerChannel (\<lambda>reconcileDbServerChannel.
       or_exit (SetupWithManager_copyjob H) (
       or_exit (SetupWithManager_backupcron H) (
       or_exit (SetupWithManager_backupjob H) (
       or_exit (SetupWithManager_backuptarget H) (
       or_exit (SetupWithManager_db H) (
       or_exit (SetupWithManager_copycron H) (
       or_exit (SetupWithManager_dbserver H reconcileDbServerChannel) (
       or_exit (SetupWithManager_restorecron H) (
       or_exit (SetupWithManager_restorejob H) (
       or_exit (SetupWithManager_restoretarget H) (
       or_exit (SetupWithManager_s3storage H) (
       or_exit (SetupWithManager_user H) (
       or_exit (SetupWithManager_crdbjob H) (
       or_exit (SetupWithManager_schema H) (
       or_exit (SetupWithManager_crdbcron H) rest)))))))))))))))"

definition start_manager :: "host \<Rightarrow> int boot" where
  "start_manager H =
     or_exit (call (AddHealthzCheck ''healthz'') (\<lambda>h. ho_check H h ''healthz'')) (
     or_exit (call (AddReadyzCheck ''readyz'') (\<lambda>h. ho_check H h ''readyz'')) (
     bind_io (emit SetupSignalHandler) (\<lambda>_.
     or_exit (call StartManager (ho_Start H)) (ret 0))))"

definition main :: "host \<Rightarrow> string list \<Rightarrow> int boot" where
  "main H args =
     bind_io (call ParseArgs (\<lambda>_. Parse_flags (ho_flags H) args default_flags)) (\<lambda>r. case r of
       Inl code \<Rightarrow> ret code
     | Inr f \<Rightarrow>
         check_io (call NewLogger (ho_logger H)) (\<lambda>err. panic (''Unable to construct logger '' @ error_msg err)) (
         bind_io (emit SetLogger) (\<lambda>_.
         bind_io (call LoadDotenv (ho_dotenv H)) (\<lambda>err.
           case err of
             Some e \<Rightarrow> if \<not> ho_IsNotExist H e then ret 1 else new_manager H f (register_controllers H (start_manager H))
           | None \<Rightarrow> new_manager H f (register_controllers H (start_manager H))))))"

subsection \<open>What a start means\<close>

definition all_controllers :: "channel \<Rightarrow> controller list" where
  "all_controllers ch =
     [\<lparr>ctl_For = K_DbCopyJob, ctl_Sources = [], ctl_Reconciler = DbCopyJobReconciler\<rparr>,
      \<lparr>ctl_For = K_BackupCronJob, ctl_Sources = [], ctl_Reconciler = BackupCronJobReconciler\<rparr>,
      \<lparr>ctl_For = K_BackupJob, ctl_Sources = [], ctl_Reconciler = BackupJobReconciler\<rparr>,
      \<lparr>ctl_For = K_BackupTarget, ctl_Sources = [], ctl_Reconciler = BackupTargetReconciler\<rparr>,
      \<lparr>ctl_For = K_Db, ctl_Sources = [], ctl_Reconciler = DbReconciler\<rparr>,
      \<lparr>ctl_For = K_DbCopyCronJob, ctl_Sources = [], ctl_Reconciler = DbCopyCronJobReconciler\<rparr>,
      \<lparr>ctl_For = K_DbServer, ctl_Sources = [Some ch], ctl_Reconciler = DbServerReconciler\<rparr>,
      \<lparr>ctl_For = K_RestoreCronJob, ctl_Sources = [], ctl_Reconciler = RestoreCronJobReconciler\<rparr>,
      \<lparr>ctl_For = K_RestoreJob, ctl_Sources = [], ctl_Reconciler = RestoreJobReconciler\<rparr>,
      \<lparr>ctl_For = K_RestoreTarget, ctl_Sources = [], ctl_Reconciler = RestoreTargetReconciler\<rparr>,
      \<lparr>ctl_For = K_S3Storage, ctl_Sources = [], ctl_Reconciler = S3StorageReconciler\<rparr>,
      \<lparr>ctl_For = K_User, ctl_Sources = [], ctl_Reconciler = UserReconciler\<rparr>,
      \<lparr>ctl_For = K_CockroachDBBackupJob, ctl_Sources = [], ctl_Reconciler = CockroachDBBackupJobReconciler\<rparr>,
      \<lparr>ctl_For = K_Schema, ctl_Sources = [], ctl_Reconciler = SchemaReconciler\<rparr>,
      \<lparr>ctl_For = K_CockroachDBBackupCronJob, ctl_Sources = [], ctl_Reconciler = CockroachDBBackupCronJobReconciler\<rparr>]"

lemma or_exit_call: "or_exit (call ev f) rest h = (if f h = None then rest (h @ [ev]) else (Return 1, h @ [ev]))"
  by (simp add: or_exit_def run split: option.split)

text \<open>A chain of steps each of which ends the process when it fails: where it goes on, every step succeeded.\<close>

definition succeeds :: "host \<Rightarrow> controller list \<Rightarrow> boot_event list \<Rightarrow> bool" where
  "succeeds H cs h \<longleftrightarrow> (\<forall>i < length cs. ho_Complete H (h @ map Complete (take i cs)) (cs ! i) = None)"

lemma succeeds_Cons: "succeeds H (c # cs) h \<longleftrightarrow> ho_Complete H h c = None \<and> succeeds H cs (h @ [Complete c])"
  unfolding succeeds_def by (auto simp: nth_Cons' less_Suc_eq_0_disj)

lemma succeeds_Nil [simp]: "succeeds H [] h"
  by (simp add: succeeds_def)

lemma register_controllers_run:
  "(\<exists>n. register_controllers H rest h = (Return 1, h @ MakeChannel # map Complete (take (Suc n) (all_controllers (length h)))) \<and>
        \<not> succeeds H (all_controllers (length h)) (h @ [MakeChannel])) \<or>
   succeeds H (all_controllers (length h)) (h @ [MakeChannel]) \<and>
     register_controllers H rest h = rest (h @ MakeChannel # map Complete (all_controllers (length h)))"
proof -
  define chain where "chain = (\<lambda>cs. foldr (\<lambda>c. or_exit (Complete_controller H c)) cs rest)"
  have chain: "(\<exists>n. chain cs h = (Return 1, h @ map Complete (take (Suc n) cs)) \<and> \<not> succeeds H cs h) \<or>
      succeeds H cs h \<and> chain cs h = rest (h @ map Complete cs)" for cs h
  proof (induction cs arbitrary: h)
    case Nil
    show ?case by (simp add: chain_def)
  next
    case (Cons c cs)
    show ?case
    proof (cases "ho_Complete H h c = None")
      case True
      then have "chain (c # cs) h = chain cs (h @ [Complete c])" by (simp add: chain_def Complete_controller_def or_exit_call)
      with True Cons.IH [of "h @ [Complete c]"] show ?thesis
        by (auto simp: succeeds_Cons intro: exI [of _ "Suc _"])
    next
      case False
      then obtain e where "ho_Complete H h c = Some e" by blast
      then have "chain (c # cs) h = (Return 1, h @ map Complete (take (Suc 0) (c # cs)))"
        by (simp add: chain_def Complete_controller_def or_exit_call)
      with False show ?thesis by (intro disjI1 exI [of _ 0]) (simp add: succeeds_Cons)
    qed
  qed
  have "register_controllers H rest h = chain (all_controllers (length h)) (h @ [MakeChannel])"
    unfolding register_controllers_def InitializeDbServerChannel_def
    by (simp add: run_bind run_call chain_def all_controllers_def SetupWithManager_copyjob_def SetupWithManager_backupcron_def SetupWithManager_backupjob_def
        SetupWithManager_backuptarget_def SetupWithManager_db_def SetupWithManager_copycron_def SetupWithManager_dbserver_def
        SetupWithManager_restorecron_def SetupWithManager_restorejob_def SetupWithManager_restoretarget_def SetupWithManager_s3storage_def
        SetupWithManager_user_def SetupWithManager_crdbjob_def SetupWithManager_schema_def SetupWithManager_crdbcron_def)
  with chain [of "all_controllers (length h)" "h @ [MakeChannel]"] show ?thesis by auto
qed

text \<open>The events of a start that goes through.\<close>

definition boot_trace :: "flags \<Rightarrow> channel \<Rightarrow> boot_event list" where
  "boot_trace f ch =
     [ParseArgs, NewLogger, SetLogger, LoadDotenv, GetConfig,
      NewManager \<lparr>mo_MetricsBindAddress = fl_metricsAddr f, mo_HealthProbeBindAddress = fl_probeAddr f,
                  mo_LeaderElection = fl_enableLeaderElection f, mo_LeaderElectionID = ''5497fb29.kubemaster.com''\<rparr>,
      MakeChannel] @ map Complete (all_controllers ch) @ [AddHealthzCheck ''healthz'', AddReadyzCheck ''readyz'', SetupSignalHandler]"

lemma start_manager_run:
  "start_manager H h = (out, h') \<Longrightarrow>
     (\<exists>es. h' = h @ es \<and> StartManager \<notin> set es \<and> out = Return 1) \<or>
     (let h1 = h @ [AddHealthzCheck ''healthz'', AddReadyzCheck ''readyz'', SetupSignalHandler] in
        h' = h1 @ [StartManager] \<and> out = Return (if ho_Start H h1 = None then 0 else 1))"
  by (auto simp: start_manager_def or_exit_call run split: if_splits)

text \<open>Every way through \<^verbatim>\<open>main\<close>: the manager is started only at the end, after all the registrations.\<close>

lemma new_manager_run:
  fixes f :: flags and H :: host
  defines "opts \<equiv> \<lparr>mo_MetricsBindAddress = fl_metricsAddr f, mo_HealthProbeBindAddress = fl_probeAddr f,
                  mo_LeaderElection = fl_enableLeaderElection f, mo_LeaderElectionID = ''5497fb29.kubemaster.com''\<rparr>"
  shows "new_manager H f rest h = rest (h @ [GetConfig, NewManager opts]) \<or>
    (\<exists>es. new_manager H f rest h = (Return 1, h @ es) \<and> StartManager \<notin> set es)"
  unfolding opts_def by (auto simp: new_manager_def or_exit_call Let_def)

lemma registered_run:
  assumes "register_controllers H (start_manager H) h = (out, h')"
  shows "(\<exists>es. h' = h @ es \<and> StartManager \<notin> set es \<and> out = Return 1) \<or>
    (let h1 = h @ MakeChannel # map Complete (all_controllers (length h)) @ [AddHealthzCheck ''healthz'', AddReadyzCheck ''readyz'', SetupSignalHandler] in
       succeeds H (all_controllers (length h)) (h @ [MakeChannel]) \<and>
       h' = h1 @ [StartManager] \<and> out = Return (if ho_Start H h1 = None then 0 else 1))"
proof -
  let ?h = "h @ MakeChannel # map Complete (all_controllers (length h))"
  consider (failed) n where "register_controllers H (start_manager H) h = (Return 1, h @ MakeChannel # map Complete (take n (all_controllers (length h))))"
    | (accepted) "succeeds H (all_controllers (length h)) (h @ [MakeChannel])" "start_manager H ?h = (out, h')"
    using register_controllers_run [of H "start_manager H" h] assms by auto
  then show ?thesis
  proof cases
    case failed
    with assms show ?thesis by auto
  next
    case accepted
    from start_manager_run [OF accepted(2)] show ?thesis
    proof
      assume "\<exists>es. h' = ?h @ es \<and> StartManager \<notin> set es \<and> out = Return 1"
      then obtain es where "h' = ?h @ es" "StartManager \<notin> set es" "out = Return 1" by blast
      then show ?thesis by (intro disjI1 exI [of _ "MakeChannel # map Complete (all_controllers (length h)) @ es"]) auto
    next
      assume "let h1 = ?h @ [AddHealthzCheck ''healthz'', AddReadyzCheck ''readyz'', SetupSignalHandler]
        in h' = h1 @ [StartManager] \<and> out = Return (if ho_Start H h1 = None then 0 else 1)"
      with accepted(1) show ?thesis by (simp add: Let_def)
    qed
  qed
qed

lemma main_run:
  assumes "main H args [] = (out, h)"
  shows "(StartManager \<notin> set h \<and> (out = Return 0 \<longrightarrow> Parse_flags (ho_flags H) args default_flags = Inl 0)) \<or>
    (\<exists>f. Parse_flags (ho_flags H) args default_flags = Inr f \<and> h = boot_trace f 6 @ [StartManager] \<and>
       succeeds H (all_controllers 6) (take 7 (boot_trace f 6)) \<and> out = Return (if ho_Start H (boot_trace f 6) = None then 0 else 1))"
proof (cases "Parse_flags (ho_flags H) args default_flags")
  case (Inl code)
  with assms show ?thesis by (auto simp: main_def run)
next
  case (Inr f)
  let ?h = "[ParseArgs, NewLogger, SetLogger, LoadDotenv]" and ?m = "new_manager H f (register_controllers H (start_manager H))"
  consider "StartManager \<notin> set h" "out \<noteq> Return 0" | "?m ?h = (out, h)"
    using assms Inr by (auto simp: main_def run split: option.splits if_splits)
  then show ?thesis
  proof cases
    case 1
    then show ?thesis by simp
  next
    case 2
    let ?h1 = "?h @ [GetConfig, NewManager \<lparr>mo_MetricsBindAddress = fl_metricsAddr f, mo_HealthProbeBindAddress = fl_probeAddr f,
                  mo_LeaderElection = fl_enableLeaderElection f, mo_LeaderElectionID = ''5497fb29.kubemaster.com''\<rparr>]"
    from new_manager_run [of H f "register_controllers H (start_manager H)" ?h]
    show ?thesis
    proof
      assume "?m ?h = register_controllers H (start_manager H) ?h1"
      with 2 have "register_controllers H (start_manager H) ?h1 = (out, h)" by simp
      moreover have "length ?h1 = 6" by simp
      ultimately show ?thesis using registered_run [of H ?h1 out h] Inr by (auto simp only:) (auto simp: boot_trace_def Let_def)
    next
      assume "\<exists>es. ?m ?h = (Return 1, ?h @ es) \<and> StartManager \<notin> set es"
      with 2 show ?thesis by auto
    qed
  qed
qed

text \<open>C13: the manager is started only when everything is in place: the channel for the servers was made, every controller was registered for its own kind and
  accepted, with the channel as a source of the controller of servers, the health checks were added and the options are
  those of the flags.  The process exits with 0 only if the manager was started and ended without an error, or if the
  usage was asked for.\<close>

theorem main_starts_complete:
  assumes "main H args [] = (out, h)"
  shows "(StartManager \<in> set h \<longrightarrow>
      (\<exists>f. Parse_flags (ho_flags H) args default_flags = Inr f \<and> h = boot_trace f 6 @ [StartManager] \<and>
         succeeds H (all_controllers 6) (take 7 (boot_trace f 6)))) \<and>
    (out = Return 0 \<longrightarrow>
       Parse_flags (ho_flags H) args default_flags = Inl 0 \<or>
       (\<exists>f. h = boot_trace f 6 @ [StartManager] \<and> ho_Start H (boot_trace f 6) = None))"
  using main_run [OF assms] by (auto split: if_splits)

subsection \<open>Requests\<close>

definition Reconcile_backuptarget :: "NamespacedName \<Rightarrow> Result go" where
  "Reconcile_backuptarget req = ret no_result"

definition Reconcile_restoretarget :: "NamespacedName \<Rightarrow> Result go" where
  "Reconcile_restoretarget req = ret no_result"

definition Reconcile_s3storage :: "NamespacedName \<Rightarrow> Result go" where
  "Reconcile_s3storage req = ret no_result"

text \<open>The method \<^verbatim>\<open>Reconcile\<close> of each of the types.\<close>

fun reconcile_with :: "env \<Rightarrow> Reconciler \<Rightarrow> NamespacedName \<Rightarrow> Result go" where
  "reconcile_with E DbCopyJobReconciler req = Reconcile_copyjob E req"
| "reconcile_with E BackupCronJobReconciler req = Reconcile_backupcron E req"
| "reconcile_with E BackupJobReconciler req = Reconcile_backupjob E req"
| "reconcile_with E BackupTargetReconciler req = Reconcile_backuptarget req"
| "reconcile_with E DbReconciler req = Reconcile_db E req"
| "reconcile_with E DbCopyCronJobReconciler req = Reconcile_copycron E req"
| "reconcile_with E DbServerReconciler req = Reconcile_dbserver E req"
| "reconcile_with E RestoreCronJobReconciler req = Reconcile_restorecron E req"
| "reconcile_with E RestoreJobReconciler req = Reconcile_restorejob E req"
| "reconcile_with E RestoreTargetReconciler req = Reconcile_restoretarget req"
| "reconcile_with E S3StorageReconciler req = Reconcile_s3storage req"
| "reconcile_with E UserReconciler req = Reconcile_user E req"
| "reconcile_with E CockroachDBBackupJobReconciler req = Reconcile_crdbjob E req"
| "reconcile_with E SchemaReconciler req = Reconcile_schema E req"
| "reconcile_with E CockroachDBBackupCronJobReconciler req = Reconcile_crdbcron E req"

definition starts_with :: "'e \<Rightarrow> ('e, 'a) io \<Rightarrow> bool" where
  "starts_with ev m \<longleftrightarrow> (\<forall>h. \<exists>es. snd (m h) = h @ ev # es)"

lemma starts_bind:
  assumes "starts_with ev m" "\<And>x. emits P (k x)"
  shows "starts_with ev (bind_io m k)"
  unfolding starts_with_def
proof
  fix h
  obtain es where es: "snd (m h) = h @ ev # es" using assms(1) by (auto simp: starts_with_def)
  show "\<exists>es. snd (bind_io m k h) = h @ ev # es"
  proof (cases "fst (m h)")
    case (Return x)
    obtain fs where "snd (k x (h @ ev # es)) = (h @ ev # es) @ fs" using assms(2) by (rule emitsE)
    with es Return show ?thesis by (auto simp: run_bind prod_eq_iff split: prod.split)
  next
    case (Panic s)
    with es show ?thesis by (auto simp: run_bind prod_eq_iff split: prod.split)
  qed
qed

lemma starts_call: "starts_with ev (call ev f)"
  by (simp add: starts_with_def run)

lemma starts_try: "(\<And>e. emits P (handler e)) \<Longrightarrow> (\<And>x. emits P (rest x)) \<Longrightarrow> starts_with ev (try_io (call ev f) handler rest)"
  unfolding try_io_def by (rule starts_bind [OF starts_call, where P = P]) (auto split: sum.split)

context reconcilable
begin

lemma Reconcile_starts: "starts_with ev (rc_LoadCR rcl s) \<Longrightarrow> starts_with ev (Reconcile E rcl s)"
  unfolding Reconcile_def
  by (erule starts_bind [where P = protects]) (auto intro!: emits_intro reconcile_loaded_protects cleanup_protects)

end

text \<open>What the API server has to keep for the controllers of schemas, cron jobs and CockroachDB backups.\<close>

definition keeps_all :: "env \<Rightarrow> bool" where
  "keeps_all E \<longleftrightarrow> keeps_schema E \<and> keeps_identity E \<and> keeps_mark E"

lemma starts_LoadCR:
  "starts_with (K8sGet K_Db (dr_NsNm d)) (LoadCR_db E d)" "starts_with (K8sGet K_User (ur_NsNm u)) (LoadCR_user E u)"
  "starts_with (K8sGet K_BackupJob (jr_NsNm bj)) (LoadCR_backupjob E bj)" "starts_with (K8sGet K_RestoreJob (jr_NsNm rj)) (LoadCR_restorejob E rj)"
  "starts_with (K8sGet K_DbCopyJob (jr_NsNm cj)) (LoadCR_copyjob E cj)" "starts_with (K8sGet K_BackupCronJob (jr_NsNm bc)) (LoadCR_backupcron E bc)"
  "starts_with (K8sGet K_RestoreCronJob (jr_NsNm rc)) (LoadCR_restorecron E rc)" "starts_with (K8sGet K_DbCopyCronJob (jr_NsNm cc)) (LoadCR_copycron E cc)"
  "starts_with (K8sGet K_CockroachDBBackupJob (xr_NsNm xj)) (LoadCR_crdbjob E xj)"
  "starts_with (K8sGet K_CockroachDBBackupCronJob (xr_NsNm xc)) (LoadCR_crdbcron E xc)"
  "starts_with (K8sGet K_Schema (sr_NsNm sc)) (LoadCR_schema E sc)"
  unfolding LoadCR_db_def LoadCR_user_def LoadCR_backupjob_def LoadCR_restorejob_def LoadCR_copyjob_def LoadCR_backupcron_def
    LoadCR_restorecron_def LoadCR_copycron_def LoadCR_crdbjob_def LoadCR_crdbcron_def LoadCR_schema_def LogAndBackoffCreation_def Let_def RemoveFinalizer_def
  by (rule starts_try [where P = "\<lambda>_. True"] starts_bind [OF starts_call, where P = "\<lambda>_. True"]; intro emits_intro TrueI)+

lemma starts_at: "starts_with (K8sGet k n) m \<Longrightarrow> n = req \<Longrightarrow> starts_with (K8sGet k req) m"
  by simp

context job_controller
begin

lemma job_starts: "starts_with ev (rc_LoadCR rcl s) \<Longrightarrow> starts_with ev (Reconcile E rcl s)"
  by (rule Reconcile_starts)

end

lemma controllers_start:
  "starts_with (K8sGet K_Db req) (Reconcile_db E req)" "starts_with (K8sGet K_User req) (Reconcile_user E req)"
  "starts_with (K8sGet K_BackupJob req) (Reconcile_backupjob E req)" "starts_with (K8sGet K_RestoreJob req) (Reconcile_restorejob E req)"
  "starts_with (K8sGet K_DbCopyJob req) (Reconcile_copyjob E req)" "starts_with (K8sGet K_RestoreCronJob req) (Reconcile_restorecron E req)"
  "starts_with (K8sGet K_DbServer req) (Reconcile_dbserver E req)"
  unfolding Reconcile_db_def Reconcile_user_def Reconcile_backupjob_def Reconcile_restorejob_def Reconcile_copyjob_def Reconcile_restorecron_def
  using starts_LoadCR
  by (auto intro!: db_ctl.Reconcile_starts user_ctl.Reconcile_starts backup_ctl.Reconcile_starts restore_ctl.Reconcile_starts copy_ctl.Reconcile_starts
      restorecron_ctl.Reconcile_starts starts_at [OF starts_LoadCR(1)] starts_at [OF starts_LoadCR(2)] starts_at [OF starts_LoadCR(3)]
      starts_at [OF starts_LoadCR(4)] starts_at [OF starts_LoadCR(5)] starts_at [OF starts_LoadCR(7)] simp: start_reco_def)
    (auto simp: Reconcile_dbserver_def intro!: starts_try [where P = server_event, OF _ emits_dbserver_rest] emits_intro)

lemma controllers_start_keeping:
  "keeps_schema E \<Longrightarrow> starts_with (K8sGet K_Schema req) (Reconcile_schema E req)"
  "keeps_identity E \<Longrightarrow> starts_with (K8sGet K_BackupCronJob req) (Reconcile_backupcron E req)"
  "keeps_identity E \<Longrightarrow> starts_with (K8sGet K_DbCopyCronJob req) (Reconcile_copycron E req)"
  "keeps_mark E \<Longrightarrow> starts_with (K8sGet K_CockroachDBBackupJob req) (Reconcile_crdbjob E req)"
  "keeps_mark E \<Longrightarrow> starts_with (K8sGet K_CockroachDBBackupCronJob req) (Reconcile_crdbcron E req)"
  unfolding Reconcile_schema_def Reconcile_backupcron_def Reconcile_copycron_def Reconcile_crdbjob_def Reconcile_crdbcron_def
  by (auto intro!: reconcilable.Reconcile_starts [OF schema_reconcilable] job_controller.job_starts [OF backupcron_controller]
      job_controller.job_starts [OF copycron_controller] reconcilable.Reconcile_starts [OF crdbjob_reconcilable]
      reconcilable.Reconcile_starts [OF crdbcron_reconcilable] starts_at [OF starts_LoadCR(6)] starts_at [OF starts_LoadCR(8)]
      starts_at [OF starts_LoadCR(9)] starts_at [OF starts_LoadCR(10)] starts_at [OF starts_LoadCR(11)] simp: start_reco_def)

text \<open>C14: the runtime sends a controller the requests of the kind it was registered for, and that is the kind it
  reads first: every controller but the three that do nothing starts by reading the resource that
  the request names, and no two controllers are registered for the same kind.\<close>

theorem controllers_read_their_kind:
  assumes "keeps_all E" "c \<in> set (all_controllers ch)" "ctl_For c \<notin> {K_BackupTarget, K_RestoreTarget, K_S3Storage}"
  shows "starts_with (K8sGet (ctl_For c) req) (reconcile_with E (ctl_Reconciler c) req) \<and> distinct (map ctl_For (all_controllers ch))"
  using assms unfolding keeps_all_def
  by (auto simp: all_controllers_def controllers_start controllers_start_keeping)

theorem controllers_read_their_kind_witness:
  "starts_with (K8sGet K_Schema \<lparr>nn_Namespace = ''ns'', nn_Name = ''sc''\<rparr>) (reconcile_with (null_env\<lparr>k8s_update := \<lambda>_ ob. Inr ob, k8s_status_update := \<lambda>_ ob. Inr ob\<rparr>) SchemaReconciler \<lparr>nn_Namespace = ''ns'', nn_Name = ''sc''\<rparr>)"
proof -
  let ?E = "null_env\<lparr>k8s_update := \<lambda>_ ob. Inr ob, k8s_status_update := \<lambda>_ ob. Inr ob\<rparr>"
  have "keeps_all ?E" by (auto simp: keeps_all_def keeps_schema_def keeps_identity_def keeps_mark_def)
  from controllers_read_their_kind [OF this, of "\<lparr>ctl_For = K_Schema, ctl_Sources = [], ctl_Reconciler = SchemaReconciler\<rparr>" 0 "\<lparr>nn_Namespace = ''ns'', nn_Name = ''sc''\<rparr>"]
  show ?thesis by (simp add: all_controllers_def)
qed

subsection \<open>Flags written and read back\<close>

definition flag_args :: "flags \<Rightarrow> string list" where
  "flag_args f =
     [''--metrics-bind-address='' @ fl_metricsAddr f, ''--health-probe-bind-address='' @ fl_probeAddr f,
      ''--leader-elect='' @ (if fl_enableLeaderElection f then ''true'' else ''false'')]"

text \<open>Any setting can be given on the command line, and is read back as it was given; without arguments the
  election of a leader is off.\<close>

theorem Parse_flags_args: "Parse_flags others (flag_args f) g = Inr f \<and> Parse_flags others [] default_flags = Inr default_flags"
  by (cases f; cases g) (simp add: flag_args_def flag_name_def split_value_def string_flag_def set_flag_def ParseBool_def)

definition calm_host :: host where
  "calm_host =
     \<lparr>ho_flags = \<lambda>n. n = ''kubeconfig'', ho_logger = \<lambda>_. None, ho_dotenv = \<lambda>_. Some (Err ''open .env: no such file or directory''),
      ho_IsNotExist = \<lambda>_. True, ho_config = \<lambda>_. None, ho_NewManager = \<lambda>_ _. None, ho_Complete = \<lambda>_ _. None, ho_check = \<lambda>_ _. None,
      ho_Start = \<lambda>_. None\<rparr>"

lemma calm_sel [simp]:
  "ho_flags calm_host = (\<lambda>n. n = ''kubeconfig'')" "ho_logger calm_host h = None" "ho_IsNotExist calm_host e"
  "ho_dotenv calm_host h = Some (Err ''open .env: no such file or directory'')" "ho_config calm_host h = None" "ho_NewManager calm_host h opts = None"
  "ho_Complete calm_host h c = None" "ho_check calm_host h n = None" "ho_Start calm_host h = None"
  by (simp_all add: calm_host_def)

lemma calm_start: "main calm_host [''--kubeconfig'', ''k''] [] = (Return 0, boot_trace default_flags 6 @ [StartManager])"
proof -
  have parse: "Parse_flags (\<lambda>n. n = ''kubeconfig'') [''--kubeconfig'', ''k''] default_flags = Inr default_flags"
    by (simp add: flag_name_def split_value_def string_flag_def set_flag_def)
  have "succeeds calm_host cs h" for cs h by (simp add: succeeds_def)
  then have reg: "register_controllers calm_host rest h = rest (h @ MakeChannel # map Complete (all_controllers (length h)))" for rest h
    using register_controllers_run [of calm_host rest h] by simp
  have start: "start_manager calm_host h = (Return 0, h @ [AddHealthzCheck ''healthz'', AddReadyzCheck ''readyz'', SetupSignalHandler, StartManager])" for h
    by (simp add: start_manager_def or_exit_call run)
  show ?thesis
    using parse by (simp add: main_def run new_manager_def or_exit_call reg start Let_def boot_trace_def numeral_eq_Suc del: Parse_flags.simps)
qed

theorem main_starts_complete_witness:
  "(\<exists>f. boot_trace default_flags 6 @ [StartManager] = boot_trace f 6 @ [StartManager] \<and> succeeds calm_host (all_controllers 6) (take 7 (boot_trace f 6)))"
  using main_starts_complete [OF calm_start] by auto

end
