(* ===== verification/Spec2Isabelle.thy ===== *)
theory Spec2Isabelle
  imports UserDrift Process
begin

text \<open>
  \<^bold>\<open>db-operator: a verification development.\<close>  The program is a Kubernetes operator that keeps
  databases, schemas, users and their privileges on PostgreSQL, CockroachDB and MySQL
  servers in step with custom resources, and that carries out backups, restores and copies
  of databases.

  \<^bold>\<open>The parts of the program and how they interact.\<close>  A controller per kind of resource
  (\<^verbatim>\<open>controllers/*_controller.go\<close>) gets requests from the controller runtime.  All of
  them but the controller of servers hand the request to one loop, \<^verbatim>\<open>Reconcile\<close> in
  \<^verbatim>\<open>controllers/reconcilable.go\<close>, which loads the resource, asks whether the object exists,
  creates, corrects or removes it through the operations of the interface
  \<^verbatim>\<open>Reconcilable\<close>, and keeps the operator's finalizer on the resource while it does.  The
  controllers of databases, schemas and users reach the SQL server through
  \<^verbatim>\<open>DbServerConnectionInterface\<close>, implemented in \<^verbatim>\<open>dbservers/postgres\<close> and
  \<^verbatim>\<open>dbservers/mysql\<close> on top of a store of open connections (\<^verbatim>\<open>shared/connection_store.go\<close>).  The
  controllers of jobs build Kubernetes jobs that run the scripts of \<^verbatim>\<open>shared/scripts.go\<close>; what a
  job needs is looked up through lazy helpers (\<^verbatim>\<open>controllers/lazy_*.go\<close>).  The controllers of
  CockroachDB backups run \<^verbatim>\<open>BACKUP\<close> and \<^verbatim>\<open>SCHEDULE\<close> statements themselves.

  \<^bold>\<open>How the code is modelled.\<close>  A Go function with effects is a function from the history of external
  calls to an outcome and a longer history (\<open>io\<close> in \<open>Prelude\<close>): the outcome is a
  value or a panic, errors are values (\<open>error + 'a\<close>, or an error option).  Everything outside the
  repository is the record \<open>env\<close> of \<open>Env\<close>: the API server, the SQL drivers, the file system, the clock,
  the order in which Go maps are traversed, and library functions such as the quoting of
  \<^verbatim>\<open>lib/pq\<close> (\<open>libs\<close>).  Its answers may depend on the whole history, so a theorem for
  every \<open>env\<close> holds whatever the outside answers and however the answers change in between.  Structs are records
  whose fields carry a prefix, pointers that are only tested for nil are options, objects
  that are mutated through a pointer are passed and returned, and a method of the source
  that several types have gets a suffix, as in \<open>CreateObj_db\<close>.

  \<^bold>\<open>The theories.\<close>
  \<^item> \<open>Prelude\<close>: outcomes, histories, the idioms of Go's error handling, loops, deferred calls, and two calculi:
    \<open>emits P m\<close> (every call that \<open>m\<close> makes satisfies \<open>P\<close>) and \<open>yields Q m\<close> (every value
    that \<open>m\<close> returns satisfies \<open>Q\<close>), each with its collection of rules.
  \<^item> \<open>GoStrings\<close>: the functions of \<^verbatim>\<open>strings\<close>, \<^verbatim>\<open>strconv\<close> and \<^verbatim>\<open>sort\<close> that the source uses.
  \<^item> \<open>Api\<close>: the custom resources of \<^verbatim>\<open>api/v1alpha1\<close> and the Kubernetes objects.
  \<^item> \<open>Env\<close>: the environment and the events of a history.
  \<^item> \<open>Shared\<close>, \<open>Scripts\<close>: \<^verbatim>\<open>shared/\<close>, that is errors, back-off, rows, the connection store, the scripts.
  \<^item> \<open>QueryUtils\<close>: \<^verbatim>\<open>dbservers/query_utils\<close>.
  \<^item> \<open>PgPrivs\<close>, \<open>PgConn\<close>: \<^verbatim>\<open>dbservers/postgres\<close>, with the privilege reconcilers, statements, CockroachDB backups.
  \<^item> \<open>DatabasePrivs\<close>: access control lists as PostgreSQL writes them (\<open>acl_text\<close>), which entry the regular expression of
    \<^verbatim>\<open>database_privs.go\<close> finds in one, and the convergence of the privileges on databases and tables, through the
    locale \<open>privs_backend\<close> of \<open>PgPrivs\<close>.
  \<^item> \<open>UserPrivs\<close>: \<^verbatim>\<open>UpdateUserPrivs\<close> as a whole, from \<open>UpdateUserPrivs_pg\<close> down to the statements, over objects (\<open>pobj\<close>) in
    several databases on a server (\<open>pg_server\<close>, \<open>serves_privs\<close>): the specification is an assignment (\<open>assign_goals\<close>) to
    what the user holds, beside what it has without a grant to it (\<open>pg_fixed\<close>), each object a \<open>framed_backend\<close>; a server with two databases (\<open>shop\<close>) satisfies the laws.
  \<^item> \<open>UserDrift\<close>: the composition of the loop, the controller of users, the store and \<open>UserPrivs\<close>: \<open>Reconcile_user\<close> on
    a server and an API server that answer (\<open>well_served\<close>).
  \<^item> \<open>MySqlPrivs\<close>, \<open>MySqlConn\<close>: \<^verbatim>\<open>dbservers/mysql\<close>.
  \<^item> \<open>DbServers\<close>: \<^verbatim>\<open>dbservers/dbservers.go\<close> and the interfaces, as datatypes with dispatch; the locales
    \<open>server_connection\<close> and its extension for users, interpreted on both kinds of connection.
  \<^item> \<open>Reco\<close>: \<^verbatim>\<open>controllers/reconcilable.go\<close>; the locale \<open>reconcilable\<close> is what the loop needs of a
    controller so that no resource loses its finalizer too early.
  \<^item> \<open>DbController\<close>, \<open>UserController\<close>, \<open>SchemaController\<close>, \<open>DbServerController\<close>: the controllers of the same names.
  \<^item> \<open>DbLifecycle\<close>: an abstract specification of a managed database (\<open>managed_step\<close>), the refinement
    of it by the Db controller on a server that answers, and the lives of a resource as
    an inductive relation.
  \<^item> \<open>Lazy\<close>: the lazy helpers and \<^verbatim>\<open>controllers/storage_info.go\<close>, with the equivalence to the eager lookups.
  \<^item> \<open>JobControllers\<close>, \<open>CronControllers\<close>: the controllers of jobs and cron jobs; the locale
    \<open>job_controller\<close>, a \<open>sublocale\<close> of \<open>reconcilable\<close>, says that a controller touches its own job only; \<open>stays_own\<close>
    says of an operation that it writes no resource but the one that was read.
  \<^item> \<open>CrdbControllers\<close>: the controllers of CockroachDB backups and schedules.
  \<^item> \<open>Pacing\<close>: how soon a request is queued again, with the locale \<open>paced_controller\<close> interpreted
    on every controller.
  \<^item> \<open>Totality\<close>: the controllers that never panic, with the calculus \<open>always\<close> and the locale \<open>total_controller\<close>.
  \<^item> \<open>Crash\<close>: what holds after every single call of a run (\<open>safe\<close>, a crash logic with its rules), and the locales
    \<open>guarded_world\<close> and \<open>guarded_controller\<close>: what a controller must keep so that its object is never orphaned.
  \<^item> \<open>Guarding\<close>: the instances for databases and users (\<open>honest_databases\<close>, \<open>honest_users\<close>, each a \<open>sublocale\<close>
    of \<open>guarded_controller\<close>), the histories of an operator that is stopped and started again (\<open>operated\<close>), and where the guarantee
    ends: before the finalizer is set, without the resource of the server, and without that of a grantor.
  \<^item> \<open>Process\<close>: \<^verbatim>\<open>main.go\<close>, the functions \<^verbatim>\<open>SetupWithManager\<close> and the empty controllers of targets and storages.

  \<^bold>\<open>What the theorems show.\<close>  Safety of the loop: no resource loses the operator's finalizer before it is
  marked for deletion (below, for every controller), and a database or user that is to be dropped is released
  only after the drop succeeded.  Safety of the statements: which SQL each controller may
  run, and that privilege updates run nothing but privilege statements.  Refinement: a
  reconciliation of a database on a PostgreSQL server that answers is one step of the specification,
  and a resource with \<^verbatim>\<open>DropOnDeletion\<close> then leaves no database behind.  Jobs: the scripts run in
  the right order on shared files, no resource and no job but the own one is written, and the one job is created and found again, a CockroachDB
  backup is started once.  Equivalence of the lazy and the eager lookups.  Convergence of the privileges on
  schemas, databases and tables and of a server's status, with the entry of an access control list that is read for a user;
  one update of all privileges of a user is one assignment, and the next update only reads;
  so a reconciliation of a user corrects what has drifted.  A schema privilege that the user has from \<^verbatim>\<open>PUBLIC\<close> or a role and
  that is not desired never settles.
  Round trips of quoted identifiers and generated secrets.  Bounds of the back-off.  Termination without panics for
  databases, servers, copy jobs and schemas.  Faults and crashes: a
  resource of a database or user that once carried the finalizer loses it only when its object is gone, although every
  call may fail and the operator may be stopped after any call, as long as the resources of its server and its grantors are there; what
  happens without them is stated too.  The process: the manager is started only with every
  controller registered for the kind it reads.  Some theorems state what the code does where
  it is not what it means to do.

  \<^bold>\<open>Bounds and fuel.\<close>  No definition needs fuel: the loops of the source range over slices and maps and
  are structural recursions over lists.  Times are instants in nanoseconds as integers;
  \<^verbatim>\<open>float64\<close> seconds are rationals, where the rounding cannot matter (see \<open>Shared\<close>).  Numbers of
  jobs and schedules are only stored, compared and printed, so they are integers.

  \<^bold>\<open>Assumptions on the outside.\<close>  A theorem that needs one names it: \<open>keeps_schema\<close>, \<open>keeps_identity\<close>, \<open>keeps_object\<close>, \<open>keeps_mark\<close>
  and \<open>keeps_cron\<close> say that the API server answers a write with the object that was sent, up to
  the parts that it owns; \<open>healthy\<close> that the API server and the SQL server answer
  according to the state they are in; \<open>schema_server\<close>, \<open>database_server\<close>, \<open>crdb_server\<close> and \<open>table_server\<close> that a
  server lists privileges and applies \<^verbatim>\<open>GRANT\<close> and \<^verbatim>\<open>REVOKE\<close>, where a parameter \<open>inherited\<close> is what the user has from
  \<^verbatim>\<open>PUBLIC\<close>, from roles or as a superuser, which a revocation leaves; \<open>serves_privs\<close> that it does so for several objects without touching the others,
  switches role attributes on and opens the database that a connection string names; \<open>serves_user\<close> that the resource, its
  server and its role are found; \<open>honest\<close>, much weaker, that every call may fail but an object that is there is listed, a drop that
  succeeds removes it, and a mark stays; \<open>server_stays\<close> and \<open>grantors_stay\<close> that the resources of the server and of the grantors do not
  become NotFound.  A panic ends the process.

  \<^bold>\<open>Not modelled.\<close>  What the controller runtime does (its queues, workers and caches; a registration is a call
  whose answer is a parameter, and a request is a call of \<^verbatim>\<open>Reconcile\<close>); the channel on which the controller of servers is triggered is an event, its blocking is not
  modelled; \<^verbatim>\<open>zz_generated.deepcopy.go\<close> and \<^verbatim>\<open>groupversion_info.go\<close> (generated code, the scheme; HOL
  values are not shared); logging; the three seconds of waiting before the status of
  a new schedule is read.
\<close>

section \<open>Every controller\<close>

text \<open>C1: no controller takes the operator's finalizer from a resource that is not marked for deletion.
  Every update that any reconciliation sends, whatever the API server and the SQL servers
  answer, is of a resource that has the finalizer or is marked for deletion; so Kubernetes
  cannot remove a resource before the operator has seen it marked.  Databases, users,
  servers and jobs need no assumption on the API server; for a schema its answer to a
  write must keep the schema, for a cron job the name and the mark, for a CockroachDB backup the mark.\<close>

theorem every_controller_protects:
  "emits protects (Reconcile_db E req) \<and> emits protects (Reconcile_user E req) \<and> emits protects (Reconcile_dbserver E req) \<and>
   emits protects (Reconcile_backupjob E req) \<and> emits protects (Reconcile_restorejob E req) \<and> emits protects (Reconcile_copyjob E req) \<and>
   (keeps_schema E \<longrightarrow> emits protects (Reconcile_schema E req)) \<and>
   (keeps_identity E \<longrightarrow>
      emits protects (Reconcile_backupcron E req) \<and> emits protects (Reconcile_restorecron E req) \<and> emits protects (Reconcile_copycron E req)) \<and>
   (keeps_mark E \<longrightarrow> emits protects (Reconcile_crdbjob E req) \<and> emits protects (Reconcile_crdbcron E req))"
  using Reconcile_jobs_protect [of E req] Reconcile_crons_protect [of E req] Reconcile_crdb_protect [of E req]
  by (simp add: Reconcile_db_protects Reconcile_user_protects Reconcile_schema_protects Reconcile_dbserver_protects)

definition echo_env :: env where
  "echo_env = null_env\<lparr>k8s_update := \<lambda>_ ob. Inr ob, k8s_status_update := \<lambda>_ ob. Inr ob\<rparr>"

theorem every_controller_protects_witness:
  "emits protects (Reconcile_schema echo_env demo_req) \<and> emits protects (Reconcile_copycron echo_env demo_req) \<and>
   emits protects (Reconcile_crdbcron echo_env demo_req)"
proof -
  have "keeps_schema echo_env" "keeps_identity echo_env" "keeps_mark echo_env"
    by (auto simp: echo_env_def keeps_schema_def keeps_identity_def keeps_mark_def)
  with every_controller_protects [of echo_env demo_req] show ?thesis by simp
qed

end
